(* ===== verification/Prelude.thy ===== *)
theory Prelude
  imports Main "HOL-Library.Word" "HOL-Library.Multiset"
begin

unbundle bit_operations_syntax

text \<open>
  Shared ground of the development: the machine integers of the driver, the
  collections its automation draws on, and the facts about words, powers of two and
  lists that more than one component needs.

  The driver is built for a 64-bit target (its test runs on aarch64), so
  \<open>usize\<close> is a 64-bit word.
\<close>

type_synonym u8 = "8 word"
type_synonym u16 = "16 word"
type_synonym u32 = "32 word"
type_synonym u64 = "64 word"
type_synonym usize = "64 word"

named_theorems wp_simps
  "weakest-precondition equations of the effect monad's primitives"
named_theorems prog_defs
  "definitions of effectful programs, unfolded by weakest-precondition proofs"
named_theorems register_defs
  "addresses and bit masks of the device's registers"

section \<open>Ranges of machine integers\<close>

text \<open>A Rust range \<open>0..n\<close> over an unsigned integer type.\<close>

definition word_range :: "'a::len word \<Rightarrow> 'a word list" where
  "word_range n = map word_of_nat [0..<unat n]"

lemma length_word_range [simp]: "length (word_range n) = unat n"
  by (simp add: word_range_def)

lemma word_range_Nil_iff [simp]: "word_range n = [] \<longleftrightarrow> unat n = 0"
  by (metis length_0_conv length_word_range)

lemma unat_lt_usize: "unat (x :: usize) < 18446744073709551616"
  using unsigned_less [of x] by simp

lemma nth_word_range [simp]: "i < unat n \<Longrightarrow> word_range n ! i = word_of_nat i"
  by (simp add: word_range_def)

lemma unat_word_of_nat_lt:
  "i < unat (n :: 'a::len word) \<Longrightarrow> unat (word_of_nat i :: 'a word) = i"
proof -
  assume "i < unat n"
  also have "unat n < 2 ^ LENGTH('a)" by (rule unsigned_less)
  finally show ?thesis by (simp add: unat_of_nat take_bit_nat_eq_self)
qed

lemma set_word_range: "set (word_range n) = {x. x < n}"
proof (intro set_eqI iffI)
  fix x assume "x \<in> set (word_range n)"
  then obtain i where "i < unat n" "x = word_of_nat i"
    by (auto simp: word_range_def)
  then show "x \<in> {x. x < n}"
    by (simp add: word_less_nat_alt unat_word_of_nat_lt)
next
  fix x assume "x \<in> {x. x < n}"
  then have "unat x < unat n" by (simp add: word_less_nat_alt)
  then show "x \<in> set (word_range n)"
    by (auto simp: word_range_def intro!: image_eqI [of _ _ "unat x"])
qed

lemma distinct_word_range: "distinct (word_range (n :: 'a::len word))"
proof -
  have "inj_on (word_of_nat :: nat \<Rightarrow> 'a word) {0..<unat n}"
    by (rule inj_on_inverseI [of _ unat]) (simp add: unat_word_of_nat_lt)
  then show ?thesis by (simp add: word_range_def distinct_map)
qed

section \<open>Wrap-around and powers of two\<close>

lemma unat_add_no_wrap:
  "unat (a :: 'a::len word) + unat b < 2 ^ LENGTH('a) \<Longrightarrow> unat (a + b) = unat a + unat b"
  by (rule unat_add_lem [THEN iffD1])

lemma unat_mult_no_wrap:
  "unat (a :: 'a::len word) * unat b < 2 ^ LENGTH('a) \<Longrightarrow> unat (a * b) = unat a * unat b"
  by (rule unat_mult_lem [THEN iffD1])

lemma unat_sub_no_wrap: "b \<le> (a :: 'a::len word) \<Longrightarrow> unat (a - b) = unat a - unat b"
  by (rule unat_sub)

text \<open>
  The test \<open>n & (n - 1) == 0\<close> that the driver applies to a ring size, on naturals
  and on words: for a positive number it holds exactly for the powers of two.
\<close>

lemma nat_and_pred_power: "0 < (n :: nat) \<Longrightarrow> n AND (n - 1) = 0 \<longleftrightarrow> (\<exists>k. n = 2 ^ k)"
proof (induction n rule: less_induct)
  case (less n)
  show ?case
  proof (cases "even n")
    case True
    then obtain m where m: "n = 2 * m" by blast
    with less.prems have pos: "0 < m" by simp
    have "n - 1 = 2 * (m - 1) + 1" using m pos by simp
    then have "n AND (n - 1) = 2 * m AND (2 * (m - 1) + 1)" using m by simp
    also have "\<dots> = 2 * (m AND (m - 1))"
      by (subst and_nat_rec) simp
    finally have "n AND (n - 1) = 2 * (m AND (m - 1))" .
    moreover have "(\<exists>k. m = 2 ^ k) \<longleftrightarrow> (\<exists>k. n = 2 ^ k)"
    proof
      assume "\<exists>k. m = 2 ^ k"
      then obtain k where "m = 2 ^ k" by blast
      then have "n = 2 ^ Suc k" using m by simp
      then show "\<exists>k. n = 2 ^ k" by blast
    next
      assume "\<exists>k. n = 2 ^ k"
      then obtain k where k: "n = 2 ^ k" by blast
      with True have "k \<noteq> 0" by (cases k) auto
      then obtain j where "k = Suc j" by (cases k) auto
      with k m have "m = 2 ^ j" by simp
      then show "\<exists>k. m = 2 ^ k" by blast
    qed
    ultimately show ?thesis using less.IH [of m] pos m by simp
  next
    case False
    then obtain m where m: "n = 2 * m + 1" by (elim oddE)
    have "n AND (n - 1) = (2 * m + 1) AND (2 * m)" using m by simp
    also have "\<dots> = 2 * m"
      by (subst and_nat_rec) simp
    finally have "n AND (n - 1) = 2 * m" .
    moreover have "(\<exists>k. n = 2 ^ k) \<longleftrightarrow> m = 0"
    proof
      assume "\<exists>k. n = 2 ^ k"
      then obtain k where "n = 2 ^ k" by blast
      with False have "k = 0" by (cases k) auto
      with \<open>n = 2 ^ k\<close> m show "m = 0" by simp
    next
      assume "m = 0"
      then show "\<exists>k. n = 2 ^ k" using m by (intro exI [of _ 0]) simp
    qed
    ultimately show ?thesis by simp
  qed
qed

lemma word_and_pred_power:
  assumes "n \<noteq> (0 :: 'a::len word)"
  shows "n AND (n - 1) = 0 \<longleftrightarrow> (\<exists>k. unat n = 2 ^ k)"
proof -
  have pos: "0 < unat n" using assms by (simp add: unat_gt_0)
  have "1 \<le> n" using assms by (simp add: word_le_nat_alt Suc_leI unat_gt_0)
  then have "unat (n - 1) = unat n - 1" by (simp add: unat_sub)
  then have "unat (n AND (n - 1)) = unat n AND (unat n - 1)"
    by (simp add: unsigned_and_eq)
  moreover have "n AND (n - 1) = 0 \<longleftrightarrow> unat (n AND (n - 1)) = 0"
    by (simp add: unat_eq_zero)
  ultimately show ?thesis using nat_and_pred_power [OF pos] by simp
qed

lemma word_and_pred_mod:
  assumes "unat (n :: 'a::len word) = 2 ^ k"
  shows "unat (x AND (n - 1)) = unat x mod unat n"
proof -
  have "n \<noteq> 0" using assms by (metis power_not_zero unat_0 zero_neq_numeral)
  then have "1 \<le> n" by (simp add: word_le_nat_alt Suc_leI unat_gt_0)
  then have "unat (n - 1) = 2 ^ k - 1" using assms by (simp add: unat_sub)
  then have "unat (x AND (n - 1)) = unat x AND mask k"
    by (simp add: unsigned_and_eq mask_eq_exp_minus_1)
  then show ?thesis using assms by (simp add: take_bit_eq_mask [symmetric] take_bit_eq_mod)
qed

section \<open>Lists and multisets\<close>

lemma mset_nth_update:
  assumes "i < length xs"
  shows "add_mset (xs ! i) (mset (xs[i := y])) = add_mset y (mset xs)"
proof -
  have "xs ! i \<in># mset xs" using assms by simp
  then show ?thesis using assms by (simp add: mset_update)
qed

lemma mset_butlast_last: "xs \<noteq> [] \<Longrightarrow> add_mset (last xs) (mset (butlast xs)) = mset xs"
  by (metis append_butlast_last_id mset_append mset_single_iff_right union_mset_add_mset_right
      add.right_neutral mset.simps(1) mset.simps(2))

lemma sum_list_map_update:
  assumes "i < length xs"
  shows "sum_list (map f (xs[i := y])) + f (xs ! i) = sum_list (map f xs) + (f y :: 'b::cancel_comm_monoid_add)"
proof -
  have "xs = take i xs @ xs ! i # drop (Suc i) xs" using assms by (rule id_take_nth_drop)
  then have "sum_list (map f xs) = sum_list (map f (take i xs)) + f (xs ! i) + sum_list (map f (drop (Suc i) xs))"
    by (metis list.simps(9) map_append sum_list.Cons sum_list.append add.assoc)
  then show ?thesis using assms
    by (simp add: upd_conv_take_nth_drop add_ac)
qed

lemma sum_list_map_update_add:
  assumes "i < length xs" and "f y + m = f (xs ! i) + (n :: 'b::cancel_comm_monoid_add)"
  shows "sum_list (map f (xs[i := y])) + m = sum_list (map f xs) + n"
proof -
  have "sum_list (map f (xs[i := y])) + m + f (xs ! i) = sum_list (map f xs) + (f y + m)"
    using sum_list_map_update [OF assms(1), of f y] by (simp add: add_ac)
  also have "\<dots> = sum_list (map f xs) + n + f (xs ! i)"
    unfolding assms(2) by (simp add: add_ac)
  finally show ?thesis by simp
qed

lemma count_sum_list: "count (sum_list Ms) x = (\<Sum>M\<leftarrow>Ms. count M x)"
  by (induction Ms) simp_all

lemma member_sum_list_map: "y \<in> set ys \<Longrightarrow> f y \<subseteq># sum_list (map f ys)"
  by (induction ys) (auto intro: subset_mset.order_trans)

lemma nth_list_update_all:
  "i < length xs \<Longrightarrow> xs[i := y] ! j = (if j = i then y else xs ! j)"
  by (cases "j < length xs") auto

end
