(* ===== verification/Igb_Lib.thy ===== *)
theory Igb_Lib
  imports Prelude
begin

text \<open>
  The crate root \<open>src/lib.rs\<close>: the error type of every fallible operation, the result
  type, the PCI identifiers and the statistics record.
\<close>

definition INTEL_VEND :: u16 where
  "INTEL_VEND = 0x8086"

definition INTEL_82576 :: u16 where
  "INTEL_82576 = 0x10C9"

datatype IgbError =
    QueueNotAligned
  | QueueFull
  | NoMemory
  | PageNotAligned
  | NotReady
  | InvalidQueue

record DeviceStats =
  rx_pkts :: u64
  tx_pkts :: u64
  rx_bytes :: u64
  tx_bytes :: u64

definition DeviceStats_default :: DeviceStats where
  "DeviceStats_default = \<lparr>rx_pkts = 0, tx_pkts = 0, rx_bytes = 0, tx_bytes = 0\<rparr>"

end
