(* ===== verification/Effects.thy ===== *)
theory Effects
  imports Igb_Lib "HOL-Library.While_Combinator"
begin

text \<open>
  How an effectful Rust function is modelled. A program over the state \<open>'s\<close> maps a
  state to \<open>None\<close> when it never returns (a polling loop that waits for ever), and
  otherwise to an outcome together with the state it leaves: a value, an early return
  with an \<open>IgbError\<close> (the \<open>?\<close> operator), or a panic.

  A weakest-precondition operator \<open>wp\<close> gives total-correctness reasoning: \<open>wp m Q s\<close>
  says that \<open>m\<close> does return from \<open>s\<close> and that its outcome and final state satisfy \<open>Q\<close>.
\<close>

section \<open>Outcomes and programs\<close>

datatype panic_reason =
    ArithmeticOverflow
  | IndexOutOfBounds
  | MemoryAccessOutOfBounds
  | UnwrapOnNone
  | BufferOutsideOfPool
  | BufferAlreadyFree
  | NoBufferAvailable
  | SliceLengthMismatch
  | HeadroomTooLong
  | IncreaseBufferSize
  | DistinctPools
  | AssertionFailed

datatype 'a outcome = Val 'a | Err IgbError | Panicked panic_reason

type_synonym ('s, 'a) prog = "'s \<Rightarrow> ('a outcome \<times> 's) option"

definition ret :: "'a \<Rightarrow> ('s, 'a) prog" where
  "ret x = (\<lambda>s. Some (Val x, s))"

definition throw :: "IgbError \<Rightarrow> ('s, 'a) prog" where
  "throw e = (\<lambda>s. Some (Err e, s))"

definition panic :: "panic_reason \<Rightarrow> ('s, 'a) prog" where
  "panic p = (\<lambda>s. Some (Panicked p, s))"

definition bindM :: "('s, 'a) prog \<Rightarrow> ('a \<Rightarrow> ('s, 'b) prog) \<Rightarrow> ('s, 'b) prog" where
  "bindM m k = (\<lambda>s. case m s of
      None \<Rightarrow> None
    | Some (Val x, s') \<Rightarrow> k x s'
    | Some (Err e, s') \<Rightarrow> Some (Err e, s')
    | Some (Panicked p, s') \<Rightarrow> Some (Panicked p, s'))"

abbreviation seqM :: "('s, unit) prog \<Rightarrow> ('s, 'b) prog \<Rightarrow> ('s, 'b) prog" where
  "seqM m k \<equiv> bindM m (\<lambda>_. k)"

definition getsM :: "('s \<Rightarrow> 'a) \<Rightarrow> ('s, 'a) prog" where
  "getsM f = (\<lambda>s. Some (Val (f s), s))"

definition modifyM :: "('s \<Rightarrow> 's) \<Rightarrow> ('s, unit) prog" where
  "modifyM f = (\<lambda>s. Some (Val (), f s))"

text \<open>A panic unless a condition holds: \<open>assert!\<close> and the checks the compiler inserts.\<close>

definition assertM :: "panic_reason \<Rightarrow> bool \<Rightarrow> ('s, unit) prog" where
  "assertM p b = (if b then ret () else panic p)"

text \<open>Indexing a slice or a \<open>Vec\<close>: out of bounds it panics.\<close>

definition indexM :: "'a list \<Rightarrow> usize \<Rightarrow> ('s, 'a) prog" where
  "indexM xs i = (if unat i < length xs then ret (xs ! unat i) else panic IndexOutOfBounds)"

text \<open>\<open>for x in xs\<close>, left to right.\<close>

fun forM :: "'x list \<Rightarrow> ('x \<Rightarrow> ('s, unit) prog) \<Rightarrow> ('s, unit) prog" where
  "forM [] f = ret ()"
| "forM (x # xs) f = seqM (f x) (forM xs f)"

text \<open>A \<open>for\<close> loop that collects one value per element.\<close>

fun collectM :: "'x list \<Rightarrow> ('x \<Rightarrow> ('s, 'a) prog) \<Rightarrow> ('s, 'a list) prog" where
  "collectM [] f = ret []"
| "collectM (x # xs) f = bindM (f x) (\<lambda>y. bindM (collectM xs f) (\<lambda>ys. ret (y # ys)))"

text \<open>
  \<open>loop\<close> with \<open>break\<close>: the body yields \<open>Inl x\<close> to go round again with the loop
  variables \<open>x\<close>, or \<open>Inr a\<close> to break with \<open>a\<close>. A loop that never breaks has the
  value \<open>None\<close>.
\<close>

definition continues :: "(('x + 'a) outcome \<times> 's) option \<Rightarrow> bool" where
  "continues r = (case r of Some (Val (Inl x), s) \<Rightarrow> True | _ \<Rightarrow> False)"

definition loop_step ::
  "('x \<Rightarrow> ('s, 'x + 'a) prog) \<Rightarrow> (('x + 'a) outcome \<times> 's) option \<Rightarrow> (('x + 'a) outcome \<times> 's) option" where
  "loop_step body r = (case r of Some (Val (Inl x), s) \<Rightarrow> body x s | _ \<Rightarrow> r)"

definition loop_result :: "(('x + 'a) outcome \<times> 's) option \<Rightarrow> ('a outcome \<times> 's) option" where
  "loop_result r = (case r of
      Some (Val (Inr a), s) \<Rightarrow> Some (Val a, s)
    | Some (Err e, s) \<Rightarrow> Some (Err e, s)
    | Some (Panicked p, s) \<Rightarrow> Some (Panicked p, s)
    | _ \<Rightarrow> None)"

definition loopM :: "('x \<Rightarrow> ('s, 'x + 'a) prog) \<Rightarrow> 'x \<Rightarrow> ('s, 'a) prog" where
  "loopM body x = (\<lambda>s.
    case while_option continues (loop_step body) (Some (Val (Inl x), s)) of
      None \<Rightarrow> None
    | Some r \<Rightarrow> loop_result r)"

lemma loopM_unfold:
  "loopM body x = bindM (body x) (case_sum (loopM body) ret)"
proof
  fix s
  show "loopM body x s = bindM (body x) (case_sum (loopM body) ret) s"
  proof (cases "body x s")
    case None
    then show ?thesis
      by (simp add: loopM_def bindM_def while_option_unfold [of _ _ "Some (Val (Inl x), s)"]
          while_option_unfold [of _ _ None] continues_def loop_step_def loop_result_def)
  next
    case (Some r)
    obtain v s' where r: "r = (v, s')" by (cases r)
    show ?thesis
    proof (cases v)
      case (Val y)
      then show ?thesis using Some r
        by (cases y) (simp_all add: loopM_def bindM_def ret_def continues_def loop_step_def
            loop_result_def while_option_unfold [of _ _ "Some (Val (Inl x), s)"]
            while_option_unfold [of _ _ "Some (Val (Inr b), s)" for b s])
    next
      case (Err e)
      then show ?thesis using Some r
        by (simp add: loopM_def bindM_def continues_def loop_step_def loop_result_def
            while_option_unfold [of _ _ "Some (Val (Inl x), s)"]
            while_option_unfold [of _ _ "Some (Err e, s)" for e s])
    next
      case (Panicked p)
      then show ?thesis using Some r
        by (simp add: loopM_def bindM_def continues_def loop_step_def loop_result_def
            while_option_unfold [of _ _ "Some (Val (Inl x), s)"]
            while_option_unfold [of _ _ "Some (Panicked p, s)" for p s])
    qed
  qed
qed

section \<open>Checked integer arithmetic\<close>

text \<open>
  Rust's integer operators panic on overflow when the crate is compiled with overflow
  checks (the \<open>dev\<close> and \<open>test\<close> profiles) and wrap around when it is not (\<open>release\<close>).
  The flag \<open>ck\<close> selects the build; a shift by at least the width panics or masks
  its amount likewise.
\<close>

definition add_ov :: "bool \<Rightarrow> 'n::len word \<Rightarrow> 'n word \<Rightarrow> ('s, 'n word) prog" where
  "add_ov ck a b = (if ck \<and> 2 ^ LENGTH('n) \<le> unat a + unat b then panic ArithmeticOverflow else ret (a + b))"

definition sub_ov :: "bool \<Rightarrow> 'n::len word \<Rightarrow> 'n word \<Rightarrow> ('s, 'n word) prog" where
  "sub_ov ck a b = (if ck \<and> a < b then panic ArithmeticOverflow else ret (a - b))"

definition mul_ov :: "bool \<Rightarrow> 'n::len word \<Rightarrow> 'n word \<Rightarrow> ('s, 'n word) prog" where
  "mul_ov ck a b = (if ck \<and> 2 ^ LENGTH('n) \<le> unat a * unat b then panic ArithmeticOverflow else ret (a * b))"

definition shl_ov :: "bool \<Rightarrow> 'n::len word \<Rightarrow> nat \<Rightarrow> ('s, 'n word) prog" where
  "shl_ov ck a k = (if ck \<and> LENGTH('n) \<le> k then panic ArithmeticOverflow
                    else ret (push_bit (k mod LENGTH('n)) a))"

section \<open>Weakest preconditions\<close>

definition wp :: "('s, 'a) prog \<Rightarrow> ('a outcome \<Rightarrow> 's \<Rightarrow> bool) \<Rightarrow> 's \<Rightarrow> bool" where
  "wp m Q s = (case m s of None \<Rightarrow> False | Some (r, s') \<Rightarrow> Q r s')"

text \<open>The postcondition that a continuation hands back to the program before it.\<close>

fun after :: "('a \<Rightarrow> 's \<Rightarrow> bool) \<Rightarrow> ('b outcome \<Rightarrow> 's \<Rightarrow> bool) \<Rightarrow> 'a outcome \<Rightarrow> 's \<Rightarrow> bool" where
  "after K Q (Val x) s = K x s"
| "after K Q (Err e) s = Q (Err e) s"
| "after K Q (Panicked p) s = Q (Panicked p) s"

lemma wp_ret [wp_simps]: "wp (ret x) Q s = Q (Val x) s"
  by (simp add: wp_def ret_def)

lemma wp_throw [wp_simps]: "wp (throw e) Q s = Q (Err e) s"
  by (simp add: wp_def throw_def)

lemma wp_panic [wp_simps]: "wp (panic p) Q s = Q (Panicked p) s"
  by (simp add: wp_def panic_def)

lemma wp_bindM [wp_simps]: "wp (bindM m k) Q s = wp m (after (\<lambda>x. wp (k x) Q) Q) s"
  by (auto simp: wp_def bindM_def split: option.splits prod.splits outcome.splits)

lemma wp_getsM [wp_simps]: "wp (getsM f) Q s = Q (Val (f s)) s"
  by (simp add: wp_def getsM_def)

lemma wp_modifyM [wp_simps]: "wp (modifyM f) Q s = Q (Val ()) (f s)"
  by (simp add: wp_def modifyM_def)

lemma wp_assertM [wp_simps]:
  "wp (assertM p b) Q s = (if b then Q (Val ()) s else Q (Panicked p) s)"
  by (simp add: assertM_def wp_ret wp_panic)

lemma wp_indexM [wp_simps]:
  "wp (indexM xs i) Q s =
    (if unat i < length xs then Q (Val (xs ! unat i)) s else Q (Panicked IndexOutOfBounds) s)"
  by (simp add: indexM_def wp_ret wp_panic)

lemma wp_if [wp_simps]: "wp (if b then m else n) Q s = (if b then wp m Q s else wp n Q s)"
  by simp

lemma wp_add_ov [wp_simps]:
  "wp (add_ov ck a (b :: 'n::len word)) Q s =
    (if ck \<and> 2 ^ LENGTH('n) \<le> unat a + unat b then Q (Panicked ArithmeticOverflow) s
     else Q (Val (a + b)) s)"
  by (simp add: add_ov_def wp_ret wp_panic)

lemma wp_sub_ov [wp_simps]:
  "wp (sub_ov ck a b) Q s =
    (if ck \<and> a < b then Q (Panicked ArithmeticOverflow) s else Q (Val (a - b)) s)"
  by (simp add: sub_ov_def wp_ret wp_panic)

lemma wp_mul_ov [wp_simps]:
  "wp (mul_ov ck a (b :: 'n::len word)) Q s =
    (if ck \<and> 2 ^ LENGTH('n) \<le> unat a * unat b then Q (Panicked ArithmeticOverflow) s
     else Q (Val (a * b)) s)"
  by (simp add: mul_ov_def wp_ret wp_panic)

lemma wp_shl_ov [wp_simps]:
  "wp (shl_ov ck (a :: 'n::len word) k) Q s =
    (if ck \<and> LENGTH('n) \<le> k then Q (Panicked ArithmeticOverflow) s
     else Q (Val (push_bit (k mod LENGTH('n)) a)) s)"
  by (simp add: shl_ov_def wp_ret wp_panic)

text \<open>
  The simplifier works on a program front to back: it looks neither into a continuation
  before the value it gets is known, nor into a postcondition before it is applied.
\<close>

lemma wp_weak_cong [cong]: "m = m' \<Longrightarrow> s = s' \<Longrightarrow> wp m Q s = wp m' Q s'"
  by simp

lemma bindM_weak_cong [cong]: "m = m' \<Longrightarrow> bindM m k = bindM m' k"
  by simp

lemma wp_mono:
  assumes "wp m Q s" and "\<And>r s'. Q r s' \<Longrightarrow> R r s'"
  shows "wp m R s"
  using assms by (auto simp: wp_def split: option.splits prod.splits)

lemma wp_conj: "wp m Q s \<Longrightarrow> wp m R s \<Longrightarrow> wp m (\<lambda>r s'. Q r s' \<and> R r s') s"
  by (auto simp: wp_def split: option.splits prod.splits)

lemma wpI: "m s = Some (r, s') \<Longrightarrow> Q r s' \<Longrightarrow> wp m Q s"
  by (simp add: wp_def)

lemma wpD: "wp m Q s \<Longrightarrow> m s = Some (r, s') \<Longrightarrow> Q r s'"
  by (simp add: wp_def)

text \<open>A precondition that fixes outcome and state determines every other one.\<close>

lemma wp_exact: "wp m (\<lambda>r s'. r = a \<and> s' = b) s \<Longrightarrow> wp m Q s = Q a b"
  by (auto simp: wp_def split: option.splits)

lemma wpE:
  assumes "wp m Q s"
  obtains r s' where "m s = Some (r, s')" and "Q r s'"
  using assms by (auto simp: wp_def split: option.splits)

lemma wp_returns: "wp m Q s \<Longrightarrow> \<exists>r s'. m s = Some (r, s') \<and> Q r s'"
  by (auto simp: wp_def split: option.splits)

text \<open>
  A \<open>for\<close> loop: an invariant over the elements already visited, kept by each pass that
  ends normally; a pass that returns early or panics must give the postcondition.
\<close>

lemma wp_forM:
  assumes start: "I [] s"
    and step: "\<And>seen x rest s. xs = seen @ x # rest \<Longrightarrow> I seen s \<Longrightarrow>
                 wp (f x) (after (\<lambda>_. I (seen @ [x])) Q) s"
    and final: "\<And>s. I xs s \<Longrightarrow> Q (Val ()) s"
  shows "wp (forM xs f) Q s"
proof -
  have "\<And>seen rest s. xs = seen @ rest \<Longrightarrow> I seen s \<Longrightarrow> wp (forM rest f) Q s"
  proof -
    fix seen rest s
    show "xs = seen @ rest \<Longrightarrow> I seen s \<Longrightarrow> wp (forM rest f) Q s"
    proof (induction rest arbitrary: seen s)
      case Nil
      then show ?case by (simp add: wp_ret final)
    next
      case (Cons x rest)
      have "wp (f x) (after (\<lambda>_. I (seen @ [x])) Q) s"
        using Cons.prems by (rule step)
      then have "wp (f x) (after (\<lambda>_. wp (forM rest f) Q) Q) s"
      proof (rule wp_mono)
        fix r s'
        assume "after (\<lambda>_. I (seen @ [x])) Q r s'"
        then show "after (\<lambda>_. wp (forM rest f) Q) Q r s'"
          using Cons.IH [of "seen @ [x]"] Cons.prems(1) by (cases r) auto
      qed
      then show ?case by (simp add: wp_bindM)
    qed
  qed
  from this [of "[]" xs s] start show ?thesis by simp
qed

text \<open>
  A \<open>loop\<close>: an invariant, and a measure that each pass that goes round again decreases.
  The conclusion is total: the loop does end.
\<close>

lemma wp_loopM:
  fixes measure_of :: "'x \<Rightarrow> 's \<Rightarrow> nat"
  assumes "I x s"
    and "\<And>x s. I x s \<Longrightarrow>
      wp (body x) (after (case_sum (\<lambda>y s'. I y s' \<and> measure_of y s' < measure_of x s)
                                   (\<lambda>a. Q (Val a))) Q) s"
  shows "wp (loopM body x) Q s"
  using assms(1)
proof (induction "measure_of x s" arbitrary: x s rule: less_induct)
  case less
  have "wp (body x) (after (\<lambda>r. wp (case_sum (loopM body) ret r) Q) Q) s"
    using assms(2) [OF less.prems]
  proof (rule wp_mono)
    fix r s'
    assume a: "after (case_sum (\<lambda>y s'. I y s' \<and> measure_of y s' < measure_of x s)
                               (\<lambda>a. Q (Val a))) Q r s'"
    show "after (\<lambda>r. wp (case_sum (loopM body) ret r) Q) Q r s'"
    proof (cases r)
      case (Val v)
      with a less.hyps show ?thesis by (cases v) (auto simp: wp_ret)
    qed (use a in auto)
  qed
  then show ?case by (subst loopM_unfold) (simp add: wp_bindM)
qed

text \<open>
  The converse: a loop whose body always goes round again has no value.
\<close>

lemma loopM_diverges:
  assumes "J x s"
    and step: "\<And>x s. J x s \<Longrightarrow> wp (body x) (\<lambda>r s'. \<exists>y. r = Val (Inl y) \<and> J y s') s"
  shows "loopM body x s = None"
proof (rule ccontr)
  let ?going = "\<lambda>r. \<exists>x s. r = Some (Val (Inl x), s) \<and> J x s"
  have go: "?going (loop_step body r)" if r: "?going r" for r
  proof -
    obtain x s where "r = Some (Val (Inl x), s)" "J x s" using r by blast
    with step [of x s] show ?thesis by (auto simp: loop_step_def elim!: wpE)
  qed
  assume "loopM body x s \<noteq> None"
  then obtain r where r: "while_option continues (loop_step body) (Some (Val (Inl x), s)) = Some r"
    by (auto simp: loopM_def split: option.splits)
  have "?going r"
    using r by (rule while_option_rule [rotated]) (auto intro: go assms(1))
  moreover have "\<not> continues r" using r by (rule while_option_stop)
  ultimately show False by (auto simp: continues_def)
qed

text \<open>
  A polling loop, whose passes go from state \<open>st j\<close> to \<open>st (j + 1)\<close> until one ends the loop.
\<close>

lemma wp_loopM_search:
  assumes "\<And>j. j < k \<Longrightarrow> wp (body ()) (\<lambda>r s'. r = Val (Inl ()) \<and> s' = st (Suc j)) (st j)"
    and "wp (body ()) (after (case_sum (\<lambda>_ _. False) (\<lambda>a. Q (Val a))) Q) (st k)"
  shows "wp (loopM body ()) Q (st 0)"
  using assms
proof (induction k arbitrary: st)
  case 0
  have "wp (body ()) (after (\<lambda>r. wp (case_sum (loopM body) ret r) Q) Q) (st 0)"
  proof (rule wp_mono [OF 0(2)])
    fix r s' assume "after (case_sum (\<lambda>_ :: unit. \<lambda>_. False) (\<lambda>a. Q (Val a))) Q r s'"
    then show "after (\<lambda>r. wp (case_sum (loopM body) ret r) Q) Q r s'"
      by (cases r) (auto simp: wp_ret split: sum.splits)
  qed
  then show ?case by (subst loopM_unfold) (simp add: wp_bindM)
next
  case (Suc k)
  have "wp (loopM body ()) Q ((\<lambda>j. st (Suc j)) 0)"
    by (rule Suc.IH [of "\<lambda>j. st (Suc j)"]) (use Suc.prems in simp_all)
  moreover have "wp (body ()) R (st 0) = R (Val (Inl ())) (st (Suc 0))" for R
    using Suc.prems(1) [of 0] by (intro wp_exact) simp
  ultimately show ?case by (subst loopM_unfold) (simp add: wp_bindM)
qed

lemma loopM_never:
  assumes "\<And>j. wp (body ()) (\<lambda>r s'. r = Val (Inl ()) \<and> s' = st (Suc j)) (st j)"
  shows "loopM body () (st 0) = None"
proof (rule loopM_diverges [where J = "\<lambda>_ s. \<exists>j. s = st j"])
  fix x :: unit and s assume "\<exists>j. s = st j"
  then obtain j where s: "s = st j" by blast
  show "wp (body x) (\<lambda>r s'. \<exists>y. r = Val (Inl y) \<and> (\<exists>j. s' = st j)) s"
    unfolding s unit_eq [of x] by (rule wp_mono [OF assms [of j]]) blast
qed blast

end
