(* ===== verification/Platform.thy ===== *)
theory Platform
  imports Effects
begin

text \<open>
  What the driver is given from outside: the operating system behind the trait
  \<open>IgbHal\<close> (\<open>src/hal.rs\<close>), the device behind its memory-mapped registers, the memory
  the device shares with the driver, and the crates \<open>volatile\<close> and \<open>bit_field\<close>.
  None of it is code of the repository, so all of it is one parameter: a record of
  functions over an arbitrary type \<open>'w\<close> of the outside world. Every access may change
  the world, so a theorem about a platform \<open>E\<close> holds for any device, however it
  interleaves with the driver.

  \<open>overflow_checks\<close> says how the crate was compiled (see theory Effects); \<open>info_enabled\<close>
  whether the \<open>log\<close> crate evaluates the arguments of \<open>info!\<close>, which matters where they
  read a register.
\<close>

section \<open>The trait IgbHal\<close>

text \<open>
  A \<open>PhysAddr\<close> is a \<open>usize\<close>; a \<open>NonNull<u8>\<close> is the address it holds. A \<open>Duration\<close>
  is its number of milliseconds, the finest unit the driver uses, and the result
  \<open>Result<(), &str>\<close> of \<open>wait_until\<close> is whether it was \<open>Ok\<close> (every caller drops it).
\<close>

type_synonym PhysAddr = usize
type_synonym VirtAddr = usize

record 'w IgbHal =
  dma_alloc :: "usize \<Rightarrow> 'w \<Rightarrow> (PhysAddr \<times> VirtAddr) \<times> 'w"
  dma_dealloc :: "PhysAddr \<Rightarrow> VirtAddr \<Rightarrow> usize \<Rightarrow> 'w \<Rightarrow> 32 word \<times> 'w"
  mmio_phys_to_virt :: "PhysAddr \<Rightarrow> usize \<Rightarrow> 'w \<Rightarrow> VirtAddr \<times> 'w"
  mmio_virt_to_phys :: "VirtAddr \<Rightarrow> usize \<Rightarrow> 'w \<Rightarrow> PhysAddr \<times> 'w"
  wait_until :: "nat \<Rightarrow> 'w \<Rightarrow> bool \<times> 'w"

section \<open>Device, shared memory, crates\<close>

record 'w platform =
  overflow_checks :: bool
  info_enabled :: bool
  hal :: "'w IgbHal"
  mmio_read :: "usize \<Rightarrow> 'w \<Rightarrow> u32 \<times> 'w"
  mmio_write :: "usize \<Rightarrow> u32 \<Rightarrow> 'w \<Rightarrow> 'w"
  volatile_read64 :: "usize \<Rightarrow> 'w \<Rightarrow> u64 \<times> 'w"
  volatile_read32 :: "usize \<Rightarrow> 'w \<Rightarrow> u32 \<times> 'w"
  volatile_write64 :: "usize \<Rightarrow> u64 \<Rightarrow> 'w \<Rightarrow> 'w"
  volatile_write32 :: "usize \<Rightarrow> u32 \<Rightarrow> 'w \<Rightarrow> 'w"
  volatile_write16 :: "usize \<Rightarrow> u16 \<Rightarrow> 'w \<Rightarrow> 'w"
  volatile_write8 :: "usize \<Rightarrow> u8 \<Rightarrow> 'w \<Rightarrow> 'w"
  load8 :: "usize \<Rightarrow> 'w \<Rightarrow> u8"
  store8 :: "usize \<Rightarrow> u8 \<Rightarrow> 'w \<Rightarrow> 'w"
  get_bits :: "u64 \<Rightarrow> nat \<Rightarrow> nat \<Rightarrow> u64"

record 'w base =
  world :: 'w

definition worldM :: "('w \<Rightarrow> 'a \<times> 'w) \<Rightarrow> (('w, 'x) base_scheme, 'a) prog" where
  "worldM f = (\<lambda>s. case f (world s) of (x, w) \<Rightarrow> Some (Val x, s\<lparr>world := w\<rparr>))"

definition world_doM :: "('w \<Rightarrow> 'w) \<Rightarrow> (('w, 'x) base_scheme, unit) prog" where
  "world_doM f = modifyM (\<lambda>s. s\<lparr>world := f (world s)\<rparr>)"

lemma wp_worldM [wp_simps]:
  "wp (worldM f) Q s = Q (Val (fst (f (world s)))) (s\<lparr>world := snd (f (world s))\<rparr>)"
  by (simp add: wp_def worldM_def split: prod.splits)

lemma wp_world_doM [wp_simps]:
  "wp (world_doM f) Q s = Q (Val ()) (s\<lparr>world := f (world s)\<rparr>)"
  by (simp add: world_doM_def wp_modifyM)

section \<open>Documented behaviour the results rely on\<close>

text \<open>
  Crate \<open>bit_field\<close>: \<open>x.get_bits(lo..hi)\<close> obtains the bits \<open>lo\<close> up to but not including
  \<open>hi\<close>, bit 0 being the least significant.
\<close>

definition bit_field_crate :: "'w platform \<Rightarrow> bool" where
  "bit_field_crate E \<longleftrightarrow>
     (\<forall>x lo hi. lo < hi \<and> hi \<le> 64 \<longrightarrow> get_bits E x lo hi = take_bit (hi - lo) (drop_bit lo x))"

text \<open>
  Byte memory: a byte is what was last stored to it. Ordinary memory that no device writes
  meanwhile is byte memory whose wide volatile accesses are little-endian sequences of byte
  accesses, and whose reads leave the world as it is.
\<close>

definition byte_memory :: "'w platform \<Rightarrow> bool" where
  "byte_memory E \<longleftrightarrow>
     (\<forall>a b v w. load8 E a (store8 E b v w) = (if a = b then v else load8 E a w))"

fun store_bytes :: "'w platform \<Rightarrow> (usize \<times> u8) list \<Rightarrow> 'w \<Rightarrow> 'w" where
  "store_bytes E [] w = w"
| "store_bytes E ((a, b) # rest) w = store_bytes E rest (store8 E a b w)"

fun le_value :: "u8 list \<Rightarrow> 'n::len word" where
  "le_value [] = 0"
| "le_value (b # bs) = ucast b OR push_bit 8 (le_value bs)"

definition le_bytes :: "nat \<Rightarrow> 'n::len word \<Rightarrow> u8 list" where
  "le_bytes k v = map (\<lambda>i. ucast (drop_bit (8 * i) v)) [0..<k]"

definition byte_addrs :: "usize \<Rightarrow> nat \<Rightarrow> usize list" where
  "byte_addrs a k = map (\<lambda>i. a + word_of_nat i) [0..<k]"

definition load_le :: "'w platform \<Rightarrow> nat \<Rightarrow> usize \<Rightarrow> 'w \<Rightarrow> 'n::len word" where
  "load_le E k a w = le_value (map (\<lambda>b. load8 E b w) (byte_addrs a k))"

definition store_le :: "'w platform \<Rightarrow> nat \<Rightarrow> usize \<Rightarrow> 'n::len word \<Rightarrow> 'w \<Rightarrow> 'w" where
  "store_le E k a v = store_bytes E (zip (byte_addrs a k) (le_bytes k v))"

definition plain_memory :: "'w platform \<Rightarrow> bool" where
  "plain_memory E \<longleftrightarrow> byte_memory E \<and>
     (\<forall>a w. volatile_read64 E a w = (load_le E 8 a w, w)) \<and>
     (\<forall>a w. volatile_read32 E a w = (load_le E 4 a w, w)) \<and>
     (\<forall>a v. volatile_write64 E a v = store_le E 8 a v) \<and>
     (\<forall>a v. volatile_write32 E a v = store_le E 4 a v) \<and>
     (\<forall>a v. volatile_write16 E a v = store_le E 2 a v) \<and>
     (\<forall>a v. volatile_write8 E a v = store8 E a v)"

lemma load_store_bytes:
  assumes "byte_memory E" and "distinct (map fst ps)"
  shows "load8 E a (store_bytes E ps w) = (case map_of ps a of Some b \<Rightarrow> b | None \<Rightarrow> load8 E a w)"
  using assms(2)
proof (induction ps arbitrary: w)
  case (Cons p ps)
  obtain b v where p: "p = (b, v)" by (cases p)
  with Cons.prems have "map_of ps b = None" by (auto simp: map_of_eq_None_iff)
  with Cons p assms(1) show ?case by (auto simp: byte_memory_def split: option.splits)
qed simp

text \<open>A store leaves other addresses alone.\<close>

lemma load_store_bytes_other:
  assumes "byte_memory E" and "a \<notin> fst ` set ps"
  shows "load8 E a (store_bytes E ps w) = load8 E a w"
  using assms(2)
proof (induction ps arbitrary: w)
  case (Cons p ps)
  then show ?case using assms(1) by (cases p) (auto simp: byte_memory_def)
qed simp

lemma load_store_other:
  assumes "byte_memory E" and "set (byte_addrs a k) \<inter> set (byte_addrs b j) = {}"
  shows "load_le E k a (store_le E j b v w) = load_le E k a w"
proof -
  have "load8 E x (store_bytes E (zip (byte_addrs b j) (le_bytes j v)) w) = load8 E x w" if "x \<in> set (byte_addrs a k)" for x
    using that assms(2) by (intro load_store_bytes_other [OF assms(1)]) (auto dest: set_zip_leftD)
  then show ?thesis unfolding load_le_def store_le_def by (simp cong: map_cong)
qed

end
