(* ===== verification/Memory.thy ===== *)
theory Memory
  imports Platform
begin

text \<open>
  The packet buffer pool and the packets of \<open>src/memory.rs\<close>.

  A \<open>MemPool\<close> is shared: the receive queues, the transmit queues and every packet hold an
  \<open>Arc\<close> to it. The model keeps the pools in one store, the list \<open>pools\<close> of the heap, and an
  \<open>Arc<MemPool>\<close> is an index of that list; \<open>Arc::ptr_eq\<close> is equality of indices. A \<open>Vec\<close> is
  a list whose last element is its end: \<open>push\<close> appends, \<open>pop\<close> takes the last.

  The pure functions on one pool (\<open>pool_alloc_buf\<close>, \<open>pool_free_buf\<close>) are the bodies of the
  methods under the \<open>RefCell\<close> borrow; the programs below apply them to the store.
\<close>

definition HUGE_PAGE_BITS :: u32 where "HUGE_PAGE_BITS = 21"
definition HUGE_PAGE_SIZE :: usize where "HUGE_PAGE_SIZE = push_bit (unat HUGE_PAGE_BITS) 1"
definition PACKET_HEADROOM :: usize where "PACKET_HEADROOM = 32"

lemma HUGE_PAGE_SIZE_value: "HUGE_PAGE_SIZE = 2097152"
  by (simp add: HUGE_PAGE_SIZE_def HUGE_PAGE_BITS_def)

section \<open>State\<close>

record MemPool =
  base_addr :: usize
  num_entries :: usize
  entry_size :: usize
  phys_addr :: "usize list"
  free_stack :: "usize list"

type_synonym pool_ref = nat

record ('w, 'c) heap = "'w base" +
  pools :: "MemPool list"
  client :: 'c

text \<open>\<open>Dma<T, H>\<close> without its \<open>PhantomData\<close>.\<close>

record Dma =
  virt :: usize
  phys :: usize

record Packet =
  addr_virt :: usize
  addr_phys :: usize
  packet_len :: usize
  packet_pool :: pool_ref
  pool_entry :: usize

datatype Prefetch = Time0 | Time1 | Time2 | NonTemporal

text \<open>\<open>Prefetch\<close> derives \<open>Ord\<close>: the order of its declaration.\<close>

fun Prefetch_rank :: "Prefetch \<Rightarrow> nat" where
  "Prefetch_rank Time0 = 0"
| "Prefetch_rank Time1 = 1"
| "Prefetch_rank Time2 = 2"
| "Prefetch_rank NonTemporal = 3"

lemma Prefetch_rank_inj: "Prefetch_rank a = Prefetch_rank b \<Longrightarrow> a = b"
  by (cases a; cases b) simp_all

instantiation Prefetch :: linorder
begin

definition less_eq_Prefetch :: "Prefetch \<Rightarrow> Prefetch \<Rightarrow> bool" where
  "less_eq_Prefetch a b \<longleftrightarrow> Prefetch_rank a \<le> Prefetch_rank b"

definition less_Prefetch :: "Prefetch \<Rightarrow> Prefetch \<Rightarrow> bool" where
  "less_Prefetch a b \<longleftrightarrow> Prefetch_rank a < Prefetch_rank b"

instance
  by standard (auto simp: less_eq_Prefetch_def less_Prefetch_def Prefetch_rank_inj)

end

section \<open>One pool\<close>

definition pool_alloc_buf :: "MemPool \<Rightarrow> usize option \<times> MemPool" where
  "pool_alloc_buf p =
     (if free_stack p = [] then (None, p)
      else (Some (last (free_stack p)), p\<lparr>free_stack := butlast (free_stack p)\<rparr>))"

definition pool_free_buf :: "usize \<Rightarrow> MemPool \<Rightarrow> panic_reason + MemPool" where
  "pool_free_buf buf p =
     (if \<not> buf < num_entries p then Inl BufferOutsideOfPool
      else if buf \<in> set (free_stack p) then Inl BufferAlreadyFree
      else Inr (p\<lparr>free_stack := free_stack p @ [buf]\<rparr>))"

definition pool_extend :: "usize list \<Rightarrow> MemPool \<Rightarrow> MemPool" where
  "pool_extend ids p = p\<lparr>free_stack := free_stack p @ ids\<rparr>"

section \<open>Methods of MemPool\<close>

definition get_pool :: "pool_ref \<Rightarrow> (('w, 'c, 'x) heap_scheme, MemPool) prog" where
  "get_pool h = getsM (\<lambda>s. pools s ! h)"

definition set_pool :: "pool_ref \<Rightarrow> MemPool \<Rightarrow> (('w, 'c, 'x) heap_scheme, unit) prog" where
  "set_pool h p = modifyM (\<lambda>s. s\<lparr>pools := (pools s)[h := p]\<rparr>)"

definition alloc_buf :: "pool_ref \<Rightarrow> (('w, 'c, 'x) heap_scheme, usize option) prog" where
  "alloc_buf h = bindM (get_pool h) (\<lambda>p.
     case pool_alloc_buf p of (r, p') \<Rightarrow> seqM (set_pool h p') (ret r))"

definition free_buf :: "pool_ref \<Rightarrow> usize \<Rightarrow> (('w, 'c, 'x) heap_scheme, unit) prog" where
  "free_buf h buf = bindM (get_pool h) (\<lambda>p.
     case pool_free_buf buf p of Inl e \<Rightarrow> panic e | Inr p' \<Rightarrow> set_pool h p')"

text \<open>\<open>pool.free_stack.borrow_mut().extend(ids)\<close>, as the transmit queue does it.\<close>

definition extend_free_stack ::
  "pool_ref \<Rightarrow> usize list \<Rightarrow> (('w, 'c, 'x) heap_scheme, unit) prog" where
  "extend_free_stack h ids = bindM (get_pool h) (\<lambda>p. set_pool h (pool_extend ids p))"

definition get_virt_addr ::
  "'w platform \<Rightarrow> pool_ref \<Rightarrow> usize \<Rightarrow> (('w, 'c, 'x) heap_scheme, usize) prog" where
  "get_virt_addr E h buf = bindM (get_pool h) (\<lambda>p.
     seqM (assertM BufferOutsideOfPool (buf < num_entries p))
    (bindM (mul_ov (overflow_checks E) buf (entry_size p)) (\<lambda>offset.
     ret (base_addr p + offset))))"

definition get_phys_addr :: "pool_ref \<Rightarrow> usize \<Rightarrow> (('w, 'c, 'x) heap_scheme, usize) prog" where
  "get_phys_addr h buf = bindM (get_pool h) (\<lambda>p. indexM (phys_addr p) buf)"

definition MemPool_entry_size :: "pool_ref \<Rightarrow> (('w, 'c, 'x) heap_scheme, usize) prog" where
  "MemPool_entry_size h = bindM (get_pool h) (\<lambda>p. ret (entry_size p))"

definition Dma_allocate ::
  "'w platform \<Rightarrow> usize \<Rightarrow> bool \<Rightarrow> (('w, 'x) base_scheme, Dma) prog" where
  "Dma_allocate E sz require_contiguous =
     bindM (worldM (dma_alloc (hal E) sz)) (\<lambda>(pa, va). ret \<lparr>virt = va, phys = pa\<rparr>)"

text \<open>\<open>NonNull::new(p).unwrap()\<close>.\<close>

definition non_null :: "usize \<Rightarrow> ('s, usize) prog" where
  "non_null p = (if p = 0 then panic UnwrapOnNone else ret p)"

definition MemPool_allocate ::
  "'w platform \<Rightarrow> usize \<Rightarrow> usize \<Rightarrow> (('w, 'c, 'x) heap_scheme, pool_ref) prog" where
  "MemPool_allocate E entries sz =
     (let entry_size = (if sz = 0 then 2048 else sz) in
      if HUGE_PAGE_SIZE mod entry_size \<noteq> 0 then throw PageNotAligned
      else
        bindM (mul_ov (overflow_checks E) entries entry_size) (\<lambda>total.
        bindM (Dma_allocate E total False) (\<lambda>dma.
        bindM (collectM (word_range entries) (\<lambda>i.
            bindM (mul_ov (overflow_checks E) i entry_size) (\<lambda>offset.
            bindM (non_null (virt dma + offset)) (\<lambda>va.
            worldM (mmio_virt_to_phys (hal E) va entry_size))))) (\<lambda>phys_addrs.
        bindM (getsM (\<lambda>s. length (pools s))) (\<lambda>pool.
        seqM (modifyM (\<lambda>s. s\<lparr>pools := pools s @
            [\<lparr>base_addr = virt dma, num_entries = entries, entry_size = entry_size,
              phys_addr = phys_addrs, free_stack = []\<rparr>]\<rparr>))
       (seqM (extend_free_stack pool (word_range entries))
        (ret pool)))))))"

section \<open>Packets\<close>

definition Packet_new :: "usize \<Rightarrow> usize \<Rightarrow> usize \<Rightarrow> pool_ref \<Rightarrow> usize \<Rightarrow> Packet" where
  "Packet_new va pa len pool entry =
     \<lparr>addr_virt = va, addr_phys = pa, packet_len = len, packet_pool = pool, pool_entry = entry\<rparr>"

definition alloc_pkt ::
  "'w platform \<Rightarrow> pool_ref \<Rightarrow> usize \<Rightarrow> (('w, 'c, 'x) heap_scheme, Packet option) prog" where
  "alloc_pkt E pool sz = bindM (MemPool_entry_size pool) (\<lambda>es.
     bindM (sub_ov (overflow_checks E) es PACKET_HEADROOM) (\<lambda>room.
     if room < sz then ret None
     else bindM (alloc_buf pool) (\<lambda>r. case r of
         None \<Rightarrow> ret None
       | Some buf \<Rightarrow>
           bindM (get_virt_addr E pool buf) (\<lambda>va.
           bindM (get_phys_addr pool buf) (\<lambda>pa.
           bindM (add_ov (overflow_checks E) pa PACKET_HEADROOM) (\<lambda>pa'.
           ret (Some (Packet_new (va + PACKET_HEADROOM) pa' sz pool buf))))))))"

definition Packet_drop :: "Packet \<Rightarrow> (('w, 'c, 'x) heap_scheme, unit) prog" where
  "Packet_drop p = free_buf (packet_pool p) (pool_entry p)"

text \<open>
  The bytes of a packet. \<open>deref\<close>, \<open>deref_mut\<close>, \<open>as_bytes\<close> and \<open>as_mut_bytes\<close> all build the
  slice of \<open>packet_len\<close> bytes at \<open>addr_virt\<close>; a slice is its start and its length, its
  contents are read from and written to the platform's byte memory.
\<close>

definition slice_addrs :: "usize \<times> usize \<Rightarrow> usize list" where
  "slice_addrs = (\<lambda>(start, len). map (\<lambda>i. start + i) (word_range len))"

definition read_slice :: "'w platform \<Rightarrow> usize \<times> usize \<Rightarrow> 'w \<Rightarrow> u8 list" where
  "read_slice E sl w = map (\<lambda>a. load8 E a w) (slice_addrs sl)"

definition as_bytes :: "Packet \<Rightarrow> usize \<times> usize" where
  "as_bytes p = (addr_virt p, packet_len p)"

definition as_mut_bytes :: "Packet \<Rightarrow> usize \<times> usize" where
  "as_mut_bytes p = (addr_virt p, packet_len p)"

definition Packet_deref :: "Packet \<Rightarrow> usize \<times> usize" where
  "Packet_deref p = (addr_virt p, packet_len p)"

definition Packet_deref_mut :: "Packet \<Rightarrow> usize \<times> usize" where
  "Packet_deref_mut p = (addr_virt p, packet_len p)"

definition headroom_mut :: "Packet \<Rightarrow> usize \<Rightarrow> ('s, usize \<times> usize) prog" where
  "headroom_mut p len =
     seqM (assertM HeadroomTooLong (len \<le> PACKET_HEADROOM)) (ret (addr_virt p - len, len))"

text \<open>\<open>dst.clone_from_slice(src)\<close>; in \<open>clone\<close> both are packets, which dereference to slices.\<close>

definition clone_from_slice ::
  "'w platform \<Rightarrow> usize \<times> usize \<Rightarrow> usize \<times> usize \<Rightarrow> (('w, 'x) base_scheme, unit) prog" where
  "clone_from_slice E dst src =
     seqM (assertM SliceLengthMismatch (snd dst = snd src))
          (world_doM (\<lambda>w. store_bytes E (zip (slice_addrs dst) (read_slice E src w)) w))"

definition Packet_clone ::
  "'w platform \<Rightarrow> Packet \<Rightarrow> (('w, 'c, 'x) heap_scheme, Packet) prog" where
  "Packet_clone E p = bindM (alloc_pkt E (packet_pool p) (packet_len p)) (\<lambda>r. case r of
       None \<Rightarrow> panic NoBufferAvailable
     | Some q \<Rightarrow> seqM (clone_from_slice E (Packet_deref_mut q) (Packet_deref p)) (ret q))"

definition Packet_get_virt_addr :: "Packet \<Rightarrow> usize" where
  "Packet_get_virt_addr p = addr_virt p"

definition Packet_get_phys_addr :: "Packet \<Rightarrow> usize" where
  "Packet_get_phys_addr p = addr_phys p"

lemma deref_as_bytes: "Packet_deref p = as_bytes p" "Packet_deref_mut p = as_bytes p" "as_mut_bytes p = as_bytes p"
  by (simp_all add: Packet_deref_def Packet_deref_mut_def as_mut_bytes_def as_bytes_def)

declare get_pool_def [prog_defs] set_pool_def [prog_defs] alloc_buf_def [prog_defs]
  free_buf_def [prog_defs] extend_free_stack_def [prog_defs] get_virt_addr_def [prog_defs]
  get_phys_addr_def [prog_defs] MemPool_entry_size_def [prog_defs] Dma_allocate_def [prog_defs]
  non_null_def [prog_defs] alloc_pkt_def [prog_defs] Packet_drop_def [prog_defs]
  clone_from_slice_def [prog_defs] headroom_mut_def [prog_defs]

section \<open>Well-formed pools\<close>

text \<open>
  The free stack holds entries of the pool, none twice; every entry has a physical
  address; the buffers fit into the address space, so the address arithmetic of a
  buffer cannot wrap.
\<close>

definition pool_wf :: "MemPool \<Rightarrow> bool" where
  "pool_wf p \<longleftrightarrow>
     distinct (free_stack p) \<and>
     (\<forall>buf \<in> set (free_stack p). buf < num_entries p) \<and>
     length (phys_addr p) = unat (num_entries p) \<and>
     unat (base_addr p) + unat (num_entries p) * unat (entry_size p) < 2 ^ 64"

text \<open>All buffers of a pool, each once.\<close>

definition all_bufs :: "MemPool \<Rightarrow> usize multiset" where
  "all_bufs p = mset (word_range (num_entries p))"

text \<open>The interface of a buffer pool, as its clients use it.\<close>

locale buffer_pool =
  fixes alloc :: "'p \<Rightarrow> 'b option \<times> 'p"
    and free :: "'b \<Rightarrow> 'p \<Rightarrow> 'e + 'p"
    and contents :: "'p \<Rightarrow> 'b multiset"
    and inv :: "'p \<Rightarrow> bool"
    and valid :: "'p \<Rightarrow> 'b \<Rightarrow> bool"
  assumes alloc_None: "alloc p = (None, p') \<Longrightarrow> p' = p \<and> contents p = {#}"
    and alloc_Some: "alloc p = (Some b, p') \<Longrightarrow> contents p = add_mset b (contents p')"
    and alloc_inv: "inv p \<Longrightarrow> alloc p = (r, p') \<Longrightarrow> inv p'"
    and alloc_valid: "alloc p = (r, p') \<Longrightarrow> valid p' = valid p"
    and inv_distinct: "inv p \<Longrightarrow> count (contents p) b \<le> 1"
    and inv_valid: "inv p \<Longrightarrow> b \<in># contents p \<Longrightarrow> valid p b"
    and free_ok: "valid p b \<Longrightarrow> b \<notin># contents p \<Longrightarrow> \<exists>p'. free b p = Inr p'"
    and free_contents: "free b p = Inr p' \<Longrightarrow> contents p' = add_mset b (contents p)"
    and free_inv: "inv p \<Longrightarrow> free b p = Inr p' \<Longrightarrow> inv p'"
    and free_held: "free b p = Inr p' \<Longrightarrow> b \<notin># contents p"
begin

text \<open>A buffer that has been allocated is out of the pool, and can be given back.\<close>

lemma alloc_not_in: "inv p \<Longrightarrow> alloc p = (Some b, p') \<Longrightarrow> b \<notin># contents p'"
  using inv_distinct [of p b] alloc_Some [of p b p'] by (auto simp: count_eq_zero_iff)

lemma alloc_then_free:
  assumes "inv p" and "alloc p = (Some b, p')"
  shows "\<exists>p''. free b p' = Inr p'' \<and> contents p'' = contents p \<and> inv p''"
proof -
  have "b \<in># contents p" using alloc_Some [OF assms(2)] by simp
  then have "valid p' b" using inv_valid assms alloc_valid by metis
  then obtain p'' where p'': "free b p' = Inr p''"
    using free_ok alloc_not_in [OF assms] by blast
  then show ?thesis
    using free_contents [OF p''] alloc_Some [OF assms(2)] free_inv alloc_inv assms by metis
qed

text \<open>No buffer is handed out twice before it comes back.\<close>

lemma alloc_twice_distinct:
  assumes "inv p" and "alloc p = (Some b, p')" and "alloc p' = (Some b', p'')"
  shows "b \<noteq> b'"
  using alloc_not_in [OF assms(1,2)] alloc_Some [OF assms(3)] by auto

text \<open>A second free of the same buffer is refused.\<close>

lemma double_free: "free b p = Inr p' \<Longrightarrow> \<exists>e. free b p' = Inl e"
  by (metis free_contents free_held old.sum.exhaust union_single_eq_member)

end

lemma pool_alloc_wf: "pool_wf p \<Longrightarrow> pool_alloc_buf p = (r, p') \<Longrightarrow> pool_wf p'"
  by (auto simp: pool_wf_def pool_alloc_buf_def distinct_butlast dest!: in_set_butlastD
      split: if_splits)

lemma pool_free_wf: "pool_wf p \<Longrightarrow> pool_free_buf b p = Inr p' \<Longrightarrow> pool_wf p'"
  by (auto simp: pool_wf_def pool_free_buf_def split: if_splits)

interpretation mp: buffer_pool pool_alloc_buf pool_free_buf
  "\<lambda>p. mset (free_stack p)" pool_wf "\<lambda>p b. b < num_entries p"
proof unfold_locales
  fix p r p' assume "pool_wf p" "pool_alloc_buf p = (r, p')"
  then show "pool_wf p'" by (rule pool_alloc_wf)
next
  fix p b p' assume "pool_wf p" "pool_free_buf b p = Inr p'"
  then show "pool_wf p'" by (rule pool_free_wf)
next
  fix p b p' assume "pool_alloc_buf p = (Some b, p')"
  then show "mset (free_stack p) = add_mset b (mset (free_stack p'))"
    by (auto simp: pool_alloc_buf_def mset_butlast_last split: if_splits)
next
  fix p b assume "pool_wf p"
  then have "distinct (free_stack p)" by (simp add: pool_wf_def)
  then show "count (mset (free_stack p)) b \<le> 1"
    by (simp add: distinct_count_atmost_1)
qed (auto simp: pool_alloc_buf_def pool_free_buf_def pool_wf_def fun_eq_iff split: if_splits)

end
