(* ===== verification/Descriptor.thy ===== *)
theory Descriptor
  imports Platform
begin

text \<open>
  The receive and transmit descriptors of \<open>src/descriptor.rs\<close>. A descriptor lives in
  memory shared with the device and the driver holds a pointer to it, so every method is
  a program over the platform's volatile accesses, given the descriptor's address.

  Field offsets. \<open>AdvancedTxDescriptor\<close> is \<open>repr(C)\<close>: \<open>packet_buffer_address\<close> at 0,
  \<open>data_len\<close> at 8, \<open>dtyp_mac_rsv\<close> at 10, \<open>dcmd\<close> at 11, \<open>paylen_popts_cc_idx_sta\<close> at 12.
  \<open>AdvancedRxDescriptor\<close> has two 64-bit fields and no \<open>repr\<close>; the model takes them in the
  order of their declaration, which is the order the device needs.
\<close>

section \<open>Descriptor bits\<close>

definition TX_CMD_EOP :: u8 where "TX_CMD_EOP = push_bit 0 1"
definition TX_CMD_IFCS :: u8 where "TX_CMD_IFCS = push_bit 1 1"
definition TX_CMD_IC :: u8 where "TX_CMD_IC = push_bit 2 1"
definition TX_CMD_RS :: u8 where "TX_CMD_RS = push_bit 3 1"
definition TX_CMD_RPS :: u8 where "TX_CMD_RPS = push_bit 4 1"
definition TX_CMD_DEXT :: u8 where "TX_CMD_DEXT = push_bit 5 1"
definition TX_CMD_VLE :: u8 where "TX_CMD_VLE = push_bit 6 1"
definition TX_CMD_IDE :: u8 where "TX_CMD_IDE = push_bit 7 1"
definition TX_STATUS_DD :: u8 where "TX_STATUS_DD = push_bit 0 1"
definition TX_DTYP_ADV :: u8 where "TX_DTYP_ADV = push_bit 4 0x3"
definition TX_PAYLEN_SHIFT :: u8 where "TX_PAYLEN_SHIFT = 46 - 32"
definition RX_STATUS_DD :: u8 where "RX_STATUS_DD = push_bit 0 1"
definition RX_STATUS_EOP :: u8 where "RX_STATUS_EOP = push_bit 1 1"

lemmas descriptor_bits =
  TX_CMD_EOP_def TX_CMD_IFCS_def TX_CMD_IC_def TX_CMD_RS_def TX_CMD_RPS_def TX_CMD_DEXT_def
  TX_CMD_VLE_def TX_CMD_IDE_def TX_STATUS_DD_def TX_DTYP_ADV_def TX_PAYLEN_SHIFT_def
  RX_STATUS_DD_def RX_STATUS_EOP_def

section \<open>Receive descriptor\<close>

text \<open>Both fields, as a value: used to state what a method does to the memory.\<close>

record AdvancedRxDescriptor =
  rxd_packet_buffer_address :: u64
  rxd_header_buffer_address :: u64

definition rx_packet_buffer_address :: "usize \<Rightarrow> usize" where
  "rx_packet_buffer_address desc = desc"

definition rx_header_buffer_address :: "usize \<Rightarrow> usize" where
  "rx_header_buffer_address desc = desc + 8"

definition rx_desc_init :: "'w platform \<Rightarrow> usize \<Rightarrow> (('w, 'x) base_scheme, unit) prog" where
  "rx_desc_init E desc =
     seqM (world_doM (volatile_write64 E (rx_packet_buffer_address desc) 0))
          (world_doM (volatile_write64 E (rx_header_buffer_address desc) 0))"

definition set_packet_address ::
  "'w platform \<Rightarrow> usize \<Rightarrow> u64 \<Rightarrow> (('w, 'x) base_scheme, unit) prog" where
  "set_packet_address E desc packet_buffer_address =
     world_doM (volatile_write64 E (rx_packet_buffer_address desc) packet_buffer_address)"

definition reset_status :: "'w platform \<Rightarrow> usize \<Rightarrow> (('w, 'x) base_scheme, unit) prog" where
  "reset_status E desc = world_doM (volatile_write64 E (rx_header_buffer_address desc) 0)"

text \<open>The write-back getters: one volatile read of one field, then a bit range of it.\<close>

definition read_packet_field ::
  "'w platform \<Rightarrow> nat \<Rightarrow> nat \<Rightarrow> usize \<Rightarrow> (('w, 'x) base_scheme, u64) prog" where
  "read_packet_field E lo hi desc =
     bindM (worldM (volatile_read64 E (rx_packet_buffer_address desc)))
       (\<lambda>v. ret (get_bits E v lo hi))"

definition read_header_field ::
  "'w platform \<Rightarrow> nat \<Rightarrow> nat \<Rightarrow> usize \<Rightarrow> (('w, 'x) base_scheme, u64) prog" where
  "read_header_field E lo hi desc =
     bindM (worldM (volatile_read64 E (rx_header_buffer_address desc)))
       (\<lambda>v. ret (get_bits E v lo hi))"

definition get_rss_type :: "'w platform \<Rightarrow> usize \<Rightarrow> (('w, 'x) base_scheme, u64) prog" where
  "get_rss_type E = read_packet_field E 0 3"

definition get_packet_type :: "'w platform \<Rightarrow> usize \<Rightarrow> (('w, 'x) base_scheme, u64) prog" where
  "get_packet_type E = read_packet_field E 4 16"

definition get_rsccnt :: "'w platform \<Rightarrow> usize \<Rightarrow> (('w, 'x) base_scheme, u64) prog" where
  "get_rsccnt E = read_packet_field E 17 20"

definition get_hdr_len :: "'w platform \<Rightarrow> usize \<Rightarrow> (('w, 'x) base_scheme, u64) prog" where
  "get_hdr_len E = read_packet_field E 21 30"

definition get_rss_hash :: "'w platform \<Rightarrow> usize \<Rightarrow> (('w, 'x) base_scheme, u64) prog" where
  "get_rss_hash E = read_packet_field E 32 63"

definition get_fdf_id :: "'w platform \<Rightarrow> usize \<Rightarrow> (('w, 'x) base_scheme, u64) prog" where
  "get_fdf_id E = read_packet_field E 32 63"

definition get_ext_status :: "'w platform \<Rightarrow> usize \<Rightarrow> (('w, 'x) base_scheme, u64) prog" where
  "get_ext_status E = read_header_field E 0 19"

definition get_ext_error :: "'w platform \<Rightarrow> usize \<Rightarrow> (('w, 'x) base_scheme, u64) prog" where
  "get_ext_error E = read_header_field E 20 31"

definition get_pkt_len :: "'w platform \<Rightarrow> usize \<Rightarrow> (('w, 'x) base_scheme, u64) prog" where
  "get_pkt_len E = read_header_field E 32 47"

definition get_vlan_tag :: "'w platform \<Rightarrow> usize \<Rightarrow> (('w, 'x) base_scheme, u64) prog" where
  "get_vlan_tag E = read_header_field E 48 63"

definition rx_desc_length :: "'w platform \<Rightarrow> usize \<Rightarrow> (('w, 'x) base_scheme, u64) prog" where
  "rx_desc_length E desc = get_pkt_len E desc"

definition descriptor_done :: "'w platform \<Rightarrow> usize \<Rightarrow> (('w, 'x) base_scheme, bool) prog" where
  "descriptor_done E desc =
     bindM (get_ext_status E desc) (\<lambda>st. ret (st AND ucast RX_STATUS_DD = ucast RX_STATUS_DD))"

definition end_of_packet :: "'w platform \<Rightarrow> usize \<Rightarrow> (('w, 'x) base_scheme, bool) prog" where
  "end_of_packet E desc =
     bindM (get_ext_status E desc) (\<lambda>st. ret (st AND ucast RX_STATUS_EOP = ucast RX_STATUS_EOP))"

section \<open>Transmit descriptor\<close>

record AdvancedTxDescriptor =
  txd_packet_buffer_address :: u64
  txd_data_len :: u16
  txd_dtyp_mac_rsv :: u8
  txd_dcmd :: u8
  txd_paylen_popts_cc_idx_sta :: u32

definition tx_packet_buffer_address :: "usize \<Rightarrow> usize" where
  "tx_packet_buffer_address desc = desc"
definition tx_data_len :: "usize \<Rightarrow> usize" where
  "tx_data_len desc = desc + 8"
definition tx_dtyp_mac_rsv :: "usize \<Rightarrow> usize" where
  "tx_dtyp_mac_rsv desc = desc + 10"
definition tx_dcmd :: "usize \<Rightarrow> usize" where
  "tx_dcmd desc = desc + 11"
definition tx_paylen_popts_cc_idx_sta :: "usize \<Rightarrow> usize" where
  "tx_paylen_popts_cc_idx_sta desc = desc + 12"

lemmas descriptor_offsets =
  rx_packet_buffer_address_def rx_header_buffer_address_def tx_packet_buffer_address_def
  tx_data_len_def tx_dtyp_mac_rsv_def tx_dcmd_def tx_paylen_popts_cc_idx_sta_def

definition tx_desc_init :: "'w platform \<Rightarrow> usize \<Rightarrow> (('w, 'x) base_scheme, unit) prog" where
  "tx_desc_init E desc =
     seqM (world_doM (volatile_write64 E (tx_packet_buffer_address desc) 0))
    (seqM (world_doM (volatile_write32 E (tx_paylen_popts_cc_idx_sta desc) 0))
    (seqM (world_doM (volatile_write8 E (tx_dcmd desc) 0))
    (seqM (world_doM (volatile_write8 E (tx_dtyp_mac_rsv desc) 0))
          (world_doM (volatile_write16 E (tx_data_len desc) 0)))))"

definition tx_desc_send ::
  "'w platform \<Rightarrow> usize \<Rightarrow> u64 \<Rightarrow> u16 \<Rightarrow> (('w, 'x) base_scheme, unit) prog" where
  "tx_desc_send E desc transmit_buffer_addr transmit_buffer_length =
     seqM (world_doM (volatile_write64 E (tx_packet_buffer_address desc) transmit_buffer_addr))
    (seqM (world_doM (volatile_write16 E (tx_data_len desc) transmit_buffer_length))
    (seqM (world_doM (volatile_write8 E (tx_dtyp_mac_rsv desc) TX_DTYP_ADV))
    (seqM (world_doM (volatile_write32 E (tx_paylen_popts_cc_idx_sta desc)
            (push_bit (unat TX_PAYLEN_SHIFT) (ucast transmit_buffer_length))))
          (world_doM (volatile_write8 E (tx_dcmd desc)
            (TX_CMD_DEXT OR TX_CMD_RS OR TX_CMD_IFCS OR TX_CMD_EOP))))))"

text \<open>Polls the done bit until it is set; for ever, if the device never sets it.\<close>

definition wait_for_packet_tx :: "'w platform \<Rightarrow> usize \<Rightarrow> (('w, 'x) base_scheme, unit) prog" where
  "wait_for_packet_tx E desc = loopM (\<lambda>_ :: unit.
     bindM (worldM (volatile_read32 E (tx_paylen_popts_cc_idx_sta desc))) (\<lambda>v.
       ret (if (ucast v :: u8) AND TX_STATUS_DD = 0 then Inl () else Inr ()))) ()"

lemmas rx_getter_defs =
  get_rss_type_def get_packet_type_def get_rsccnt_def get_hdr_len_def get_rss_hash_def
  get_fdf_id_def get_ext_status_def get_ext_error_def get_pkt_len_def get_vlan_tag_def
  rx_desc_length_def read_packet_field_def read_header_field_def

declare rx_getter_defs [prog_defs]
declare rx_desc_init_def [prog_defs] set_packet_address_def [prog_defs] reset_status_def [prog_defs]
  tx_desc_init_def [prog_defs] tx_desc_send_def [prog_defs]

end
