(* ===== verification/Interrupts.thy ===== *)
theory Interrupts
  imports Prelude
begin

text \<open>The interrupt settings of \<open>src/interrupts.rs\<close>.\<close>

definition IXGBE_MAX_MSIX_VECTORS :: usize where
  "IXGBE_MAX_MSIX_VECTORS = 64"

record InterruptsQueue =
  interrupt_enabled :: bool

record Interrupts =
  interrupts_enabled :: bool
  itr_rate :: u32
  interrupt_type :: u64
  timeout_ms :: "16 word"
  queues :: "InterruptsQueue list"

definition Interrupts_default :: Interrupts where
  "Interrupts_default =
     \<lparr>interrupts_enabled = False, itr_rate = 0, interrupt_type = 0, timeout_ms = 0, queues = []\<rparr>"

datatype InterruptType = Msi | Msix

end
