(* ===== verification/Regs_General.thy ===== *)
theory Regs_General
  imports Prelude
begin

text \<open>
  Register addresses of \<open>src/constants.rs\<close>, first part: device identifiers, the general
  control registers, the EEPROM and I2C accessors and the interrupt registers.

  In all the \<open>Regs_*\<close> theories a constant keeps its name and value, and an indexed
  register is a function on \<open>u32\<close>. Their arithmetic is the wrapping one of a release
  build; theory Registers_Spec proves that it cannot overflow for any queue number the
  driver passes, so a build with overflow checks computes the same addresses.
\<close>

definition IGB_DEV_ID_82598 :: u32 where
  "IGB_DEV_ID_82598 = 0x10B6"

definition IGB_DEV_ID_82598_BX :: u32 where
  "IGB_DEV_ID_82598_BX = 0x1508"

definition IGB_DEV_ID_82598AF_DUAL_PORT :: u32 where
  "IGB_DEV_ID_82598AF_DUAL_PORT = 0x10C6"

definition IGB_DEV_ID_82598AF_SINGLE_PORT :: u32 where
  "IGB_DEV_ID_82598AF_SINGLE_PORT = 0x10C7"

definition IGB_DEV_ID_82598AT :: u32 where
  "IGB_DEV_ID_82598AT = 0x10C8"

definition IGB_DEV_ID_82598AT2 :: u32 where
  "IGB_DEV_ID_82598AT2 = 0x150B"

definition IGB_DEV_ID_82598EB_SFP_LOM :: u32 where
  "IGB_DEV_ID_82598EB_SFP_LOM = 0x10DB"

definition IGB_DEV_ID_82598EB_CX4 :: u32 where
  "IGB_DEV_ID_82598EB_CX4 = 0x10DD"

definition IGB_DEV_ID_82598_CX4_DUAL_PORT :: u32 where
  "IGB_DEV_ID_82598_CX4_DUAL_PORT = 0x10EC"

definition IGB_DEV_ID_82598_DA_DUAL_PORT :: u32 where
  "IGB_DEV_ID_82598_DA_DUAL_PORT = 0x10F1"

definition IGB_DEV_ID_82598_SR_DUAL_PORT_EM :: u32 where
  "IGB_DEV_ID_82598_SR_DUAL_PORT_EM = 0x10E1"

definition IGB_DEV_ID_82598EB_XF_LR :: u32 where
  "IGB_DEV_ID_82598EB_XF_LR = 0x10F4"

definition IGB_DEV_ID_82599_KX4 :: u32 where
  "IGB_DEV_ID_82599_KX4 = 0x10F7"

definition IGB_DEV_ID_82599_KX4_MEZZ :: u32 where
  "IGB_DEV_ID_82599_KX4_MEZZ = 0x1514"

definition IGB_DEV_ID_82599_KR :: u32 where
  "IGB_DEV_ID_82599_KR = 0x1517"

definition IGB_DEV_ID_82599_COMBO_BACKPLANE :: u32 where
  "IGB_DEV_ID_82599_COMBO_BACKPLANE = 0x10F8"

definition IGB_SUBDEV_ID_82599_KX4_KR_MEZZ :: u32 where
  "IGB_SUBDEV_ID_82599_KX4_KR_MEZZ = 0x000C"

definition IGB_DEV_ID_82599_CX4 :: u32 where
  "IGB_DEV_ID_82599_CX4 = 0x10F9"

definition IGB_DEV_ID_82599_SFP :: u32 where
  "IGB_DEV_ID_82599_SFP = 0x10FB"

definition IGB_SUBDEV_ID_82599_SFP :: u32 where
  "IGB_SUBDEV_ID_82599_SFP = 0x11A9"

definition IGB_SUBDEV_ID_82599_SFP_WOL0 :: u32 where
  "IGB_SUBDEV_ID_82599_SFP_WOL0 = 0x1071"

definition IGB_SUBDEV_ID_82599_RNDC :: u32 where
  "IGB_SUBDEV_ID_82599_RNDC = 0x1F72"

definition IGB_SUBDEV_ID_82599_560FLR :: u32 where
  "IGB_SUBDEV_ID_82599_560FLR = 0x17D0"

definition IGB_SUBDEV_ID_82599_ECNA_DP :: u32 where
  "IGB_SUBDEV_ID_82599_ECNA_DP = 0x0470"

definition IGB_SUBDEV_ID_82599_SP_560FLR :: u32 where
  "IGB_SUBDEV_ID_82599_SP_560FLR = 0x211B"

definition IGB_SUBDEV_ID_82599_LOM_SNAP6 :: u32 where
  "IGB_SUBDEV_ID_82599_LOM_SNAP6 = 0x2159"

definition IGB_SUBDEV_ID_82599_SFP_1OCP :: u32 where
  "IGB_SUBDEV_ID_82599_SFP_1OCP = 0x000D"

definition IGB_SUBDEV_ID_82599_SFP_2OCP :: u32 where
  "IGB_SUBDEV_ID_82599_SFP_2OCP = 0x0008"

definition IGB_SUBDEV_ID_82599_SFP_LOM_OEM1 :: u32 where
  "IGB_SUBDEV_ID_82599_SFP_LOM_OEM1 = 0x8976"

definition IGB_SUBDEV_ID_82599_SFP_LOM_OEM2 :: u32 where
  "IGB_SUBDEV_ID_82599_SFP_LOM_OEM2 = 0x06EE"

definition IGB_DEV_ID_82599_BACKPLANE_FCOE :: u32 where
  "IGB_DEV_ID_82599_BACKPLANE_FCOE = 0x152A"

definition IGB_DEV_ID_82599_SFP_FCOE :: u32 where
  "IGB_DEV_ID_82599_SFP_FCOE = 0x1529"

definition IGB_DEV_ID_82599_SFP_EM :: u32 where
  "IGB_DEV_ID_82599_SFP_EM = 0x1507"

definition IGB_DEV_ID_82599_SFP_SF2 :: u32 where
  "IGB_DEV_ID_82599_SFP_SF2 = 0x154D"

definition IGB_DEV_ID_82599_SFP_SF_QP :: u32 where
  "IGB_DEV_ID_82599_SFP_SF_QP = 0x154A"

definition IGB_DEV_ID_82599_QSFP_SF_QP :: u32 where
  "IGB_DEV_ID_82599_QSFP_SF_QP = 0x1558"

definition IGB_DEV_ID_82599EN_SFP :: u32 where
  "IGB_DEV_ID_82599EN_SFP = 0x1557"

definition IGB_SUBDEV_ID_82599EN_SFP_OCP1 :: u32 where
  "IGB_SUBDEV_ID_82599EN_SFP_OCP1 = 0x0001"

definition IGB_DEV_ID_82599_XAUI_LOM :: u32 where
  "IGB_DEV_ID_82599_XAUI_LOM = 0x10FC"

definition IGB_DEV_ID_82599_T3_LOM :: u32 where
  "IGB_DEV_ID_82599_T3_LOM = 0x151C"

definition IGB_DEV_ID_82599_VF :: u32 where
  "IGB_DEV_ID_82599_VF = 0x10ED"

definition IGB_DEV_ID_82599_VF_HV :: u32 where
  "IGB_DEV_ID_82599_VF_HV = 0x152E"

definition IGB_DEV_ID_82599_LS :: u32 where
  "IGB_DEV_ID_82599_LS = 0x154F"

definition IGB_DEV_ID_X540T :: u32 where
  "IGB_DEV_ID_X540T = 0x1528"

definition IGB_DEV_ID_X540_VF :: u32 where
  "IGB_DEV_ID_X540_VF = 0x1515"

definition IGB_DEV_ID_X540_VF_HV :: u32 where
  "IGB_DEV_ID_X540_VF_HV = 0x1530"

definition IGB_DEV_ID_X540T1 :: u32 where
  "IGB_DEV_ID_X540T1 = 0x1560"

definition IGB_DEV_ID_X550T :: u32 where
  "IGB_DEV_ID_X550T = 0x1563"

definition IGB_DEV_ID_X550T1 :: u32 where
  "IGB_DEV_ID_X550T1 = 0x15D1"

definition IGB_DEV_ID_X550EM_A_KR :: u32 where
  "IGB_DEV_ID_X550EM_A_KR = 0x15C2"

definition IGB_DEV_ID_X550EM_A_KR_L :: u32 where
  "IGB_DEV_ID_X550EM_A_KR_L = 0x15C3"

definition IGB_DEV_ID_X550EM_A_SFP_N :: u32 where
  "IGB_DEV_ID_X550EM_A_SFP_N = 0x15C4"

definition IGB_DEV_ID_X550EM_A_SGMII :: u32 where
  "IGB_DEV_ID_X550EM_A_SGMII = 0x15C6"

definition IGB_DEV_ID_X550EM_A_SGMII_L :: u32 where
  "IGB_DEV_ID_X550EM_A_SGMII_L = 0x15C7"

definition IGB_DEV_ID_X550EM_A_10G_T :: u32 where
  "IGB_DEV_ID_X550EM_A_10G_T = 0x15C8"

definition IGB_DEV_ID_X550EM_A_QSFP :: u32 where
  "IGB_DEV_ID_X550EM_A_QSFP = 0x15CA"

definition IGB_DEV_ID_X550EM_A_QSFP_N :: u32 where
  "IGB_DEV_ID_X550EM_A_QSFP_N = 0x15CC"

definition IGB_DEV_ID_X550EM_A_SFP :: u32 where
  "IGB_DEV_ID_X550EM_A_SFP = 0x15CE"

definition IGB_DEV_ID_X550EM_A_1G_T :: u32 where
  "IGB_DEV_ID_X550EM_A_1G_T = 0x15E4"

definition IGB_DEV_ID_X550EM_A_1G_T_L :: u32 where
  "IGB_DEV_ID_X550EM_A_1G_T_L = 0x15E5"

definition IGB_DEV_ID_X550EM_X_KX4 :: u32 where
  "IGB_DEV_ID_X550EM_X_KX4 = 0x15AA"

definition IGB_DEV_ID_X550EM_X_KR :: u32 where
  "IGB_DEV_ID_X550EM_X_KR = 0x15AB"

definition IGB_DEV_ID_X550EM_X_SFP :: u32 where
  "IGB_DEV_ID_X550EM_X_SFP = 0x15AC"

definition IGB_DEV_ID_X550EM_X_10G_T :: u32 where
  "IGB_DEV_ID_X550EM_X_10G_T = 0x15AD"

definition IGB_DEV_ID_X550EM_X_1G_T :: u32 where
  "IGB_DEV_ID_X550EM_X_1G_T = 0x15AE"

definition IGB_DEV_ID_X550EM_X_XFI :: u32 where
  "IGB_DEV_ID_X550EM_X_XFI = 0x15B0"

definition IGB_DEV_ID_X550_VF_HV :: u32 where
  "IGB_DEV_ID_X550_VF_HV = 0x1564"

definition IGB_DEV_ID_X550_VF :: u32 where
  "IGB_DEV_ID_X550_VF = 0x1565"

definition IGB_DEV_ID_X550EM_A_VF :: u32 where
  "IGB_DEV_ID_X550EM_A_VF = 0x15C5"

definition IGB_DEV_ID_X550EM_A_VF_HV :: u32 where
  "IGB_DEV_ID_X550EM_A_VF_HV = 0x15B4"

definition IGB_DEV_ID_X550EM_X_VF :: u32 where
  "IGB_DEV_ID_X550EM_X_VF = 0x15A8"

definition IGB_DEV_ID_X550EM_X_VF_HV :: u32 where
  "IGB_DEV_ID_X550EM_X_VF_HV = 0x15A9"

definition IGB_BY_MAC :: "u32 \<Rightarrow> u32 \<Rightarrow> u32" where
  "IGB_BY_MAC hw r = 0"

definition IGB_CTRL :: u32 where
  "IGB_CTRL = 0x00000"

definition IGB_MDIC :: u32 where
  "IGB_MDIC = 0x00020"

definition IGB_STATUS :: u32 where
  "IGB_STATUS = 0x00008"

definition IGB_CTRL_EXT :: u32 where
  "IGB_CTRL_EXT = 0x00018"

definition IGB_ESDP :: u32 where
  "IGB_ESDP = 0x00020"

definition IGB_EODSDP :: u32 where
  "IGB_EODSDP = 0x00028"

definition IGB_I2CCTL_82599 :: u32 where
  "IGB_I2CCTL_82599 = 0x00028"

definition IGB_I2CCTL :: u32 where
  "IGB_I2CCTL = IGB_I2CCTL_82599"

definition IGB_I2CCTL_X540 :: u32 where
  "IGB_I2CCTL_X540 = IGB_I2CCTL_82599"

definition IGB_I2CCTL_X550 :: u32 where
  "IGB_I2CCTL_X550 = 0x15F5C"

definition IGB_I2CCTL_X550EM_x :: u32 where
  "IGB_I2CCTL_X550EM_x = IGB_I2CCTL_X550"

definition IGB_I2CCTL_X550EM_a :: u32 where
  "IGB_I2CCTL_X550EM_a = IGB_I2CCTL_X550"

definition IGB_I2CCTL_BY_MAC :: "u32 \<Rightarrow> u32" where
  "IGB_I2CCTL_BY_MAC hw = IGB_BY_MAC hw IGB_I2CCTL"

definition IGB_PHY_GPIO :: u32 where
  "IGB_PHY_GPIO = 0x00028"

definition IGB_MAC_GPIO :: u32 where
  "IGB_MAC_GPIO = 0x00030"

definition IGB_PHYINT_STATUS0 :: u32 where
  "IGB_PHYINT_STATUS0 = 0x00100"

definition IGB_PHYINT_STATUS1 :: u32 where
  "IGB_PHYINT_STATUS1 = 0x00104"

definition IGB_PHYINT_STATUS2 :: u32 where
  "IGB_PHYINT_STATUS2 = 0x00108"

definition IGB_LEDCTL :: u32 where
  "IGB_LEDCTL = 0x00200"

definition IGB_FRTIMER :: u32 where
  "IGB_FRTIMER = 0x00048"

definition IGB_TCPTIMER :: u32 where
  "IGB_TCPTIMER = 0x0004C"

definition IGB_CORESPARE :: u32 where
  "IGB_CORESPARE = 0x00600"

definition IGB_EXVET :: u32 where
  "IGB_EXVET = 0x05078"

definition IGB_EEC :: u32 where
  "IGB_EEC = 0x10010"

definition IGB_EEC_X540 :: u32 where
  "IGB_EEC_X540 = IGB_EEC"

definition IGB_EEC_X550 :: u32 where
  "IGB_EEC_X550 = IGB_EEC"

definition IGB_EEC_X550EM_x :: u32 where
  "IGB_EEC_X550EM_x = IGB_EEC"

definition IGB_EEC_X550EM_a :: u32 where
  "IGB_EEC_X550EM_a = 0x15FF8"

definition IGB_EEC_BY_MAC :: "u32 \<Rightarrow> u32" where
  "IGB_EEC_BY_MAC hw = IGB_BY_MAC hw IGB_EEC"

definition IGB_EERD :: u32 where
  "IGB_EERD = 0x10014"

definition IGB_EEWR :: u32 where
  "IGB_EEWR = 0x10018"

definition IGB_FLA :: u32 where
  "IGB_FLA = 0x1001C"

definition IGB_FLA_X540 :: u32 where
  "IGB_FLA_X540 = IGB_FLA"

definition IGB_FLA_X550 :: u32 where
  "IGB_FLA_X550 = IGB_FLA"

definition IGB_FLA_X550EM_x :: u32 where
  "IGB_FLA_X550EM_x = IGB_FLA"

definition IGB_FLA_X550EM_a :: u32 where
  "IGB_FLA_X550EM_a = 0x15F68"

definition IGB_FLA_BY_MAC :: "u32 \<Rightarrow> u32" where
  "IGB_FLA_BY_MAC hw = IGB_BY_MAC hw IGB_FLA"

definition IGB_EEMNGCTL :: u32 where
  "IGB_EEMNGCTL = 0x10110"

definition IGB_EEMNGDATA :: u32 where
  "IGB_EEMNGDATA = 0x10114"

definition IGB_FLMNGCTL :: u32 where
  "IGB_FLMNGCTL = 0x10118"

definition IGB_FLMNGDATA :: u32 where
  "IGB_FLMNGDATA = 0x1011C"

definition IGB_FLMNGCNT :: u32 where
  "IGB_FLMNGCNT = 0x10120"

definition IGB_FLOP :: u32 where
  "IGB_FLOP = 0x1013C"

definition IGB_GRC :: u32 where
  "IGB_GRC = 0x10200"

definition IGB_GRC_X540 :: u32 where
  "IGB_GRC_X540 = IGB_GRC"

definition IGB_GRC_X550 :: u32 where
  "IGB_GRC_X550 = IGB_GRC"

definition IGB_GRC_X550EM_x :: u32 where
  "IGB_GRC_X550EM_x = IGB_GRC"

definition IGB_GRC_X550EM_a :: u32 where
  "IGB_GRC_X550EM_a = 0x15F64"

definition IGB_GRC_BY_MAC :: "u32 \<Rightarrow> u32" where
  "IGB_GRC_BY_MAC hw = IGB_BY_MAC hw IGB_GRC"

definition IGB_SRAMREL :: u32 where
  "IGB_SRAMREL = 0x10210"

definition IGB_SRAMREL_X540 :: u32 where
  "IGB_SRAMREL_X540 = IGB_SRAMREL"

definition IGB_SRAMREL_X550 :: u32 where
  "IGB_SRAMREL_X550 = IGB_SRAMREL"

definition IGB_SRAMREL_X550EM_x :: u32 where
  "IGB_SRAMREL_X550EM_x = IGB_SRAMREL"

definition IGB_SRAMREL_X550EM_a :: u32 where
  "IGB_SRAMREL_X550EM_a = 0x15F6C"

definition IGB_SRAMREL_BY_MAC :: "u32 \<Rightarrow> u32" where
  "IGB_SRAMREL_BY_MAC hw = IGB_BY_MAC hw IGB_SRAMREL"

definition IGB_PHYDBG :: u32 where
  "IGB_PHYDBG = 0x10218"

definition IGB_GRC_MNG :: u32 where
  "IGB_GRC_MNG = 0x00000001"

definition IGB_GRC_APME :: u32 where
  "IGB_GRC_APME = 0x00000002"

definition IGB_VPDDIAG0 :: u32 where
  "IGB_VPDDIAG0 = 0x10204"

definition IGB_VPDDIAG1 :: u32 where
  "IGB_VPDDIAG1 = 0x10208"

definition IGB_I2C_CLK_IN :: u32 where
  "IGB_I2C_CLK_IN = 0x00000001"

definition IGB_I2C_CLK_IN_X540 :: u32 where
  "IGB_I2C_CLK_IN_X540 = IGB_I2C_CLK_IN"

definition IGB_I2C_CLK_IN_X550 :: u32 where
  "IGB_I2C_CLK_IN_X550 = 0x00004000"

definition IGB_I2C_CLK_IN_X550EM_x :: u32 where
  "IGB_I2C_CLK_IN_X550EM_x = IGB_I2C_CLK_IN_X550"

definition IGB_I2C_CLK_IN_X550EM_a :: u32 where
  "IGB_I2C_CLK_IN_X550EM_a = IGB_I2C_CLK_IN_X550"

definition IGB_I2C_CLK_IN_BY_MAC :: "u32 \<Rightarrow> u32" where
  "IGB_I2C_CLK_IN_BY_MAC hw = IGB_BY_MAC hw IGB_I2C_CLK_IN"

definition IGB_I2C_CLK_OUT :: u32 where
  "IGB_I2C_CLK_OUT = 0x00000002"

definition IGB_I2C_CLK_OUT_X540 :: u32 where
  "IGB_I2C_CLK_OUT_X540 = IGB_I2C_CLK_OUT"

definition IGB_I2C_CLK_OUT_X550 :: u32 where
  "IGB_I2C_CLK_OUT_X550 = 0x00000200"

definition IGB_I2C_CLK_OUT_X550EM_x :: u32 where
  "IGB_I2C_CLK_OUT_X550EM_x = IGB_I2C_CLK_OUT_X550"

definition IGB_I2C_CLK_OUT_X550EM_a :: u32 where
  "IGB_I2C_CLK_OUT_X550EM_a = IGB_I2C_CLK_OUT_X550"

definition IGB_I2C_CLK_OUT_BY_MAC :: "u32 \<Rightarrow> u32" where
  "IGB_I2C_CLK_OUT_BY_MAC hw = IGB_BY_MAC hw IGB_I2C_CLK_OUT"

definition IGB_I2C_DATA_IN :: u32 where
  "IGB_I2C_DATA_IN = 0x00000004"

definition IGB_I2C_DATA_IN_X540 :: u32 where
  "IGB_I2C_DATA_IN_X540 = IGB_I2C_DATA_IN"

definition IGB_I2C_DATA_IN_X550 :: u32 where
  "IGB_I2C_DATA_IN_X550 = 0x00001000"

definition IGB_I2C_DATA_IN_X550EM_x :: u32 where
  "IGB_I2C_DATA_IN_X550EM_x = IGB_I2C_DATA_IN_X550"

definition IGB_I2C_DATA_IN_X550EM_a :: u32 where
  "IGB_I2C_DATA_IN_X550EM_a = IGB_I2C_DATA_IN_X550"

definition IGB_I2C_DATA_IN_BY_MAC :: "u32 \<Rightarrow> u32" where
  "IGB_I2C_DATA_IN_BY_MAC hw = IGB_BY_MAC hw IGB_I2C_DATA_IN"

definition IGB_I2C_DATA_OUT :: u32 where
  "IGB_I2C_DATA_OUT = 0x00000008"

definition IGB_I2C_DATA_OUT_X540 :: u32 where
  "IGB_I2C_DATA_OUT_X540 = IGB_I2C_DATA_OUT"

definition IGB_I2C_DATA_OUT_X550 :: u32 where
  "IGB_I2C_DATA_OUT_X550 = 0x00000400"

definition IGB_I2C_DATA_OUT_X550EM_x :: u32 where
  "IGB_I2C_DATA_OUT_X550EM_x = IGB_I2C_DATA_OUT_X550"

definition IGB_I2C_DATA_OUT_X550EM_a :: u32 where
  "IGB_I2C_DATA_OUT_X550EM_a = IGB_I2C_DATA_OUT_X550"

definition IGB_I2C_DATA_OUT_BY_MAC :: "u32 \<Rightarrow> u32" where
  "IGB_I2C_DATA_OUT_BY_MAC hw = IGB_BY_MAC hw IGB_I2C_DATA_OUT"

definition IGB_I2C_DATA_OE_N_EN :: u32 where
  "IGB_I2C_DATA_OE_N_EN = 0"

definition IGB_I2C_DATA_OE_N_EN_X540 :: u32 where
  "IGB_I2C_DATA_OE_N_EN_X540 = IGB_I2C_DATA_OE_N_EN"

definition IGB_I2C_DATA_OE_N_EN_X550 :: u32 where
  "IGB_I2C_DATA_OE_N_EN_X550 = 0x00000800"

definition IGB_I2C_DATA_OE_N_EN_X550EM_x :: u32 where
  "IGB_I2C_DATA_OE_N_EN_X550EM_x = IGB_I2C_DATA_OE_N_EN_X550"

definition IGB_I2C_DATA_OE_N_EN_X550EM_a :: u32 where
  "IGB_I2C_DATA_OE_N_EN_X550EM_a = IGB_I2C_DATA_OE_N_EN_X550"

definition IGB_I2C_DATA_OE_N_EN_BY_MAC :: "u32 \<Rightarrow> u32" where
  "IGB_I2C_DATA_OE_N_EN_BY_MAC hw = IGB_BY_MAC hw IGB_I2C_DATA_OE_N_EN"

definition IGB_I2C_BB_EN :: u32 where
  "IGB_I2C_BB_EN = 0"

definition IGB_I2C_BB_EN_X540 :: u32 where
  "IGB_I2C_BB_EN_X540 = IGB_I2C_BB_EN"

definition IGB_I2C_BB_EN_X550 :: u32 where
  "IGB_I2C_BB_EN_X550 = 0x00000100"

definition IGB_I2C_BB_EN_X550EM_x :: u32 where
  "IGB_I2C_BB_EN_X550EM_x = IGB_I2C_BB_EN_X550"

definition IGB_I2C_BB_EN_X550EM_a :: u32 where
  "IGB_I2C_BB_EN_X550EM_a = IGB_I2C_BB_EN_X550"

definition IGB_I2C_BB_EN_BY_MAC :: "u32 \<Rightarrow> u32" where
  "IGB_I2C_BB_EN_BY_MAC hw = IGB_BY_MAC hw IGB_I2C_BB_EN"

definition IGB_I2C_CLK_OE_N_EN :: u32 where
  "IGB_I2C_CLK_OE_N_EN = 0"

definition IGB_I2C_CLK_OE_N_EN_X540 :: u32 where
  "IGB_I2C_CLK_OE_N_EN_X540 = IGB_I2C_CLK_OE_N_EN"

definition IGB_I2C_CLK_OE_N_EN_X550 :: u32 where
  "IGB_I2C_CLK_OE_N_EN_X550 = 0x00002000"

definition IGB_I2C_CLK_OE_N_EN_X550EM_x :: u32 where
  "IGB_I2C_CLK_OE_N_EN_X550EM_x = IGB_I2C_CLK_OE_N_EN_X550"

definition IGB_I2C_CLK_OE_N_EN_X550EM_a :: u32 where
  "IGB_I2C_CLK_OE_N_EN_X550EM_a = IGB_I2C_CLK_OE_N_EN_X550"

definition IGB_I2C_CLK_OE_N_EN_BY_MAC :: "u32 \<Rightarrow> u32" where
  "IGB_I2C_CLK_OE_N_EN_BY_MAC hw = IGB_BY_MAC hw IGB_I2C_CLK_OE_N_EN"

definition IGB_I2C_CLOCK_STRETCHING_TIMEOUT :: u32 where
  "IGB_I2C_CLOCK_STRETCHING_TIMEOUT = 500"

definition IGB_I2C_THERMAL_SENSOR_ADDR :: u32 where
  "IGB_I2C_THERMAL_SENSOR_ADDR = 0xF8"

definition IGB_EMC_INTERNAL_DATA :: u32 where
  "IGB_EMC_INTERNAL_DATA = 0x00"

definition IGB_EMC_INTERNAL_THERM_LIMIT :: u32 where
  "IGB_EMC_INTERNAL_THERM_LIMIT = 0x20"

definition IGB_EMC_DIODE1_DATA :: u32 where
  "IGB_EMC_DIODE1_DATA = 0x01"

definition IGB_EMC_DIODE1_THERM_LIMIT :: u32 where
  "IGB_EMC_DIODE1_THERM_LIMIT = 0x19"

definition IGB_EMC_DIODE2_DATA :: u32 where
  "IGB_EMC_DIODE2_DATA = 0x23"

definition IGB_EMC_DIODE2_THERM_LIMIT :: u32 where
  "IGB_EMC_DIODE2_THERM_LIMIT = 0x1A"

definition IGB_MAX_SENSORS :: u32 where
  "IGB_MAX_SENSORS = 3"

definition IGB_ICR :: u32 where
  "IGB_ICR = 0x01500"

definition IGB_ICS :: u32 where
  "IGB_ICS = 0x01504"

definition IGB_IMS :: u32 where
  "IGB_IMS = 0x01508"

definition IGB_IMC :: u32 where
  "IGB_IMC = 0x0150C"

definition IGB_EICS_EX :: "u32 \<Rightarrow> u32" where
  "IGB_EICS_EX i = 0x00A90 + (i * 4)"

definition IGB_EIMS_EX :: "u32 \<Rightarrow> u32" where
  "IGB_EIMS_EX i = 0x00AA0 + (i * 4)"

definition IGB_EIMC_EX :: "u32 \<Rightarrow> u32" where
  "IGB_EIMC_EX i = 0x00AB0 + (i * 4)"

definition IGB_EIAM_EX :: "u32 \<Rightarrow> u32" where
  "IGB_EIAM_EX i = 0x00AD0 + (i * 4)"

definition IGB_MAX_INT_RATE :: u32 where
  "IGB_MAX_INT_RATE = 488281"

definition IGB_MIN_INT_RATE :: u32 where
  "IGB_MIN_INT_RATE = 956"

definition IGB_MAX_EITR :: u32 where
  "IGB_MAX_EITR = 0x00000FF8"

definition IGB_MIN_EITR :: u32 where
  "IGB_MIN_EITR = 8"

definition IGB_EITR :: "u32 \<Rightarrow> u32" where
  "IGB_EITR i = (if i \<le> 23 then 0x00820 + (i * 4) else 0x012300 + ((i - 24) * 4))"

definition IGB_EITR_ITR_INT_MASK :: u32 where
  "IGB_EITR_ITR_INT_MASK = 0x00000FF8"

definition IGB_EITR_LLI_MOD :: u32 where
  "IGB_EITR_LLI_MOD = 0x00008000"

definition IGB_EITR_CNT_WDIS :: u32 where
  "IGB_EITR_CNT_WDIS = 0x80000000"

definition IGB_IVAR :: "u32 \<Rightarrow> u32" where
  "IGB_IVAR i = 0x00900 + (i * 4)"

definition IGB_IVAR_MISC :: u32 where
  "IGB_IVAR_MISC = 0x00A00"

definition IGB_EITRSEL :: u32 where
  "IGB_EITRSEL = 0x00894"

definition IGB_MSIXT :: u32 where
  "IGB_MSIXT = 0x00000"

definition IGB_MSIXPBA :: u32 where
  "IGB_MSIXPBA = 0x02000"

definition IGB_PBACL :: "u32 \<Rightarrow> u32" where
  "IGB_PBACL i = (if i = 0 then 0x11068 else 0x110C0 + (i * 4))"

definition IGB_GPIE :: u32 where
  "IGB_GPIE = 0x00898"

definition IGB_FCADBUL :: u32 where
  "IGB_FCADBUL = 0x03210"

definition IGB_FCADBUH :: u32 where
  "IGB_FCADBUH = 0x03214"

definition IGB_FCAMACL :: u32 where
  "IGB_FCAMACL = 0x04328"

definition IGB_FCAMACH :: u32 where
  "IGB_FCAMACH = 0x0432C"

text \<open>The registers and bits the driver itself uses.\<close>

lemmas Regs_General_used [register_defs] =
  IGB_CTRL_def IGB_MDIC_def IGB_STATUS_def
  IGB_CTRL_EXT_def IGB_ICR_def IGB_IMS_def
  IGB_IMC_def IGB_EITR_def IGB_IVAR_def
  IGB_GPIE_def

end
