(* ===== verification/Regs_Rx.thy ===== *)
theory Regs_Rx
  imports Regs_General
begin

text \<open>
  Register addresses of \<open>src/constants.rs\<close>, second part: flow control, the receive DMA
  rings, the receive filters and the flow director.
\<close>

definition IGB_FCRTH_82599 :: "u32 \<Rightarrow> u32" where
  "IGB_FCRTH_82599 i = 0x03260 + (i * 4)"

definition IGB_FCRTL_82599 :: "u32 \<Rightarrow> u32" where
  "IGB_FCRTL_82599 i = 0x03220 + (i * 4)"

definition IGB_PFCTOP :: u32 where
  "IGB_PFCTOP = 0x03008"

definition IGB_FCTTV :: "u32 \<Rightarrow> u32" where
  "IGB_FCTTV i = 0x03200 + (i * 4)"

definition IGB_FCRTL :: "u32 \<Rightarrow> u32" where
  "IGB_FCRTL i = 0x03220 + (i * 8)"

definition IGB_FCRTH :: "u32 \<Rightarrow> u32" where
  "IGB_FCRTH i = 0x03260 + (i * 8)"

definition IGB_FCRTV :: u32 where
  "IGB_FCRTV = 0x032A0"

definition IGB_FCCFG :: u32 where
  "IGB_FCCFG = 0x03D00"

definition IGB_TFCS :: u32 where
  "IGB_TFCS = 0x0CE00"

definition IGB_RDBAL :: "u32 \<Rightarrow> u32" where
  "IGB_RDBAL i = 0x0C000 + (i * 0x40)"

definition IGB_RDBAH :: "u32 \<Rightarrow> u32" where
  "IGB_RDBAH i = 0x0C004 + (i * 0x40)"

definition IGB_RDLEN :: "u32 \<Rightarrow> u32" where
  "IGB_RDLEN i = 0x0C008 + (i * 0x40)"

definition IGB_RDH :: "u32 \<Rightarrow> u32" where
  "IGB_RDH i = 0x0C010 + (i * 0x40)"

definition IGB_RDT :: "u32 \<Rightarrow> u32" where
  "IGB_RDT i = 0x0C018 + (i * 0x40)"

definition IGB_RXDCTL :: "u32 \<Rightarrow> u32" where
  "IGB_RXDCTL i = 0x0C028 + (i * 0x40)"

definition IGB_RSCCTL :: "u32 \<Rightarrow> u32" where
  "IGB_RSCCTL i = (if i < 64 then 0x0102C + (i * 0x40) else 0x0D02C + ((i - 64) * 0x40))"

definition IGB_RSCDBU :: u32 where
  "IGB_RSCDBU = 0x03028"

definition IGB_RDDCC :: u32 where
  "IGB_RDDCC = 0x02F20"

definition IGB_RXMEMWRAP :: u32 where
  "IGB_RXMEMWRAP = 0x03190"

definition IGB_STARCTRL :: u32 where
  "IGB_STARCTRL = 0x03024"

definition IGB_SRRCTL :: "u32 \<Rightarrow> u32" where
  "IGB_SRRCTL i = (if i \<le> 15 then 0x02100 + (i * 4) else if i < 64 then 0x01014 + (i * 0x40) else 0x0D014 + ((i - 64) * 0x40))"

definition IGB_DCA_RXCTRL :: "u32 \<Rightarrow> u32" where
  "IGB_DCA_RXCTRL i = (if i \<le> 15 then 0x02200 + (i * 4) else if i < 64 then 0x0100C + (i * 0x40) else 0x0D00C + ((i - 64) * 0x40))"

definition IGB_RDRXCTL :: u32 where
  "IGB_RDRXCTL = 0x02F00"

definition IGB_RXPBSIZE :: "u32 \<Rightarrow> u32" where
  "IGB_RXPBSIZE i = 0x03C00 + (i * 4)"

definition IGB_RXCTRL :: u32 where
  "IGB_RXCTRL = 0x00100"

definition IGB_DROPEN :: u32 where
  "IGB_DROPEN = 0x03D04"

definition IGB_RXPBSIZE_SHIFT :: u32 where
  "IGB_RXPBSIZE_SHIFT = 10"

definition IGB_RXPBSIZE_MASK :: u32 where
  "IGB_RXPBSIZE_MASK = 0x000FFC00"

definition IGB_RXCSUM :: u32 where
  "IGB_RXCSUM = 0x05000"

definition IGB_RFCTL :: u32 where
  "IGB_RFCTL = 0x05008"

definition IGB_DRECCCTL :: u32 where
  "IGB_DRECCCTL = 0x02F08"

definition IGB_DRECCCTL_DISABLE :: u32 where
  "IGB_DRECCCTL_DISABLE = 0"

definition IGB_DRECCCTL2 :: u32 where
  "IGB_DRECCCTL2 = 0x02F8C"

definition IGB_MTA :: "u32 \<Rightarrow> u32" where
  "IGB_MTA i = 0x05200 + (i * 4)"

definition IGB_RAL :: "u32 \<Rightarrow> u32" where
  "IGB_RAL i = (if i \<le> 15 then 0x05400 + (i * 8) else 0x054E0 + ((i - 16) * 8))"

definition IGB_RAH :: "u32 \<Rightarrow> u32" where
  "IGB_RAH i = (if i \<le> 15 then 0x05404 + (i * 8) else 0x054E4 + ((i - 16) * 8))"

definition IGB_MPSAR_LO :: "u32 \<Rightarrow> u32" where
  "IGB_MPSAR_LO i = 0x0A600 + (i * 8)"

definition IGB_MPSAR_HI :: "u32 \<Rightarrow> u32" where
  "IGB_MPSAR_HI i = 0x0A604 + (i * 8)"

definition IGB_PSRTYPE :: "u32 \<Rightarrow> u32" where
  "IGB_PSRTYPE i = (if i \<le> 15 then 0x05480 + (i * 4) else 0x0EA00 + (i * 4))"

definition IGB_VFTA :: "u32 \<Rightarrow> u32" where
  "IGB_VFTA i = 0x0A000 + (i * 4)"

definition IGB_VFTAVIND :: "u32 \<Rightarrow> u32 \<Rightarrow> u32" where
  "IGB_VFTAVIND j i = (0x0A200 + (j * 0x200)) + (i * 4)"

definition IGB_FCTRL :: u32 where
  "IGB_FCTRL = 0x05080"

definition IGB_VLNCTRL :: u32 where
  "IGB_VLNCTRL = 0x05088"

definition IGB_MCSTCTRL :: u32 where
  "IGB_MCSTCTRL = 0x05090"

definition IGB_MRQC :: u32 where
  "IGB_MRQC = 0x05818"

definition IGB_SAQF :: "u32 \<Rightarrow> u32" where
  "IGB_SAQF i = 0x0E000 + (i * 4)"

definition IGB_DAQF :: "u32 \<Rightarrow> u32" where
  "IGB_DAQF i = 0x0E200 + (i * 4)"

definition IGB_SDPQF :: "u32 \<Rightarrow> u32" where
  "IGB_SDPQF i = 0x0E400 + (i * 4)"

definition IGB_FTQF :: "u32 \<Rightarrow> u32" where
  "IGB_FTQF i = 0x0E600 + (i * 4)"

definition IGB_ETQF :: "u32 \<Rightarrow> u32" where
  "IGB_ETQF i = 0x05128 + (i * 4)"

definition IGB_ETQS :: "u32 \<Rightarrow> u32" where
  "IGB_ETQS i = 0x0EC00 + (i * 4)"

definition IGB_SYNQF :: u32 where
  "IGB_SYNQF = 0x0EC30"

definition IGB_RQTC :: u32 where
  "IGB_RQTC = 0x0EC70"

definition IGB_MTQC :: u32 where
  "IGB_MTQC = 0x08120"

definition IGB_VLVF :: "u32 \<Rightarrow> u32" where
  "IGB_VLVF i = 0x0F100 + (i * 4)"

definition IGB_VLVFB :: "u32 \<Rightarrow> u32" where
  "IGB_VLVFB i = 0x0F200 + (i * 4)"

definition IGB_VMVIR :: "u32 \<Rightarrow> u32" where
  "IGB_VMVIR i = 0x08000 + (i * 4)"

definition IGB_PFFLPL :: u32 where
  "IGB_PFFLPL = 0x050B0"

definition IGB_PFFLPH :: u32 where
  "IGB_PFFLPH = 0x050B4"

definition IGB_VT_CTL :: u32 where
  "IGB_VT_CTL = 0x051B0"

definition IGB_PFMAILBOX :: "u32 \<Rightarrow> u32" where
  "IGB_PFMAILBOX i = 0x04B00 + (4 * i)"

definition IGB_PFMBMEM :: "u32 \<Rightarrow> u32" where
  "IGB_PFMBMEM i = 0x13000 + (64 * i)"

definition IGB_PFMBICR :: "u32 \<Rightarrow> u32" where
  "IGB_PFMBICR i = 0x00710 + (4 * i)"

definition IGB_PFMBIMR :: "u32 \<Rightarrow> u32" where
  "IGB_PFMBIMR i = 0x00720 + (4 * i)"

definition IGB_VFRE :: "u32 \<Rightarrow> u32" where
  "IGB_VFRE i = 0x051E0 + (i * 4)"

definition IGB_VFTE :: "u32 \<Rightarrow> u32" where
  "IGB_VFTE i = 0x08110 + (i * 4)"

definition IGB_VMECM :: "u32 \<Rightarrow> u32" where
  "IGB_VMECM i = 0x08790 + (i * 4)"

definition IGB_QDE :: u32 where
  "IGB_QDE = 0x2F04"

definition IGB_VMTXSW :: "u32 \<Rightarrow> u32" where
  "IGB_VMTXSW i = 0x05180 + (i * 4)"

definition IGB_VMOLR :: "u32 \<Rightarrow> u32" where
  "IGB_VMOLR i = 0x0F000 + (i * 4)"

definition IGB_UTA :: "u32 \<Rightarrow> u32" where
  "IGB_UTA i = 0x0F400 + (i * 4)"

definition IGB_MRCTL :: "u32 \<Rightarrow> u32" where
  "IGB_MRCTL i = 0x0F600 + (i * 4)"

definition IGB_VMRVLAN :: "u32 \<Rightarrow> u32" where
  "IGB_VMRVLAN i = 0x0F610 + (i * 4)"

definition IGB_VMRVM :: "u32 \<Rightarrow> u32" where
  "IGB_VMRVM i = 0x0F630 + (i * 4)"

definition IGB_LVMMC_RX :: u32 where
  "IGB_LVMMC_RX = 0x2FA8"

definition IGB_LVMMC_TX :: u32 where
  "IGB_LVMMC_TX = 0x8108"

definition IGB_LMVM_RX :: u32 where
  "IGB_LMVM_RX = 0x2FA4"

definition IGB_LMVM_TX :: u32 where
  "IGB_LMVM_TX = 0x8124"

definition IGB_WQBR_RX :: "u32 \<Rightarrow> u32" where
  "IGB_WQBR_RX i = 0x2FB0 + (i * 4)"

definition IGB_WQBR_TX :: "u32 \<Rightarrow> u32" where
  "IGB_WQBR_TX i = 0x8130 + (i * 4)"

definition IGB_L34T_IMIR :: "u32 \<Rightarrow> u32" where
  "IGB_L34T_IMIR i = 0x0E800 + (i * 4)"

definition IGB_RXFECCERR0 :: u32 where
  "IGB_RXFECCERR0 = 0x051B8"

definition IGB_LLITHRESH :: u32 where
  "IGB_LLITHRESH = 0x0EC90"

definition IGB_IMIR :: "u32 \<Rightarrow> u32" where
  "IGB_IMIR i = 0x05A80 + (i * 4)"

definition IGB_IMIREXT :: "u32 \<Rightarrow> u32" where
  "IGB_IMIREXT i = 0x05AA0 + (i * 4)"

definition IGB_IMIRVP :: u32 where
  "IGB_IMIRVP = 0x05AC0"

definition IGB_VMD_CTL :: u32 where
  "IGB_VMD_CTL = 0x0581C"

definition IGB_RETA :: "u32 \<Rightarrow> u32" where
  "IGB_RETA i = 0x05C00 + (i * 4)"

definition IGB_ERETA :: "u32 \<Rightarrow> u32" where
  "IGB_ERETA i = 0x0EE80 + (i * 4)"

definition IGB_RSSRK :: "u32 \<Rightarrow> u32" where
  "IGB_RSSRK i = 0x05C80 + (i * 4)"

definition IGB_PFVFMRQC :: "u32 \<Rightarrow> u32" where
  "IGB_PFVFMRQC p = 0x03400 + (p * 4)"

definition IGB_PFVFRSSRK :: "u32 \<Rightarrow> u32 \<Rightarrow> u32" where
  "IGB_PFVFRSSRK i p = (0x018000 + (i * 4)) + (p * 0x40)"

definition IGB_PFVFRETA :: "u32 \<Rightarrow> u32 \<Rightarrow> u32" where
  "IGB_PFVFRETA i p = (0x019000 + (i * 4)) + (p * 0x40)"

definition IGB_FDIRCTRL :: u32 where
  "IGB_FDIRCTRL = 0x0EE00"

definition IGB_FDIRHKEY :: u32 where
  "IGB_FDIRHKEY = 0x0EE68"

definition IGB_FDIRSKEY :: u32 where
  "IGB_FDIRSKEY = 0x0EE6C"

definition IGB_FDIRDIP4M :: u32 where
  "IGB_FDIRDIP4M = 0x0EE3C"

definition IGB_FDIRSIP4M :: u32 where
  "IGB_FDIRSIP4M = 0x0EE40"

definition IGB_FDIRTCPM :: u32 where
  "IGB_FDIRTCPM = 0x0EE44"

definition IGB_FDIRUDPM :: u32 where
  "IGB_FDIRUDPM = 0x0EE48"

definition IGB_FDIRSCTPM :: u32 where
  "IGB_FDIRSCTPM = 0x0EE78"

definition IGB_FDIRIP6M :: u32 where
  "IGB_FDIRIP6M = 0x0EE74"

definition IGB_FDIRM :: u32 where
  "IGB_FDIRM = 0x0EE70"

definition IGB_FDIRFREE :: u32 where
  "IGB_FDIRFREE = 0x0EE38"

definition IGB_FDIRLEN :: u32 where
  "IGB_FDIRLEN = 0x0EE4C"

definition IGB_FDIRUSTAT :: u32 where
  "IGB_FDIRUSTAT = 0x0EE50"

definition IGB_FDIRFSTAT :: u32 where
  "IGB_FDIRFSTAT = 0x0EE54"

definition IGB_FDIRMATCH :: u32 where
  "IGB_FDIRMATCH = 0x0EE58"

definition IGB_FDIRMISS :: u32 where
  "IGB_FDIRMISS = 0x0EE5C"

definition IGB_FDIRSIPv6 :: "u32 \<Rightarrow> u32" where
  "IGB_FDIRSIPv6 i = 0x0EE0C + (i * 4)"

definition IGB_FDIRIPSA :: u32 where
  "IGB_FDIRIPSA = 0x0EE18"

definition IGB_FDIRIPDA :: u32 where
  "IGB_FDIRIPDA = 0x0EE1C"

definition IGB_FDIRPORT :: u32 where
  "IGB_FDIRPORT = 0x0EE20"

definition IGB_FDIRVLAN :: u32 where
  "IGB_FDIRVLAN = 0x0EE24"

definition IGB_FDIRHASH :: u32 where
  "IGB_FDIRHASH = 0x0EE28"

text \<open>The registers and bits the driver itself uses.\<close>

lemmas Regs_Rx_used [register_defs] =
  IGB_RDBAL_def IGB_RDBAH_def IGB_RDLEN_def
  IGB_RDH_def IGB_RDT_def IGB_RXDCTL_def
  IGB_RDRXCTL_def IGB_RXPBSIZE_def IGB_RXCTRL_def
  IGB_RAL_def IGB_RAH_def IGB_FCTRL_def

end
