(* ===== verification/Regs_Tx.thy ===== *)
theory Regs_Tx
  imports Regs_Rx
begin

text \<open>
  Register addresses of \<open>src/constants.rs\<close>, third part: the transmit DMA rings, the
  transmit packet buffers and the wake-up registers.
\<close>

definition IGB_FDIRCMD :: u32 where
  "IGB_FDIRCMD = 0x0EE2C"

definition IGB_TDBAL :: "u32 \<Rightarrow> u32" where
  "IGB_TDBAL i = 0xE000 + (i * 0x40)"

definition IGB_TDBAH :: "u32 \<Rightarrow> u32" where
  "IGB_TDBAH i = 0x0E004 + (i * 0x40)"

definition IGB_TDLEN :: "u32 \<Rightarrow> u32" where
  "IGB_TDLEN i = 0x0E008 + (i * 0x40)"

definition IGB_TDH :: "u32 \<Rightarrow> u32" where
  "IGB_TDH i = 0x0E010 + (i * 0x40)"

definition IGB_TDT :: "u32 \<Rightarrow> u32" where
  "IGB_TDT i = 0x0E018 + (i * 0x40)"

definition IGB_TXDCTL :: "u32 \<Rightarrow> u32" where
  "IGB_TXDCTL i = 0x0E028 + (i * 0x40)"

definition IGB_TDWBAL :: "u32 \<Rightarrow> u32" where
  "IGB_TDWBAL i = 0x06038 + (i * 0x40)"

definition IGB_TDWBAH :: "u32 \<Rightarrow> u32" where
  "IGB_TDWBAH i = 0x0603C + (i * 0x40)"

definition IGB_DTXCTL :: u32 where
  "IGB_DTXCTL = 0x07E00"

definition IGB_DMATXCTL :: u32 where
  "IGB_DMATXCTL = 0x04A80"

definition IGB_PFVFSPOOF :: "u32 \<Rightarrow> u32" where
  "IGB_PFVFSPOOF i = 0x08200 + (i * 4)"

definition IGB_PFDTXGSWC :: u32 where
  "IGB_PFDTXGSWC = 0x08220"

definition IGB_DTXMXSZRQ :: u32 where
  "IGB_DTXMXSZRQ = 0x08100"

definition IGB_DTXTCPFLGL :: u32 where
  "IGB_DTXTCPFLGL = 0x04A88"

definition IGB_DTXTCPFLGH :: u32 where
  "IGB_DTXTCPFLGH = 0x04A8C"

definition IGB_LBDRPEN :: u32 where
  "IGB_LBDRPEN = 0x0CA00"

definition IGB_TXPBTHRESH :: "u32 \<Rightarrow> u32" where
  "IGB_TXPBTHRESH i = 0x04950 + (i * 4)"

definition IGB_DMATXCTL_TE :: u32 where
  "IGB_DMATXCTL_TE = 0x1"

definition IGB_DMATXCTL_NS :: u32 where
  "IGB_DMATXCTL_NS = 0x2"

definition IGB_DMATXCTL_GDV :: u32 where
  "IGB_DMATXCTL_GDV = 0x8"

definition IGB_DMATXCTL_MDP_EN :: u32 where
  "IGB_DMATXCTL_MDP_EN = 0x20"

definition IGB_DMATXCTL_MBINTEN :: u32 where
  "IGB_DMATXCTL_MBINTEN = 0x40"

definition IGB_DMATXCTL_VT_SHIFT :: u32 where
  "IGB_DMATXCTL_VT_SHIFT = 16"

definition IGB_PFDTXGSWC_VT_LBEN :: u32 where
  "IGB_PFDTXGSWC_VT_LBEN = 0x1"

definition IGB_SPOOF_MACAS_MASK :: u32 where
  "IGB_SPOOF_MACAS_MASK = 0xFF"

definition IGB_SPOOF_VLANAS_MASK :: u32 where
  "IGB_SPOOF_VLANAS_MASK = 0xFF00"

definition IGB_SPOOF_VLANAS_SHIFT :: u32 where
  "IGB_SPOOF_VLANAS_SHIFT = 8"

definition IGB_SPOOF_ETHERTYPEAS :: u32 where
  "IGB_SPOOF_ETHERTYPEAS = 0xFF000000"

definition IGB_SPOOF_ETHERTYPEAS_SHIFT :: u32 where
  "IGB_SPOOF_ETHERTYPEAS_SHIFT = 16"

definition IGB_PFVFSPOOF_REG_COUNT :: u32 where
  "IGB_PFVFSPOOF_REG_COUNT = 8"

definition IGB_DCA_TXCTRL :: "u32 \<Rightarrow> u32" where
  "IGB_DCA_TXCTRL i = 0x07200 + (i * 4)"

definition IGB_DCA_TXCTRL_82599 :: "u32 \<Rightarrow> u32" where
  "IGB_DCA_TXCTRL_82599 i = 0x0600C + (i * 0x40)"

definition IGB_TIPG :: u32 where
  "IGB_TIPG = 0x0CB00"

definition IGB_TXPBSIZE :: "u32 \<Rightarrow> u32" where
  "IGB_TXPBSIZE i = 0x0CC00 + (i * 4)"

definition IGB_MNGTXMAP :: u32 where
  "IGB_MNGTXMAP = 0x0CD10"

definition IGB_TIPG_FIBER_DEFAULT :: u32 where
  "IGB_TIPG_FIBER_DEFAULT = 3"

definition IGB_TXPBSIZE_SHIFT :: u32 where
  "IGB_TXPBSIZE_SHIFT = 10"

definition IGB_WUC :: u32 where
  "IGB_WUC = 0x05800"

definition IGB_WUFC :: u32 where
  "IGB_WUFC = 0x05808"

definition IGB_WUS :: u32 where
  "IGB_WUS = 0x05810"

definition IGB_IPAV :: u32 where
  "IGB_IPAV = 0x05838"

definition IGB_IP4AT :: u32 where
  "IGB_IP4AT = 0x05840"

definition IGB_IP6AT :: u32 where
  "IGB_IP6AT = 0x05880"

definition IGB_WUPL :: u32 where
  "IGB_WUPL = 0x05900"

definition IGB_WUPM :: u32 where
  "IGB_WUPM = 0x05A00"

definition IGB_PROXYS :: u32 where
  "IGB_PROXYS = 0x05F60"

definition IGB_PROXYFC :: u32 where
  "IGB_PROXYFC = 0x05F64"

definition IGB_VXLANCTRL :: u32 where
  "IGB_VXLANCTRL = 0x0000507C"

definition IGB_VXLANCTRL_VXLAN_UDPPORT_MASK :: u32 where
  "IGB_VXLANCTRL_VXLAN_UDPPORT_MASK = 0x0000ffff"

definition IGB_VXLANCTRL_GENEVE_UDPPORT_MASK :: u32 where
  "IGB_VXLANCTRL_GENEVE_UDPPORT_MASK = 0xffff0000"

definition IGB_VXLANCTRL_ALL_UDPPORT_MASK :: u32 where
  "IGB_VXLANCTRL_ALL_UDPPORT_MASK = 0xffffffff"

definition IGB_VXLANCTRL_GENEVE_UDPPORT_SHIFT :: u32 where
  "IGB_VXLANCTRL_GENEVE_UDPPORT_SHIFT = 16"

definition IGB_FHFT :: "u32 \<Rightarrow> u32" where
  "IGB_FHFT n = 0x09000 + (n * 0x100)"

definition IGB_FHFT_EXT :: "u32 \<Rightarrow> u32" where
  "IGB_FHFT_EXT n = 0x09800 + (n * 0x100)"

definition IGB_FHFT_EXT_X550 :: "u32 \<Rightarrow> u32" where
  "IGB_FHFT_EXT_X550 n = 0x09600 + (n * 0x100)"

definition IGB_FLEXIBLE_FILTER_COUNT_MAX :: u32 where
  "IGB_FLEXIBLE_FILTER_COUNT_MAX = 4"

definition IGB_FLEXIBLE_FILTER_COUNT_MAX_6 :: u32 where
  "IGB_FLEXIBLE_FILTER_COUNT_MAX_6 = 6"

definition IGB_FLEXIBLE_FILTER_COUNT_MAX_8 :: u32 where
  "IGB_FLEXIBLE_FILTER_COUNT_MAX_8 = 8"

definition IGB_EXT_FLEXIBLE_FILTER_COUNT_MAX :: u32 where
  "IGB_EXT_FLEXIBLE_FILTER_COUNT_MAX = 2"

definition IGB_FLEXIBLE_FILTER_SIZE_MAX :: u32 where
  "IGB_FLEXIBLE_FILTER_SIZE_MAX = 128"

definition IGB_FHFT_LENGTH_OFFSET :: u32 where
  "IGB_FHFT_LENGTH_OFFSET = 0xFC"

definition IGB_FHFT_LENGTH_MASK :: u32 where
  "IGB_FHFT_LENGTH_MASK = 0x0FF"

definition IGB_WUC_PME_EN :: u32 where
  "IGB_WUC_PME_EN = 0x00000002"

definition IGB_WUC_PME_STATUS :: u32 where
  "IGB_WUC_PME_STATUS = 0x00000004"

definition IGB_WUC_WKEN :: u32 where
  "IGB_WUC_WKEN = 0x00000010"

definition IGB_WUFC_LNKC :: u32 where
  "IGB_WUFC_LNKC = 0x00000001"

definition IGB_WUFC_MAG :: u32 where
  "IGB_WUFC_MAG = 0x00000002"

definition IGB_WUFC_EX :: u32 where
  "IGB_WUFC_EX = 0x00000004"

definition IGB_WUFC_MC :: u32 where
  "IGB_WUFC_MC = 0x00000008"

definition IGB_WUFC_BC :: u32 where
  "IGB_WUFC_BC = 0x00000010"

definition IGB_WUFC_ARP :: u32 where
  "IGB_WUFC_ARP = 0x00000020"

definition IGB_WUFC_IPV4 :: u32 where
  "IGB_WUFC_IPV4 = 0x00000040"

definition IGB_WUFC_IPV6 :: u32 where
  "IGB_WUFC_IPV6 = 0x00000080"

definition IGB_WUFC_MNG :: u32 where
  "IGB_WUFC_MNG = 0x00000100"

definition IGB_WUFC_IGNORE_TCO :: u32 where
  "IGB_WUFC_IGNORE_TCO = 0x00008000"

definition IGB_WUFC_FLX0 :: u32 where
  "IGB_WUFC_FLX0 = 0x00010000"

definition IGB_WUFC_FLX1 :: u32 where
  "IGB_WUFC_FLX1 = 0x00020000"

definition IGB_WUFC_FLX2 :: u32 where
  "IGB_WUFC_FLX2 = 0x00040000"

definition IGB_WUFC_FLX3 :: u32 where
  "IGB_WUFC_FLX3 = 0x00080000"

definition IGB_WUFC_FLX4 :: u32 where
  "IGB_WUFC_FLX4 = 0x00100000"

definition IGB_WUFC_FLX5 :: u32 where
  "IGB_WUFC_FLX5 = 0x00200000"

definition IGB_WUFC_FLX_FILTERS :: u32 where
  "IGB_WUFC_FLX_FILTERS = 0x000F0000"

definition IGB_WUFC_FLX_FILTERS_6 :: u32 where
  "IGB_WUFC_FLX_FILTERS_6 = 0x003F0000"

definition IGB_WUFC_FLX_FILTERS_8 :: u32 where
  "IGB_WUFC_FLX_FILTERS_8 = 0x00FF0000"

definition IGB_WUFC_FW_RST_WK :: u32 where
  "IGB_WUFC_FW_RST_WK = 0x80000000"

definition IGB_WUFC_EXT_FLX_FILTERS :: u32 where
  "IGB_WUFC_EXT_FLX_FILTERS = 0x00300000"

definition IGB_WUFC_ALL_FILTERS :: u32 where
  "IGB_WUFC_ALL_FILTERS = 0x000F00FF"

definition IGB_WUFC_ALL_FILTERS_6 :: u32 where
  "IGB_WUFC_ALL_FILTERS_6 = 0x003F00FF"

definition IGB_WUFC_ALL_FILTERS_8 :: u32 where
  "IGB_WUFC_ALL_FILTERS_8 = 0x00FF00FF"

definition IGB_WUFC_FLX_OFFSET :: u32 where
  "IGB_WUFC_FLX_OFFSET = 16"

definition IGB_WUS_LNKC :: u32 where
  "IGB_WUS_LNKC = IGB_WUFC_LNKC"

definition IGB_WUS_MAG :: u32 where
  "IGB_WUS_MAG = IGB_WUFC_MAG"

definition IGB_WUS_EX :: u32 where
  "IGB_WUS_EX = IGB_WUFC_EX"

definition IGB_WUS_MC :: u32 where
  "IGB_WUS_MC = IGB_WUFC_MC"

definition IGB_WUS_BC :: u32 where
  "IGB_WUS_BC = IGB_WUFC_BC"

definition IGB_WUS_ARP :: u32 where
  "IGB_WUS_ARP = IGB_WUFC_ARP"

definition IGB_WUS_IPV4 :: u32 where
  "IGB_WUS_IPV4 = IGB_WUFC_IPV4"

definition IGB_WUS_IPV6 :: u32 where
  "IGB_WUS_IPV6 = IGB_WUFC_IPV6"

definition IGB_WUS_MNG :: u32 where
  "IGB_WUS_MNG = IGB_WUFC_MNG"

definition IGB_WUS_FLX0 :: u32 where
  "IGB_WUS_FLX0 = IGB_WUFC_FLX0"

definition IGB_WUS_FLX1 :: u32 where
  "IGB_WUS_FLX1 = IGB_WUFC_FLX1"

definition IGB_WUS_FLX2 :: u32 where
  "IGB_WUS_FLX2 = IGB_WUFC_FLX2"

definition IGB_WUS_FLX3 :: u32 where
  "IGB_WUS_FLX3 = IGB_WUFC_FLX3"

definition IGB_WUS_FLX4 :: u32 where
  "IGB_WUS_FLX4 = IGB_WUFC_FLX4"

definition IGB_WUS_FLX5 :: u32 where
  "IGB_WUS_FLX5 = IGB_WUFC_FLX5"

definition IGB_WUS_FLX_FILTERS :: u32 where
  "IGB_WUS_FLX_FILTERS = IGB_WUFC_FLX_FILTERS"

definition IGB_WUS_FW_RST_WK :: u32 where
  "IGB_WUS_FW_RST_WK = IGB_WUFC_FW_RST_WK"

definition IGB_PROXYS_EX :: u32 where
  "IGB_PROXYS_EX = 0x00000004"

definition IGB_PROXYS_ARP_DIR :: u32 where
  "IGB_PROXYS_ARP_DIR = 0x00000020"

definition IGB_PROXYS_NS :: u32 where
  "IGB_PROXYS_NS = 0x00000200"

definition IGB_PROXYS_NS_DIR :: u32 where
  "IGB_PROXYS_NS_DIR = 0x00000400"

definition IGB_PROXYS_ARP :: u32 where
  "IGB_PROXYS_ARP = 0x00000800"

definition IGB_PROXYS_MLD :: u32 where
  "IGB_PROXYS_MLD = 0x00001000"

definition IGB_PROXYFC_ENABLE :: u32 where
  "IGB_PROXYFC_ENABLE = 0x00000001"

definition IGB_PROXYFC_EX :: u32 where
  "IGB_PROXYFC_EX = 0x00000004"

definition IGB_PROXYFC_ARP_DIR :: u32 where
  "IGB_PROXYFC_ARP_DIR = 0x00000020"

definition IGB_PROXYFC_NS :: u32 where
  "IGB_PROXYFC_NS = 0x00000200"

definition IGB_PROXYFC_ARP :: u32 where
  "IGB_PROXYFC_ARP = 0x00000800"

definition IGB_PROXYFC_MLD :: u32 where
  "IGB_PROXYFC_MLD = 0x00000800"

definition IGB_PROXYFC_NO_TCO :: u32 where
  "IGB_PROXYFC_NO_TCO = 0x00008000"

definition IGB_WUPL_LENGTH_MASK :: u32 where
  "IGB_WUPL_LENGTH_MASK = 0xFFFF"

definition IGB_DCB_MAX_TRAFFIC_CLASS :: u32 where
  "IGB_DCB_MAX_TRAFFIC_CLASS = 8"

definition IGB_RMCS :: u32 where
  "IGB_RMCS = 0x03D00"

definition IGB_DPMCS :: u32 where
  "IGB_DPMCS = 0x07F40"

text \<open>The registers and bits the driver itself uses.\<close>

lemmas Regs_Tx_used [register_defs] =
  IGB_TDBAL_def IGB_TDBAH_def IGB_TDLEN_def
  IGB_TDH_def IGB_TDT_def IGB_TXDCTL_def
  IGB_DMATXCTL_def IGB_DMATXCTL_TE_def

end
