(* ===== verification/Regs_Power.thy ===== *)
theory Regs_Power
  imports Regs_Tx
begin

text \<open>
  Register addresses of \<open>src/constants.rs\<close>, fourth part: DCB, DMA coalescing, energy
  efficient Ethernet, MACsec and IPsec.
\<close>

definition IGB_PDPMCS :: u32 where
  "IGB_PDPMCS = 0x0CD00"

definition IGB_RUPPBMR :: u32 where
  "IGB_RUPPBMR = 0x050A0"

definition IGB_RT2CR :: "u32 \<Rightarrow> u32" where
  "IGB_RT2CR i = 0x03C20 + (i * 4)"

definition IGB_RT2SR :: "u32 \<Rightarrow> u32" where
  "IGB_RT2SR i = 0x03C40 + (i * 4)"

definition IGB_TDTQ2TCCR :: "u32 \<Rightarrow> u32" where
  "IGB_TDTQ2TCCR i = 0x0602C + (i * 0x40)"

definition IGB_TDTQ2TCSR :: "u32 \<Rightarrow> u32" where
  "IGB_TDTQ2TCSR i = 0x0622C + (i * 0x40)"

definition IGB_TDPT2TCCR :: "u32 \<Rightarrow> u32" where
  "IGB_TDPT2TCCR i = 0x0CD20 + (i * 4)"

definition IGB_TDPT2TCSR :: "u32 \<Rightarrow> u32" where
  "IGB_TDPT2TCSR i = 0x0CD40 + (i * 4)"

definition IGB_DMACRXT_10G :: u32 where
  "IGB_DMACRXT_10G = 0x55"

definition IGB_DMACRXT_1G :: u32 where
  "IGB_DMACRXT_1G = 0x09"

definition IGB_DMACRXT_100M :: u32 where
  "IGB_DMACRXT_100M = 0x01"

definition IGB_DMCMNGTH :: u32 where
  "IGB_DMCMNGTH = 0x15F20"

definition IGB_DMACR :: u32 where
  "IGB_DMACR = 0x02400"

definition IGB_DMCTH :: "u32 \<Rightarrow> u32" where
  "IGB_DMCTH i = 0x03300 + (i * 4)"

definition IGB_DMCTLX :: u32 where
  "IGB_DMCTLX = 0x02404"

definition IGB_DMCMNGTH_DMCMNGTH_MASK :: u32 where
  "IGB_DMCMNGTH_DMCMNGTH_MASK = 0x000FFFF0"

definition IGB_DMCMNGTH_DMCMNGTH_SHIFT :: u32 where
  "IGB_DMCMNGTH_DMCMNGTH_SHIFT = 4"

definition IGB_DMACR_DMACWT_MASK :: u32 where
  "IGB_DMACR_DMACWT_MASK = 0x0000FFFF"

definition IGB_DMACR_HIGH_PRI_TC_MASK :: u32 where
  "IGB_DMACR_HIGH_PRI_TC_MASK = 0x00FF0000"

definition IGB_DMACR_HIGH_PRI_TC_SHIFT :: u32 where
  "IGB_DMACR_HIGH_PRI_TC_SHIFT = 16"

definition IGB_DMACR_EN_MNG_IND :: u32 where
  "IGB_DMACR_EN_MNG_IND = 0x10000000"

definition IGB_DMACR_LX_COAL_IND :: u32 where
  "IGB_DMACR_LX_COAL_IND = 0x40000000"

definition IGB_DMACR_DMAC_EN :: u32 where
  "IGB_DMACR_DMAC_EN = 0x80000000"

definition IGB_DMCTH_DMACRXT_MASK :: u32 where
  "IGB_DMCTH_DMACRXT_MASK = 0x000001FF"

definition IGB_DMCTLX_TTLX_MASK :: u32 where
  "IGB_DMCTLX_TTLX_MASK = 0x00000FFF"

definition IGB_EEER :: u32 where
  "IGB_EEER = 0x043A0"

definition IGB_EEE_STAT :: u32 where
  "IGB_EEE_STAT = 0x04398"

definition IGB_EEE_SU :: u32 where
  "IGB_EEE_SU = 0x04380"

definition IGB_EEE_SU_TEEE_DLY_SHIFT :: u32 where
  "IGB_EEE_SU_TEEE_DLY_SHIFT = 26"

definition IGB_TLPIC :: u32 where
  "IGB_TLPIC = 0x041F4"

definition IGB_RLPIC :: u32 where
  "IGB_RLPIC = 0x041F8"

definition IGB_EEER_TX_LPI_EN :: u32 where
  "IGB_EEER_TX_LPI_EN = 0x00010000"

definition IGB_EEER_RX_LPI_EN :: u32 where
  "IGB_EEER_RX_LPI_EN = 0x00020000"

definition IGB_EEE_STAT_NEG :: u32 where
  "IGB_EEE_STAT_NEG = 0x20000000"

definition IGB_EEE_RX_LPI_STATUS :: u32 where
  "IGB_EEE_RX_LPI_STATUS = 0x40000000"

definition IGB_EEE_TX_LPI_STATUS :: u32 where
  "IGB_EEE_TX_LPI_STATUS = 0x80000000"

definition IGB_SECTXCTRL :: u32 where
  "IGB_SECTXCTRL = 0x08800"

definition IGB_SECTXSTAT :: u32 where
  "IGB_SECTXSTAT = 0x08804"

definition IGB_SECTXBUFFAF :: u32 where
  "IGB_SECTXBUFFAF = 0x08808"

definition IGB_SECTXMINIFG :: u32 where
  "IGB_SECTXMINIFG = 0x08810"

definition IGB_SECRXCTRL :: u32 where
  "IGB_SECRXCTRL = 0x08D00"

definition IGB_SECRXSTAT :: u32 where
  "IGB_SECRXSTAT = 0x08D04"

definition IGB_SECTXCTRL_SECTX_DIS :: u32 where
  "IGB_SECTXCTRL_SECTX_DIS = 0x00000001"

definition IGB_SECTXCTRL_TX_DIS :: u32 where
  "IGB_SECTXCTRL_TX_DIS = 0x00000002"

definition IGB_SECTXCTRL_STORE_FORWARD :: u32 where
  "IGB_SECTXCTRL_STORE_FORWARD = 0x00000004"

definition IGB_SECTXSTAT_SECTX_RDY :: u32 where
  "IGB_SECTXSTAT_SECTX_RDY = 0x00000001"

definition IGB_SECTXSTAT_ECC_TXERR :: u32 where
  "IGB_SECTXSTAT_ECC_TXERR = 0x00000002"

definition IGB_SECRXCTRL_SECRX_DIS :: u32 where
  "IGB_SECRXCTRL_SECRX_DIS = 0x00000001"

definition IGB_SECRXCTRL_RX_DIS :: u32 where
  "IGB_SECRXCTRL_RX_DIS = 0x00000002"

definition IGB_SECRXSTAT_SECRX_RDY :: u32 where
  "IGB_SECRXSTAT_SECRX_RDY = 0x00000001"

definition IGB_SECRXSTAT_ECC_RXERR :: u32 where
  "IGB_SECRXSTAT_ECC_RXERR = 0x00000002"

definition IGB_LSECTXCAP :: u32 where
  "IGB_LSECTXCAP = 0x08A00"

definition IGB_LSECRXCAP :: u32 where
  "IGB_LSECRXCAP = 0x08F00"

definition IGB_LSECTXCTRL :: u32 where
  "IGB_LSECTXCTRL = 0x08A04"

definition IGB_LSECTXSCL :: u32 where
  "IGB_LSECTXSCL = 0x08A08"

definition IGB_LSECTXSCH :: u32 where
  "IGB_LSECTXSCH = 0x08A0C"

definition IGB_LSECTXSA :: u32 where
  "IGB_LSECTXSA = 0x08A10"

definition IGB_LSECTXPN0 :: u32 where
  "IGB_LSECTXPN0 = 0x08A14"

definition IGB_LSECTXPN1 :: u32 where
  "IGB_LSECTXPN1 = 0x08A18"

definition IGB_LSECTXKEY0 :: "u32 \<Rightarrow> u32" where
  "IGB_LSECTXKEY0 n = 0x08A1C + (4 * n)"

definition IGB_LSECTXKEY1 :: "u32 \<Rightarrow> u32" where
  "IGB_LSECTXKEY1 n = 0x08A2C + (4 * n)"

definition IGB_LSECRXCTRL :: u32 where
  "IGB_LSECRXCTRL = 0x08F04"

definition IGB_LSECRXSCL :: u32 where
  "IGB_LSECRXSCL = 0x08F08"

definition IGB_LSECRXSCH :: u32 where
  "IGB_LSECRXSCH = 0x08F0C"

definition IGB_LSECRXSA :: "u32 \<Rightarrow> u32" where
  "IGB_LSECRXSA i = 0x08F10 + (4 * i)"

definition IGB_LSECRXPN :: "u32 \<Rightarrow> u32" where
  "IGB_LSECRXPN i = 0x08F18 + (4 * i)"

definition IGB_LSECRXKEY :: "u32 \<Rightarrow> u32 \<Rightarrow> u32" where
  "IGB_LSECRXKEY n m = 0x08F20 + ((0x10 * n) + (4 * m))"

definition IGB_LSECTXUT :: u32 where
  "IGB_LSECTXUT = 0x08A3C"

definition IGB_LSECTXPKTE :: u32 where
  "IGB_LSECTXPKTE = 0x08A40"

definition IGB_LSECTXPKTP :: u32 where
  "IGB_LSECTXPKTP = 0x08A44"

definition IGB_LSECTXOCTE :: u32 where
  "IGB_LSECTXOCTE = 0x08A48"

definition IGB_LSECTXOCTP :: u32 where
  "IGB_LSECTXOCTP = 0x08A4C"

definition IGB_LSECRXUT :: u32 where
  "IGB_LSECRXUT = 0x08F40"

definition IGB_LSECRXOCTD :: u32 where
  "IGB_LSECRXOCTD = 0x08F44"

definition IGB_LSECRXOCTV :: u32 where
  "IGB_LSECRXOCTV = 0x08F48"

definition IGB_LSECRXBAD :: u32 where
  "IGB_LSECRXBAD = 0x08F4C"

definition IGB_LSECRXNOSCI :: u32 where
  "IGB_LSECRXNOSCI = 0x08F50"

definition IGB_LSECRXUNSCI :: u32 where
  "IGB_LSECRXUNSCI = 0x08F54"

definition IGB_LSECRXUNCH :: u32 where
  "IGB_LSECRXUNCH = 0x08F58"

definition IGB_LSECRXDELAY :: u32 where
  "IGB_LSECRXDELAY = 0x08F5C"

definition IGB_LSECRXLATE :: u32 where
  "IGB_LSECRXLATE = 0x08F60"

definition IGB_LSECRXOK :: "u32 \<Rightarrow> u32" where
  "IGB_LSECRXOK n = 0x08F64 + (0x04 * n)"

definition IGB_LSECRXINV :: "u32 \<Rightarrow> u32" where
  "IGB_LSECRXINV n = 0x08F6C + (0x04 * n)"

definition IGB_LSECRXNV :: "u32 \<Rightarrow> u32" where
  "IGB_LSECRXNV n = 0x08F74 + (0x04 * n)"

definition IGB_LSECRXUNSA :: u32 where
  "IGB_LSECRXUNSA = 0x08F7C"

definition IGB_LSECRXNUSA :: u32 where
  "IGB_LSECRXNUSA = 0x08F80"

definition IGB_LSECTXCAP_SUM_MASK :: u32 where
  "IGB_LSECTXCAP_SUM_MASK = 0x00FF0000"

definition IGB_LSECTXCAP_SUM_SHIFT :: u32 where
  "IGB_LSECTXCAP_SUM_SHIFT = 16"

definition IGB_LSECRXCAP_SUM_MASK :: u32 where
  "IGB_LSECRXCAP_SUM_MASK = 0x00FF0000"

definition IGB_LSECRXCAP_SUM_SHIFT :: u32 where
  "IGB_LSECRXCAP_SUM_SHIFT = 16"

definition IGB_LSECTXCTRL_EN_MASK :: u32 where
  "IGB_LSECTXCTRL_EN_MASK = 0x00000003"

definition IGB_LSECTXCTRL_DISABLE :: u32 where
  "IGB_LSECTXCTRL_DISABLE = 0x0"

definition IGB_LSECTXCTRL_AUTH :: u32 where
  "IGB_LSECTXCTRL_AUTH = 0x1"

definition IGB_LSECTXCTRL_AUTH_ENCRYPT :: u32 where
  "IGB_LSECTXCTRL_AUTH_ENCRYPT = 0x2"

definition IGB_LSECTXCTRL_AISCI :: u32 where
  "IGB_LSECTXCTRL_AISCI = 0x00000020"

definition IGB_LSECTXCTRL_PNTHRSH_MASK :: u32 where
  "IGB_LSECTXCTRL_PNTHRSH_MASK = 0xFFFFFF00"

definition IGB_LSECTXCTRL_RSV_MASK :: u32 where
  "IGB_LSECTXCTRL_RSV_MASK = 0x000000D8"

definition IGB_LSECRXCTRL_EN_MASK :: u32 where
  "IGB_LSECRXCTRL_EN_MASK = 0x0000000C"

definition IGB_LSECRXCTRL_EN_SHIFT :: u32 where
  "IGB_LSECRXCTRL_EN_SHIFT = 2"

definition IGB_LSECRXCTRL_DISABLE :: u32 where
  "IGB_LSECRXCTRL_DISABLE = 0x0"

definition IGB_LSECRXCTRL_CHECK :: u32 where
  "IGB_LSECRXCTRL_CHECK = 0x1"

definition IGB_LSECRXCTRL_STRICT :: u32 where
  "IGB_LSECRXCTRL_STRICT = 0x2"

definition IGB_LSECRXCTRL_DROP :: u32 where
  "IGB_LSECRXCTRL_DROP = 0x3"

definition IGB_LSECRXCTRL_PLSH :: u32 where
  "IGB_LSECRXCTRL_PLSH = 0x00000040"

definition IGB_LSECRXCTRL_RP :: u32 where
  "IGB_LSECRXCTRL_RP = 0x00000080"

definition IGB_LSECRXCTRL_RSV_MASK :: u32 where
  "IGB_LSECRXCTRL_RSV_MASK = 0xFFFFFF33"

definition IGB_IPSTXIDX :: u32 where
  "IGB_IPSTXIDX = 0x08900"

definition IGB_IPSTXSALT :: u32 where
  "IGB_IPSTXSALT = 0x08904"

definition IGB_IPSTXKEY :: "u32 \<Rightarrow> u32" where
  "IGB_IPSTXKEY i = 0x08908 + (4 * i)"

definition IGB_IPSRXIDX :: u32 where
  "IGB_IPSRXIDX = 0x08E00"

definition IGB_IPSRXIPADDR :: "u32 \<Rightarrow> u32" where
  "IGB_IPSRXIPADDR i = 0x08E04 + (4 * i)"

definition IGB_IPSRXSPI :: u32 where
  "IGB_IPSRXSPI = 0x08E14"

definition IGB_IPSRXIPIDX :: u32 where
  "IGB_IPSRXIPIDX = 0x08E18"

definition IGB_IPSRXKEY :: "u32 \<Rightarrow> u32" where
  "IGB_IPSRXKEY i = 0x08E1C + (4 * i)"

definition IGB_IPSRXSALT :: u32 where
  "IGB_IPSRXSALT = 0x08E2C"

definition IGB_IPSRXMOD :: u32 where
  "IGB_IPSRXMOD = 0x08E30"

definition IGB_SECTXCTRL_STORE_FORWARD_ENABLE :: u32 where
  "IGB_SECTXCTRL_STORE_FORWARD_ENABLE = 0x4"

definition IGB_RTRPCS :: u32 where
  "IGB_RTRPCS = 0x02430"

definition IGB_RTTDCS :: u32 where
  "IGB_RTTDCS = 0x04900"

definition IGB_RTTDCS_ARBDIS :: u32 where
  "IGB_RTTDCS_ARBDIS = 0x00000040"

definition IGB_RTTPCS :: u32 where
  "IGB_RTTPCS = 0x0CD00"

definition IGB_RTRUP2TC :: u32 where
  "IGB_RTRUP2TC = 0x03020"

definition IGB_RTTUP2TC :: u32 where
  "IGB_RTTUP2TC = 0x0C800"

definition IGB_RTRPT4C :: "u32 \<Rightarrow> u32" where
  "IGB_RTRPT4C i = 0x02140 + (i * 4)"

definition IGB_TXLLQ :: "u32 \<Rightarrow> u32" where
  "IGB_TXLLQ i = 0x082E0 + (i * 4)"

definition IGB_RTRPT4S :: "u32 \<Rightarrow> u32" where
  "IGB_RTRPT4S i = 0x02160 + (i * 4)"

definition IGB_RTTDT2C :: "u32 \<Rightarrow> u32" where
  "IGB_RTTDT2C i = 0x04910 + (i * 4)"

definition IGB_RTTDT2S :: "u32 \<Rightarrow> u32" where
  "IGB_RTTDT2S i = 0x04930 + (i * 4)"

definition IGB_RTTPT2C :: "u32 \<Rightarrow> u32" where
  "IGB_RTTPT2C i = 0x0CD20 + (i * 4)"

definition IGB_RTTPT2S :: "u32 \<Rightarrow> u32" where
  "IGB_RTTPT2S i = 0x0CD40 + (i * 4)"

definition IGB_RTTDQSEL :: u32 where
  "IGB_RTTDQSEL = 0x04904"

definition IGB_RTTDT1C :: u32 where
  "IGB_RTTDT1C = 0x04908"

definition IGB_RTTDT1S :: u32 where
  "IGB_RTTDT1S = 0x0490C"

definition IGB_RTTDTECC :: u32 where
  "IGB_RTTDTECC = 0x04990"

definition IGB_RTTDTECC_NO_BCN :: u32 where
  "IGB_RTTDTECC_NO_BCN = 0x00000100"

definition IGB_RTTBCNRC :: u32 where
  "IGB_RTTBCNRC = 0x04984"

definition IGB_RTTBCNRC_RS_ENA :: u32 where
  "IGB_RTTBCNRC_RS_ENA = 0x80000000"

definition IGB_RTTBCNRC_RF_DEC_MASK :: u32 where
  "IGB_RTTBCNRC_RF_DEC_MASK = 0x00003FFF"

definition IGB_RTTBCNRC_RF_INT_SHIFT :: u32 where
  "IGB_RTTBCNRC_RF_INT_SHIFT = 14"

definition IGB_RTTBCNRC_RF_INT_MASK :: u32 where
  "IGB_RTTBCNRC_RF_INT_MASK = push_bit (unat IGB_RTTBCNRC_RF_INT_SHIFT) IGB_RTTBCNRC_RF_DEC_MASK"

definition IGB_RTTBCNRM :: u32 where
  "IGB_RTTBCNRM = 0x04980"

end
