(* ===== verification/Regs_Stats.thy ===== *)
theory Regs_Stats
  imports Regs_Power
begin

text \<open>
  Register addresses of \<open>src/constants.rs\<close>, fifth part: FCoE, the statistics counters and
  the management registers.
\<close>

definition IGB_RTTBCNRS :: u32 where
  "IGB_RTTBCNRS = 0x04988"

definition IGB_RTTBCNCR :: u32 where
  "IGB_RTTBCNCR = 0x08B00"

definition IGB_RTTBCNACH :: u32 where
  "IGB_RTTBCNACH = 0x08B04"

definition IGB_RTTBCNACL :: u32 where
  "IGB_RTTBCNACL = 0x08B08"

definition IGB_RTTBCNTG :: u32 where
  "IGB_RTTBCNTG = 0x04A90"

definition IGB_RTTBCNIDX :: u32 where
  "IGB_RTTBCNIDX = 0x08B0C"

definition IGB_RTTBCNCP :: u32 where
  "IGB_RTTBCNCP = 0x08B10"

definition IGB_RTFRTIMER :: u32 where
  "IGB_RTFRTIMER = 0x08B14"

definition IGB_RTTBCNRTT :: u32 where
  "IGB_RTTBCNRTT = 0x05150"

definition IGB_RTTBCNRD :: u32 where
  "IGB_RTTBCNRD = 0x0498C"

definition IGB_FCDDC :: "u32 \<Rightarrow> u32 \<Rightarrow> u32" where
  "IGB_FCDDC i j = (0x20000 + (i * 0x4)) + (j * 0x10)"

definition IGB_FCPTRL :: u32 where
  "IGB_FCPTRL = 0x02410"

definition IGB_FCPTRH :: u32 where
  "IGB_FCPTRH = 0x02414"

definition IGB_FCBUFF :: u32 where
  "IGB_FCBUFF = 0x02418"

definition IGB_FCDMARW :: u32 where
  "IGB_FCDMARW = 0x02420"

definition IGB_FCBUFF_VALID :: u32 where
  "IGB_FCBUFF_VALID = push_bit 0 (1 :: u32)"

definition IGB_FCBUFF_BUFFSIZE :: u32 where
  "IGB_FCBUFF_BUFFSIZE = push_bit 3 (3 :: u32)"

definition IGB_FCBUFF_WRCONTX :: u32 where
  "IGB_FCBUFF_WRCONTX = push_bit 7 (1 :: u32)"

definition IGB_FCBUFF_BUFFCNT :: u32 where
  "IGB_FCBUFF_BUFFCNT = 0x0000ff00"

definition IGB_FCBUFF_OFFSET :: u32 where
  "IGB_FCBUFF_OFFSET = 0xffff0000"

definition IGB_FCBUFF_BUFFSIZE_SHIFT :: u32 where
  "IGB_FCBUFF_BUFFSIZE_SHIFT = 3"

definition IGB_FCBUFF_BUFFCNT_SHIFT :: u32 where
  "IGB_FCBUFF_BUFFCNT_SHIFT = 8"

definition IGB_FCBUFF_OFFSET_SHIFT :: u32 where
  "IGB_FCBUFF_OFFSET_SHIFT = 16"

definition IGB_FCDMARW_WE :: u32 where
  "IGB_FCDMARW_WE = push_bit 14 (1 :: u32)"

definition IGB_FCDMARW_RE :: u32 where
  "IGB_FCDMARW_RE = push_bit 15 (1 :: u32)"

definition IGB_FCDMARW_FCOESEL :: u32 where
  "IGB_FCDMARW_FCOESEL = 0x000001ff"

definition IGB_FCDMARW_LASTSIZE :: u32 where
  "IGB_FCDMARW_LASTSIZE = 0xffff0000"

definition IGB_FCDMARW_LASTSIZE_SHIFT :: u32 where
  "IGB_FCDMARW_LASTSIZE_SHIFT = 16"

definition IGB_TEOFF :: u32 where
  "IGB_TEOFF = 0x04A94"

definition IGB_TSOFF :: u32 where
  "IGB_TSOFF = 0x04A98"

definition IGB_REOFF :: u32 where
  "IGB_REOFF = 0x05158"

definition IGB_RSOFF :: u32 where
  "IGB_RSOFF = 0x051F8"

definition IGB_FCD_ID :: u32 where
  "IGB_FCD_ID = 0x05114"

definition IGB_FCSMAC :: u32 where
  "IGB_FCSMAC = 0x0510C"

definition IGB_FCFLTRW_SMAC_HIGH_SHIFT :: u32 where
  "IGB_FCFLTRW_SMAC_HIGH_SHIFT = 16"

definition IGB_FCDFC :: "u32 \<Rightarrow> u32 \<Rightarrow> u32" where
  "IGB_FCDFC i j = (0x28000 + (i * 0x4)) + (j * 0x10)"

definition IGB_FCDFCD :: "u32 \<Rightarrow> u32" where
  "IGB_FCDFCD i = 0x30000 + (i * 0x4)"

definition IGB_FCFLT :: u32 where
  "IGB_FCFLT = 0x05108"

definition IGB_FCFLTRW :: u32 where
  "IGB_FCFLTRW = 0x05110"

definition IGB_FCPARAM :: u32 where
  "IGB_FCPARAM = 0x051d8"

definition IGB_FCFLT_VALID :: u32 where
  "IGB_FCFLT_VALID = push_bit 0 (1 :: u32)"

definition IGB_FCFLT_FIRST :: u32 where
  "IGB_FCFLT_FIRST = push_bit 1 (1 :: u32)"

definition IGB_FCFLT_SEQID :: u32 where
  "IGB_FCFLT_SEQID = 0x00ff0000"

definition IGB_FCFLT_SEQCNT :: u32 where
  "IGB_FCFLT_SEQCNT = 0xff000000"

definition IGB_FCFLTRW_RVALDT :: u32 where
  "IGB_FCFLTRW_RVALDT = push_bit 13 (1 :: u32)"

definition IGB_FCFLTRW_WE :: u32 where
  "IGB_FCFLTRW_WE = push_bit 14 (1 :: u32)"

definition IGB_FCFLTRW_RE :: u32 where
  "IGB_FCFLTRW_RE = push_bit 15 (1 :: u32)"

definition IGB_FCRXCTRL :: u32 where
  "IGB_FCRXCTRL = 0x05100"

definition IGB_FCRXCTRL_FCOELLI :: u32 where
  "IGB_FCRXCTRL_FCOELLI = push_bit 0 (1 :: u32)"

definition IGB_FCRXCTRL_SAVBAD :: u32 where
  "IGB_FCRXCTRL_SAVBAD = push_bit 1 (1 :: u32)"

definition IGB_FCRXCTRL_FRSTRDH :: u32 where
  "IGB_FCRXCTRL_FRSTRDH = push_bit 2 (1 :: u32)"

definition IGB_FCRXCTRL_LASTSEQH :: u32 where
  "IGB_FCRXCTRL_LASTSEQH = push_bit 3 (1 :: u32)"

definition IGB_FCRXCTRL_ALLH :: u32 where
  "IGB_FCRXCTRL_ALLH = push_bit 4 (1 :: u32)"

definition IGB_FCRXCTRL_FRSTSEQH :: u32 where
  "IGB_FCRXCTRL_FRSTSEQH = push_bit 5 (1 :: u32)"

definition IGB_FCRXCTRL_ICRC :: u32 where
  "IGB_FCRXCTRL_ICRC = push_bit 6 (1 :: u32)"

definition IGB_FCRXCTRL_FCCRCBO :: u32 where
  "IGB_FCRXCTRL_FCCRCBO = push_bit 7 (1 :: u32)"

definition IGB_FCRXCTRL_FCOEVER :: u32 where
  "IGB_FCRXCTRL_FCOEVER = 0x00000f00"

definition IGB_FCRXCTRL_FCOEVER_SHIFT :: u32 where
  "IGB_FCRXCTRL_FCOEVER_SHIFT = 8"

definition IGB_FCRECTL :: u32 where
  "IGB_FCRECTL = 0x0ED00"

definition IGB_FCRETA0 :: u32 where
  "IGB_FCRETA0 = 0x0ED10"

definition IGB_FCRETA :: "u32 \<Rightarrow> u32" where
  "IGB_FCRETA i = IGB_FCRETA0 + (i * 4)"

definition IGB_FCRECTL_ENA :: u32 where
  "IGB_FCRECTL_ENA = 0x1"

definition IGB_FCRETASEL_ENA :: u32 where
  "IGB_FCRETASEL_ENA = 0x2"

definition IGB_FCRETA_SIZE :: u32 where
  "IGB_FCRETA_SIZE = 8"

definition IGB_FCRETA_ENTRY_MASK :: u32 where
  "IGB_FCRETA_ENTRY_MASK = 0x0000007f"

definition IGB_FCRETA_SIZE_X550 :: u32 where
  "IGB_FCRETA_SIZE_X550 = 32"

definition IGB_FCRETA_ENTRY_HIGH_MASK :: u32 where
  "IGB_FCRETA_ENTRY_HIGH_MASK = 0x007F0000"

definition IGB_FCRETA_ENTRY_HIGH_SHIFT :: u32 where
  "IGB_FCRETA_ENTRY_HIGH_SHIFT = 16"

definition IGB_CRCERRS :: u32 where
  "IGB_CRCERRS = 0x04000"

definition IGB_ILLERRC :: u32 where
  "IGB_ILLERRC = 0x04004"

definition IGB_ERRBC :: u32 where
  "IGB_ERRBC = 0x04008"

definition IGB_MSPDC :: u32 where
  "IGB_MSPDC = 0x04010"

definition IGB_MPC :: "u32 \<Rightarrow> u32" where
  "IGB_MPC i = 0x03FA0 + (i * 4)"

definition IGB_MLFC :: u32 where
  "IGB_MLFC = 0x04034"

definition IGB_MRFC :: u32 where
  "IGB_MRFC = 0x04038"

definition IGB_RLEC :: u32 where
  "IGB_RLEC = 0x04040"

definition IGB_LXONTXC :: u32 where
  "IGB_LXONTXC = 0x03F60"

definition IGB_LXONRXC :: u32 where
  "IGB_LXONRXC = 0x0CF60"

definition IGB_LXOFFTXC :: u32 where
  "IGB_LXOFFTXC = 0x03F68"

definition IGB_LXOFFRXC :: u32 where
  "IGB_LXOFFRXC = 0x0CF68"

definition IGB_LXONRXCNT :: u32 where
  "IGB_LXONRXCNT = 0x041A4"

definition IGB_LXOFFRXCNT :: u32 where
  "IGB_LXOFFRXCNT = 0x041A8"

definition IGB_PXONRXCNT :: "u32 \<Rightarrow> u32" where
  "IGB_PXONRXCNT i = 0x04140 + (i * 4)"

definition IGB_PXOFFRXCNT :: "u32 \<Rightarrow> u32" where
  "IGB_PXOFFRXCNT i = 0x04160 + (i * 4)"

definition IGB_PXON2OFFCNT :: "u32 \<Rightarrow> u32" where
  "IGB_PXON2OFFCNT i = 0x03240 + (i * 4)"

definition IGB_PXONTXC :: "u32 \<Rightarrow> u32" where
  "IGB_PXONTXC i = 0x03F00 + (i * 4)"

definition IGB_PXONRXC :: "u32 \<Rightarrow> u32" where
  "IGB_PXONRXC i = 0x0CF00 + (i * 4)"

definition IGB_PXOFFTXC :: "u32 \<Rightarrow> u32" where
  "IGB_PXOFFTXC i = 0x03F20 + (i * 4)"

definition IGB_PXOFFRXC :: "u32 \<Rightarrow> u32" where
  "IGB_PXOFFRXC i = 0x0CF20 + (i * 4)"

definition IGB_PRC64 :: u32 where
  "IGB_PRC64 = 0x0405C"

definition IGB_PRC127 :: u32 where
  "IGB_PRC127 = 0x04060"

definition IGB_PRC255 :: u32 where
  "IGB_PRC255 = 0x04064"

definition IGB_PRC511 :: u32 where
  "IGB_PRC511 = 0x04068"

definition IGB_PRC1023 :: u32 where
  "IGB_PRC1023 = 0x0406C"

definition IGB_PRC1522 :: u32 where
  "IGB_PRC1522 = 0x04070"

definition IGB_GPRC :: u32 where
  "IGB_GPRC = 0x04074"

definition IGB_BPRC :: u32 where
  "IGB_BPRC = 0x04078"

definition IGB_MPRC :: u32 where
  "IGB_MPRC = 0x0407C"

definition IGB_GPTC :: u32 where
  "IGB_GPTC = 0x04080"

definition IGB_GORCL :: u32 where
  "IGB_GORCL = 0x04088"

definition IGB_GORCH :: u32 where
  "IGB_GORCH = 0x0408C"

definition IGB_GOTCL :: u32 where
  "IGB_GOTCL = 0x04090"

definition IGB_GOTCH :: u32 where
  "IGB_GOTCH = 0x04094"

definition IGB_RNBC :: "u32 \<Rightarrow> u32" where
  "IGB_RNBC i = 0x03FC0 + (i * 4)"

definition IGB_RUC :: u32 where
  "IGB_RUC = 0x040A4"

definition IGB_RFC :: u32 where
  "IGB_RFC = 0x040A8"

definition IGB_ROC :: u32 where
  "IGB_ROC = 0x040AC"

definition IGB_RJC :: u32 where
  "IGB_RJC = 0x040B0"

definition IGB_MNGPRC :: u32 where
  "IGB_MNGPRC = 0x040B4"

definition IGB_MNGPDC :: u32 where
  "IGB_MNGPDC = 0x040B8"

definition IGB_MNGPTC :: u32 where
  "IGB_MNGPTC = 0x0CF90"

definition IGB_TORL :: u32 where
  "IGB_TORL = 0x040C0"

definition IGB_TORH :: u32 where
  "IGB_TORH = 0x040C4"

definition IGB_TPR :: u32 where
  "IGB_TPR = 0x040D0"

definition IGB_TPT :: u32 where
  "IGB_TPT = 0x040D4"

definition IGB_PTC64 :: u32 where
  "IGB_PTC64 = 0x040D8"

definition IGB_PTC127 :: u32 where
  "IGB_PTC127 = 0x040DC"

definition IGB_PTC255 :: u32 where
  "IGB_PTC255 = 0x040E0"

definition IGB_PTC511 :: u32 where
  "IGB_PTC511 = 0x040E4"

definition IGB_PTC1023 :: u32 where
  "IGB_PTC1023 = 0x040E8"

definition IGB_PTC1522 :: u32 where
  "IGB_PTC1522 = 0x040EC"

definition IGB_MPTC :: u32 where
  "IGB_MPTC = 0x040F0"

definition IGB_BPTC :: u32 where
  "IGB_BPTC = 0x040F4"

definition IGB_XEC :: u32 where
  "IGB_XEC = 0x04120"

definition IGB_SSVPC :: u32 where
  "IGB_SSVPC = 0x08780"

definition IGB_RQSMR :: "u32 \<Rightarrow> u32" where
  "IGB_RQSMR i = 0x02300 + (i * 4)"

definition IGB_TQSMR :: "u32 \<Rightarrow> u32" where
  "IGB_TQSMR i = (if i \<le> 7 then 0x07300 + (i * 4) else 0x08600 + (i * 4))"

definition IGB_TQSM :: "u32 \<Rightarrow> u32" where
  "IGB_TQSM i = 0x08600 + (i * 4)"

definition IGB_QPRC :: "u32 \<Rightarrow> u32" where
  "IGB_QPRC i = 0x01030 + (i * 0x40)"

definition IGB_QPTC :: "u32 \<Rightarrow> u32" where
  "IGB_QPTC i = 0x06030 + (i * 0x40)"

definition IGB_QBRC :: "u32 \<Rightarrow> u32" where
  "IGB_QBRC i = 0x01034 + (i * 0x40)"

definition IGB_QBTC :: "u32 \<Rightarrow> u32" where
  "IGB_QBTC i = 0x06034 + (i * 0x40)"

definition IGB_QBRC_L :: "u32 \<Rightarrow> u32" where
  "IGB_QBRC_L i = 0x01034 + (i * 0x40)"

definition IGB_QBRC_H :: "u32 \<Rightarrow> u32" where
  "IGB_QBRC_H i = 0x01038 + (i * 0x40)"

definition IGB_QPRDC :: "u32 \<Rightarrow> u32" where
  "IGB_QPRDC i = 0x01430 + (i * 0x40)"

definition IGB_QBTC_L :: "u32 \<Rightarrow> u32" where
  "IGB_QBTC_L i = 0x08700 + (i * 0x8)"

definition IGB_QBTC_H :: "u32 \<Rightarrow> u32" where
  "IGB_QBTC_H i = 0x08704 + (i * 0x8)"

definition IGB_FCCRC :: u32 where
  "IGB_FCCRC = 0x05118"

definition IGB_FCOERPDC :: u32 where
  "IGB_FCOERPDC = 0x0241C"

definition IGB_FCLAST :: u32 where
  "IGB_FCLAST = 0x02424"

definition IGB_FCOEPRC :: u32 where
  "IGB_FCOEPRC = 0x02428"

definition IGB_FCOEDWRC :: u32 where
  "IGB_FCOEDWRC = 0x0242C"

definition IGB_FCOEPTC :: u32 where
  "IGB_FCOEPTC = 0x08784"

definition IGB_FCOEDWTC :: u32 where
  "IGB_FCOEDWTC = 0x08788"

definition IGB_FCCRC_CNT_MASK :: u32 where
  "IGB_FCCRC_CNT_MASK = 0x0000FFFF"

definition IGB_FCLAST_CNT_MASK :: u32 where
  "IGB_FCLAST_CNT_MASK = 0x0000FFFF"

definition IGB_O2BGPTC :: u32 where
  "IGB_O2BGPTC = 0x041C4"

definition IGB_O2BSPC :: u32 where
  "IGB_O2BSPC = 0x087B0"

definition IGB_B2OSPC :: u32 where
  "IGB_B2OSPC = 0x041C0"

definition IGB_B2OGPRC :: u32 where
  "IGB_B2OGPRC = 0x02F90"

definition IGB_BUPRC :: u32 where
  "IGB_BUPRC = 0x04180"

definition IGB_BMPRC :: u32 where
  "IGB_BMPRC = 0x04184"

definition IGB_BBPRC :: u32 where
  "IGB_BBPRC = 0x04188"

definition IGB_BUPTC :: u32 where
  "IGB_BUPTC = 0x0418C"

definition IGB_BMPTC :: u32 where
  "IGB_BMPTC = 0x04190"

definition IGB_BBPTC :: u32 where
  "IGB_BBPTC = 0x04194"

definition IGB_BCRCERRS :: u32 where
  "IGB_BCRCERRS = 0x04198"

definition IGB_BXONRXC :: u32 where
  "IGB_BXONRXC = 0x0419C"

definition IGB_BXOFFRXC :: u32 where
  "IGB_BXOFFRXC = 0x041E0"

definition IGB_BXONTXC :: u32 where
  "IGB_BXONTXC = 0x041E4"

definition IGB_BXOFFTXC :: u32 where
  "IGB_BXOFFTXC = 0x041E8"

definition IGB_MAVTV :: "u32 \<Rightarrow> u32" where
  "IGB_MAVTV i = 0x05010 + (i * 4)"

definition IGB_MFUTP :: "u32 \<Rightarrow> u32" where
  "IGB_MFUTP i = 0x05030 + (i * 4)"

definition IGB_MANC :: u32 where
  "IGB_MANC = 0x05820"

definition IGB_MFVAL :: u32 where
  "IGB_MFVAL = 0x05824"

definition IGB_MANC2H :: u32 where
  "IGB_MANC2H = 0x05860"

definition IGB_MDEF :: "u32 \<Rightarrow> u32" where
  "IGB_MDEF i = 0x05890 + (i * 4)"

definition IGB_MIPAF :: u32 where
  "IGB_MIPAF = 0x058B0"

definition IGB_MMAL :: "u32 \<Rightarrow> u32" where
  "IGB_MMAL i = 0x05910 + (i * 8)"

definition IGB_MMAH :: "u32 \<Rightarrow> u32" where
  "IGB_MMAH i = 0x05914 + (i * 8)"

definition IGB_FTFT :: u32 where
  "IGB_FTFT = 0x09400"

definition IGB_METF :: "u32 \<Rightarrow> u32" where
  "IGB_METF i = 0x05190 + (i * 4)"

definition IGB_MDEF_EXT :: "u32 \<Rightarrow> u32" where
  "IGB_MDEF_EXT i = 0x05160 + (i * 4)"

definition IGB_LSWFW :: u32 where
  "IGB_LSWFW = 0x15F14"

definition IGB_BMCIP :: "u32 \<Rightarrow> u32" where
  "IGB_BMCIP i = 0x05050 + (i * 4)"

definition IGB_BMCIPVAL :: u32 where
  "IGB_BMCIPVAL = 0x05060"

definition IGB_BMCIP_IPADDR_TYPE :: u32 where
  "IGB_BMCIP_IPADDR_TYPE = 0x00000001"

definition IGB_BMCIP_IPADDR_VALID :: u32 where
  "IGB_BMCIP_IPADDR_VALID = 0x00000002"

definition IGB_MANC_MPROXYE :: u32 where
  "IGB_MANC_MPROXYE = 0x40000000"

definition IGB_MANC_RCV_TCO_EN :: u32 where
  "IGB_MANC_RCV_TCO_EN = 0x00020000"

definition IGB_MANC_EN_BMC2OS :: u32 where
  "IGB_MANC_EN_BMC2OS = 0x10000000"

definition IGB_MANC_EN_BMC2OS_SHIFT :: u32 where
  "IGB_MANC_EN_BMC2OS_SHIFT = 28"

text \<open>The registers and bits the driver itself uses.\<close>

lemmas Regs_Stats_used [register_defs] =
  IGB_GPRC_def IGB_GPTC_def IGB_GORCL_def
  IGB_GORCH_def IGB_GOTCL_def IGB_GOTCH_def

end
