(* ===== verification/Regs_Diag.thy ===== *)
theory Regs_Diag
  imports Regs_Stats
begin

text \<open>
  Register addresses of \<open>src/constants.rs\<close>, sixth part: PCIe, diagnostics, time stamping
  and the MAC registers.
\<close>

definition IGB_FWSM_MODE_MASK :: u32 where
  "IGB_FWSM_MODE_MASK = 0xE"

definition IGB_FWSM_TS_ENABLED :: u32 where
  "IGB_FWSM_TS_ENABLED = 0x1"

definition IGB_FWSM_FW_MODE_PT :: u32 where
  "IGB_FWSM_FW_MODE_PT = 0x4"

definition IGB_HICR :: u32 where
  "IGB_HICR = 0x15F00"

definition IGB_FWSTS :: u32 where
  "IGB_FWSTS = 0x15F0C"

definition IGB_HSMC0R :: u32 where
  "IGB_HSMC0R = 0x15F04"

definition IGB_HSMC1R :: u32 where
  "IGB_HSMC1R = 0x15F08"

definition IGB_SWSR :: u32 where
  "IGB_SWSR = 0x15F10"

definition IGB_HFDR :: u32 where
  "IGB_HFDR = 0x15FE8"

definition IGB_FLEX_MNG :: u32 where
  "IGB_FLEX_MNG = 0x15800"

definition IGB_HICR_EN :: u32 where
  "IGB_HICR_EN = 0x01"

definition IGB_HICR_C :: u32 where
  "IGB_HICR_C = 0x02"

definition IGB_HICR_SV :: u32 where
  "IGB_HICR_SV = 0x04"

definition IGB_HICR_FW_RESET_ENABLE :: u32 where
  "IGB_HICR_FW_RESET_ENABLE = 0x40"

definition IGB_HICR_FW_RESET :: u32 where
  "IGB_HICR_FW_RESET = 0x80"

definition IGB_GCR :: u32 where
  "IGB_GCR = 0x11000"

definition IGB_GTV :: u32 where
  "IGB_GTV = 0x11004"

definition IGB_FUNCTAG :: u32 where
  "IGB_FUNCTAG = 0x11008"

definition IGB_GLT :: u32 where
  "IGB_GLT = 0x1100C"

definition IGB_PCIEPIPEADR :: u32 where
  "IGB_PCIEPIPEADR = 0x11004"

definition IGB_PCIEPIPEDAT :: u32 where
  "IGB_PCIEPIPEDAT = 0x11008"

definition IGB_GSCL_1 :: u32 where
  "IGB_GSCL_1 = 0x11010"

definition IGB_GSCL_2 :: u32 where
  "IGB_GSCL_2 = 0x11014"

definition IGB_GSCL_1_X540 :: u32 where
  "IGB_GSCL_1_X540 = IGB_GSCL_1"

definition IGB_GSCL_2_X540 :: u32 where
  "IGB_GSCL_2_X540 = IGB_GSCL_2"

definition IGB_GSCL_3 :: u32 where
  "IGB_GSCL_3 = 0x11018"

definition IGB_GSCL_4 :: u32 where
  "IGB_GSCL_4 = 0x1101C"

definition IGB_GSCN_0 :: u32 where
  "IGB_GSCN_0 = 0x11020"

definition IGB_GSCN_1 :: u32 where
  "IGB_GSCN_1 = 0x11024"

definition IGB_GSCN_2 :: u32 where
  "IGB_GSCN_2 = 0x11028"

definition IGB_GSCN_3 :: u32 where
  "IGB_GSCN_3 = 0x1102C"

definition IGB_GSCN_0_X540 :: u32 where
  "IGB_GSCN_0_X540 = IGB_GSCN_0"

definition IGB_GSCN_1_X540 :: u32 where
  "IGB_GSCN_1_X540 = IGB_GSCN_1"

definition IGB_GSCN_2_X540 :: u32 where
  "IGB_GSCN_2_X540 = IGB_GSCN_2"

definition IGB_GSCN_3_X540 :: u32 where
  "IGB_GSCN_3_X540 = IGB_GSCN_3"

definition IGB_FACTPS :: u32 where
  "IGB_FACTPS = 0x10150"

definition IGB_FACTPS_X540 :: u32 where
  "IGB_FACTPS_X540 = IGB_FACTPS"

definition IGB_GSCL_1_X550 :: u32 where
  "IGB_GSCL_1_X550 = 0x11800"

definition IGB_GSCL_2_X550 :: u32 where
  "IGB_GSCL_2_X550 = 0x11804"

definition IGB_GSCL_1_X550EM_x :: u32 where
  "IGB_GSCL_1_X550EM_x = IGB_GSCL_1_X550"

definition IGB_GSCL_2_X550EM_x :: u32 where
  "IGB_GSCL_2_X550EM_x = IGB_GSCL_2_X550"

definition IGB_GSCN_0_X550 :: u32 where
  "IGB_GSCN_0_X550 = 0x11820"

definition IGB_GSCN_1_X550 :: u32 where
  "IGB_GSCN_1_X550 = 0x11824"

definition IGB_GSCN_2_X550 :: u32 where
  "IGB_GSCN_2_X550 = 0x11828"

definition IGB_GSCN_3_X550 :: u32 where
  "IGB_GSCN_3_X550 = 0x1182C"

definition IGB_GSCN_0_X550EM_x :: u32 where
  "IGB_GSCN_0_X550EM_x = IGB_GSCN_0_X550"

definition IGB_GSCN_1_X550EM_x :: u32 where
  "IGB_GSCN_1_X550EM_x = IGB_GSCN_1_X550"

definition IGB_GSCN_2_X550EM_x :: u32 where
  "IGB_GSCN_2_X550EM_x = IGB_GSCN_2_X550"

definition IGB_GSCN_3_X550EM_x :: u32 where
  "IGB_GSCN_3_X550EM_x = IGB_GSCN_3_X550"

definition IGB_FACTPS_X550 :: u32 where
  "IGB_FACTPS_X550 = IGB_FACTPS"

definition IGB_FACTPS_X550EM_x :: u32 where
  "IGB_FACTPS_X550EM_x = IGB_FACTPS"

definition IGB_GSCL_1_X550EM_a :: u32 where
  "IGB_GSCL_1_X550EM_a = IGB_GSCL_1_X550"

definition IGB_GSCL_2_X550EM_a :: u32 where
  "IGB_GSCL_2_X550EM_a = IGB_GSCL_2_X550"

definition IGB_GSCN_0_X550EM_a :: u32 where
  "IGB_GSCN_0_X550EM_a = IGB_GSCN_0_X550"

definition IGB_GSCN_1_X550EM_a :: u32 where
  "IGB_GSCN_1_X550EM_a = IGB_GSCN_1_X550"

definition IGB_GSCN_2_X550EM_a :: u32 where
  "IGB_GSCN_2_X550EM_a = IGB_GSCN_2_X550"

definition IGB_GSCN_3_X550EM_a :: u32 where
  "IGB_GSCN_3_X550EM_a = IGB_GSCN_3_X550"

definition IGB_FACTPS_X550EM_a :: u32 where
  "IGB_FACTPS_X550EM_a = 0x15FEC"

definition IGB_FACTPS_BY_MAC :: "u32 \<Rightarrow> u32" where
  "IGB_FACTPS_BY_MAC hw = IGB_BY_MAC hw IGB_FACTPS"

definition IGB_PCIEANACTL :: u32 where
  "IGB_PCIEANACTL = 0x11040"

definition IGB_SWSM :: u32 where
  "IGB_SWSM = 0x10140"

definition IGB_SWSM_X540 :: u32 where
  "IGB_SWSM_X540 = IGB_SWSM"

definition IGB_SWSM_X550 :: u32 where
  "IGB_SWSM_X550 = IGB_SWSM"

definition IGB_SWSM_X550EM_x :: u32 where
  "IGB_SWSM_X550EM_x = IGB_SWSM"

definition IGB_SWSM_X550EM_a :: u32 where
  "IGB_SWSM_X550EM_a = 0x15F70"

definition IGB_SWSM_BY_MAC :: "u32 \<Rightarrow> u32" where
  "IGB_SWSM_BY_MAC hw = IGB_BY_MAC hw IGB_SWSM"

definition IGB_FWSM :: u32 where
  "IGB_FWSM = 0x10148"

definition IGB_FWSM_X540 :: u32 where
  "IGB_FWSM_X540 = IGB_FWSM"

definition IGB_FWSM_X550 :: u32 where
  "IGB_FWSM_X550 = IGB_FWSM"

definition IGB_FWSM_X550EM_x :: u32 where
  "IGB_FWSM_X550EM_x = IGB_FWSM"

definition IGB_FWSM_X550EM_a :: u32 where
  "IGB_FWSM_X550EM_a = 0x15F74"

definition IGB_FWSM_BY_MAC :: "u32 \<Rightarrow> u32" where
  "IGB_FWSM_BY_MAC hw = IGB_BY_MAC hw IGB_FWSM"

definition IGB_GSSR :: u32 where
  "IGB_GSSR = 0x10160"

definition IGB_SWFW_SYNC :: u32 where
  "IGB_SWFW_SYNC = IGB_GSSR"

definition IGB_SWFW_SYNC_X540 :: u32 where
  "IGB_SWFW_SYNC_X540 = IGB_SWFW_SYNC"

definition IGB_SWFW_SYNC_X550 :: u32 where
  "IGB_SWFW_SYNC_X550 = IGB_SWFW_SYNC"

definition IGB_SWFW_SYNC_X550EM_x :: u32 where
  "IGB_SWFW_SYNC_X550EM_x = IGB_SWFW_SYNC"

definition IGB_SWFW_SYNC_X550EM_a :: u32 where
  "IGB_SWFW_SYNC_X550EM_a = 0x15F78"

definition IGB_SWFW_SYNC_BY_MAC :: "u32 \<Rightarrow> u32" where
  "IGB_SWFW_SYNC_BY_MAC hw = IGB_BY_MAC hw IGB_SWFW_SYNC"

definition IGB_MREVID :: u32 where
  "IGB_MREVID = 0x11064"

definition IGB_DCA_ID :: u32 where
  "IGB_DCA_ID = 0x11070"

definition IGB_DCA_CTRL :: u32 where
  "IGB_DCA_CTRL = 0x11074"

definition IGB_GCR_EXT :: u32 where
  "IGB_GCR_EXT = 0x11050"

definition IGB_GSCL_5_82599 :: u32 where
  "IGB_GSCL_5_82599 = 0x11030"

definition IGB_GSCL_6_82599 :: u32 where
  "IGB_GSCL_6_82599 = 0x11034"

definition IGB_GSCL_7_82599 :: u32 where
  "IGB_GSCL_7_82599 = 0x11038"

definition IGB_GSCL_8_82599 :: u32 where
  "IGB_GSCL_8_82599 = 0x1103C"

definition IGB_GSCL_5_X540 :: u32 where
  "IGB_GSCL_5_X540 = IGB_GSCL_5_82599"

definition IGB_GSCL_6_X540 :: u32 where
  "IGB_GSCL_6_X540 = IGB_GSCL_6_82599"

definition IGB_GSCL_7_X540 :: u32 where
  "IGB_GSCL_7_X540 = IGB_GSCL_7_82599"

definition IGB_GSCL_8_X540 :: u32 where
  "IGB_GSCL_8_X540 = IGB_GSCL_8_82599"

definition IGB_PHYADR_82599 :: u32 where
  "IGB_PHYADR_82599 = 0x11040"

definition IGB_PHYDAT_82599 :: u32 where
  "IGB_PHYDAT_82599 = 0x11044"

definition IGB_PHYCTL_82599 :: u32 where
  "IGB_PHYCTL_82599 = 0x11048"

definition IGB_PBACLR_82599 :: u32 where
  "IGB_PBACLR_82599 = 0x11068"

definition IGB_CIAA :: u32 where
  "IGB_CIAA = 0x11088"

definition IGB_CIAD :: u32 where
  "IGB_CIAD = 0x1108C"

definition IGB_CIAA_82599 :: u32 where
  "IGB_CIAA_82599 = IGB_CIAA"

definition IGB_CIAD_82599 :: u32 where
  "IGB_CIAD_82599 = IGB_CIAD"

definition IGB_CIAA_X540 :: u32 where
  "IGB_CIAA_X540 = IGB_CIAA"

definition IGB_CIAD_X540 :: u32 where
  "IGB_CIAD_X540 = IGB_CIAD"

definition IGB_GSCL_5_X550 :: u32 where
  "IGB_GSCL_5_X550 = 0x11810"

definition IGB_GSCL_6_X550 :: u32 where
  "IGB_GSCL_6_X550 = 0x11814"

definition IGB_GSCL_7_X550 :: u32 where
  "IGB_GSCL_7_X550 = 0x11818"

definition IGB_GSCL_8_X550 :: u32 where
  "IGB_GSCL_8_X550 = 0x1181C"

definition IGB_GSCL_5_X550EM_x :: u32 where
  "IGB_GSCL_5_X550EM_x = IGB_GSCL_5_X550"

definition IGB_GSCL_6_X550EM_x :: u32 where
  "IGB_GSCL_6_X550EM_x = IGB_GSCL_6_X550"

definition IGB_GSCL_7_X550EM_x :: u32 where
  "IGB_GSCL_7_X550EM_x = IGB_GSCL_7_X550"

definition IGB_GSCL_8_X550EM_x :: u32 where
  "IGB_GSCL_8_X550EM_x = IGB_GSCL_8_X550"

definition IGB_CIAA_X550 :: u32 where
  "IGB_CIAA_X550 = 0x11508"

definition IGB_CIAD_X550 :: u32 where
  "IGB_CIAD_X550 = 0x11510"

definition IGB_CIAA_X550EM_x :: u32 where
  "IGB_CIAA_X550EM_x = IGB_CIAA_X550"

definition IGB_CIAD_X550EM_x :: u32 where
  "IGB_CIAD_X550EM_x = IGB_CIAD_X550"

definition IGB_GSCL_5_X550EM_a :: u32 where
  "IGB_GSCL_5_X550EM_a = IGB_GSCL_5_X550"

definition IGB_GSCL_6_X550EM_a :: u32 where
  "IGB_GSCL_6_X550EM_a = IGB_GSCL_6_X550"

definition IGB_GSCL_7_X550EM_a :: u32 where
  "IGB_GSCL_7_X550EM_a = IGB_GSCL_7_X550"

definition IGB_GSCL_8_X550EM_a :: u32 where
  "IGB_GSCL_8_X550EM_a = IGB_GSCL_8_X550"

definition IGB_CIAA_X550EM_a :: u32 where
  "IGB_CIAA_X550EM_a = IGB_CIAA_X550"

definition IGB_CIAD_X550EM_a :: u32 where
  "IGB_CIAD_X550EM_a = IGB_CIAD_X550"

definition IGB_CIAA_BY_MAC :: "u32 \<Rightarrow> u32" where
  "IGB_CIAA_BY_MAC hw = IGB_BY_MAC hw IGB_CIAA"

definition IGB_CIAD_BY_MAC :: "u32 \<Rightarrow> u32" where
  "IGB_CIAD_BY_MAC hw = IGB_BY_MAC hw IGB_CIAD"

definition IGB_PICAUSE :: u32 where
  "IGB_PICAUSE = 0x110B0"

definition IGB_PIENA :: u32 where
  "IGB_PIENA = 0x110B8"

definition IGB_CDQ_MBR_82599 :: u32 where
  "IGB_CDQ_MBR_82599 = 0x110B4"

definition IGB_PCIESPARE :: u32 where
  "IGB_PCIESPARE = 0x110BC"

definition IGB_MISC_REG_82599 :: u32 where
  "IGB_MISC_REG_82599 = 0x110F0"

definition IGB_ECC_CTRL_0_82599 :: u32 where
  "IGB_ECC_CTRL_0_82599 = 0x11100"

definition IGB_ECC_CTRL_1_82599 :: u32 where
  "IGB_ECC_CTRL_1_82599 = 0x11104"

definition IGB_ECC_STATUS_82599 :: u32 where
  "IGB_ECC_STATUS_82599 = 0x110E0"

definition IGB_BAR_CTRL_82599 :: u32 where
  "IGB_BAR_CTRL_82599 = 0x110F4"

definition IGB_GCR_CMPL_TMOUT_MASK :: u32 where
  "IGB_GCR_CMPL_TMOUT_MASK = 0x0000F000"

definition IGB_GCR_CMPL_TMOUT_10ms :: u32 where
  "IGB_GCR_CMPL_TMOUT_10ms = 0x00001000"

definition IGB_GCR_CMPL_TMOUT_RESEND :: u32 where
  "IGB_GCR_CMPL_TMOUT_RESEND = 0x00010000"

definition IGB_GCR_CAP_VER2 :: u32 where
  "IGB_GCR_CAP_VER2 = 0x00040000"

definition IGB_GCR_EXT_MSIX_EN :: u32 where
  "IGB_GCR_EXT_MSIX_EN = 0x80000000"

definition IGB_GCR_EXT_BUFFERS_CLEAR :: u32 where
  "IGB_GCR_EXT_BUFFERS_CLEAR = 0x40000000"

definition IGB_GCR_EXT_VT_MODE_16 :: u32 where
  "IGB_GCR_EXT_VT_MODE_16 = 0x00000001"

definition IGB_GCR_EXT_VT_MODE_32 :: u32 where
  "IGB_GCR_EXT_VT_MODE_32 = 0x00000002"

definition IGB_GCR_EXT_VT_MODE_64 :: u32 where
  "IGB_GCR_EXT_VT_MODE_64 = 0x00000003"

definition IGB_GCR_EXT_SRIOV :: u32 where
  "IGB_GCR_EXT_SRIOV = IGB_GCR_EXT_MSIX_EN OR IGB_GCR_EXT_VT_MODE_64"

definition IGB_GCR_EXT_VT_MODE_MASK :: u32 where
  "IGB_GCR_EXT_VT_MODE_MASK = 0x00000003"

definition IGB_TSYNCRXCTL :: u32 where
  "IGB_TSYNCRXCTL = 0x05188"

definition IGB_TSYNCTXCTL :: u32 where
  "IGB_TSYNCTXCTL = 0x08C00"

definition IGB_RXSTMPL :: u32 where
  "IGB_RXSTMPL = 0x051E8"

definition IGB_RXSTMPH :: u32 where
  "IGB_RXSTMPH = 0x051A4"

definition IGB_RXSATRL :: u32 where
  "IGB_RXSATRL = 0x051A0"

definition IGB_RXSATRH :: u32 where
  "IGB_RXSATRH = 0x051A8"

definition IGB_RXMTRL :: u32 where
  "IGB_RXMTRL = 0x05120"

definition IGB_TXSTMPL :: u32 where
  "IGB_TXSTMPL = 0x08C04"

definition IGB_TXSTMPH :: u32 where
  "IGB_TXSTMPH = 0x08C08"

definition IGB_SYSTIML :: u32 where
  "IGB_SYSTIML = 0x08C0C"

definition IGB_SYSTIMH :: u32 where
  "IGB_SYSTIMH = 0x08C10"

definition IGB_SYSTIMR :: u32 where
  "IGB_SYSTIMR = 0x08C58"

definition IGB_TIMINCA :: u32 where
  "IGB_TIMINCA = 0x08C14"

definition IGB_TIMADJL :: u32 where
  "IGB_TIMADJL = 0x08C18"

definition IGB_TIMADJH :: u32 where
  "IGB_TIMADJH = 0x08C1C"

definition IGB_TSAUXC :: u32 where
  "IGB_TSAUXC = 0x08C20"

definition IGB_TRGTTIML0 :: u32 where
  "IGB_TRGTTIML0 = 0x08C24"

definition IGB_TRGTTIMH0 :: u32 where
  "IGB_TRGTTIMH0 = 0x08C28"

definition IGB_TRGTTIML1 :: u32 where
  "IGB_TRGTTIML1 = 0x08C2C"

definition IGB_TRGTTIMH1 :: u32 where
  "IGB_TRGTTIMH1 = 0x08C30"

definition IGB_CLKTIML :: u32 where
  "IGB_CLKTIML = 0x08C34"

definition IGB_CLKTIMH :: u32 where
  "IGB_CLKTIMH = 0x08C38"

definition IGB_FREQOUT0 :: u32 where
  "IGB_FREQOUT0 = 0x08C34"

definition IGB_FREQOUT1 :: u32 where
  "IGB_FREQOUT1 = 0x08C38"

definition IGB_AUXSTMPL0 :: u32 where
  "IGB_AUXSTMPL0 = 0x08C3C"

definition IGB_AUXSTMPH0 :: u32 where
  "IGB_AUXSTMPH0 = 0x08C40"

definition IGB_AUXSTMPL1 :: u32 where
  "IGB_AUXSTMPL1 = 0x08C44"

definition IGB_AUXSTMPH1 :: u32 where
  "IGB_AUXSTMPH1 = 0x08C48"

definition IGB_TSIM :: u32 where
  "IGB_TSIM = 0x08C68"

definition IGB_TSICR :: u32 where
  "IGB_TSICR = 0x08C60"

definition IGB_TSSDP :: u32 where
  "IGB_TSSDP = 0x0003C"

definition IGB_RDSTATCTL :: u32 where
  "IGB_RDSTATCTL = 0x02C20"

definition IGB_RDSTAT :: "u32 \<Rightarrow> u32" where
  "IGB_RDSTAT i = 0x02C00 + (i * 4)"

definition IGB_RDHMPN :: u32 where
  "IGB_RDHMPN = 0x02F08"

definition IGB_RIC_DW :: "u32 \<Rightarrow> u32" where
  "IGB_RIC_DW i = 0x02F10 + (i * 4)"

definition IGB_RDPROBE :: u32 where
  "IGB_RDPROBE = 0x02F20"

definition IGB_RDMAM :: u32 where
  "IGB_RDMAM = 0x02F30"

definition IGB_RDMAD :: u32 where
  "IGB_RDMAD = 0x02F34"

definition IGB_TDHMPN :: u32 where
  "IGB_TDHMPN = 0x07F08"

definition IGB_TDHMPN2 :: u32 where
  "IGB_TDHMPN2 = 0x082FC"

definition IGB_TXDESCIC :: u32 where
  "IGB_TXDESCIC = 0x082CC"

definition IGB_TIC_DW :: "u32 \<Rightarrow> u32" where
  "IGB_TIC_DW i = 0x07F10 + (i * 4)"

definition IGB_TIC_DW2 :: "u32 \<Rightarrow> u32" where
  "IGB_TIC_DW2 i = 0x082B0 + (i * 4)"

definition IGB_TDPROBE :: u32 where
  "IGB_TDPROBE = 0x07F20"

definition IGB_TXBUFCTRL :: u32 where
  "IGB_TXBUFCTRL = 0x0C600"

definition IGB_TXBUFDATA0 :: u32 where
  "IGB_TXBUFDATA0 = 0x0C610"

definition IGB_TXBUFDATA1 :: u32 where
  "IGB_TXBUFDATA1 = 0x0C614"

definition IGB_TXBUFDATA2 :: u32 where
  "IGB_TXBUFDATA2 = 0x0C618"

definition IGB_TXBUFDATA3 :: u32 where
  "IGB_TXBUFDATA3 = 0x0C61C"

definition IGB_RXBUFCTRL :: u32 where
  "IGB_RXBUFCTRL = 0x03600"

definition IGB_RXBUFDATA0 :: u32 where
  "IGB_RXBUFDATA0 = 0x03610"

definition IGB_RXBUFDATA1 :: u32 where
  "IGB_RXBUFDATA1 = 0x03614"

definition IGB_RXBUFDATA2 :: u32 where
  "IGB_RXBUFDATA2 = 0x03618"

definition IGB_RXBUFDATA3 :: u32 where
  "IGB_RXBUFDATA3 = 0x0361C"

definition IGB_PCIE_DIAG :: "u32 \<Rightarrow> u32" where
  "IGB_PCIE_DIAG i = 0x11090 + (i * 4)"

definition IGB_RFVAL :: u32 where
  "IGB_RFVAL = 0x050A4"

definition IGB_MDFTC1 :: u32 where
  "IGB_MDFTC1 = 0x042B8"

definition IGB_MDFTC2 :: u32 where
  "IGB_MDFTC2 = 0x042C0"

definition IGB_MDFTFIFO1 :: u32 where
  "IGB_MDFTFIFO1 = 0x042C4"

definition IGB_MDFTFIFO2 :: u32 where
  "IGB_MDFTFIFO2 = 0x042C8"

definition IGB_MDFTS :: u32 where
  "IGB_MDFTS = 0x042CC"

definition IGB_RXDATAWRPTR :: "u32 \<Rightarrow> u32" where
  "IGB_RXDATAWRPTR i = 0x03700 + (i * 4)"

definition IGB_RXDESCWRPTR :: "u32 \<Rightarrow> u32" where
  "IGB_RXDESCWRPTR i = 0x03710 + (i * 4)"

definition IGB_RXDATARDPTR :: "u32 \<Rightarrow> u32" where
  "IGB_RXDATARDPTR i = 0x03720 + (i * 4)"

definition IGB_RXDESCRDPTR :: "u32 \<Rightarrow> u32" where
  "IGB_RXDESCRDPTR i = 0x03730 + (i * 4)"

definition IGB_TXDATAWRPTR :: "u32 \<Rightarrow> u32" where
  "IGB_TXDATAWRPTR i = 0x0C700 + (i * 4)"

definition IGB_TXDESCWRPTR :: "u32 \<Rightarrow> u32" where
  "IGB_TXDESCWRPTR i = 0x0C710 + (i * 4)"

definition IGB_TXDATARDPTR :: "u32 \<Rightarrow> u32" where
  "IGB_TXDATARDPTR i = 0x0C720 + (i * 4)"

definition IGB_TXDESCRDPTR :: "u32 \<Rightarrow> u32" where
  "IGB_TXDESCRDPTR i = 0x0C730 + (i * 4)"

definition IGB_PCIEECCCTL :: u32 where
  "IGB_PCIEECCCTL = 0x1106C"

definition IGB_RXWRPTR :: "u32 \<Rightarrow> u32" where
  "IGB_RXWRPTR i = 0x03100 + (i * 4)"

definition IGB_RXUSED :: "u32 \<Rightarrow> u32" where
  "IGB_RXUSED i = 0x03120 + (i * 4)"

definition IGB_RXRDPTR :: "u32 \<Rightarrow> u32" where
  "IGB_RXRDPTR i = 0x03140 + (i * 4)"

definition IGB_RXRDWRPTR :: "u32 \<Rightarrow> u32" where
  "IGB_RXRDWRPTR i = 0x03160 + (i * 4)"

definition IGB_TXWRPTR :: "u32 \<Rightarrow> u32" where
  "IGB_TXWRPTR i = 0x0C100 + (i * 4)"

definition IGB_TXUSED :: "u32 \<Rightarrow> u32" where
  "IGB_TXUSED i = 0x0C120 + (i * 4)"

definition IGB_TXRDPTR :: "u32 \<Rightarrow> u32" where
  "IGB_TXRDPTR i = 0x0C140 + (i * 4)"

definition IGB_TXRDWRPTR :: "u32 \<Rightarrow> u32" where
  "IGB_TXRDWRPTR i = 0x0C160 + (i * 4)"

definition IGB_PCIEECCCTL0 :: u32 where
  "IGB_PCIEECCCTL0 = 0x11100"

definition IGB_PCIEECCCTL1 :: u32 where
  "IGB_PCIEECCCTL1 = 0x11104"

definition IGB_RXDBUECC :: u32 where
  "IGB_RXDBUECC = 0x03F70"

definition IGB_TXDBUECC :: u32 where
  "IGB_TXDBUECC = 0x0CF70"

definition IGB_RXDBUEST :: u32 where
  "IGB_RXDBUEST = 0x03F74"

definition IGB_TXDBUEST :: u32 where
  "IGB_TXDBUEST = 0x0CF74"

definition IGB_PBTXECC :: u32 where
  "IGB_PBTXECC = 0x0C300"

definition IGB_PBRXECC :: u32 where
  "IGB_PBRXECC = 0x03300"

definition IGB_GHECCR :: u32 where
  "IGB_GHECCR = 0x110B0"

definition IGB_PCS1GCFIG :: u32 where
  "IGB_PCS1GCFIG = 0x04200"

definition IGB_PCS1GLCTL :: u32 where
  "IGB_PCS1GLCTL = 0x04208"

definition IGB_PCS1GLSTA :: u32 where
  "IGB_PCS1GLSTA = 0x0420C"

definition IGB_PCS1GDBG0 :: u32 where
  "IGB_PCS1GDBG0 = 0x04210"

definition IGB_PCS1GDBG1 :: u32 where
  "IGB_PCS1GDBG1 = 0x04214"

definition IGB_PCS1GANA :: u32 where
  "IGB_PCS1GANA = 0x04218"

definition IGB_PCS1GANLP :: u32 where
  "IGB_PCS1GANLP = 0x0421C"

definition IGB_PCS1GANNP :: u32 where
  "IGB_PCS1GANNP = 0x04220"

definition IGB_PCS1GANLPNP :: u32 where
  "IGB_PCS1GANLPNP = 0x04224"

definition IGB_HLREG0 :: u32 where
  "IGB_HLREG0 = 0x04240"

definition IGB_HLREG1 :: u32 where
  "IGB_HLREG1 = 0x04244"

definition IGB_PAP :: u32 where
  "IGB_PAP = 0x04248"

definition IGB_MACA :: u32 where
  "IGB_MACA = 0x0424C"

definition IGB_APAE :: u32 where
  "IGB_APAE = 0x04250"

definition IGB_ARD :: u32 where
  "IGB_ARD = 0x04254"

definition IGB_AIS :: u32 where
  "IGB_AIS = 0x04258"

definition IGB_MSCA :: u32 where
  "IGB_MSCA = 0x0425C"

definition IGB_MSRWD :: u32 where
  "IGB_MSRWD = 0x04260"

definition IGB_MLADD :: u32 where
  "IGB_MLADD = 0x04264"

definition IGB_MHADD :: u32 where
  "IGB_MHADD = 0x04268"

definition IGB_MAXFRS :: u32 where
  "IGB_MAXFRS = 0x04268"

definition IGB_TREG :: u32 where
  "IGB_TREG = 0x0426C"

definition IGB_PCSS1 :: u32 where
  "IGB_PCSS1 = 0x04288"

definition IGB_PCSS2 :: u32 where
  "IGB_PCSS2 = 0x0428C"

definition IGB_XPCSS :: u32 where
  "IGB_XPCSS = 0x04290"

definition IGB_MFLCN :: u32 where
  "IGB_MFLCN = 0x04294"

definition IGB_SERDESC :: u32 where
  "IGB_SERDESC = 0x04298"

definition IGB_MAC_SGMII_BUSY :: u32 where
  "IGB_MAC_SGMII_BUSY = 0x04298"

definition IGB_MACS :: u32 where
  "IGB_MACS = 0x0429C"

definition IGB_AUTOC :: u32 where
  "IGB_AUTOC = 0x042A0"

definition IGB_LINKS :: u32 where
  "IGB_LINKS = 0x042A4"

definition IGB_LINKS2 :: u32 where
  "IGB_LINKS2 = 0x04324"

definition IGB_AUTOC2 :: u32 where
  "IGB_AUTOC2 = 0x042A8"

definition IGB_AUTOC3 :: u32 where
  "IGB_AUTOC3 = 0x042AC"

definition IGB_ANLP1 :: u32 where
  "IGB_ANLP1 = 0x042B0"

definition IGB_ANLP2 :: u32 where
  "IGB_ANLP2 = 0x042B4"

definition IGB_MACC :: u32 where
  "IGB_MACC = 0x04330"

definition IGB_ATLASCTL :: u32 where
  "IGB_ATLASCTL = 0x04800"

definition IGB_MMNGC :: u32 where
  "IGB_MMNGC = 0x042D0"

definition IGB_ANLPNP1 :: u32 where
  "IGB_ANLPNP1 = 0x042D4"

definition IGB_ANLPNP2 :: u32 where
  "IGB_ANLPNP2 = 0x042D8"

definition IGB_KRPCSFC :: u32 where
  "IGB_KRPCSFC = 0x042E0"

definition IGB_KRPCSS :: u32 where
  "IGB_KRPCSS = 0x042E4"

definition IGB_FECS1 :: u32 where
  "IGB_FECS1 = 0x042E8"

definition IGB_FECS2 :: u32 where
  "IGB_FECS2 = 0x042EC"

definition IGB_SMADARCTL :: u32 where
  "IGB_SMADARCTL = 0x14F10"

definition IGB_MPVC :: u32 where
  "IGB_MPVC = 0x04318"

definition IGB_SGMIIC :: u32 where
  "IGB_SGMIIC = 0x04314"

text \<open>The registers and bits the driver itself uses.\<close>

lemmas Regs_Diag_used [register_defs] =
  IGB_HLREG0_def

end
