(* ===== verification/Regs_Fields.thy ===== *)
theory Regs_Fields
  imports Regs_Diag
begin

text \<open>
  The bit fields of \<open>src/constants.rs\<close> that the driver sets or tests, and the field
  functions of the file: interrupt vector indices, LED control words, pause-delay values.
\<close>

definition IGB_RDRXCTL_CRCSTRIP :: u32 where
  "IGB_RDRXCTL_CRCSTRIP = 0x00000002"

definition IGB_RQTC_SHIFT_TC :: "u32 \<Rightarrow> u32" where
  "IGB_RQTC_SHIFT_TC i = i * 4"

definition IGB_CTRL_GLOBAL_RST :: u32 where
  "IGB_CTRL_GLOBAL_RST = push_bit 26 (0x1 :: u32)"

definition IGB_SDP0_GPIEN :: u32 where
  "IGB_SDP0_GPIEN = 0x00000001"

definition IGB_SDP1_GPIEN :: u32 where
  "IGB_SDP1_GPIEN = 0x00000002"

definition IGB_SDP2_GPIEN :: u32 where
  "IGB_SDP2_GPIEN = 0x00000004"

definition IGB_SDP0_GPIEN_BY_MAC :: "u32 \<Rightarrow> u32" where
  "IGB_SDP0_GPIEN_BY_MAC hw = IGB_BY_MAC hw IGB_SDP0_GPIEN"

definition IGB_SDP1_GPIEN_BY_MAC :: "u32 \<Rightarrow> u32" where
  "IGB_SDP1_GPIEN_BY_MAC hw = IGB_BY_MAC hw IGB_SDP1_GPIEN"

definition IGB_SDP2_GPIEN_BY_MAC :: "u32 \<Rightarrow> u32" where
  "IGB_SDP2_GPIEN_BY_MAC hw = IGB_BY_MAC hw IGB_SDP2_GPIEN"

definition IGB_GPIE_MSIX_MODE :: u32 where
  "IGB_GPIE_MSIX_MODE = 0x00000010"

definition IGB_GPIE_EIAME :: u32 where
  "IGB_GPIE_EIAME = 0x40000000"

definition IGB_GPIE_PBA_SUPPORT :: u32 where
  "IGB_GPIE_PBA_SUPPORT = 0x80000000"

definition IGB_RXPBSIZE_128KB :: u32 where
  "IGB_RXPBSIZE_128KB = 0x00020000"

definition IGB_HLREG0_RXCRCSTRP :: u32 where
  "IGB_HLREG0_RXCRCSTRP = 0x00000002"

definition IGB_EICR_RTX_QUEUE :: u32 where
  "IGB_EICR_RTX_QUEUE = 0x0000FFFF"

definition IGB_EICR_GPI_SDP0 :: u32 where
  "IGB_EICR_GPI_SDP0 = 0x01000000"

definition IGB_EICR_GPI_SDP1 :: u32 where
  "IGB_EICR_GPI_SDP1 = 0x02000000"

definition IGB_EICR_GPI_SDP2 :: u32 where
  "IGB_EICR_GPI_SDP2 = 0x04000000"

definition IGB_EICR_GPI_SDP0_BY_MAC :: "u32 \<Rightarrow> u32" where
  "IGB_EICR_GPI_SDP0_BY_MAC hw = IGB_BY_MAC hw IGB_EICR_GPI_SDP0"

definition IGB_EICR_GPI_SDP1_BY_MAC :: "u32 \<Rightarrow> u32" where
  "IGB_EICR_GPI_SDP1_BY_MAC hw = IGB_BY_MAC hw IGB_EICR_GPI_SDP1"

definition IGB_EICR_GPI_SDP2_BY_MAC :: "u32 \<Rightarrow> u32" where
  "IGB_EICR_GPI_SDP2_BY_MAC hw = IGB_BY_MAC hw IGB_EICR_GPI_SDP2"

definition IGB_EICS_GPI_SDP0_BY_MAC :: "u32 \<Rightarrow> u32" where
  "IGB_EICS_GPI_SDP0_BY_MAC hw = IGB_EICR_GPI_SDP0_BY_MAC hw"

definition IGB_EICS_GPI_SDP1_BY_MAC :: "u32 \<Rightarrow> u32" where
  "IGB_EICS_GPI_SDP1_BY_MAC hw = IGB_EICR_GPI_SDP1_BY_MAC hw"

definition IGB_EICS_GPI_SDP2_BY_MAC :: "u32 \<Rightarrow> u32" where
  "IGB_EICS_GPI_SDP2_BY_MAC hw = IGB_EICR_GPI_SDP2_BY_MAC hw"

definition IGB_EIMS_RTX_QUEUE :: u32 where
  "IGB_EIMS_RTX_QUEUE = IGB_EICR_RTX_QUEUE"

definition IGB_EIMS_GPI_SDP0_BY_MAC :: "u32 \<Rightarrow> u32" where
  "IGB_EIMS_GPI_SDP0_BY_MAC hw = IGB_EICR_GPI_SDP0_BY_MAC hw"

definition IGB_EIMS_GPI_SDP1_BY_MAC :: "u32 \<Rightarrow> u32" where
  "IGB_EIMS_GPI_SDP1_BY_MAC hw = IGB_EICR_GPI_SDP1_BY_MAC hw"

definition IGB_EIMS_GPI_SDP2_BY_MAC :: "u32 \<Rightarrow> u32" where
  "IGB_EIMS_GPI_SDP2_BY_MAC hw = IGB_EICR_GPI_SDP2_BY_MAC hw"

definition IGB_EIMC_GPI_SDP0_BY_MAC :: "u32 \<Rightarrow> u32" where
  "IGB_EIMC_GPI_SDP0_BY_MAC hw = IGB_EICR_GPI_SDP0_BY_MAC hw"

definition IGB_EIMC_GPI_SDP1_BY_MAC :: "u32 \<Rightarrow> u32" where
  "IGB_EIMC_GPI_SDP1_BY_MAC hw = IGB_EICR_GPI_SDP1_BY_MAC hw"

definition IGB_EIMC_GPI_SDP2_BY_MAC :: "u32 \<Rightarrow> u32" where
  "IGB_EIMC_GPI_SDP2_BY_MAC hw = IGB_EICR_GPI_SDP2_BY_MAC hw"

definition IGB_IRQ_CLEAR_MASK :: u32 where
  "IGB_IRQ_CLEAR_MASK = 0xFFFFFFFF"

definition IGB_IVAR_RX_QUEUE :: "u32 \<Rightarrow> u32" where
  "IGB_IVAR_RX_QUEUE i = 0 + i"

definition IGB_IVAR_TX_QUEUE :: "u32 \<Rightarrow> u32" where
  "IGB_IVAR_TX_QUEUE i = 64 + i"

definition IGB_MSIX_VECTOR :: "u32 \<Rightarrow> u32" where
  "IGB_MSIX_VECTOR i = 0 + i"

definition IGB_IVAR_ALLOC_VAL :: u32 where
  "IGB_IVAR_ALLOC_VAL = 0x80"

definition IGB_LED_IVRT_BASE :: u32 where
  "IGB_LED_IVRT_BASE = 0x00000040"

definition IGB_LED_BLINK_BASE :: u32 where
  "IGB_LED_BLINK_BASE = 0x00000080"

definition IGB_LED_MODE_MASK_BASE :: u32 where
  "IGB_LED_MODE_MASK_BASE = 0x0000000F"

definition IGB_LED_OFFSET :: "u32 \<Rightarrow> u32 \<Rightarrow> u32" where
  "IGB_LED_OFFSET base i = push_bit (unat (8 * i) mod 32) base"

definition IGB_LED_MODE_SHIFT :: "u32 \<Rightarrow> u32" where
  "IGB_LED_MODE_SHIFT i = 8 * i"

definition IGB_LED_IVRT :: "u32 \<Rightarrow> u32" where
  "IGB_LED_IVRT i = IGB_LED_OFFSET IGB_LED_IVRT_BASE i"

definition IGB_LED_BLINK :: "u32 \<Rightarrow> u32" where
  "IGB_LED_BLINK i = IGB_LED_OFFSET IGB_LED_BLINK_BASE i"

definition IGB_LED_MODE_MASK :: "u32 \<Rightarrow> u32" where
  "IGB_LED_MODE_MASK i = IGB_LED_OFFSET IGB_LED_MODE_MASK_BASE i"

definition IGB_LINKS_UP :: u32 where
  "IGB_LINKS_UP = push_bit 1 (0x1 :: u32)"

definition IGB_TXDCTL_ENABLE :: u32 where
  "IGB_TXDCTL_ENABLE = 0x02000000"

definition IGB_RXCTRL_RXEN :: u32 where
  "IGB_RXCTRL_RXEN = 0x00000002"

definition IGB_RXCTRL_BAM :: u32 where
  "IGB_RXCTRL_BAM = push_bit 15 (0x1 :: u32)"

definition IGB_RXDCTL_ENABLE :: u32 where
  "IGB_RXDCTL_ENABLE = 0x02000000"

definition IGB_FCTRL_MPE :: u32 where
  "IGB_FCTRL_MPE = 0x00000100"

definition IGB_FCTRL_UPE :: u32 where
  "IGB_FCTRL_UPE = 0x00000200"

definition IGB_FCTRL_BAM :: u32 where
  "IGB_FCTRL_BAM = 0x00000400"

definition IGB_TXD_STAT_DD :: u32 where
  "IGB_TXD_STAT_DD = 0x00000001"

definition FW_PHY_TOKEN_DELAY :: u32 where
  "FW_PHY_TOKEN_DELAY = 5"

definition FW_PHY_TOKEN_WAIT :: u32 where
  "FW_PHY_TOKEN_WAIT = 5"

definition FW_PHY_TOKEN_RETRIES :: "u32" where
  "FW_PHY_TOKEN_RETRIES = (FW_PHY_TOKEN_WAIT * 1000) div FW_PHY_TOKEN_DELAY"

definition FW_PHY_ACT_SETUP_LINK_PAUSE_SHIFT :: u32 where
  "FW_PHY_ACT_SETUP_LINK_PAUSE_SHIFT = 16"

definition FW_PHY_ACT_SETUP_LINK_PAUSE_MASK :: "u32" where
  "FW_PHY_ACT_SETUP_LINK_PAUSE_MASK = push_bit (unat FW_PHY_ACT_SETUP_LINK_PAUSE_SHIFT) (3 :: u32)"

definition IGB_ADVTXD_STAT_DD :: u32 where
  "IGB_ADVTXD_STAT_DD = IGB_TXD_STAT_DD"

definition IGB_BT2KB :: "u32 \<Rightarrow> u32" where
  "IGB_BT2KB BT = ((BT + ((8 * 1024) - 1)) div 8) * 1024"

definition IGB_B2BT :: "u32 \<Rightarrow> u32" where
  "IGB_B2BT BT = BT * 8"

definition IGB_PFC_D :: u32 where
  "IGB_PFC_D = 672"

definition IGB_CABLE_DC :: u32 where
  "IGB_CABLE_DC = 5556"

definition IGB_PHY_DC :: u32 where
  "IGB_PHY_DC = 25600"

definition IGB_MAC_DC :: u32 where
  "IGB_MAC_DC = 8192"

definition IGB_XAUI_DC :: u32 where
  "IGB_XAUI_DC = 2 * 2048"

definition IGB_ID_X540 :: u32 where
  "IGB_ID_X540 = (IGB_MAC_DC + IGB_XAUI_DC) + IGB_PHY_DC"

definition IGB_PHY_D :: u32 where
  "IGB_PHY_D = 12800"

definition IGB_MAC_D :: u32 where
  "IGB_MAC_D = 4096"

definition IGB_XAUI_D :: u32 where
  "IGB_XAUI_D = 2 * 1024"

definition IGB_ID :: u32 where
  "IGB_ID = (IGB_MAC_D + IGB_XAUI_D) + IGB_PHY_D"

definition IGB_HD :: u32 where
  "IGB_HD = 6144"

definition IGB_PCI_DELAY :: u32 where
  "IGB_PCI_DELAY = 10000"

definition IGB_DV_X540 :: "u32 \<Rightarrow> u32 \<Rightarrow> u32" where
  "IGB_DV_X540 max_frame_link max_frame_tc = (((36 * ((((IGB_B2BT max_frame_link + IGB_PFC_D) + (2 * IGB_CABLE_DC)) + (2 * IGB_ID_X540)) + IGB_HD)) div 25) + 1) + (2 * IGB_B2BT max_frame_tc)"

definition IGB_DV :: "u32 \<Rightarrow> u32 \<Rightarrow> u32" where
  "IGB_DV max_frame_link max_frame_tc = (((36 * ((((IGB_B2BT max_frame_link + IGB_PFC_D) + (2 * IGB_CABLE_DC)) + (2 * IGB_ID)) + IGB_HD)) div 25) + 1) + (2 * IGB_B2BT max_frame_tc)"

definition IGB_LOW_DV_X540 :: "u32 \<Rightarrow> u32" where
  "IGB_LOW_DV_X540 max_frame_tc = ((2 * IGB_B2BT max_frame_tc) + ((36 * IGB_PCI_DELAY) div 25)) + 1"

definition IGB_LOW_DV :: "u32 \<Rightarrow> u32" where
  "IGB_LOW_DV max_frame_tc = 2 * IGB_LOW_DV_X540 max_frame_tc"

text \<open>The registers and bits the driver itself uses.\<close>

lemmas Regs_Fields_used [register_defs] =
  IGB_RDRXCTL_CRCSTRIP_def IGB_CTRL_GLOBAL_RST_def IGB_GPIE_MSIX_MODE_def
  IGB_GPIE_EIAME_def IGB_GPIE_PBA_SUPPORT_def IGB_RXPBSIZE_128KB_def
  IGB_HLREG0_RXCRCSTRP_def IGB_EICR_RTX_QUEUE_def IGB_EIMS_RTX_QUEUE_def
  IGB_IRQ_CLEAR_MASK_def IGB_IVAR_ALLOC_VAL_def IGB_LINKS_UP_def
  IGB_TXDCTL_ENABLE_def IGB_RXCTRL_RXEN_def IGB_RXCTRL_BAM_def
  IGB_RXDCTL_ENABLE_def IGB_FCTRL_MPE_def IGB_FCTRL_UPE_def
  IGB_FCTRL_BAM_def IGB_TXD_STAT_DD_def IGB_ADVTXD_STAT_DD_def

end
