(* ===== verification/Regs_Virtual.thy ===== *)
theory Regs_Virtual
  imports Regs_Fields
begin

text \<open>
  The per-virtual-function registers and the indirect PHY registers of
  \<open>src/constants.rs\<close>.
\<close>

definition IGB_MBVFICR_INDEX :: "u32 \<Rightarrow> u32" where
  "IGB_MBVFICR_INDEX vf_number = drop_bit 4 vf_number"

definition IGB_MBVFICR :: "u32 \<Rightarrow> u32" where
  "IGB_MBVFICR i = 0x00710 + (i * 4)"

definition IGB_VFLRE :: "u32 \<Rightarrow> u32" where
  "IGB_VFLRE i = (if (i AND 1) \<noteq> 0 then 0x001C0 else 0x00600)"

definition IGB_VFLREC :: "u32 \<Rightarrow> u32" where
  "IGB_VFLREC i = 0x00700 + (i * 4)"

definition IGB_PVFCTRL :: "u32 \<Rightarrow> u32" where
  "IGB_PVFCTRL P = 0x00300 + (4 * P)"

definition IGB_PVFSTATUS :: "u32 \<Rightarrow> u32" where
  "IGB_PVFSTATUS P = 0x00008 + (0 * P)"

definition IGB_PVFLINKS :: "u32 \<Rightarrow> u32" where
  "IGB_PVFLINKS P = 0x042A4 + (0 * P)"

definition IGB_PVFRTIMER :: "u32 \<Rightarrow> u32" where
  "IGB_PVFRTIMER P = 0x00048 + (0 * P)"

definition IGB_PVFMAILBOX :: "u32 \<Rightarrow> u32" where
  "IGB_PVFMAILBOX P = 0x04C00 + (4 * P)"

definition IGB_PVFRXMEMWRAP :: "u32 \<Rightarrow> u32" where
  "IGB_PVFRXMEMWRAP P = 0x03190 + (0 * P)"

definition IGB_PVTEICR :: "u32 \<Rightarrow> u32" where
  "IGB_PVTEICR P = 0x00B00 + (4 * P)"

definition IGB_PVTEICS :: "u32 \<Rightarrow> u32" where
  "IGB_PVTEICS P = 0x00C00 + (4 * P)"

definition IGB_PVTEIMS :: "u32 \<Rightarrow> u32" where
  "IGB_PVTEIMS P = 0x00D00 + (4 * P)"

definition IGB_PVTEIMC :: "u32 \<Rightarrow> u32" where
  "IGB_PVTEIMC P = 0x00E00 + (4 * P)"

definition IGB_PVTEIAC :: "u32 \<Rightarrow> u32" where
  "IGB_PVTEIAC P = 0x00F00 + (4 * P)"

definition IGB_PVTEIAM :: "u32 \<Rightarrow> u32" where
  "IGB_PVTEIAM P = 0x04D00 + (4 * P)"

definition IGB_PVTEITR :: "u32 \<Rightarrow> u32" where
  "IGB_PVTEITR P = (if P < 24 then 0x00820 + (P * 4) else 0x012300 + ((P - 24) * 4))"

definition IGB_PVTIVAR :: "u32 \<Rightarrow> u32" where
  "IGB_PVTIVAR P = 0x12500 + (4 * P)"

definition IGB_PVTIVAR_MISC :: "u32 \<Rightarrow> u32" where
  "IGB_PVTIVAR_MISC P = 0x04E00 + (4 * P)"

definition IGB_PVTRSCINT :: "u32 \<Rightarrow> u32" where
  "IGB_PVTRSCINT P = 0x12000 + (4 * P)"

definition IGB_VFPBACL :: "u32 \<Rightarrow> u32" where
  "IGB_VFPBACL P = 0x110C8 + (4 * P)"

definition IGB_PVFRDBAL :: "u32 \<Rightarrow> u32" where
  "IGB_PVFRDBAL P = (if P < 64 then 0x01000 + (0x40 * P) else 0x0D000 + (0x40 * (P - 64)))"

definition IGB_PVFRDBAH :: "u32 \<Rightarrow> u32" where
  "IGB_PVFRDBAH P = (if P < 64 then 0x01004 + (0x40 * P) else 0x0D004 + (0x40 * (P - 64)))"

definition IGB_PVFRDLEN :: "u32 \<Rightarrow> u32" where
  "IGB_PVFRDLEN P = (if P < 64 then 0x01008 + (0x40 * P) else 0x0D008 + (0x40 * (P - 64)))"

definition IGB_PVFRDH :: "u32 \<Rightarrow> u32" where
  "IGB_PVFRDH P = (if P < 64 then 0x01010 + (0x40 * P) else 0x0D010 + (0x40 * (P - 64)))"

definition IGB_PVFRDT :: "u32 \<Rightarrow> u32" where
  "IGB_PVFRDT P = (if P < 64 then 0x01018 + (0x40 * P) else 0x0D018 + (0x40 * (P - 64)))"

definition IGB_PVFRXDCTL :: "u32 \<Rightarrow> u32" where
  "IGB_PVFRXDCTL P = (if P < 64 then 0x01028 + (0x40 * P) else 0x0D028 + (0x40 * (P - 64)))"

definition IGB_PVFSRRCTL :: "u32 \<Rightarrow> u32" where
  "IGB_PVFSRRCTL P = (if P < 64 then 0x01014 + (0x40 * P) else 0x0D014 + (0x40 * (P - 64)))"

definition IGB_PVFPSRTYPE :: "u32 \<Rightarrow> u32" where
  "IGB_PVFPSRTYPE P = 0x0EA00 + (4 * P)"

definition IGB_PVFTDBAL :: "u32 \<Rightarrow> u32" where
  "IGB_PVFTDBAL P = 0x06000 + (0x40 * P)"

definition IGB_PVFTDBAH :: "u32 \<Rightarrow> u32" where
  "IGB_PVFTDBAH P = 0x06004 + (0x40 * P)"

definition IGB_PVFTDLEN :: "u32 \<Rightarrow> u32" where
  "IGB_PVFTDLEN P = 0x06008 + (0x40 * P)"

definition IGB_PVFTDH :: "u32 \<Rightarrow> u32" where
  "IGB_PVFTDH P = 0x06010 + (0x40 * P)"

definition IGB_PVFTDT :: "u32 \<Rightarrow> u32" where
  "IGB_PVFTDT P = 0x06018 + (0x40 * P)"

definition IGB_PVFTXDCTL :: "u32 \<Rightarrow> u32" where
  "IGB_PVFTXDCTL P = 0x06028 + (0x40 * P)"

definition IGB_PVFTDWBAL :: "u32 \<Rightarrow> u32" where
  "IGB_PVFTDWBAL P = 0x06038 + (0x40 * P)"

definition IGB_PVFTDWBAH :: "u32 \<Rightarrow> u32" where
  "IGB_PVFTDWBAH P = 0x0603C + (0x40 * P)"

definition IGB_PVFDCA_RXCTRL :: "u32 \<Rightarrow> u32" where
  "IGB_PVFDCA_RXCTRL P = (if P < 64 then 0x0100C + (0x40 * P) else 0x0D00C + (0x40 * (P - 64)))"

definition IGB_PVFDCA_TXCTRL :: "u32 \<Rightarrow> u32" where
  "IGB_PVFDCA_TXCTRL P = 0x0600C + (0x40 * P)"

definition IGB_PVFGPRC :: "u32 \<Rightarrow> u32" where
  "IGB_PVFGPRC x = 0x0101C + (0x40 * x)"

definition IGB_PVFGPTC :: "u32 \<Rightarrow> u32" where
  "IGB_PVFGPTC x = 0x08300 + (0x04 * x)"

definition IGB_PVFGORC_LSB :: "u32 \<Rightarrow> u32" where
  "IGB_PVFGORC_LSB x = 0x01020 + (0x40 * x)"

definition IGB_PVFGORC_MSB :: "u32 \<Rightarrow> u32" where
  "IGB_PVFGORC_MSB x = 0x0D020 + (0x40 * x)"

definition IGB_PVFGOTC_LSB :: "u32 \<Rightarrow> u32" where
  "IGB_PVFGOTC_LSB x = 0x08400 + (0x08 * x)"

definition IGB_PVFGOTC_MSB :: "u32 \<Rightarrow> u32" where
  "IGB_PVFGOTC_MSB x = 0x08404 + (0x08 * x)"

definition IGB_PVFMPRC :: "u32 \<Rightarrow> u32" where
  "IGB_PVFMPRC x = 0x0D01C + (0x40 * x)"

definition IGB_PVFTDWBALn :: "u32 \<Rightarrow> u32 \<Rightarrow> u32 \<Rightarrow> u32" where
  "IGB_PVFTDWBALn q_per_pool vf_number vf_q_index = IGB_PVFTDWBAL ((q_per_pool * vf_number) + vf_q_index)"

definition IGB_PVFTDWBAHn :: "u32 \<Rightarrow> u32 \<Rightarrow> u32 \<Rightarrow> u32" where
  "IGB_PVFTDWBAHn q_per_pool vf_number vf_q_index = IGB_PVFTDWBAH ((q_per_pool * vf_number) + vf_q_index)"

definition IGB_PVFTDHn :: "u32 \<Rightarrow> u32 \<Rightarrow> u32 \<Rightarrow> u32" where
  "IGB_PVFTDHn q_per_pool vf_number vf_q_index = IGB_PVFTDH ((q_per_pool * vf_number) + vf_q_index)"

definition IGB_PVFTDTn :: "u32 \<Rightarrow> u32 \<Rightarrow> u32 \<Rightarrow> u32" where
  "IGB_PVFTDTn q_per_pool vf_number vf_q_index = IGB_PVFTDT ((q_per_pool * vf_number) + vf_q_index)"

definition IGB_FUSES0_GROUP :: "u32 \<Rightarrow> u32" where
  "IGB_FUSES0_GROUP i = 0x11158 + (i * 4)"

definition IGB_KRM_PORT_CAR_GEN_CTRL :: "u32 \<Rightarrow> u32" where
  "IGB_KRM_PORT_CAR_GEN_CTRL P = (if P \<noteq> 0 then 0x8010 else 0x4010)"

definition IGB_KRM_LINK_S1 :: "u32 \<Rightarrow> u32" where
  "IGB_KRM_LINK_S1 P = (if P \<noteq> 0 then 0x8200 else 0x4200)"

definition IGB_KRM_LINK_CTRL_1 :: "u32 \<Rightarrow> u32" where
  "IGB_KRM_LINK_CTRL_1 P = (if P \<noteq> 0 then 0x820C else 0x420C)"

definition IGB_KRM_AN_CNTL_1 :: "u32 \<Rightarrow> u32" where
  "IGB_KRM_AN_CNTL_1 P = (if P \<noteq> 0 then 0x822C else 0x422C)"

definition IGB_KRM_AN_CNTL_4 :: "u32 \<Rightarrow> u32" where
  "IGB_KRM_AN_CNTL_4 P = (if P \<noteq> 0 then 0x8238 else 0x4238)"

definition IGB_KRM_AN_CNTL_8 :: "u32 \<Rightarrow> u32" where
  "IGB_KRM_AN_CNTL_8 P = (if P \<noteq> 0 then 0x8248 else 0x4248)"

definition IGB_KRM_PCS_KX_AN :: "u32 \<Rightarrow> u32" where
  "IGB_KRM_PCS_KX_AN P = (if P \<noteq> 0 then 0x9918 else 0x5918)"

definition IGB_KRM_PCS_KX_AN_LP :: "u32 \<Rightarrow> u32" where
  "IGB_KRM_PCS_KX_AN_LP P = (if P \<noteq> 0 then 0x991C else 0x591C)"

definition IGB_KRM_SGMII_CTRL :: "u32 \<Rightarrow> u32" where
  "IGB_KRM_SGMII_CTRL P = (if P \<noteq> 0 then 0x82A0 else 0x42A0)"

definition IGB_KRM_LP_BASE_PAGE_HIGH :: "u32 \<Rightarrow> u32" where
  "IGB_KRM_LP_BASE_PAGE_HIGH P = (if P \<noteq> 0 then 0x836C else 0x436C)"

definition IGB_KRM_DSP_TXFFE_STATE_4 :: "u32 \<Rightarrow> u32" where
  "IGB_KRM_DSP_TXFFE_STATE_4 P = (if P \<noteq> 0 then 0x8634 else 0x4634)"

definition IGB_KRM_DSP_TXFFE_STATE_5 :: "u32 \<Rightarrow> u32" where
  "IGB_KRM_DSP_TXFFE_STATE_5 P = (if P \<noteq> 0 then 0x8638 else 0x4638)"

definition IGB_KRM_RX_TRN_LINKUP_CTRL :: "u32 \<Rightarrow> u32" where
  "IGB_KRM_RX_TRN_LINKUP_CTRL P = (if P \<noteq> 0 then 0x8B00 else 0x4B00)"

definition IGB_KRM_PMD_DFX_BURNIN :: "u32 \<Rightarrow> u32" where
  "IGB_KRM_PMD_DFX_BURNIN P = (if P \<noteq> 0 then 0x8E00 else 0x4E00)"

definition IGB_KRM_PMD_FLX_MASK_ST20 :: "u32 \<Rightarrow> u32" where
  "IGB_KRM_PMD_FLX_MASK_ST20 P = (if P \<noteq> 0 then 0x9054 else 0x5054)"

definition IGB_KRM_TX_COEFF_CTRL_1 :: "u32 \<Rightarrow> u32" where
  "IGB_KRM_TX_COEFF_CTRL_1 P = (if P \<noteq> 0 then 0x9520 else 0x5520)"

definition IGB_KRM_RX_ANA_CTL :: "u32 \<Rightarrow> u32" where
  "IGB_KRM_RX_ANA_CTL P = (if P \<noteq> 0 then 0x9A00 else 0x5A00)"

definition IGB_VTEITR :: "u32 \<Rightarrow> u32" where
  "IGB_VTEITR x = 0x00820 + (4 * x)"

definition IGB_VTIVAR :: "u32 \<Rightarrow> u32" where
  "IGB_VTIVAR x = 0x00120 + (4 * x)"

definition IGB_VTRSCINT :: "u32 \<Rightarrow> u32" where
  "IGB_VTRSCINT x = 0x00180 + (4 * x)"

definition IGB_VFRDBAL :: "u32 \<Rightarrow> u32" where
  "IGB_VFRDBAL x = 0x01000 + (0x40 * x)"

definition IGB_VFRDBAH :: "u32 \<Rightarrow> u32" where
  "IGB_VFRDBAH x = 0x01004 + (0x40 * x)"

definition IGB_VFRDLEN :: "u32 \<Rightarrow> u32" where
  "IGB_VFRDLEN x = 0x01008 + (0x40 * x)"

definition IGB_VFRDH :: "u32 \<Rightarrow> u32" where
  "IGB_VFRDH x = 0x01010 + (0x40 * x)"

definition IGB_VFRDT :: "u32 \<Rightarrow> u32" where
  "IGB_VFRDT x = 0x01018 + (0x40 * x)"

definition IGB_VFRXDCTL :: "u32 \<Rightarrow> u32" where
  "IGB_VFRXDCTL x = 0x01028 + (0x40 * x)"

definition IGB_VFSRRCTL :: "u32 \<Rightarrow> u32" where
  "IGB_VFSRRCTL x = 0x01014 + (0x40 * x)"

definition IGB_VFRSCCTL :: "u32 \<Rightarrow> u32" where
  "IGB_VFRSCCTL x = 0x0102C + (0x40 * x)"

definition IGB_VFTDBAL :: "u32 \<Rightarrow> u32" where
  "IGB_VFTDBAL x = 0x02000 + (0x40 * x)"

definition IGB_VFTDBAH :: "u32 \<Rightarrow> u32" where
  "IGB_VFTDBAH x = 0x02004 + (0x40 * x)"

definition IGB_VFTDLEN :: "u32 \<Rightarrow> u32" where
  "IGB_VFTDLEN x = 0x02008 + (0x40 * x)"

definition IGB_VFTDH :: "u32 \<Rightarrow> u32" where
  "IGB_VFTDH x = 0x02010 + (0x40 * x)"

definition IGB_VFTDT :: "u32 \<Rightarrow> u32" where
  "IGB_VFTDT x = 0x02018 + (0x40 * x)"

definition IGB_VFTXDCTL :: "u32 \<Rightarrow> u32" where
  "IGB_VFTXDCTL x = 0x02028 + (0x40 * x)"

definition IGB_VFTDWBAL :: "u32 \<Rightarrow> u32" where
  "IGB_VFTDWBAL x = 0x02038 + (0x40 * x)"

definition IGB_VFTDWBAH :: "u32 \<Rightarrow> u32" where
  "IGB_VFTDWBAH x = 0x0203C + (0x40 * x)"

definition IGB_VFDCA_RXCTRL :: "u32 \<Rightarrow> u32" where
  "IGB_VFDCA_RXCTRL x = 0x0100C + (0x40 * x)"

definition IGB_VFDCA_TXCTRL :: "u32 \<Rightarrow> u32" where
  "IGB_VFDCA_TXCTRL x = 0x0200c + (0x40 * x)"

definition IGB_VFRSSRK :: "u32 \<Rightarrow> u32" where
  "IGB_VFRSSRK x = 0x3100 + (x * 4)"

definition IGB_VFRETA :: "u32 \<Rightarrow> u32" where
  "IGB_VFRETA x = 0x3200 + (x * 4)"

end
