(* ===== verification/Device.thy ===== *)
theory Device
  imports Memory Descriptor Interrupts Regs_Virtual
begin

text \<open>
  The device structure of \<open>src/igb.rs\<close> and its register access: bounds-checked reads and
  writes, read-modify-write of flags, the polling loops, the interrupt masks, the link and
  the station address.

  \<open>&self\<close> and \<open>&mut self\<close> are the field \<open>dev\<close> of the driver state, which extends the heap
  of the packet pools. Log output is not modelled.
\<close>

section \<open>State\<close>

definition DRIVER_NAME :: string where "DRIVER_NAME = ''igb''"
definition MAX_QUEUES :: u16 where "MAX_QUEUES = 64"
definition PKT_BUF_ENTRY_SIZE :: usize where "PKT_BUF_ENTRY_SIZE = 2048"
definition MIN_MEMPOOL_SIZE :: usize where "MIN_MEMPOOL_SIZE = 4096"
definition TX_CLEAN_BATCH :: usize where "TX_CLEAN_BATCH = 32"

record IgbRxQueue =
  rx_descriptors :: "usize list"
  rx_num_descriptors :: usize
  rx_pool :: pool_ref
  rx_bufs_in_use :: "usize list"
  rx_index :: usize

record IgbTxQueue =
  tx_descriptors :: "usize list"
  tx_num_descriptors :: usize
  tx_pool :: "pool_ref option"
  tx_bufs_in_use :: "usize list"
  clean_index :: usize
  tx_index :: usize

record IgbDevice =
  dev_addr :: usize
  dev_len :: usize
  num_rx_queues :: u16
  num_tx_queues :: u16
  rx_queues :: "IgbRxQueue list"
  tx_queues :: "IgbTxQueue list"
  interrupts :: Interrupts

record ('w, 'c) drv = "('w, 'c) heap" +
  dev :: IgbDevice

definition set_rx_queue :: "u16 \<Rightarrow> IgbRxQueue \<Rightarrow> (('w, 'c, 'x) drv_scheme, unit) prog" where
  "set_rx_queue i q =
     modifyM (\<lambda>s. s\<lparr>dev := (dev s)\<lparr>rx_queues := (rx_queues (dev s))[unat i := q]\<rparr>\<rparr>)"

definition set_tx_queue :: "u16 \<Rightarrow> IgbTxQueue \<Rightarrow> (('w, 'c, 'x) drv_scheme, unit) prog" where
  "set_tx_queue i q =
     modifyM (\<lambda>s. s\<lparr>dev := (dev s)\<lparr>tx_queues := (tx_queues (dev s))[unat i := q]\<rparr>\<rparr>)"

text \<open>\<open>self.rx_queues[queue_id as usize]\<close> and its transmit twin: out of bounds they panic.\<close>

definition rx_queue_at :: "u16 \<Rightarrow> (('w, 'c, 'x) drv_scheme, IgbRxQueue) prog" where
  "rx_queue_at i = bindM (getsM (\<lambda>s. rx_queues (dev s))) (\<lambda>qs. indexM qs (ucast i))"

definition tx_queue_at :: "u16 \<Rightarrow> (('w, 'c, 'x) drv_scheme, IgbTxQueue) prog" where
  "tx_queue_at i = bindM (getsM (\<lambda>s. tx_queues (dev s))) (\<lambda>qs. indexM qs (ucast i))"

section \<open>Registers\<close>

definition check_reg :: "'w platform \<Rightarrow> u32 \<Rightarrow> (('w, 'c, 'x) drv_scheme, usize) prog" where
  "check_reg E reg = bindM (getsM dev) (\<lambda>d.
     bindM (sub_ov (overflow_checks E) (dev_len d) 4) (\<lambda>last_reg.
     seqM (assertM MemoryAccessOutOfBounds (ucast reg \<le> last_reg))
          (add_ov (overflow_checks E) (dev_addr d) (ucast reg))))"

definition get_reg32 :: "'w platform \<Rightarrow> u32 \<Rightarrow> (('w, 'c, 'x) drv_scheme, u32) prog" where
  "get_reg32 E reg = bindM (check_reg E reg) (\<lambda>a. worldM (mmio_read E a))"

definition set_reg32 :: "'w platform \<Rightarrow> u32 \<Rightarrow> u32 \<Rightarrow> (('w, 'c, 'x) drv_scheme, unit) prog" where
  "set_reg32 E reg v = bindM (check_reg E reg) (\<lambda>a. world_doM (mmio_write E a v))"

definition set_flags32 :: "'w platform \<Rightarrow> u32 \<Rightarrow> u32 \<Rightarrow> (('w, 'c, 'x) drv_scheme, unit) prog" where
  "set_flags32 E reg flags = bindM (get_reg32 E reg) (\<lambda>v. set_reg32 E reg (v OR flags))"

definition clear_flags32 :: "'w platform \<Rightarrow> u32 \<Rightarrow> u32 \<Rightarrow> (('w, 'c, 'x) drv_scheme, unit) prog" where
  "clear_flags32 E reg flags = bindM (get_reg32 E reg) (\<lambda>v. set_reg32 E reg (v AND NOT flags))"

definition wait_ms :: "'w platform \<Rightarrow> nat \<Rightarrow> (('w, 'c, 'x) drv_scheme, unit) prog" where
  "wait_ms E ms = bindM (worldM (wait_until (hal E) ms)) (\<lambda>_. ret ())"

definition wait_clear_reg32 :: "'w platform \<Rightarrow> u32 \<Rightarrow> u32 \<Rightarrow> (('w, 'c, 'x) drv_scheme, unit) prog" where
  "wait_clear_reg32 E reg v = loopM (\<lambda>_ :: unit.
     bindM (get_reg32 E reg) (\<lambda>current.
     if current AND v = 0 then ret (Inr ())
     else seqM (wait_ms E 100) (ret (Inl ())))) ()"

definition wait_set_reg32 :: "'w platform \<Rightarrow> u32 \<Rightarrow> u32 \<Rightarrow> (('w, 'c, 'x) drv_scheme, unit) prog" where
  "wait_set_reg32 E reg v = loopM (\<lambda>_ :: unit.
     bindM (get_reg32 E reg) (\<lambda>current.
     if current AND v = v then ret (Inr ())
     else seqM (wait_ms E 100) (ret (Inl ())))) ()"

definition set_ivar ::
  "'w platform \<Rightarrow> u32 \<Rightarrow> u16 \<Rightarrow> u32 \<Rightarrow> (('w, 'c, 'x) drv_scheme, unit) prog" where
  "set_ivar E direction queue msix_vector =
     (let msix_vector = msix_vector OR IGB_IVAR_ALLOC_VAL; ck = overflow_checks E in
      bindM (mul_ov ck 8 direction) (\<lambda>d.
      bindM (add_ov ck (16 * (ucast queue AND 1)) d) (\<lambda>index.
      bindM (get_reg32 E (IGB_IVAR (drop_bit 1 (ucast queue)))) (\<lambda>ivar.
      bindM (shl_ov ck 0xFF (unat index)) (\<lambda>field.
      bindM (shl_ov ck msix_vector (unat index)) (\<lambda>entry.
      set_reg32 E (IGB_IVAR (drop_bit 1 (ucast queue))) ((ivar AND NOT field) OR entry)))))))"

section \<open>Interrupt masks\<close>

definition clear_interrupt :: "'w platform \<Rightarrow> u16 \<Rightarrow> (('w, 'c, 'x) drv_scheme, unit) prog" where
  "clear_interrupt E queue_id =
     bindM (shl_ov (overflow_checks E) 1 (unat queue_id)) (\<lambda>b.
     seqM (set_reg32 E IGB_IMC b) (bindM (get_reg32 E IGB_ICR) (\<lambda>_. ret ())))"

definition clear_interrupts :: "'w platform \<Rightarrow> (('w, 'c, 'x) drv_scheme, unit) prog" where
  "clear_interrupts E =
     seqM (set_reg32 E IGB_IMC IGB_IRQ_CLEAR_MASK) (bindM (get_reg32 E IGB_ICR) (\<lambda>_. ret ()))"

definition disable_interrupts :: "'w platform \<Rightarrow> (('w, 'c, 'x) drv_scheme, unit) prog" where
  "disable_interrupts E = seqM (set_reg32 E IGB_IMS 0) (clear_interrupts E)"

definition disable_interrupt :: "'w platform \<Rightarrow> u16 \<Rightarrow> (('w, 'c, 'x) drv_scheme, unit) prog" where
  "disable_interrupt E queue_id =
     bindM (get_reg32 E IGB_IMS) (\<lambda>mask.
     bindM (shl_ov (overflow_checks E) 1 (unat queue_id)) (\<lambda>b.
     seqM (set_reg32 E IGB_IMS (mask AND NOT b)) (clear_interrupt E queue_id)))"

section \<open>Name, link, station address, statistics, promiscuous mode\<close>

definition get_driver_name :: "IgbDevice \<Rightarrow> string" where
  "get_driver_name d = DRIVER_NAME"

definition get_link_speed :: "'w platform \<Rightarrow> (('w, 'c, 'x) drv_scheme, u16) prog" where
  "get_link_speed E = bindM (get_reg32 E IGB_STATUS) (\<lambda>speed.
     let speed_raw = drop_bit 6 speed AND 0b11 in
     if speed AND IGB_LINKS_UP = 0 then ret 0
     else ret (if speed_raw = 0 then 10 else if speed_raw = 1 then 100
               else if speed_raw = 0b10 then 1000 else 1000))"

definition get_mac_addr :: "'w platform \<Rightarrow> (('w, 'c, 'x) drv_scheme, u8 list) prog" where
  "get_mac_addr E =
     bindM (get_reg32 E (IGB_RAL 0)) (\<lambda>low.
     bindM (get_reg32 E (IGB_RAH 0)) (\<lambda>high.
     ret [ucast (low AND 0xff), ucast (drop_bit 8 low AND 0xff),
          ucast (drop_bit 16 low AND 0xff), ucast (drop_bit 24 low),
          ucast (high AND 0xff), ucast (drop_bit 8 high AND 0xff)]))"

definition reset_stats :: "'w platform \<Rightarrow> (('w, 'c, 'x) drv_scheme, unit) prog" where
  "reset_stats E =
     forM [IGB_GPRC, IGB_GPTC, IGB_GORCL, IGB_GORCH, IGB_GOTCL, IGB_GOTCH]
       (\<lambda>r. bindM (get_reg32 E r) (\<lambda>_. ret ()))"

text \<open>Up to ten one-second waits for the link; the loop variables are \<open>speed\<close> and \<open>i\<close>.\<close>

definition wait_for_link :: "'w platform \<Rightarrow> (('w, 'c, 'x) drv_scheme, unit) prog" where
  "wait_for_link E =
     bindM (get_link_speed E) (\<lambda>speed.
     bindM (loopM (\<lambda>(speed, i :: 32 word).
        if speed = 0 \<and> i <s 10
        then seqM (wait_ms E 1000)
               (bindM (get_link_speed E) (\<lambda>speed'. ret (Inl (speed', i + 1))))
        else ret (Inr ())) (speed, 0)) (\<lambda>_.
     if info_enabled E then bindM (get_link_speed E) (\<lambda>_. ret ()) else ret ()))"

definition set_promisc :: "'w platform \<Rightarrow> bool \<Rightarrow> (('w, 'c, 'x) drv_scheme, unit) prog" where
  "set_promisc E enabled =
     (if enabled then set_flags32 E IGB_FCTRL (IGB_FCTRL_MPE OR IGB_FCTRL_UPE)
      else clear_flags32 E IGB_FCTRL (IGB_FCTRL_MPE OR IGB_FCTRL_UPE))"

declare set_rx_queue_def [prog_defs] set_tx_queue_def [prog_defs] rx_queue_at_def [prog_defs]
  tx_queue_at_def [prog_defs] set_flags32_def [prog_defs] clear_flags32_def [prog_defs]
  wait_ms_def [prog_defs] clear_interrupt_def [prog_defs] clear_interrupts_def [prog_defs]
  disable_interrupts_def [prog_defs] disable_interrupt_def [prog_defs]

end
