(* ===== verification/Queues.thy ===== *)
theory Queues
  imports Device
begin

text \<open>
  The index arithmetic of the descriptor rings of \<open>src/igb.rs\<close>, the availability tests of a
  receive and of a transmit queue, their state invariants, and the transmit queue seen as a
  bounded first-in first-out queue of packet buffers.
\<close>

section \<open>Ring arithmetic\<close>

definition wrap_ring :: "'w platform \<Rightarrow> usize \<Rightarrow> usize \<Rightarrow> ('s, usize) prog" where
  "wrap_ring E index ring_size =
     bindM (add_ov (overflow_checks E) index 1) (\<lambda>i.
     bindM (sub_ov (overflow_checks E) ring_size 1) (\<lambda>m. ret (i AND m)))"

text \<open>What it computes when nothing overflows.\<close>

definition ring_next :: "usize \<Rightarrow> usize \<Rightarrow> usize" where
  "ring_next ring_size index = (index + 1) AND (ring_size - 1)"

text \<open>
  The sizes a ring may have: the test of \<open>start_rx_queue\<close> and \<open>start_tx_queue\<close>, and a length
  in bytes, 16 per descriptor, that fits the 32-bit length register.
\<close>

definition ring_size_ok :: "usize \<Rightarrow> bool" where
  "ring_size_ok n \<longleftrightarrow> n \<noteq> 0 \<and> n AND (n - 1) = 0 \<and> n < 0x10000000"

text \<open>The number of steps from \<open>a\<close> to \<open>b\<close> along a ring of \<open>n\<close> slots.\<close>

definition ring_dist :: "nat \<Rightarrow> nat \<Rightarrow> nat \<Rightarrow> nat" where
  "ring_dist n a b = (if a \<le> b then b - a else b + n - a)"

lemma ring_dist_less: "a < n \<Longrightarrow> b < n \<Longrightarrow> ring_dist n a b < n"
  by (auto simp: ring_dist_def)

lemma ring_dist_self [simp]: "ring_dist n a a = 0"
  by (simp add: ring_dist_def)

lemma ring_dist_next:
  "a < n \<Longrightarrow> b < n \<Longrightarrow>
     ring_dist n a ((b + 1) mod n) = (if ring_dist n a b + 1 = n then 0 else ring_dist n a b + 1)"
  by (cases "b + 1 = n") (auto simp: ring_dist_def)

lemma ring_dist_advance:
  assumes "a < n" "b < n" "k \<le> ring_dist n a b"
  shows "ring_dist n ((a + k) mod n) b = ring_dist n a b - k"
proof (cases "a + k < n")
  case True
  then show ?thesis using assms by (auto simp: ring_dist_def split: if_splits)
next
  case False
  then have "(a + k) mod n = a + k - n"
    using assms ring_dist_less [OF assms(1,2)] by (simp add: mod_if)
  then show ?thesis using False assms by (auto simp: ring_dist_def split: if_splits)
qed

locale ring =
  fixes next_of :: "usize \<Rightarrow> usize \<Rightarrow> usize"
    and size_ok :: "usize \<Rightarrow> bool"
  assumes size_pos: "size_ok n \<Longrightarrow> 0 < unat n"
    and next_mod: "size_ok n \<Longrightarrow> unat i < unat n \<Longrightarrow> unat (next_of n i) = (unat i + 1) mod unat n"
begin

lemma next_bound: "size_ok n \<Longrightarrow> unat i < unat n \<Longrightarrow> unat (next_of n i) < unat n"
  using size_pos [of n] by (simp add: next_mod)

lemma iterate: "size_ok n \<Longrightarrow> unat i < unat n \<Longrightarrow> unat ((next_of n ^^ k) i) = (unat i + k) mod unat n"
proof (induction k)
  case (Suc k)
  then have "unat ((next_of n ^^ k) i) < unat n" using size_pos [of n] by simp
  then show ?case using Suc by (simp add: next_mod mod_Suc_eq)
qed simp

text \<open>Every slot is reached from every other one, and the ring closes after \<open>n\<close> steps.\<close>

lemma closes: "size_ok n \<Longrightarrow> unat i < unat n \<Longrightarrow> (next_of n ^^ unat n) i = i"
  by (simp add: iterate word_unat_eq_iff)

lemma visits_all:
  assumes "size_ok n" "unat i < unat n" "unat j < unat n"
  shows "\<exists>k < unat n. (next_of n ^^ k) i = j"
proof -
  let ?k = "ring_dist (unat n) (unat i) (unat j)"
  have "(unat i + ?k) mod unat n = unat j"
    using assms(2,3) by (auto simp: ring_dist_def)
  then have "(next_of n ^^ ?k) i = j"
    by (simp add: iterate [OF assms(1,2)] word_unat_eq_iff)
  then show ?thesis using ring_dist_less [OF assms(2,3)] by blast
qed

lemma next_neq: "size_ok n \<Longrightarrow> 1 < unat n \<Longrightarrow> unat i < unat n \<Longrightarrow> next_of n i \<noteq> i"
  using next_mod [of n i] by (cases "unat i + 1 = unat n") (auto simp: word_unat_eq_iff)

lemma dist_next:
  assumes "size_ok n" "unat a < unat n" "unat b < unat n"
  shows "ring_dist (unat n) (unat a) (unat (next_of n b)) =
     (if next_of n b = a then 0 else ring_dist (unat n) (unat a) (unat b) + 1)"
proof -
  have "next_of n b = a \<longleftrightarrow> ring_dist (unat n) (unat a) (unat b) + 1 = unat n"
    using assms by (cases "unat b + 1 = unat n")
      (auto simp: word_unat_eq_iff next_mod ring_dist_def)
  then show ?thesis
    using assms ring_dist_next [of "unat a" "unat n" "unat b"] by (simp add: next_mod)
qed

end

lemma ring_size_power: "ring_size_ok n \<Longrightarrow> \<exists>k. unat n = 2 ^ k"
  using word_and_pred_power [of n] by (simp add: ring_size_ok_def)

lemma ring_size_bound: "ring_size_ok n \<Longrightarrow> unat n < 268435456"
  by (simp add: ring_size_ok_def word_less_nat_alt)

lemma ring_next_mod:
  assumes "ring_size_ok n" and "unat i < unat n"
  shows "unat (ring_next n i) = (unat i + 1) mod unat n"
proof -
  obtain k where k: "unat n = 2 ^ k" using ring_size_power [OF assms(1)] by blast
  have "unat (i + 1) = unat i + 1"
    using assms(2) unat_lt_usize [of n] by (intro unat_add_no_wrap [THEN trans]) simp_all
  then show ?thesis by (simp add: ring_next_def word_and_pred_mod [OF k])
qed

interpretation rg: ring ring_next ring_size_ok
  by unfold_locales (auto simp: ring_next_mod unat_gt_0 ring_size_ok_def)

lemma wp_wrap_ring [wp_simps]:
  assumes "ring_size_ok n" and "unat i < unat n"
  shows "wp (wrap_ring E i n) Q s = Q (Val (ring_next n i)) s"
proof -
  have "unat i + 1 < 2 ^ 64" using assms(2) unat_lt_usize [of n] by simp
  moreover have "\<not> n < 1" using assms(1) by (simp add: ring_size_ok_def word_less_nat_alt unat_gt_0)
  ultimately show ?thesis by (simp add: wrap_ring_def wp_simps ring_next_def)
qed

section \<open>Availability tests\<close>

definition can_recv :: "'w platform \<Rightarrow> IgbRxQueue \<Rightarrow> (('w, 'x) base_scheme, bool) prog" where
  "can_recv E q =
     bindM (indexM (rx_descriptors q) (rx_index q)) (\<lambda>desc.
     bindM (get_ext_status E desc) (\<lambda>st.
     ret ((ucast st :: u8) AND RX_STATUS_DD \<noteq> 0)))"

definition tx_can_send :: "'w platform \<Rightarrow> IgbTxQueue \<Rightarrow> ('s, bool) prog" where
  "tx_can_send E q =
     bindM (wrap_ring E (tx_index q) (tx_num_descriptors q)) (\<lambda>next_tx_index.
     ret (next_tx_index \<noteq> clean_index q))"

section \<open>Queue invariants\<close>

definition rxq_wf :: "IgbRxQueue \<Rightarrow> bool" where
  "rxq_wf q \<longleftrightarrow>
     ring_size_ok (rx_num_descriptors q) \<and>
     length (rx_descriptors q) = unat (rx_num_descriptors q) \<and>
     length (rx_bufs_in_use q) = unat (rx_num_descriptors q) \<and>
     unat (rx_index q) < unat (rx_num_descriptors q)"

definition txq_in_flight :: "IgbTxQueue \<Rightarrow> nat" where
  "txq_in_flight q =
     ring_dist (unat (tx_num_descriptors q)) (unat (clean_index q)) (unat (tx_index q))"

definition txq_wf :: "IgbTxQueue \<Rightarrow> bool" where
  "txq_wf q \<longleftrightarrow>
     ring_size_ok (tx_num_descriptors q) \<and>
     length (tx_descriptors q) = unat (tx_num_descriptors q) \<and>
     unat (tx_index q) < unat (tx_num_descriptors q) \<and>
     unat (clean_index q) < unat (tx_num_descriptors q) \<and>
     length (tx_bufs_in_use q) = txq_in_flight q \<and>
     (tx_bufs_in_use q \<noteq> [] \<longrightarrow> tx_pool q \<noteq> None)"

lemma txq_in_flight_less: "txq_wf q \<Longrightarrow> txq_in_flight q < unat (tx_num_descriptors q)"
  by (simp add: txq_wf_def txq_in_flight_def ring_dist_less)

text \<open>The test \<open>can_send\<close> decides whether the ring has room: one slot always stays free.\<close>

lemma tx_room:
  assumes "txq_wf q"
  shows "ring_next (tx_num_descriptors q) (tx_index q) \<noteq> clean_index q \<longleftrightarrow>
         length (tx_bufs_in_use q) + 1 < unat (tx_num_descriptors q)"
proof -
  let ?n = "tx_num_descriptors q" and ?a = "clean_index q" and ?b = "tx_index q"
  have wf: "ring_size_ok ?n" "unat ?a < unat ?n" "unat ?b < unat ?n"
    "length (tx_bufs_in_use q) = ring_dist (unat ?n) (unat ?a) (unat ?b)"
    using assms by (simp_all add: txq_wf_def txq_in_flight_def)
  have "ring_next ?n ?b = ?a \<longleftrightarrow> ring_dist (unat ?n) (unat ?a) (unat ?b) + 1 = unat ?n"
    using wf by (cases "unat ?b + 1 = unat ?n")
      (auto simp: word_unat_eq_iff ring_next_mod ring_dist_def)
  moreover have "ring_dist (unat ?n) (unat ?a) (unat ?b) < unat ?n"
    using wf by (simp add: ring_dist_less)
  ultimately show ?thesis using wf(4) by linarith
qed

lemma wp_tx_can_send [wp_simps]:
  assumes "txq_wf q"
  shows "wp (tx_can_send E q) Q s =
    Q (Val (length (tx_bufs_in_use q) + 1 < unat (tx_num_descriptors q))) s"
  using assms tx_room [OF assms]
  by (simp add: tx_can_send_def wp_simps txq_wf_def)

section \<open>The transmit queue as a bounded FIFO\<close>

text \<open>
  The two updates of a transmit queue: \<open>send\<close> takes the slot at \<open>tx_index\<close> for a buffer,
  \<open>recycle_tx_buffers\<close> gives back the oldest \<open>TX_CLEAN_BATCH\<close> buffers and moves
  \<open>clean_index\<close> past their slots.
\<close>

definition txq_push :: "usize \<Rightarrow> IgbTxQueue \<Rightarrow> IgbTxQueue" where
  "txq_push b q = q\<lparr>tx_index := ring_next (tx_num_descriptors q) (tx_index q),
                    tx_bufs_in_use := tx_bufs_in_use q @ [b]\<rparr>"

definition txq_advance :: "nat \<Rightarrow> IgbTxQueue \<Rightarrow> IgbTxQueue" where
  "txq_advance k q = q\<lparr>clean_index := (ring_next (tx_num_descriptors q) ^^ k) (clean_index q),
                       tx_bufs_in_use := drop k (tx_bufs_in_use q)\<rparr>"

locale bounded_fifo =
  fixes items :: "'q \<Rightarrow> 'b list"
    and room :: "'q \<Rightarrow> bool"
    and push :: "'b \<Rightarrow> 'q \<Rightarrow> 'q"
    and advance :: "nat \<Rightarrow> 'q \<Rightarrow> 'q"
    and capacity :: "'q \<Rightarrow> nat"
    and inv :: "'q \<Rightarrow> bool"
  assumes room_iff: "inv q \<Longrightarrow> room q \<longleftrightarrow> length (items q) < capacity q"
    and push_items: "inv q \<Longrightarrow> room q \<Longrightarrow> items (push b q) = items q @ [b]"
    and push_inv: "inv q \<Longrightarrow> room q \<Longrightarrow> inv (push b q)"
    and push_capacity: "capacity (push b q) = capacity q"
    and advance_items: "inv q \<Longrightarrow> k \<le> length (items q) \<Longrightarrow> items (advance k q) = drop k (items q)"
    and advance_inv: "inv q \<Longrightarrow> k \<le> length (items q) \<Longrightarrow> inv (advance k q)"
    and advance_capacity: "capacity (advance k q) = capacity q"
    and within: "inv q \<Longrightarrow> length (items q) \<le> capacity q"
begin

text \<open>First in, first out: what was pushed last leaves last.\<close>

lemma push_then_advance:
  assumes "inv q" "room q" "k \<le> length (items q)"
  shows "items (advance k (push b q)) = drop k (items q) @ [b]"
  using assms by (simp add: advance_items push_items push_inv)

text \<open>Advancing makes room.\<close>

lemma advance_room:
  assumes "inv q" "0 < k" "k \<le> length (items q)"
  shows "room (advance k q)"
  using assms within [OF assms(1)]
  by (simp add: room_iff advance_inv advance_items advance_capacity)

text \<open>A full queue has as many items as its capacity.\<close>

lemma full_iff: "inv q \<Longrightarrow> \<not> room q \<longleftrightarrow> length (items q) = capacity q"
  using within [of q] by (auto simp: room_iff)

end

lemma txq_push_wf:
  assumes "txq_wf q" "length (tx_bufs_in_use q) + 1 < unat (tx_num_descriptors q)" "tx_pool q \<noteq> None"
  shows "txq_wf (txq_push b q)"
proof -
  let ?n = "tx_num_descriptors q" and ?a = "clean_index q" and ?b = "tx_index q"
  have wf: "ring_size_ok ?n" "unat ?a < unat ?n" "unat ?b < unat ?n"
    using assms(1) by (simp_all add: txq_wf_def)
  have "ring_next ?n ?b \<noteq> ?a" using tx_room assms by blast
  then have "txq_in_flight (txq_push b q) = txq_in_flight q + 1"
    using wf by (simp add: txq_in_flight_def txq_push_def rg.dist_next)
  then show ?thesis using assms wf rg.next_bound by (simp add: txq_wf_def txq_push_def)
qed

lemma txq_advance_wf:
  assumes "txq_wf q" "k \<le> length (tx_bufs_in_use q)"
  shows "txq_wf (txq_advance k q)"
proof -
  let ?n = "tx_num_descriptors q" and ?a = "clean_index q" and ?b = "tx_index q"
  have wf: "ring_size_ok ?n" "unat ?a < unat ?n" "unat ?b < unat ?n"
    "k \<le> ring_dist (unat ?n) (unat ?a) (unat ?b)"
    using assms by (simp_all add: txq_wf_def txq_in_flight_def)
  have it: "unat ((ring_next ?n ^^ k) ?a) = (unat ?a + k) mod unat ?n"
    using wf by (simp add: rg.iterate)
  then have "txq_in_flight (txq_advance k q) = txq_in_flight q - k"
    using wf by (simp add: txq_in_flight_def txq_advance_def ring_dist_advance)
  moreover have "(unat ?a + k) mod unat ?n < unat ?n" using wf by simp
  ultimately show ?thesis using assms it by (auto simp: txq_wf_def txq_advance_def)
qed

interpretation txf: bounded_fifo tx_bufs_in_use
  "\<lambda>q. ring_next (tx_num_descriptors q) (tx_index q) \<noteq> clean_index q"
  txq_push txq_advance "\<lambda>q. unat (tx_num_descriptors q) - 1" "\<lambda>q. txq_wf q \<and> tx_pool q \<noteq> None"
proof unfold_locales
  fix q assume "txq_wf q \<and> tx_pool q \<noteq> None"
  then show "ring_next (tx_num_descriptors q) (tx_index q) \<noteq> clean_index q \<longleftrightarrow>
     length (tx_bufs_in_use q) < unat (tx_num_descriptors q) - 1"
    using tx_room [of q] by auto
next
  fix q b assume "txq_wf q \<and> tx_pool q \<noteq> None"
    and "ring_next (tx_num_descriptors q) (tx_index q) \<noteq> clean_index q"
  then show "txq_wf (txq_push b q) \<and> tx_pool (txq_push b q) \<noteq> None"
    using tx_room [of q] txq_push_wf [of q b] by (auto simp: txq_push_def)
next
  fix q k assume "txq_wf q \<and> tx_pool q \<noteq> None" "k \<le> length (tx_bufs_in_use q)"
  then show "txq_wf (txq_advance k q) \<and> tx_pool (txq_advance k q) \<noteq> None"
    using txq_advance_wf [of q k] by (simp add: txq_advance_def)
next
  fix q assume "txq_wf q \<and> tx_pool q \<noteq> None"
  then show "length (tx_bufs_in_use q) \<le> unat (tx_num_descriptors q) - 1"
    using txq_in_flight_less [of q] by (auto simp: txq_wf_def)
qed (simp_all add: txq_push_def txq_advance_def)

end
