(* ===== verification/Nic.thy ===== *)
theory Nic
  imports Queues
begin

text \<open>
  The operations a client calls, \<open>impl NicDevice for IgbDevice\<close> and \<open>IgbNetBuf\<close> of
  \<open>src/igb.rs\<close>: \<open>send\<close>, \<open>recycle_tx_buffers\<close>, \<open>receive_packets\<close>, \<open>can_send\<close>, \<open>can_receive\<close>.

  Ownership is Rust's: a packet that goes out of scope is dropped, which returns its buffer
  to the pool; \<open>send\<close> forgets the packet it queues.
\<close>

section \<open>IgbNetBuf\<close>

text \<open>A structure around one \<open>Packet\<close>, modelled by that packet.\<close>

type_synonym IgbNetBuf = Packet

definition IgbNetBuf_alloc ::
  "'w platform \<Rightarrow> pool_ref \<Rightarrow> usize \<Rightarrow> (('w, 'c, 'x) heap_scheme, IgbNetBuf) prog" where
  "IgbNetBuf_alloc E pool sz = bindM (alloc_pkt E pool sz) (\<lambda>r. case r of
       Some pkt \<Rightarrow> ret pkt
     | None \<Rightarrow> throw NoMemory)"

definition IgbNetBuf_packet :: "IgbNetBuf \<Rightarrow> usize \<times> usize" where
  "IgbNetBuf_packet b = as_bytes b"

definition IgbNetBuf_packet_mut :: "IgbNetBuf \<Rightarrow> usize \<times> usize" where
  "IgbNetBuf_packet_mut b = as_mut_bytes b"

definition IgbNetBuf_packet_len :: "IgbNetBuf \<Rightarrow> usize" where
  "IgbNetBuf_packet_len b = packet_len b"

definition IgbNetBuf_pool_entry :: "IgbNetBuf \<Rightarrow> usize" where
  "IgbNetBuf_pool_entry b = pool_entry b"

definition IgbNetBuf_construct ::
  "'w platform \<Rightarrow> usize \<Rightarrow> pool_ref \<Rightarrow> usize \<Rightarrow> (('w, 'c, 'x) heap_scheme, IgbNetBuf) prog" where
  "IgbNetBuf_construct E entry pool len =
     bindM (get_virt_addr E pool entry) (\<lambda>va.
     bindM (get_phys_addr pool entry) (\<lambda>pa.
     bindM (add_ov (overflow_checks E) pa PACKET_HEADROOM) (\<lambda>pa'.
     ret (Packet_new (va + PACKET_HEADROOM) pa' len pool entry))))"

section \<open>Transmit\<close>

text \<open>Adoption of the packet's pool by the queue, and the assertion after it.\<close>

definition adopt_pool :: "pool_ref option \<Rightarrow> pool_ref \<Rightarrow> pool_ref option" where
  "adopt_pool queue_pool pkt_pool =
     (case queue_pool of
        Some p \<Rightarrow> if p \<noteq> pkt_pool then Some pkt_pool else Some p
      | None \<Rightarrow> Some pkt_pool)"

definition send ::
  "'w platform \<Rightarrow> u16 \<Rightarrow> IgbNetBuf \<Rightarrow> (('w, 'c, 'x) drv_scheme, unit) prog" where
  "send E queue_id tx_buf =
     bindM (getsM (\<lambda>s. tx_queues (dev s))) (\<lambda>qs.
     if \<not> unat queue_id < length qs then seqM (Packet_drop tx_buf) (throw InvalidQueue)
     else let queue = qs ! unat queue_id in
     bindM (tx_can_send E queue) (\<lambda>ok.
     if \<not> ok then seqM (Packet_drop tx_buf) (throw QueueFull)
     else let cur_index = tx_index queue; packet = tx_buf;
              queue = queue\<lparr>tx_pool := adopt_pool (tx_pool queue) (packet_pool packet)\<rparr> in
     seqM (set_tx_queue queue_id queue)
    (seqM (assertM DistinctPools (tx_pool queue = Some (packet_pool packet)))
    (bindM (wrap_ring E (tx_index queue) (tx_num_descriptors queue)) (\<lambda>next_index.
     let queue = queue\<lparr>tx_index := next_index\<rparr> in
     seqM (set_tx_queue queue_id queue)
    (bindM (indexM (tx_descriptors queue) cur_index) (\<lambda>desc.
     seqM (tx_desc_send E desc (addr_phys packet) (ucast (packet_len packet)))
    (seqM (set_tx_queue queue_id
             (queue\<lparr>tx_bufs_in_use := tx_bufs_in_use queue @ [pool_entry packet]\<rparr>))
    (bindM (tx_queue_at queue_id) (\<lambda>q.
     set_reg32 E (IGB_TDT (ucast queue_id)) (ucast (tx_index q))))))))))))"

text \<open>
  Subtraction and addition of \<open>i32\<close> values, with the overflow check of the build.
\<close>

definition sub_i32 :: "bool \<Rightarrow> 32 word \<Rightarrow> 32 word \<Rightarrow> ('s, 32 word) prog" where
  "sub_i32 ck a b = (if ck \<and> sint (a - b) \<noteq> sint a - sint b then panic ArithmeticOverflow else ret (a - b))"

definition add_i32 :: "bool \<Rightarrow> 32 word \<Rightarrow> 32 word \<Rightarrow> ('s, 32 word) prog" where
  "add_i32 ck a b = (if ck \<and> sint (a + b) \<noteq> sint a + sint b then panic ArithmeticOverflow else ret (a + b))"

text \<open>The number of descriptors between \<open>clean_index\<close> and \<open>tx_index\<close>, as \<open>i32\<close>.\<close>

definition tx_cleanable ::
  "'w platform \<Rightarrow> usize \<Rightarrow> usize \<Rightarrow> usize \<Rightarrow> ('s, 32 word) prog" where
  "tx_cleanable E num_descriptors clean cur =
     bindM (sub_i32 (overflow_checks E) (ucast cur) (ucast clean)) (\<lambda>cleanable.
     if cleanable <s 0 then add_i32 (overflow_checks E) cleanable (ucast num_descriptors)
     else ret cleanable)"

text \<open>\<open>cleanup_to\<close>: the last descriptor of the next batch.\<close>

definition tx_cleanup_to ::
  "'w platform \<Rightarrow> usize \<Rightarrow> usize \<Rightarrow> ('s, usize) prog" where
  "tx_cleanup_to E num_descriptors clean =
     bindM (add_ov (overflow_checks E) clean TX_CLEAN_BATCH) (\<lambda>t.
     bindM (sub_ov (overflow_checks E) t 1) (\<lambda>cleanup_to.
     if num_descriptors \<le> cleanup_to then sub_ov (overflow_checks E) cleanup_to num_descriptors
     else ret cleanup_to))"

text \<open>The buffers of a completed batch go back to the pool.\<close>

definition tx_release_batch :: "u16 \<Rightarrow> (('w, 'c, 'x) drv_scheme, unit) prog" where
  "tx_release_batch queue_id = bindM (tx_queue_at queue_id) (\<lambda>queue.
     case tx_pool queue of
       None \<Rightarrow> ret ()
     | Some pool \<Rightarrow>
         (let bufs = tx_bufs_in_use queue; batch = unat TX_CLEAN_BATCH in
          if length bufs \<le> batch
          then seqM (extend_free_stack pool bufs)
                    (set_tx_queue queue_id (queue\<lparr>tx_bufs_in_use := []\<rparr>))
          else seqM (extend_free_stack pool (take batch bufs))
                    (set_tx_queue queue_id (queue\<lparr>tx_bufs_in_use := drop batch bufs\<rparr>))))"

text \<open>One pass of the loop of \<open>recycle_tx_buffers\<close>; the loop variable is \<open>clean_index\<close>.\<close>

definition recycle_pass ::
  "'w platform \<Rightarrow> u16 \<Rightarrow> usize \<Rightarrow> usize \<Rightarrow> (('w, 'c, 'x) drv_scheme, usize + usize) prog" where
  "recycle_pass E queue_id cur_index clean =
     bindM (tx_queue_at queue_id) (\<lambda>queue.
     bindM (tx_cleanable E (tx_num_descriptors queue) clean cur_index) (\<lambda>cleanable.
     if cleanable <s ucast TX_CLEAN_BATCH then ret (Inr clean)
     else bindM (tx_cleanup_to E (tx_num_descriptors queue) clean) (\<lambda>cleanup_to.
       bindM (indexM (tx_descriptors queue) cleanup_to) (\<lambda>desc.
       bindM (worldM (volatile_read32 E (tx_paylen_popts_cc_idx_sta desc))) (\<lambda>status.
       if status AND IGB_ADVTXD_STAT_DD \<noteq> 0
       then seqM (tx_release_batch queue_id)
              (bindM (wrap_ring E cleanup_to (tx_num_descriptors queue)) (\<lambda>c. ret (Inl c)))
       else ret (Inr clean))))))"

definition recycle_tx_buffers ::
  "'w platform \<Rightarrow> u16 \<Rightarrow> (('w, 'c, 'x) drv_scheme, unit) prog" where
  "recycle_tx_buffers E queue_id =
     bindM (getsM (\<lambda>s. tx_queues (dev s))) (\<lambda>qs.
     if \<not> unat queue_id < length qs then throw InvalidQueue
     else let queue = qs ! unat queue_id; cur_index = tx_index queue in
     bindM (loopM (recycle_pass E queue_id cur_index) (clean_index queue)) (\<lambda>clean.
     bindM (tx_queue_at queue_id) (\<lambda>queue.
     set_tx_queue queue_id (queue\<lparr>clean_index := clean\<rparr>))))"

definition can_send :: "'w platform \<Rightarrow> u16 \<Rightarrow> (('w, 'c, 'x) drv_scheme, bool) prog" where
  "can_send E queue_id =
     bindM (getsM (\<lambda>s. tx_queues (dev s))) (\<lambda>qs.
     if \<not> unat queue_id < length qs then throw InvalidQueue
     else tx_can_send E (qs ! unat queue_id))"

section \<open>Receive\<close>

text \<open>
  The closure \<open>f\<close> takes each received packet. It can reach the pools (by dropping the packet)
  and the variables it captures, \<open>client\<close>, but not the device, which \<open>receive_packets\<close> holds
  by \<open>&mut\<close>.
\<close>

definition call_closure ::
  "(IgbNetBuf \<Rightarrow> (('w, 'c) heap, unit) prog) \<Rightarrow> IgbNetBuf \<Rightarrow> (('w, 'c, 'x) drv_scheme, unit) prog" where
  "call_closure f b = (\<lambda>s.
     case f b \<lparr>world = world s, pools = pools s, client = client s\<rparr> of
       None \<Rightarrow> None
     | Some (r, h) \<Rightarrow> Some (r, s\<lparr>world := world h, pools := pools h, client := client h\<rparr>))"

text \<open>
  The loop \<open>for _ in 0..packet_nums\<close>; its variables are \<open>rx_index\<close>, \<open>last_rx_index\<close> and
  \<open>recv_nums\<close>, which it returns.
\<close>

fun receive_loop ::
  "'w platform \<Rightarrow> u16 \<Rightarrow> (IgbNetBuf \<Rightarrow> (('w, 'c) heap, unit) prog) \<Rightarrow> nat \<Rightarrow>
   usize \<times> usize \<times> usize \<Rightarrow> (('w, 'c, 'x) drv_scheme, usize \<times> usize \<times> usize) prog" where
  "receive_loop E queue_id f 0 vars = ret vars"
| "receive_loop E queue_id f (Suc n) (i, last_i, recv_nums) =
     bindM (rx_queue_at queue_id) (\<lambda>queue.
     bindM (indexM (rx_descriptors queue) i) (\<lambda>desc.
     bindM (get_ext_status E desc) (\<lambda>st.
     let status = ucast st :: u8 in
     if status AND RX_STATUS_DD = 0 then ret (i, last_i, recv_nums)
     else if status AND RX_STATUS_EOP = 0 then panic IncreaseBufferSize
     else bindM (alloc_buf (rx_pool queue)) (\<lambda>r. case r of
         None \<Rightarrow> ret (i, last_i, recv_nums)
       | Some buf \<Rightarrow>
           bindM (indexM (rx_bufs_in_use queue) i) (\<lambda>idx.
           seqM (set_rx_queue queue_id
                   (queue\<lparr>rx_bufs_in_use := (rx_bufs_in_use queue)[unat i := buf]\<rparr>))
          (bindM (get_virt_addr E (rx_pool queue) idx) (\<lambda>va.
           bindM (get_phys_addr (rx_pool queue) idx) (\<lambda>pa.
           bindM (rx_desc_length E desc) (\<lambda>len.
           seqM (call_closure f (Packet_new va pa len (rx_pool queue) idx))
          (bindM (add_ov (overflow_checks E) recv_nums 1) (\<lambda>recv_nums'.
           bindM (rx_queue_at queue_id) (\<lambda>queue.
           bindM (indexM (rx_bufs_in_use queue) i) (\<lambda>b.
           bindM (get_phys_addr (rx_pool queue) b) (\<lambda>addr.
           seqM (set_packet_address E desc addr)
          (seqM (reset_status E desc)
          (bindM (wrap_ring E i (rx_num_descriptors queue)) (\<lambda>next_i.
           receive_loop E queue_id f n (next_i, i, recv_nums'))))))))))))))))))"

definition receive_packets ::
  "'w platform \<Rightarrow> u16 \<Rightarrow> usize \<Rightarrow> (IgbNetBuf \<Rightarrow> (('w, 'c) heap, unit) prog) \<Rightarrow>
   (('w, 'c, 'x) drv_scheme, usize) prog" where
  "receive_packets E queue_id packet_nums f =
     bindM (getsM (\<lambda>s. rx_queues (dev s))) (\<lambda>qs.
     if \<not> unat queue_id < length qs then throw InvalidQueue
     else let queue = qs ! unat queue_id in
     bindM (can_recv E queue) (\<lambda>ok.
     if \<not> ok then throw NotReady
     else bindM (receive_loop E queue_id f (unat packet_nums) (rx_index queue, rx_index queue, 0))
       (\<lambda>(i, last_i, recv_nums).
        seqM (if i \<noteq> last_i
              then seqM (set_reg32 E (IGB_RDT (ucast queue_id)) (ucast last_i))
                     (bindM (rx_queue_at queue_id) (\<lambda>queue.
                        set_rx_queue queue_id (queue\<lparr>rx_index := i\<rparr>)))
              else ret ())
             (ret recv_nums))))"

definition can_receive :: "'w platform \<Rightarrow> u16 \<Rightarrow> (('w, 'c, 'x) drv_scheme, bool) prog" where
  "can_receive E queue_id =
     bindM (getsM (\<lambda>s. rx_queues (dev s))) (\<lambda>qs.
     if \<not> unat queue_id < length qs then throw InvalidQueue
     else can_recv E (qs ! unat queue_id))"

declare send_def [prog_defs] tx_release_batch_def [prog_defs] recycle_pass_def [prog_defs]
  receive_loop.simps [simp del]

end
