(* ===== verification/Init.thy ===== *)
theory Init
  imports Nic
begin

text \<open>
  Initialisation, \<open>IgbDevice::init\<close> and the private methods it runs (\<open>src/igb.rs\<close>): reset, PHY,
  receive and transmit rings, and the start of every queue. The const generic \<open>QS\<close>, the
  number of descriptors of a ring, is the argument \<open>qs\<close>.
\<close>

section \<open>Reset and PHY\<close>

definition global_reset :: "'w platform \<Rightarrow> (('w, 'c, 'x) drv_scheme, unit) prog" where
  "global_reset E =
     seqM (set_reg32 E IGB_CTRL IGB_CTRL_GLOBAL_RST)
          (wait_clear_reg32 E IGB_CTRL IGB_CTRL_GLOBAL_RST)"

definition OP_WRITE :: u32 where "OP_WRITE = push_bit 26 0x1"
definition OP_READ :: u32 where "OP_READ = push_bit 27 0x1"
definition READY :: u32 where "READY = push_bit 28 1"
definition READ :: u32 where "READ = push_bit 16 0 OR push_bit 21 1 OR OP_READ"

lemmas mdic_bits = OP_WRITE_def OP_READ_def READY_def READ_def

definition init_link :: "'w platform \<Rightarrow> (('w, 'c, 'x) drv_scheme, unit) prog" where
  "init_link E =
     bindM (get_reg32 E IGB_MDIC) (\<lambda>_.
     seqM (set_flags32 E IGB_MDIC READ)
    (seqM (wait_set_reg32 E IGB_MDIC READY)
    (bindM (get_reg32 E IGB_MDIC) (\<lambda>v.
     let mii_reg = (ucast v :: u16) AND NOT 0x0800;
         wv = push_bit 16 0 OR push_bit 21 1 OR ucast mii_reg OR OP_WRITE in
     seqM (set_flags32 E IGB_MDIC wv)
          (wait_set_reg32 E IGB_MDIC READY)))))"

section \<open>Rings\<close>

text \<open>\<open>mem::size_of\<close> of the two descriptor types.\<close>

definition RX_DESC_SIZE :: usize where "RX_DESC_SIZE = 16"
definition TX_DESC_SIZE :: usize where "TX_DESC_SIZE = 16"

text \<open>
  The loop over \<open>0..QS\<close> that takes the address of each descriptor of a ring, checks it and
  initialises it.
\<close>

definition map_descriptors ::
  "usize \<Rightarrow> usize \<Rightarrow> (usize \<Rightarrow> (('w, 'x) base_scheme, unit) prog) \<Rightarrow> usize \<Rightarrow>
   (('w, 'x) base_scheme, usize list) prog" where
  "map_descriptors ring_virt desc_size init_desc qs =
     collectM (word_range qs) (\<lambda>desc_id.
       bindM (non_null (ring_virt + desc_id * desc_size)) (\<lambda>p. seqM (init_desc p) (ret p)))"

definition init_rx_queue ::
  "'w platform \<Rightarrow> usize \<Rightarrow> pool_ref \<Rightarrow> u16 \<Rightarrow> (('w, 'c, 'x) drv_scheme, unit) prog" where
  "init_rx_queue E qs pool i =
     seqM (assertM AssertionFailed (TX_DESC_SIZE = 16))
    (bindM (mul_ov (overflow_checks E) qs RX_DESC_SIZE) (\<lambda>ring_size_bytes.
     bindM (Dma_allocate E ring_size_bytes True) (\<lambda>dma.
     bindM (map_descriptors (virt dma) RX_DESC_SIZE (rx_desc_init E) qs) (\<lambda>descriptors.
     seqM (set_reg32 E (IGB_RDBAL (ucast i)) (ucast (phys dma AND 0xffffffff)))
    (seqM (set_reg32 E (IGB_RDBAH (ucast i)) (ucast (drop_bit 32 (phys dma))))
    (seqM (set_reg32 E (IGB_RDLEN (ucast i)) (ucast ring_size_bytes))
    (seqM (set_reg32 E (IGB_RDH (ucast i)) 0)
    (seqM (set_reg32 E (IGB_RDT (ucast i)) 0)
    (modifyM (\<lambda>s. s\<lparr>dev := (dev s)\<lparr>rx_queues := rx_queues (dev s) @
       [\<lparr>rx_descriptors = descriptors, rx_num_descriptors = qs, rx_pool = pool,
         rx_bufs_in_use = [], rx_index = 0\<rparr>]\<rparr>\<rparr>))))))))))"

definition init_rx :: "'w platform \<Rightarrow> usize \<Rightarrow> pool_ref \<Rightarrow> (('w, 'c, 'x) drv_scheme, unit) prog" where
  "init_rx E qs pool =
     seqM (clear_flags32 E IGB_RXCTRL IGB_RXCTRL_RXEN)
    (seqM (set_reg32 E (IGB_RXPBSIZE 0) IGB_RXPBSIZE_128KB)
    (seqM (forM [1, 2, 3, 4, 5, 6, 7] (\<lambda>i. set_reg32 E (IGB_RXPBSIZE i) 0))
    (seqM (set_flags32 E IGB_HLREG0 IGB_HLREG0_RXCRCSTRP)
    (seqM (set_flags32 E IGB_RDRXCTL IGB_RDRXCTL_CRCSTRIP)
    (seqM (set_flags32 E IGB_FCTRL IGB_FCTRL_BAM)
    (bindM (getsM (\<lambda>s. num_rx_queues (dev s))) (\<lambda>n.
     seqM (forM (word_range n) (init_rx_queue E qs pool))
          (set_flags32 E IGB_RXCTRL (IGB_RXCTRL_RXEN OR IGB_RXCTRL_BAM)))))))))"

definition init_tx_queue ::
  "'w platform \<Rightarrow> usize \<Rightarrow> u16 \<Rightarrow> (('w, 'c, 'x) drv_scheme, unit) prog" where
  "init_tx_queue E qs i =
     seqM (assertM AssertionFailed (TX_DESC_SIZE = 16))
    (bindM (mul_ov (overflow_checks E) qs TX_DESC_SIZE) (\<lambda>ring_size_bytes.
     bindM (Dma_allocate E ring_size_bytes True) (\<lambda>dma.
     bindM (map_descriptors (virt dma) TX_DESC_SIZE (tx_desc_init E) qs) (\<lambda>descriptors.
     seqM (set_reg32 E (IGB_TDBAL (ucast i)) (ucast (phys dma AND 0xffffffff)))
    (seqM (set_reg32 E (IGB_TDBAH (ucast i)) (ucast (drop_bit 32 (phys dma))))
    (seqM (set_reg32 E (IGB_TDLEN (ucast i)) (ucast ring_size_bytes))
    (bindM (get_reg32 E (IGB_TXDCTL (ucast i))) (\<lambda>txdctl.
     let txdctl = txdctl AND NOT (0x7F OR push_bit 8 0x7F OR push_bit 16 0x7F);
         txdctl = txdctl OR (36 OR push_bit 8 8 OR push_bit 16 4) in
     seqM (set_reg32 E (IGB_TXDCTL (ucast i)) txdctl)
    (modifyM (\<lambda>s. s\<lparr>dev := (dev s)\<lparr>tx_queues := tx_queues (dev s) @
       [\<lparr>tx_descriptors = descriptors, tx_num_descriptors = qs, tx_pool = None,
         tx_bufs_in_use = [], clean_index = 0, tx_index = 0\<rparr>]\<rparr>\<rparr>))))))))))"

definition init_tx :: "'w platform \<Rightarrow> usize \<Rightarrow> (('w, 'c, 'x) drv_scheme, unit) prog" where
  "init_tx E qs =
     bindM (getsM (\<lambda>s. num_tx_queues (dev s))) (\<lambda>n.
     seqM (forM (word_range n) (init_tx_queue E qs))
          (set_reg32 E IGB_DMATXCTL IGB_DMATXCTL_TE))"

section \<open>Starting the queues\<close>

text \<open>One pass of the loop of \<open>start_rx_queue\<close>: descriptor \<open>i\<close> gets a buffer of the pool.\<close>

definition fill_rx_descriptor ::
  "'w platform \<Rightarrow> u16 \<Rightarrow> usize \<Rightarrow> (('w, 'c, 'x) drv_scheme, unit) prog" where
  "fill_rx_descriptor E queue_id i =
     bindM (rx_queue_at queue_id) (\<lambda>queue.
     bindM (alloc_buf (rx_pool queue)) (\<lambda>r. case r of
         None \<Rightarrow> throw NoMemory
       | Some buf \<Rightarrow>
           bindM (indexM (rx_descriptors queue) i) (\<lambda>desc.
           bindM (get_phys_addr (rx_pool queue) buf) (\<lambda>addr.
           seqM (set_packet_address E desc addr)
          (seqM (reset_status E desc)
          (set_rx_queue queue_id (queue\<lparr>rx_bufs_in_use := rx_bufs_in_use queue @ [buf]\<rparr>)))))))"

definition start_rx_queue :: "'w platform \<Rightarrow> u16 \<Rightarrow> (('w, 'c, 'x) drv_scheme, unit) prog" where
  "start_rx_queue E queue_id =
     bindM (rx_queue_at queue_id) (\<lambda>queue.
     let n = rx_num_descriptors queue in
     bindM (sub_ov (overflow_checks E) n 1) (\<lambda>m.
     if n AND m \<noteq> 0 then throw QueueNotAligned
     else
       seqM (forM (word_range n) (fill_rx_descriptor E queue_id))
      (seqM (set_flags32 E (IGB_RXDCTL (ucast queue_id)) IGB_RXDCTL_ENABLE)
      (seqM (wait_set_reg32 E (IGB_RXDCTL (ucast queue_id)) IGB_RXDCTL_ENABLE)
      (seqM (set_reg32 E (IGB_RDH (ucast queue_id)) 0)
      (bindM (sub_ov (overflow_checks E) n 1) (\<lambda>t.
       set_reg32 E (IGB_RDT (ucast queue_id)) (ucast t)))))))) "

definition start_tx_queue :: "'w platform \<Rightarrow> u16 \<Rightarrow> (('w, 'c, 'x) drv_scheme, unit) prog" where
  "start_tx_queue E queue_id =
     bindM (tx_queue_at queue_id) (\<lambda>queue.
     let n = tx_num_descriptors queue in
     bindM (sub_ov (overflow_checks E) n 1) (\<lambda>m.
     if n AND m \<noteq> 0 then throw QueueNotAligned
     else
       seqM (set_reg32 E (IGB_TDH (ucast queue_id)) 0)
      (seqM (set_reg32 E (IGB_TDT (ucast queue_id)) 0)
      (seqM (set_flags32 E (IGB_TXDCTL (ucast queue_id)) IGB_TXDCTL_ENABLE)
            (wait_set_reg32 E (IGB_TXDCTL (ucast queue_id)) IGB_TXDCTL_ENABLE)))))"

section \<open>The whole sequence\<close>

definition reset_and_init ::
  "'w platform \<Rightarrow> usize \<Rightarrow> pool_ref \<Rightarrow> (('w, 'c, 'x) drv_scheme, unit) prog" where
  "reset_and_init E qs pool =
     seqM (disable_interrupts E)
    (seqM (global_reset E)
    (seqM (wait_ms E 1000)
    (seqM (disable_interrupts E)
    (seqM (set_flags32 E IGB_CTRL_EXT (push_bit 28 1))
    (seqM (wait_set_reg32 E IGB_CTRL_EXT (push_bit 28 1))
    (seqM (init_link E)
    (seqM (reset_stats E)
    (seqM (init_rx E qs pool)
    (seqM (init_tx E qs)
    (bindM (getsM (\<lambda>s. num_rx_queues (dev s))) (\<lambda>nrx.
     seqM (forM (word_range nrx) (start_rx_queue E))
    (bindM (getsM (\<lambda>s. num_tx_queues (dev s))) (\<lambda>ntx.
     seqM (forM (word_range ntx) (start_tx_queue E))
    (seqM (clear_interrupts E)
    (seqM (set_flags32 E IGB_CTRL
             (push_bit 6 0x1 OR 0x00000001 OR 0x00000200 OR 0x00001000 OR 0x00000800))
    (seqM (wait_for_link E)
    (bindM (get_mac_addr E) (\<lambda>mac. ret ()))))))))))))))))))"

text \<open>
  \<open>init\<close> builds the structure, runs the sequence on it and returns it; if the sequence fails the
  structure is dropped.
\<close>

definition new_device :: "usize \<Rightarrow> usize \<Rightarrow> u16 \<Rightarrow> u16 \<Rightarrow> IgbDevice" where
  "new_device base_address len nrx ntx =
     \<lparr>dev_addr = base_address, dev_len = len, num_rx_queues = nrx, num_tx_queues = ntx,
      rx_queues = [], tx_queues = [], interrupts = Interrupts_default\<rparr>"

definition IgbDevice_init ::
  "'w platform \<Rightarrow> usize \<Rightarrow> usize \<Rightarrow> usize \<Rightarrow> u16 \<Rightarrow> u16 \<Rightarrow> pool_ref \<Rightarrow>
   (('w, 'c) heap, IgbDevice) prog" where
  "IgbDevice_init E qs base_address len nrx ntx pool = (\<lambda>h.
     case reset_and_init E qs pool
            \<lparr>world = world h, pools = pools h, client = client h,
             dev = new_device base_address len nrx ntx\<rparr> of
       None \<Rightarrow> None
     | Some (r, s) \<Rightarrow>
         Some (case r of Val _ \<Rightarrow> Val (dev s) | Err e \<Rightarrow> Err e | Panicked p \<Rightarrow> Panicked p,
               \<lparr>world = world s, pools = pools s, client = client s\<rparr>))"

definition IgbDevice_num_rx_queues :: "IgbDevice \<Rightarrow> u16" where
  "IgbDevice_num_rx_queues d = num_rx_queues d"

definition IgbDevice_num_tx_queues :: "IgbDevice \<Rightarrow> u16" where
  "IgbDevice_num_tx_queues d = num_tx_queues d"

end
