(* ===== verification/Device_Spec.thy ===== *)
theory Device_Spec
  imports Init
begin

text \<open>
  Register access and what is built on it, specified: which accesses are in bounds, what
  a read-modify-write does, when the polling loops end, what the link, address and
  interrupt operations compute.
\<close>

text \<open>Updates of different fields commute: the order of the fields is the normal form.\<close>

lemma update_order:
  "(s :: ('w, 'c, 'x) drv_scheme)\<lparr>dev := d, world := w\<rparr> = s\<lparr>world := w, dev := d\<rparr>"
  "s\<lparr>dev := d, pools := p\<rparr> = s\<lparr>pools := p, dev := d\<rparr>"
  "s\<lparr>dev := d, client := c\<rparr> = s\<lparr>client := c, dev := d\<rparr>"
  "s\<lparr>pools := p, world := w\<rparr> = s\<lparr>world := w, pools := p\<rparr>"
  "s\<lparr>client := c, world := w\<rparr> = s\<lparr>world := w, client := c\<rparr>"
  "s\<lparr>client := c, pools := p\<rparr> = s\<lparr>pools := p, client := c\<rparr>"
  by simp_all

section \<open>Bounds\<close>

text \<open>
  A register is accessible when its four bytes lie in the mapped region, and the region does
  not reach the end of the address space.
\<close>

definition reg_ok :: "IgbDevice \<Rightarrow> u32 \<Rightarrow> bool" where
  "reg_ok d reg \<longleftrightarrow>
     unat reg + 4 \<le> unat (dev_len d) \<and> unat (dev_addr d) + unat (dev_len d) < 2 ^ 64"

lemma unat_ucast_32_64 [simp]: "unat (ucast (r :: u32) :: usize) = unat r"
  by (simp add: unsigned_ucast_eq take_bit_nat_eq_self order_less_trans [OF unsigned_less])

lemma unat_ucast_16_64 [simp]: "unat (ucast (r :: u16) :: usize) = unat r"
  by (simp add: unsigned_ucast_eq take_bit_nat_eq_self order_less_trans [OF unsigned_less])

lemma unat_ucast_16_32 [simp]: "unat (ucast (r :: u16) :: u32) = unat r"
  by (simp add: unsigned_ucast_eq take_bit_nat_eq_self order_less_trans [OF unsigned_less])

lemma wp_check_reg [wp_simps]:
  assumes "reg_ok (dev s) reg"
  shows "wp (check_reg E reg) Q s = Q (Val (dev_addr (dev s) + ucast reg)) s"
proof -
  have 1: "\<not> dev_len (dev s) < 4"
    using assms by (simp add: reg_ok_def word_less_nat_alt)
  have "unat (dev_len (dev s) - 4) = unat (dev_len (dev s)) - 4"
    using 1 by (subst unat_sub) (simp_all add: not_less)
  then have 2: "(ucast reg :: usize) \<le> dev_len (dev s) - 4"
    using assms by (auto simp: reg_ok_def word_le_nat_alt)
  have 3: "\<not> 18446744073709551616 \<le> unat (dev_addr (dev s)) + unat reg"
    using assms by (simp add: reg_ok_def)
  show ?thesis using 1 2 3 by (simp add: check_reg_def wp_simps)
qed

lemma wp_get_reg32 [wp_simps]:
  "reg_ok (dev s) reg \<Longrightarrow> wp (get_reg32 E reg) Q s =
     Q (Val (fst (mmio_read E (dev_addr (dev s) + ucast reg) (world s))))
       (s\<lparr>world := snd (mmio_read E (dev_addr (dev s) + ucast reg) (world s))\<rparr>)"
  by (simp add: get_reg32_def wp_simps)

lemma wp_set_reg32 [wp_simps]:
  "reg_ok (dev s) reg \<Longrightarrow> wp (set_reg32 E reg v) Q s =
     Q (Val ()) (s\<lparr>world := mmio_write E (dev_addr (dev s) + ucast reg) v (world s)\<rparr>)"
  by (simp add: set_reg32_def wp_simps)

text \<open>
  An access outside the region panics before the device sees it, in a build with
  overflow checks. (Without them \<open>len - 4\<close> wraps for a region of less than four bytes.)
\<close>

lemma check_reg_out_of_bounds:
  fixes s :: "('w, 'c, 'x) drv_scheme"
  assumes "unat (dev_len (dev s)) < unat reg + 4"
    and "overflow_checks E \<or> 4 \<le> unat (dev_len (dev s))"
  shows "\<exists>p. check_reg E reg s = Some (Panicked p, s)"
proof -
  have "wp (check_reg E reg) (\<lambda>r s'. (\<exists>p. r = Panicked p) \<and> s' = s) s"
  proof (cases "dev_len (dev s) < 4")
    case True
    then have "overflow_checks E" using assms(2) by (simp add: word_less_nat_alt)
    with True show ?thesis by (simp add: check_reg_def wp_simps)
  next
    case False
    then have "unat (dev_len (dev s) - 4) = unat (dev_len (dev s)) - 4"
      by (subst unat_sub) (simp_all add: not_less)
    then have "\<not> (ucast reg :: usize) \<le> dev_len (dev s) - 4"
      using assms(1) False by (simp add: word_le_nat_alt word_less_nat_alt)
    with False show ?thesis by (simp add: check_reg_def wp_simps)
  qed
  then show ?thesis by (auto elim: wpE)
qed

lemma register_out_of_bounds:
  fixes s :: "('w, 'c, 'x) drv_scheme"
  assumes "unat (dev_len (dev s)) < unat reg + 4"
    and "overflow_checks E \<or> 4 \<le> unat (dev_len (dev s))"
  shows "\<exists>p. get_reg32 E reg s = Some (Panicked p, s)" "\<exists>p. set_reg32 E reg v s = Some (Panicked p, s)"
  using check_reg_out_of_bounds [OF assms] by (auto simp: get_reg32_def set_reg32_def bindM_def)

text \<open>The converse: what an access that returns has touched.\<close>

lemma get_reg32_in_bounds:
  assumes "get_reg32 E reg s = Some (Val v, s')"
    and "overflow_checks E \<or> 4 \<le> unat (dev_len (dev s))"
  shows "unat reg + 4 \<le> unat (dev_len (dev s))"
proof (rule ccontr)
  assume "\<not> ?thesis"
  then have "\<exists>p. get_reg32 E reg s = Some (Panicked p, s)"
    using assms(2) by (intro register_out_of_bounds) simp_all
  with assms(1) show False by simp
qed

section \<open>Flags\<close>

lemma wp_set_flags32 [wp_simps]:
  "reg_ok (dev s) reg \<Longrightarrow> wp (set_flags32 E reg flags) Q s =
     Q (Val ()) (s\<lparr>world := mmio_write E (dev_addr (dev s) + ucast reg)
         (fst (mmio_read E (dev_addr (dev s) + ucast reg) (world s)) OR flags)
         (snd (mmio_read E (dev_addr (dev s) + ucast reg) (world s)))\<rparr>)"
  by (simp add: set_flags32_def wp_simps)

lemma wp_clear_flags32 [wp_simps]:
  "reg_ok (dev s) reg \<Longrightarrow> wp (clear_flags32 E reg flags) Q s =
     Q (Val ()) (s\<lparr>world := mmio_write E (dev_addr (dev s) + ucast reg)
         (fst (mmio_read E (dev_addr (dev s) + ucast reg) (world s)) AND NOT flags)
         (snd (mmio_read E (dev_addr (dev s) + ucast reg) (world s)))\<rparr>)"
  by (simp add: clear_flags32_def wp_simps)

lemma wp_wait_ms [wp_simps]:
  "wp (wait_ms E ms) Q s = Q (Val ()) (s\<lparr>world := snd (wait_until (hal E) ms (world s))\<rparr>)"
  by (simp add: wait_ms_def wp_simps)

section \<open>Polling\<close>

text \<open>
  The successive states of the world that a polling loop observes: a read of the register at
  address \<open>a\<close>, a wait of 100 ms, and again. \<open>poll_value\<close> is what the \<open>k\<close>-th read returns.
\<close>

primrec poll_world :: "'w platform \<Rightarrow> usize \<Rightarrow> nat \<Rightarrow> 'w \<Rightarrow> 'w" where
  "poll_world E a 0 w = w"
| "poll_world E a (Suc k) w = snd (wait_until (hal E) 100 (snd (mmio_read E a (poll_world E a k w))))"

definition poll_value :: "'w platform \<Rightarrow> usize \<Rightarrow> nat \<Rightarrow> 'w \<Rightarrow> u32" where
  "poll_value E a k w = fst (mmio_read E a (poll_world E a k w))"

definition poll_loop ::
  "'w platform \<Rightarrow> u32 \<Rightarrow> (u32 \<Rightarrow> bool) \<Rightarrow> (('w, 'c, 'x) drv_scheme, unit) prog" where
  "poll_loop E reg stop = loopM (\<lambda>_ :: unit.
     bindM (get_reg32 E reg) (\<lambda>current.
     if stop current then ret (Inr ()) else seqM (wait_ms E 100) (ret (Inl ())))) ()"

lemma wait_clear_poll: "wait_clear_reg32 E reg v = poll_loop E reg (\<lambda>c. c AND v = 0)"
  by (simp add: wait_clear_reg32_def poll_loop_def)

lemma wait_set_poll: "wait_set_reg32 E reg v = poll_loop E reg (\<lambda>c. c AND v = v)"
  by (simp add: wait_set_reg32_def poll_loop_def)

lemma poll_pass:
  fixes s :: "('w, 'c, 'x) drv_scheme"
  assumes "reg_ok (dev s) reg" and "a = dev_addr (dev s) + ucast reg"
  shows "wp (bindM (get_reg32 E reg) (\<lambda>current.
      if stop current then ret (Inr ()) else seqM (wait_ms E 100) (ret (Inl ())))) Q (s\<lparr>world := poll_world E a k w\<rparr>) =
    (if stop (poll_value E a k w) then Q (Val (Inr ())) (s\<lparr>world := snd (mmio_read E a (poll_world E a k w))\<rparr>)
     else Q (Val (Inl ())) (s\<lparr>world := poll_world E a (Suc k) w\<rparr>))"
  using assms by (simp add: wp_simps poll_value_def)

text \<open>The loop ends at the first read that satisfies the test, if there is one \<dots>\<close>

lemma poll_loop_ends:
  fixes s :: "('w, 'c, 'x) drv_scheme"
  assumes reg: "reg_ok (dev s) reg"
    and "stop (poll_value E (dev_addr (dev s) + ucast reg) k (world s))"
    and "\<And>j. j < k \<Longrightarrow> \<not> stop (poll_value E (dev_addr (dev s) + ucast reg) j (world s))"
    and "Q (Val ()) (s\<lparr>world := snd (mmio_read E (dev_addr (dev s) + ucast reg)
                     (poll_world E (dev_addr (dev s) + ucast reg) k (world s)))\<rparr>)"
  shows "wp (poll_loop E reg stop) Q s"
proof -
  let ?st = "\<lambda>j. s\<lparr>world := poll_world E (dev_addr (dev s) + ucast reg) j (world s)\<rparr>"
  have "wp (poll_loop E reg stop) Q (?st 0)"
    unfolding poll_loop_def
    by (rule wp_loopM_search [where k = k and st = ?st]) (use assms(2-4) in \<open>simp_all only: poll_pass [OF reg refl], simp_all\<close>)
  then show ?thesis by simp
qed

text \<open>\<dots> and never, if there is none.\<close>

lemma poll_loop_diverges:
  fixes s :: "('w, 'c, 'x) drv_scheme"
  assumes reg: "reg_ok (dev s) reg"
    and "\<And>k. \<not> stop (poll_value E (dev_addr (dev s) + ucast reg) k (world s))"
  shows "poll_loop E reg stop s = None"
proof -
  let ?st = "\<lambda>j. s\<lparr>world := poll_world E (dev_addr (dev s) + ucast reg) j (world s)\<rparr>"
  have "poll_loop E reg stop (?st 0) = None"
    unfolding poll_loop_def
    by (rule loopM_never [where st = ?st]) (use assms(2) in \<open>simp only: poll_pass [OF reg refl], simp\<close>)
  then show ?thesis by simp
qed

text \<open>So the loop is a search for the first read that satisfies the test.\<close>

lemma poll_loop_iff:
  fixes s :: "('w, 'c, 'x) drv_scheme"
  assumes "reg_ok (dev s) reg"
  shows "if \<exists>k. stop (poll_value E (dev_addr (dev s) + ucast reg) k (world s))
     then poll_loop E reg stop s = Some (Val (), s\<lparr>world := snd (mmio_read E (dev_addr (dev s) + ucast reg)
       (poll_world E (dev_addr (dev s) + ucast reg) (LEAST k. stop (poll_value E (dev_addr (dev s) + ucast reg) k (world s))) (world s)))\<rparr>)
     else poll_loop E reg stop s = None"
proof (cases "\<exists>k. stop (poll_value E (dev_addr (dev s) + ucast reg) k (world s))")
  case True
  let ?a = "dev_addr (dev s) + ucast reg"
  let ?k = "LEAST k. stop (poll_value E ?a k (world s))"
  have "wp (poll_loop E reg stop) (\<lambda>r s'. r = Val () \<and>
      s' = s\<lparr>world := snd (mmio_read E ?a (poll_world E ?a ?k (world s)))\<rparr>) s"
  proof (rule poll_loop_ends [OF assms])
    show "stop (poll_value E ?a ?k (world s))" using True by (rule LeastI_ex)
  qed (auto dest: not_less_Least)
  then show ?thesis using True by (auto elim: wpE)
next
  case False
  then show ?thesis using poll_loop_diverges [OF assms, of stop E] by simp
qed

end
