(* ===== verification/Memory_Spec.thy ===== *)
theory Memory_Spec
  imports Memory
begin

text \<open>
  The buffer pool and the packets, specified: what allocating, freeing and addressing a buffer
  do, that packets of different buffers do not overlap, and what a new pool looks like.
\<close>

section \<open>Buffers\<close>

lemma wp_extend_free_stack [wp_simps]:
  "wp (extend_free_stack h ids) Q s =
     Q (Val ()) (s\<lparr>pools := (pools s)[h := pool_extend ids (pools s ! h)]\<rparr>)"
  by (simp add: extend_free_stack_def get_pool_def set_pool_def wp_simps)

lemma wp_free_buf [wp_simps]:
  "wp (free_buf h b) Q s =
     (case pool_free_buf b (pools s ! h) of
        Inl e \<Rightarrow> Q (Panicked e) s
      | Inr p \<Rightarrow> Q (Val ()) (s\<lparr>pools := (pools s)[h := p]\<rparr>))"
  by (simp add: free_buf_def get_pool_def set_pool_def wp_simps split: sum.splits)

lemma wp_alloc_buf [wp_simps]:
  "wp (alloc_buf h) Q s =
     (if free_stack (pools s ! h) = [] then Q (Val None) s
      else Q (Val (Some (last (free_stack (pools s ! h)))))
        (s\<lparr>pools := (pools s)[h := (pools s ! h)\<lparr>free_stack := butlast (free_stack (pools s ! h))\<rparr>]\<rparr>))"
  by (simp add: alloc_buf_def get_pool_def set_pool_def pool_alloc_buf_def wp_simps)

lemma wp_get_virt_addr [wp_simps]:
  assumes "pool_wf (pools s ! h)" and "b < num_entries (pools s ! h)"
  shows "wp (get_virt_addr E h b) Q s =
     Q (Val (base_addr (pools s ! h) + b * entry_size (pools s ! h))) s"
proof -
  let ?p = "pools s ! h"
  have "unat b \<le> unat (num_entries ?p)" using assms(2) by (simp add: word_less_nat_alt)
  then have "unat b * unat (entry_size ?p) \<le> unat (num_entries ?p) * unat (entry_size ?p)"
    by (rule mult_le_mono1)
  also have "\<dots> < 18446744073709551616" using assms(1) unfolding pool_wf_def by simp
  finally have "\<not> 18446744073709551616 \<le> unat b * unat (entry_size ?p)" by simp
  then show ?thesis using assms(2) by (simp add: get_virt_addr_def get_pool_def wp_simps)
qed

lemma wp_get_phys_addr [wp_simps]:
  assumes "pool_wf (pools s ! h)" and "b < num_entries (pools s ! h)"
  shows "wp (get_phys_addr h b) Q s = Q (Val (phys_addr (pools s ! h) ! unat b)) s"
  using assms by (simp add: get_phys_addr_def get_pool_def wp_simps pool_wf_def word_less_nat_alt)


lemma wp_MemPool_entry_size [wp_simps]: "wp (MemPool_entry_size h) Q s = Q (Val (entry_size (pools s ! h))) s"
  by (simp add: MemPool_entry_size_def get_pool_def wp_simps)

text \<open>
  A pool packets can be taken from: an entry has room for the headroom, and adding the headroom
  to a physical address does not overflow.
\<close>

definition packet_pool_ok :: "MemPool \<Rightarrow> bool" where
  "packet_pool_ok p \<longleftrightarrow> pool_wf p \<and> PACKET_HEADROOM \<le> entry_size p \<and>
     (\<forall>a \<in> set (phys_addr p). unat a + unat PACKET_HEADROOM < 2 ^ 64)"

definition new_packet :: "MemPool \<Rightarrow> pool_ref \<Rightarrow> usize \<Rightarrow> usize \<Rightarrow> Packet" where
  "new_packet p h sz b = Packet_new (base_addr p + b * entry_size p + PACKET_HEADROOM)
     (phys_addr p ! unat b + PACKET_HEADROOM) sz h b"

lemma unat_HEADROOM [simp]: "unat PACKET_HEADROOM = 32"
  by (simp add: PACKET_HEADROOM_def)

lemma wp_alloc_pkt [wp_simps]:
  assumes "packet_pool_ok (pools s ! h)" and "h < length (pools s)"
  shows "wp (alloc_pkt E h sz) Q s =
    (let p = pools s ! h; b = last (free_stack p) in
     if entry_size p - PACKET_HEADROOM < sz \<or> free_stack p = [] then Q (Val None) s
     else Q (Val (Some (new_packet p h sz b)))
       (s\<lparr>pools := (pools s)[h := p\<lparr>free_stack := butlast (free_stack p)\<rparr>]\<rparr>))"
proof -
  let ?p = "pools s ! h" and ?b = "last (free_stack (pools s ! h))"
  have wf: "pool_wf ?p" and es: "\<not> entry_size ?p < PACKET_HEADROOM"
    using assms by (simp_all add: packet_pool_ok_def not_less)
  have lt: "?b < num_entries ?p" if "free_stack ?p \<noteq> []"
    using wf that by (simp add: pool_wf_def)
  have wf': "pool_wf (?p\<lparr>free_stack := butlast (free_stack ?p)\<rparr>)" if "free_stack ?p \<noteq> []"
    using pool_alloc_wf [OF wf] that by (simp add: pool_alloc_buf_def)
  have "unat (phys_addr ?p ! unat ?b) + 32 < 2 ^ 64" if "free_stack ?p \<noteq> []"
    using assms lt [OF that] wf
    by (simp add: packet_pool_ok_def pool_wf_def word_less_nat_alt)
  then have ph: "\<not> 18446744073709551616 \<le> unat (phys_addr ?p ! unat ?b) + 32" if "free_stack ?p \<noteq> []"
    using that by fastforce
  show ?thesis using es lt wf' ph assms(2)
    by (simp add: alloc_pkt_def wp_simps Let_def new_packet_def)
qed

section \<open>Buffers do not overlap\<close>

text \<open>The bytes of buffer \<open>b\<close>, as natural numbers.\<close>

definition buffer_bytes :: "MemPool \<Rightarrow> usize \<Rightarrow> nat set" where
  "buffer_bytes p b =
     {unat (base_addr p) + unat b * unat (entry_size p) ..<
      unat (base_addr p) + (unat b + 1) * unat (entry_size p)}"

definition slice_bytes :: "usize \<times> usize \<Rightarrow> nat set" where
  "slice_bytes sl = {unat (fst sl) ..< unat (fst sl) + unat (snd sl)}"

lemma buffers_disjoint:
  assumes "b \<noteq> c"
  shows "buffer_bytes p b \<inter> buffer_bytes p c = {}"
proof -
  have *: "unat (base_addr p) + (unat x + 1) * unat (entry_size p) \<le> unat (base_addr p) + unat y * unat (entry_size p)"
    if "unat x < unat y" for x y
    using that by (intro add_left_mono mult_le_mono1) simp
  have "unat b < unat c \<or> unat c < unat b" using assms by (metis linorder_neqE_nat word_unat_eq_iff)
  then show ?thesis using * [of b c] * [of c b] unfolding buffer_bytes_def by auto
qed

lemma unat_buffer_addr:
  assumes "pool_wf p" "b < num_entries p"
  shows "unat (base_addr p + b * entry_size p) = unat (base_addr p) + unat b * unat (entry_size p)"
    and "unat (base_addr p) + (unat b + 1) * unat (entry_size p) < 2 ^ 64"
proof -
  have "(unat b + 1) * unat (entry_size p) \<le> unat (num_entries p) * unat (entry_size p)"
    using assms(2) by (intro mult_le_mono1) (simp add: word_less_nat_alt)
  then show top: "unat (base_addr p) + (unat b + 1) * unat (entry_size p) < 2 ^ 64"
    using assms(1) by (simp add: pool_wf_def)
  then have m: "unat (b * entry_size p) = unat b * unat (entry_size p)"
    by (intro unat_mult_no_wrap) simp
  then show "unat (base_addr p + b * entry_size p) = unat (base_addr p) + unat b * unat (entry_size p)"
    using top by (subst unat_add_no_wrap) simp_all
qed

text \<open>The data and the headroom of an allocated packet stay inside its buffer.\<close>

lemma new_packet_inside:
  assumes "packet_pool_ok p" "b < num_entries p" "sz \<le> entry_size p - PACKET_HEADROOM"
  shows "slice_bytes (as_bytes (new_packet p h sz b)) \<subseteq> buffer_bytes p b"
    and "headroom_mut (new_packet p h sz b) k s = Some (Val hr, s') \<Longrightarrow> slice_bytes hr \<subseteq> buffer_bytes p b"
proof -
  have wf: "pool_wf p" and es: "32 \<le> unat (entry_size p)"
    using assms(1) by (simp_all add: packet_pool_ok_def word_le_nat_alt)
  note a = unat_buffer_addr [OF wf assms(2)]
  have sz: "unat sz + 32 \<le> unat (entry_size p)"
    using assms(3) es by (simp add: word_le_nat_alt unat_sub PACKET_HEADROOM_def)
  have v: "unat (base_addr p + b * entry_size p + PACKET_HEADROOM) =
      unat (base_addr p) + unat b * unat (entry_size p) + 32"
    using a es by (subst unat_add_no_wrap) simp_all
  then show "slice_bytes (as_bytes (new_packet p h sz b)) \<subseteq> buffer_bytes p b"
    using sz by (auto simp: slice_bytes_def as_bytes_def new_packet_def Packet_new_def buffer_bytes_def)
  assume "headroom_mut (new_packet p h sz b) k s = Some (Val hr, s')"
  then have k: "unat k \<le> 32" and hr: "hr = (base_addr p + b * entry_size p + PACKET_HEADROOM - k, k)"
    by (auto simp: headroom_mut_def assertM_def bindM_def ret_def panic_def new_packet_def Packet_new_def
        word_le_nat_alt split: if_splits)
  have "k \<le> base_addr p + b * entry_size p + PACKET_HEADROOM" using k v by (simp add: word_le_nat_alt)
  then have "unat (fst hr) = unat (base_addr p) + unat b * unat (entry_size p) + 32 - unat k"
    using v hr by (simp add: unat_sub)
  then show "slice_bytes hr \<subseteq> buffer_bytes p b"
    using k hr es by (auto simp: slice_bytes_def buffer_bytes_def)
qed


text \<open>
  A received packet, as \<open>receive_packets\<close> builds it, starts at the beginning of its buffer: its
  headroom is the end of the buffer before it.
\<close>

definition rx_packet :: "MemPool \<Rightarrow> pool_ref \<Rightarrow> usize \<Rightarrow> usize \<Rightarrow> Packet" where
  "rx_packet p h len b = Packet_new (base_addr p + b * entry_size p) (phys_addr p ! unat b) len h b"

lemma rx_headroom_outside:
  assumes "packet_pool_ok p" "b < num_entries p" "0 < b" "0 < k" "k \<le> PACKET_HEADROOM"
  shows "\<exists>hr. headroom_mut (rx_packet p h len b) k s = Some (Val hr, s) \<and> slice_bytes hr \<noteq> {} \<and>
     slice_bytes hr \<subseteq> buffer_bytes p (b - 1)"
proof -
  have wf: "pool_wf p" and es: "32 \<le> unat (entry_size p)"
    using assms(1) by (simp_all add: packet_pool_ok_def word_le_nat_alt)
  have k: "unat k \<le> 32" "0 < unat k" using assms(4,5) by (simp_all add: word_le_nat_alt word_less_nat_alt)
  have b0: "0 < unat b" using assms(3) by (simp add: word_less_nat_alt)
  then have "1 \<le> b" by (simp add: word_le_nat_alt)
  then have b: "unat (b - 1) = unat b - 1" "0 < unat b" using b0 by (simp_all add: unat_sub)
  note a = unat_buffer_addr [OF wf assms(2)]
  have big: "unat (entry_size p) \<le> unat b * unat (entry_size p)" using b(2) by simp
  have "unat k \<le> unat (base_addr p) + unat b * unat (entry_size p)" using k es big by linarith
  then have "k \<le> base_addr p + b * entry_size p" by (simp only: word_le_nat_alt a(1))
  then have st: "unat (base_addr p + b * entry_size p - k) =
      unat (base_addr p) + unat b * unat (entry_size p) - unat k"
    using a(1) by (simp add: unat_sub)
  have pred: "(unat b - 1) * unat (entry_size p) + unat (entry_size p) = unat b * unat (entry_size p)"
    using b(2) by (cases "unat b") simp_all
  have "slice_bytes (base_addr p + b * entry_size p - k, k) \<subseteq> buffer_bytes p (b - 1)"
  proof
    fix x assume "x \<in> slice_bytes (base_addr p + b * entry_size p - k, k)"
    then have "unat (base_addr p) + unat b * unat (entry_size p) - unat k \<le> x"
      "x < unat (base_addr p) + unat b * unat (entry_size p) - unat k + unat k"
      by (simp_all add: slice_bytes_def st)
    then show "x \<in> buffer_bytes p (b - 1)"
      using k es pred big by (simp add: buffer_bytes_def b)
  qed
  moreover have "slice_bytes (base_addr p + b * entry_size p - k, k) \<noteq> {}"
    using k by (simp add: slice_bytes_def)
  ultimately show ?thesis using assms(5)
    by (simp add: headroom_mut_def assertM_def bindM_def ret_def rx_packet_def Packet_new_def)
qed

section \<open>A new pool\<close>

lemma dvd_power2: "n dvd 2 ^ k \<Longrightarrow> \<exists>j \<le> k. n = (2 :: nat) ^ j"
proof (induction k arbitrary: n)
  case (Suc k)
  show ?case
  proof (cases "even n")
    case True
    then obtain m where m: "n = 2 * m" by blast
    then have "m dvd 2 ^ k" using Suc.prems by simp
    then obtain j where "j \<le> k" "m = 2 ^ j" using Suc.IH by blast
    then show ?thesis using m by (intro exI [of _ "Suc j"]) simp
  next
    case False
    then have "coprime n (2 ^ Suc k)" by (simp add: coprime_right_2_iff_odd)
    then have "n = 1" using Suc.prems by (metis coprime_absorb_left nat_dvd_1_iff_1)
    then show ?thesis by (intro exI [of _ 0]) simp
  qed
qed simp

text \<open>The sizes \<open>allocate\<close> takes for an entry: the powers of two up to two megabytes.\<close>

lemma huge_page_divisor:
  "HUGE_PAGE_SIZE mod n = 0 \<longleftrightarrow> (\<exists>k \<le> 21. unat n = 2 ^ k)"
proof -
  have "HUGE_PAGE_SIZE mod n = 0 \<longleftrightarrow> unat n dvd 2 ^ 21"
    by (simp add: word_unat_eq_iff unat_mod HUGE_PAGE_SIZE_value dvd_eq_mod_eq_0)
  also have "\<dots> \<longleftrightarrow> (\<exists>k \<le> 21. unat n = 2 ^ k)"
    using dvd_power2 [of "unat n" 21] le_imp_power_dvd [of _ 21 "2 :: nat"] by metis
  finally show ?thesis .
qed


text \<open>A collecting loop: an invariant over the elements done and the values collected.\<close>

lemma wp_collectM:
  assumes "I [] [] s"
    and "\<And>seen ys x rest s. xs = seen @ x # rest \<Longrightarrow> I seen ys s \<Longrightarrow>
           wp (f x) (after (\<lambda>y. I (seen @ [x]) (ys @ [y])) Q') s"
    and "\<And>ys s. I xs ys s \<Longrightarrow> Q (Val ys) s"
    and "\<And>e s. Q' (Err e) s \<Longrightarrow> Q (Err e) s" "\<And>e s. Q' (Panicked e) s \<Longrightarrow> Q (Panicked e) s"
  shows "wp (collectM xs f) Q s"
proof -
  have "wp (collectM rest f) (after (\<lambda>zs. Q (Val (ys @ zs))) Q) s" if "xs = seen @ rest" "I seen ys s"
    for seen rest ys s
    using that
  proof (induction rest arbitrary: seen ys s)
    case Nil
    then show ?case using assms(3) by (simp add: wp_ret)
  next
    case (Cons x rest)
    have "wp (f x) (after (\<lambda>y. I (seen @ [x]) (ys @ [y])) Q') s"
      using Cons.prems by (rule assms(2))
    then have "wp (f x) (after (\<lambda>y. wp (bindM (collectM rest f) (\<lambda>zs. ret (y # zs)))
        (after (\<lambda>zs. Q (Val (ys @ zs))) Q)) (after (\<lambda>zs. Q (Val (ys @ zs))) Q)) s"
    proof (rule wp_mono)
      fix r s'
      assume a: "after (\<lambda>y. I (seen @ [x]) (ys @ [y])) Q' r s'"
      show "after (\<lambda>y. wp (bindM (collectM rest f) (\<lambda>zs. ret (y # zs)))
        (after (\<lambda>zs. Q (Val (ys @ zs))) Q)) (after (\<lambda>zs. Q (Val (ys @ zs))) Q) r s'"
      proof (cases r)
        case (Val y)
        then have "wp (collectM rest f) (after (\<lambda>zs. Q (Val ((ys @ [y]) @ zs))) Q) s'"
          using Cons.IH [of "seen @ [x]" "ys @ [y]"] Cons.prems(1) a by simp
        then have "wp (collectM rest f) (after (\<lambda>zs. wp (ret (y # zs)) (after (\<lambda>zs. Q (Val (ys @ zs))) Q))
            (after (\<lambda>zs. Q (Val (ys @ zs))) Q)) s'"
        proof (rule wp_mono)
          fix r' s'' assume "after (\<lambda>zs. Q (Val ((ys @ [y]) @ zs))) Q r' s''"
          then show "after (\<lambda>zs. wp (ret (y # zs)) (after (\<lambda>zs. Q (Val (ys @ zs))) Q))
            (after (\<lambda>zs. Q (Val (ys @ zs))) Q) r' s''"
            by (cases r') (simp_all add: wp_ret)
        qed
        then show ?thesis using Val by (simp add: wp_bindM)
      qed (use a assms(4,5) in auto)
    qed
    then show ?case by (simp add: wp_bindM)
  qed
  from this [OF append_Nil [symmetric] assms(1)]
  have "wp (collectM xs f) (after (\<lambda>zs. Q (Val zs)) Q) s" by (simp only: append_Nil)
  then show ?thesis
  proof (rule wp_mono)
    fix r s' assume "after (\<lambda>zs. Q (Val zs)) Q r s'"
    then show "Q r s'" by (cases r) simp_all
  qed
qed

text \<open>
  What \<open>allocate\<close> relies on: \<open>dma_alloc\<close> returns a valid pointer, so not null and to memory that
  does not reach the end of the address space.
\<close>

definition dma_valid :: "'w platform \<Rightarrow> usize \<Rightarrow> 'w \<Rightarrow> bool" where
  "dma_valid E sz w \<longleftrightarrow> snd (fst (dma_alloc (hal E) sz w)) \<noteq> 0 \<and>
     unat (snd (fst (dma_alloc (hal E) sz w))) + unat sz < 2 ^ 64"

definition effective_size :: "usize \<Rightarrow> usize" where
  "effective_size sz = (if sz = 0 then 2048 else sz)"

lemma MemPool_allocate_rejects:
  "(\<exists>s'. MemPool_allocate E entries sz s = Some (Err PageNotAligned, s')) \<and> sz \<noteq> 0"
  if "\<not> (\<exists>k \<le> 21. unat (effective_size sz) = 2 ^ k)"
proof -
  have "sz \<noteq> 0"
  proof
    assume "sz = 0"
    then have "unat (effective_size sz) = 2 ^ 11" by (simp add: effective_size_def)
    then show False using that by (elim notE) (rule exI [of _ 11], simp)
  qed
  then show ?thesis using that
    by (simp add: MemPool_allocate_def huge_page_divisor [symmetric] effective_size_def throw_def)
qed


lemma MemPool_allocate_spec:
  fixes s :: "('w, 'c, 'x) heap_scheme"
  assumes es: "es = effective_size sz" and E: "dma_valid E (entries * es) (world s)" and k: "\<exists>k \<le> 21. unat es = 2 ^ k"
    and fits: "unat entries * unat es < 2 ^ 64"
  shows "\<exists>w p. MemPool_allocate E entries sz s =
      Some (Val (length (pools s)), s\<lparr>world := w, pools := pools s @ [p]\<rparr>) \<and>
     pool_wf p \<and> num_entries p = entries \<and> entry_size p = es \<and>
     free_stack p = word_range entries"
proof -
  let ?dma = "dma_alloc (hal E) (entries * es)"
  let ?va = "snd (fst (?dma (world s)))" and ?w = "snd (?dma (world s))"
  have total: "unat (entries * es) = unat entries * unat es" using fits by (intro unat_mult_no_wrap) simp
  have va: "?va \<noteq> 0" "unat ?va + unat entries * unat es < 2 ^ 64"
    using E total unfolding dma_valid_def by metis+
  let ?D = "\<lparr>virt = ?va, phys = fst (fst (?dma (world s)))\<rparr>"
  let ?f = "(\<lambda>i. bindM (mul_ov (overflow_checks E) i es) (\<lambda>offset.
            bindM (non_null (virt ?D + offset)) (\<lambda>va.
            worldM (mmio_virt_to_phys (hal E) va es)))) :: usize \<Rightarrow> (('w, 'c, 'x) heap_scheme, usize) prog"
  let ?Q = "\<lambda>r s'. \<exists>w p. r = Val (length (pools s)) \<and> s' = s\<lparr>world := w, pools := pools s @ [p]\<rparr> \<and>
     pool_wf p \<and> num_entries p = entries \<and> entry_size p = es \<and> free_stack p = word_range entries"
  have loop: "wp (collectM (word_range entries) ?f)
     (\<lambda>r s'. \<exists>ys w. r = Val ys \<and> length ys = unat entries \<and> s' = s\<lparr>world := w\<rparr>) (s\<lparr>world := ?w\<rparr>)"
  proof (rule wp_collectM [where I = "\<lambda>seen ys s'. length ys = length seen \<and> (\<exists>w. s' = s\<lparr>world := w\<rparr>)"
        and Q' = "\<lambda>_ _. False"])
    fix seen x rest and ys :: "usize list" and s' :: "('w, 'c, 'x) heap_scheme"
    assume xs: "word_range entries = seen @ x # rest"
      and I: "length ys = length seen \<and> (\<exists>w. s' = s\<lparr>world := w\<rparr>)"
    have "x \<in> set (word_range entries)" unfolding xs by simp
    then have "unat x < unat entries" by (simp add: set_word_range word_less_nat_alt)
    then have "unat x * unat es \<le> unat entries * unat es" by (intro mult_le_mono1) simp
    then have lt: "unat ?va + unat x * unat es < 2 ^ 64" using va(2) by linarith
    then have m: "unat (x * es) = unat x * unat es" by (intro unat_mult_no_wrap) simp
    have "unat (?va + x * es) = unat ?va + unat x * unat es"
      using lt m by (subst unat_add_no_wrap) simp_all
    then have nn: "?va + x * es \<noteq> 0" using va(1) by (metis add_is_0 unat_0 unat_eq_0)
    have ov: "\<not> 18446744073709551616 \<le> unat x * unat es" using lt by simp
    show "wp (?f x) (after (\<lambda>y s''. length (ys @ [y]) = length (seen @ [x]) \<and> (\<exists>w. s'' = s\<lparr>world := w\<rparr>))
        (\<lambda>_ _. False)) s'"
      using I ov nn by (auto simp: wp_simps non_null_def)
  next
    fix ys :: "usize list" and s' :: "('w, 'c, 'x) heap_scheme"
    assume "length ys = length (word_range entries) \<and> (\<exists>w. s' = s\<lparr>world := w\<rparr>)"
    then show "\<exists>ys' w. Val ys = Val ys' \<and> length ys' = unat entries \<and> s' = s\<lparr>world := w\<rparr>" by auto
  qed auto
  have mod0: "HUGE_PAGE_SIZE mod es = 0" using k by (simp add: huge_page_divisor)
  have ov: "\<not> 18446744073709551616 \<le> unat entries * unat es" using fits by simp
  have run: "wp (MemPool_allocate E entries sz) R s = wp (collectM (word_range entries) ?f)
      (after (\<lambda>phys_addrs. wp (bindM (getsM (\<lambda>s. length (pools s))) (\<lambda>pool.
        seqM (modifyM (\<lambda>s. s\<lparr>pools := pools s @
            [\<lparr>base_addr = virt ?D, num_entries = entries, entry_size = es,
              phys_addr = phys_addrs, free_stack = []\<rparr>]\<rparr>))
       (seqM (extend_free_stack pool (word_range entries))
        (ret pool)))) R) R) (s\<lparr>world := ?w\<rparr>)" for R
    using mod0 ov unfolding es effective_size_def
    by (simp add: MemPool_allocate_def Let_def wp_simps Dma_allocate_def prod.case_eq_if)
  have "wp (MemPool_allocate E entries sz) ?Q s"
    unfolding run
  proof (rule wp_mono [OF loop])
    fix r :: "usize list outcome" and s' :: "('w, 'c, 'x) heap_scheme"
    assume "\<exists>ys w. r = Val ys \<and> length ys = unat entries \<and> s' = s\<lparr>world := w\<rparr>"
    then obtain ys w where r: "r = Val ys" "length ys = unat entries" "s' = s\<lparr>world := w\<rparr>" by blast
    let ?p = "\<lparr>base_addr = ?va, num_entries = entries, entry_size = es,
              phys_addr = ys, free_stack = word_range entries\<rparr>"
    have "pool_wf ?p" using r(2) va(2) by (simp add: pool_wf_def distinct_word_range set_word_range)
    then show "after (\<lambda>phys_addrs. wp (bindM (getsM (\<lambda>s. length (pools s))) (\<lambda>pool.
        seqM (modifyM (\<lambda>s. s\<lparr>pools := pools s @
            [\<lparr>base_addr = virt ?D, num_entries = entries, entry_size = es,
              phys_addr = phys_addrs, free_stack = []\<rparr>]\<rparr>))
       (seqM (extend_free_stack pool (word_range entries))
        (ret pool)))) ?Q) ?Q r s'"
      unfolding r by (simp add: wp_simps pool_extend_def) (intro exI [of _ w] exI [of _ ?p], simp)
  qed
  then show ?thesis by (auto elim!: wpE)
qed


section \<open>Copies of a packet\<close>

lemma length_slice_addrs [simp]: "length (slice_addrs sl) = unat (snd sl)"
  by (cases sl) (simp add: slice_addrs_def)

lemma slice_addrs_bytes:
  assumes "unat (fst sl) + unat (snd sl) < 2 ^ 64" and "a \<in> set (slice_addrs sl)"
  shows "unat a \<in> slice_bytes sl"
proof -
  obtain i where i: "i < snd sl" and a: "a = fst sl + i"
    using assms(2) by (cases sl) (auto simp: slice_addrs_def set_word_range)
  have "unat i < unat (snd sl)" using i by (simp add: word_less_nat_alt)
  moreover from this have "unat a = unat (fst sl) + unat i"
    using assms(1) unfolding a by (intro unat_add_no_wrap [THEN trans]) simp_all
  ultimately show ?thesis by (simp add: slice_bytes_def)
qed

lemma distinct_slice_addrs: "distinct (slice_addrs sl)"
  by (cases sl) (simp add: slice_addrs_def distinct_map distinct_word_range inj_on_def)

lemma load_copied:
  assumes E: "byte_memory E" and len: "snd dst = snd src"
  shows "read_slice E dst (store_bytes E (zip (slice_addrs dst) (read_slice E src w)) w) = read_slice E src w"
    and "a \<notin> set (slice_addrs dst) \<Longrightarrow>
      load8 E a (store_bytes E (zip (slice_addrs dst) (read_slice E src w)) w) = load8 E a w"
proof -
  let ?bs = "read_slice E src w" and ?w = "store_bytes E (zip (slice_addrs dst) (read_slice E src w)) w"
  have l: "length ?bs = length (slice_addrs dst)" by (simp add: read_slice_def len)
  then have fs: "map fst (zip (slice_addrs dst) ?bs) = slice_addrs dst" by simp
  have ld: "load8 E a ?w = (case map_of (zip (slice_addrs dst) ?bs) a of Some b \<Rightarrow> b | None \<Rightarrow> load8 E a w)" for a
    using E by (rule load_store_bytes) (simp add: fs distinct_slice_addrs)
  show "read_slice E dst ?w = ?bs"
  proof (rule nth_equalityI)
    show "length (read_slice E dst ?w) = length ?bs" by (simp add: read_slice_def len)
    fix i assume "i < length (read_slice E dst ?w)"
    then have i: "i < length (slice_addrs dst)" by (simp add: read_slice_def)
    then have "map_of (zip (slice_addrs dst) ?bs) (slice_addrs dst ! i) = Some (?bs ! i)"
      using l distinct_slice_addrs by (simp add: map_of_zip_nth)
    then show "read_slice E dst ?w ! i = ?bs ! i" using i ld by (simp add: read_slice_def)
  qed
  assume "a \<notin> set (slice_addrs dst)"
  then have "map_of (zip (slice_addrs dst) ?bs) a = None" unfolding map_of_eq_None_iff
    using fs by (metis set_map)
  then show "load8 E a ?w = load8 E a w" by (simp add: ld)
qed

text \<open>
  The copy has the bytes of the packet and the packet keeps its own, if the packet lies in
  another buffer of the pool; without a free buffer the clone panics.
\<close>

lemma Packet_clone_spec:
  fixes s :: "('w, 'c, 'x) heap_scheme"
  assumes E: "byte_memory E" and h: "packet_pool pkt < length (pools s)"
    and p: "p = pools s ! packet_pool pkt" and ok: "packet_pool_ok p"
    and sz: "packet_len pkt \<le> entry_size p - PACKET_HEADROOM"
    and held: "pool_entry pkt < num_entries p" "pool_entry pkt \<notin> set (free_stack p)"
    and inside: "slice_bytes (as_bytes pkt) \<subseteq> buffer_bytes p (pool_entry pkt)"
      "unat (addr_virt pkt) + unat (packet_len pkt) < 2 ^ 64"
  shows "wp (Packet_clone E pkt) (\<lambda>r s'.
     if free_stack p = [] then r = Panicked NoBufferAvailable \<and> s' = s
     else r = Val (new_packet p (packet_pool pkt) (packet_len pkt) (last (free_stack p))) \<and>
       read_slice E (as_bytes (new_packet p (packet_pool pkt) (packet_len pkt) (last (free_stack p)))) (world s') =
         read_slice E (as_bytes pkt) (world s) \<and>
       read_slice E (as_bytes pkt) (world s') = read_slice E (as_bytes pkt) (world s) \<and>
       pools s' = (pools s)[packet_pool pkt := p\<lparr>free_stack := butlast (free_stack p)\<rparr>]) s"
proof -
  let ?b = "last (free_stack p)"
  let ?q = "new_packet p (packet_pool pkt) (packet_len pkt) ?b"
  have nl: "\<not> entry_size p - PACKET_HEADROOM < packet_len pkt" using sz by (simp add: not_less)
  have copy: "read_slice E (as_bytes pkt) (store_bytes E (zip (slice_addrs (as_bytes ?q)) (read_slice E (as_bytes pkt) w)) w) =
      read_slice E (as_bytes pkt) w" if ne: "free_stack p \<noteq> []" for w
  proof -
    have "?b < num_entries p" using ok ne by (simp add: packet_pool_ok_def pool_wf_def)
    moreover have "?b \<noteq> pool_entry pkt" using held(2) last_in_set [OF ne] by metis
    ultimately have b: "?b < num_entries p" "?b \<noteq> pool_entry pkt" by simp_all
    have "slice_bytes (as_bytes ?q) \<subseteq> buffer_bytes p ?b" using new_packet_inside(1) [OF ok b(1) sz] .
    then have disj: "slice_bytes (as_bytes pkt) \<inter> slice_bytes (as_bytes ?q) = {}"
      using inside(1) buffers_disjoint [OF b(2), of p] by blast
    have "unat (addr_virt ?q) + unat (packet_len ?q) < 2 ^ 64"
    proof -
      have es: "32 \<le> unat (entry_size p)" and wf: "pool_wf p" using ok by (simp_all add: packet_pool_ok_def word_le_nat_alt)
      have "unat (packet_len pkt) + 32 \<le> unat (entry_size p)"
        using sz es by (simp add: word_le_nat_alt unat_sub PACKET_HEADROOM_def)
      moreover have "unat (base_addr p + ?b * entry_size p + PACKET_HEADROOM) =
          unat (base_addr p) + unat ?b * unat (entry_size p) + 32"
        using unat_buffer_addr [OF wf b(1)] es by (subst unat_add_no_wrap) simp_all
      ultimately show ?thesis using unat_buffer_addr(2) [OF wf b(1)]
        by (simp add: new_packet_def Packet_new_def)
    qed
    then have "a \<notin> set (slice_addrs (as_bytes ?q))" if "a \<in> set (slice_addrs (as_bytes pkt))" for a
      using disj slice_addrs_bytes [of "as_bytes pkt" a] slice_addrs_bytes [of "as_bytes ?q" a] that inside(2)
      by (auto simp: as_bytes_def)
    then show ?thesis
      using load_copied(2) [OF E, of "as_bytes ?q" "as_bytes pkt"]
      by (simp add: read_slice_def as_bytes_def new_packet_def Packet_new_def)
  qed
  have len: "snd (as_bytes ?q) = snd (as_bytes pkt)" by (simp add: as_bytes_def new_packet_def Packet_new_def)
  show ?thesis
    using ok h nl len load_copied(1) [OF E len] copy unfolding p
    by (simp add: Packet_clone_def wp_simps Let_def clone_from_slice_def deref_as_bytes)
qed

end
