(* ===== verification/Tx_Spec.thy ===== *)
theory Tx_Spec
  imports Device_Spec Memory_Spec
begin

text \<open>
  The transmit side, specified: what \<open>send\<close> does on each of its branches, how many buffers
  \<open>recycle_tx_buffers\<close> frees and why it stops, and that both implement the bounded FIFO of
  theory Queues.
\<close>

section \<open>Small steps\<close>

lemma wp_set_tx_queue [wp_simps]:
  "wp (set_tx_queue i q) Q s =
     Q (Val ()) (s\<lparr>dev := (dev s)\<lparr>tx_queues := (tx_queues (dev s))[unat i := q]\<rparr>\<rparr>)"
  by (simp add: set_tx_queue_def wp_simps)

lemma wp_set_rx_queue [wp_simps]:
  "wp (set_rx_queue i q) Q s =
     Q (Val ()) (s\<lparr>dev := (dev s)\<lparr>rx_queues := (rx_queues (dev s))[unat i := q]\<rparr>\<rparr>)"
  by (simp add: set_rx_queue_def wp_simps)

lemma wp_tx_queue_at [wp_simps]:
  "unat i < length (tx_queues (dev s)) \<Longrightarrow>
     wp (tx_queue_at i) Q s = Q (Val (tx_queues (dev s) ! unat i)) s"
  by (simp add: tx_queue_at_def wp_simps)

lemma wp_rx_queue_at [wp_simps]:
  "unat i < length (rx_queues (dev s)) \<Longrightarrow>
     wp (rx_queue_at i) Q s = Q (Val (rx_queues (dev s) ! unat i)) s"
  by (simp add: rx_queue_at_def wp_simps)

text \<open>The world after \<open>AdvancedTxDescriptor::send\<close>: five volatile writes.\<close>

definition tx_desc_written :: "'w platform \<Rightarrow> usize \<Rightarrow> u64 \<Rightarrow> u16 \<Rightarrow> 'w \<Rightarrow> 'w" where
  "tx_desc_written E desc addr len w =
     volatile_write8 E (desc + 11) 0x2B
    (volatile_write32 E (desc + 12) (push_bit 14 (ucast len))
    (volatile_write8 E (desc + 10) 0x30
    (volatile_write16 E (desc + 8) len
    (volatile_write64 E desc addr w))))"

lemma wp_tx_desc_send [wp_simps]:
  "wp (tx_desc_send E desc addr len) Q s =
     Q (Val ()) (s\<lparr>world := tx_desc_written E desc addr len (world s)\<rparr>)"
  by (simp add: tx_desc_send_def wp_simps tx_desc_written_def descriptor_offsets descriptor_bits)

lemma adopt_pool_eq [simp]: "adopt_pool q p = Some p"
  by (simp add: adopt_pool_def split: option.splits)

section \<open>send\<close>

text \<open>The driver state after a packet has been queued.\<close>

definition sent_state ::
  "'w platform \<Rightarrow> u16 \<Rightarrow> IgbNetBuf \<Rightarrow> ('w, 'c, 'x) drv_scheme \<Rightarrow> ('w, 'c, 'x) drv_scheme" where
  "sent_state E queue_id pkt s =
     (let q = tx_queues (dev s) ! unat queue_id;
          q' = txq_push (pool_entry pkt) (q\<lparr>tx_pool := Some (packet_pool pkt)\<rparr>) in
      s\<lparr>dev := (dev s)\<lparr>tx_queues := (tx_queues (dev s))[unat queue_id := q']\<rparr>,
        world := mmio_write E (dev_addr (dev s) + ucast (IGB_TDT (ucast queue_id)))
                   (ucast (tx_index q'))
                   (tx_desc_written E (tx_descriptors q ! unat (tx_index q)) (addr_phys pkt)
                     (ucast (packet_len pkt)) (world s))\<rparr>)"

lemma send_room:
  assumes "unat queue_id < length (tx_queues (dev s))"
    and "q = tx_queues (dev s) ! unat queue_id"
    and "txq_wf q"
    and "length (tx_bufs_in_use q) + 1 < unat (tx_num_descriptors q)"
    and "reg_ok (dev s) (IGB_TDT (ucast queue_id))"
  shows "send E queue_id pkt s = Some (Val (), sent_state E queue_id pkt s)"
proof -
  have wf: "ring_size_ok (tx_num_descriptors q)" "unat (tx_index q) < unat (tx_num_descriptors q)"
    "unat (tx_index q) < length (tx_descriptors q)"
    using assms(3) by (simp_all add: txq_wf_def)
  have "reg_ok (dev s\<lparr>tx_queues := qs\<rparr>) (IGB_TDT (ucast queue_id))" for qs
    using assms(5) by (simp add: reg_ok_def)
  then have "wp (send E queue_id pkt) (\<lambda>r s'. r = Val () \<and> s' = sent_state E queue_id pkt s) s"
    using assms(1,3,4) wf unfolding assms(2)
    by (simp add: send_def Let_def wp_simps sent_state_def txq_push_def)
  then show ?thesis by (auto elim: wpE)
qed

lemma send_full:
  assumes "unat queue_id < length (tx_queues (dev s))"
    and "txq_wf (tx_queues (dev s) ! unat queue_id)"
    and "\<not> length (tx_bufs_in_use (tx_queues (dev s) ! unat queue_id)) + 1
           < unat (tx_num_descriptors (tx_queues (dev s) ! unat queue_id))"
    and "pool_free_buf (pool_entry pkt) (pools s ! packet_pool pkt) = Inr p"
  shows "send E queue_id pkt s =
    Some (Err QueueFull, s\<lparr>pools := (pools s)[packet_pool pkt := p]\<rparr>)"
proof -
  have "wp (send E queue_id pkt)
     (\<lambda>r s'. r = Err QueueFull \<and> s' = s\<lparr>pools := (pools s)[packet_pool pkt := p]\<rparr>) s"
    using assms by (simp add: send_def wp_simps Packet_drop_def Let_def)
  then show ?thesis by (auto elim: wpE)
qed

lemma send_invalid_queue:
  assumes "\<not> unat queue_id < length (tx_queues (dev s))"
    and "pool_free_buf (pool_entry pkt) (pools s ! packet_pool pkt) = Inr p"
  shows "send E queue_id pkt s =
    Some (Err InvalidQueue, s\<lparr>pools := (pools s)[packet_pool pkt := p]\<rparr>)"
proof -
  have "wp (send E queue_id pkt)
     (\<lambda>r s'. r = Err InvalidQueue \<and> s' = s\<lparr>pools := (pools s)[packet_pool pkt := p]\<rparr>) s"
    using assms by (simp add: send_def wp_simps Packet_drop_def)
  then show ?thesis by (auto elim: wpE)
qed

section \<open>recycle_tx_buffers\<close>

lemma sint_small:
  assumes "unat (x :: usize) < 268435456"
  shows "sint (ucast x :: 32 word) = int (unat x)"
proof -
  have u: "unat (ucast x :: 32 word) = unat x"
    using assms by (simp add: unsigned_ucast_eq take_bit_nat_eq_self)
  have "sint (ucast x :: 32 word) = signed_take_bit 31 (int (unat (ucast x :: 32 word)))"
    by (simp add: sint_uint)
  also have "\<dots> = int (unat x)"
  proof -
    have "int (unat x) < 2147483648" "- 2147483648 \<le> int (unat x)" using assms by linarith+
    then show ?thesis unfolding u by (intro signed_take_bit_int_eq_self) simp_all
  qed
  finally show ?thesis .
qed

lemma sint_sub_small:
  "\<bar>sint (a :: 32 word) - sint b\<bar> < 2147483648 \<Longrightarrow> sint (a - b) = sint a - sint b"
  by (simp add: sint_word_ariths signed_take_bit_int_eq_self)

lemma sint_add_small:
  "\<bar>sint (a :: 32 word) + sint b\<bar> < 2147483648 \<Longrightarrow> sint (a + b) = sint a + sint b"
  by (simp add: sint_word_ariths signed_take_bit_int_eq_self)

text \<open>\<open>cleanable\<close> is the distance from \<open>clean_index\<close> to \<open>tx_index\<close>.\<close>

lemma wp_tx_cleanable:
  assumes "ring_size_ok n" "unat c < unat n" "unat t < unat n"
    and "\<And>v. sint v = int (ring_dist (unat n) (unat c) (unat t)) \<Longrightarrow> Q (Val v) s"
  shows "wp (tx_cleanable E n c t) Q s"
proof -
  let ?c = "ucast c :: 32 word" and ?t = "ucast t :: 32 word" and ?n = "ucast n :: 32 word"
  have n: "unat n < 268435456" by (rule ring_size_bound [OF assms(1)])
  have s: "sint ?c = int (unat c)" "sint ?t = int (unat t)" "sint ?n = int (unat n)"
    using sint_small [of c] sint_small [of t] sint_small [of n] assms(2,3) n by simp_all
  have "\<bar>int (unat t) - int (unat c)\<bar> < 2147483648" using assms(2,3) n by linarith
  then have d: "sint (?t - ?c) = int (unat t) - int (unat c)"
    using sint_sub_small [of ?t ?c] s by metis
  have "\<bar>int (unat t) - int (unat c) + int (unat n)\<bar> < 2147483648" using assms(2,3) n by linarith
  then have a: "sint (?t - ?c + ?n) = int (unat t) - int (unat c) + int (unat n)"
    using sint_add_small [of "?t - ?c" ?n] d s by metis
  show ?thesis
  proof (cases "unat c \<le> unat t")
    case True
    then have "\<not> ?t - ?c <s 0" unfolding word_sless_alt d sint_0 by linarith
    with True show ?thesis
      using assms(4) [of "?t - ?c"] d s
      by (simp add: tx_cleanable_def sub_i32_def wp_simps ring_dist_def)
  next
    case False
    then have "?t - ?c <s 0" unfolding word_sless_alt d sint_0 by linarith
    with False show ?thesis
      using assms(4) [of "?t - ?c + ?n"] a d s assms(2)
      by (simp add: tx_cleanable_def sub_i32_def add_i32_def wp_simps ring_dist_def)
  qed
qed

lemma unat_TX_CLEAN_BATCH [simp]: "unat TX_CLEAN_BATCH = 32"
  by (simp add: TX_CLEAN_BATCH_def)

text \<open>\<open>cleanup_to\<close> is 31 slots past \<open>clean_index\<close>.\<close>

lemma wp_tx_cleanup_to:
  assumes "ring_size_ok n" "unat c < unat n" "32 < unat n"
    and "\<And>t. t = (ring_next n ^^ 31) c \<Longrightarrow> unat t = (unat c + 31) mod unat n \<Longrightarrow> Q (Val t) s"
  shows "wp (tx_cleanup_to E n c) Q s"
proof -
  have n: "unat n < 268435456" using ring_size_bound [OF assms(1)] .
  have it: "unat ((ring_next n ^^ 31) c) = (unat c + 31) mod unat n"
    using rg.iterate [OF assms(1,2)] .
  have c32: "unat (c + 32) = unat c + 32"
    using n assms(2) by (intro unat_add_no_wrap [THEN trans]) simp_all
  then have ge: "\<not> c + 32 < 1" by (simp add: word_less_nat_alt)
  have c31: "unat (c + 31) = unat c + 31"
    using n assms(2) by (intro unat_add_no_wrap [THEN trans]) simp_all
  have eq: "31 + c = c + 31" by simp
  show ?thesis
  proof (cases "n \<le> c + 31")
    case True
    then have nn: "unat n \<le> unat c + 31" using c31 by (simp add: word_le_nat_alt)
    then have "unat (c + 31 - n) = unat c + 31 - unat n"
      using True c31 by (subst unat_sub) simp_all
    moreover have "(unat c + 31) mod unat n = unat c + 31 - unat n"
      using nn assms(2,3) by (simp add: mod_if)
    ultimately have "c + 31 - n = (ring_next n ^^ 31) c"
      using it by (simp add: word_unat_eq_iff)
    moreover have "\<not> c + 31 < n" using True by (simp add: not_less)
    ultimately show ?thesis
      using assms(4) [of "(ring_next n ^^ 31) c"] it True n assms(2) c32 ge
      by (simp add: tx_cleanup_to_def wp_simps TX_CLEAN_BATCH_def eq leD)
  next
    case False
    then have nn: "unat c + 31 < unat n" using c31 by (simp add: word_le_nat_alt)
    then have "c + 31 = (ring_next n ^^ 31) c" using it c31 by (simp add: word_unat_eq_iff)
    then show ?thesis
      using assms(4) [of "(ring_next n ^^ 31) c"] it False n assms(2) c32 ge
      by (simp add: tx_cleanup_to_def wp_simps TX_CLEAN_BATCH_def eq leD)
  qed
qed

text \<open>
  The driver state in the middle of \<open>recycle_tx_buffers\<close>, after \<open>k\<close> buffers of the queue went back
  to pool \<open>p\<close> (\<open>clean_index\<close> is still in the loop variable), and at its end.
\<close>

definition recycling ::
  "u16 \<Rightarrow> pool_ref \<Rightarrow> nat \<Rightarrow> 'w \<Rightarrow> ('w, 'c, 'x) drv_scheme \<Rightarrow> ('w, 'c, 'x) drv_scheme" where
  "recycling i p k w s =
     (let q = tx_queues (dev s) ! unat i in
      s\<lparr>world := w,
        pools := (pools s)[p := pool_extend (take k (tx_bufs_in_use q)) (pools s ! p)],
        dev := (dev s)\<lparr>tx_queues := (tx_queues (dev s))[unat i :=
                 q\<lparr>tx_bufs_in_use := drop k (tx_bufs_in_use q)\<rparr>]\<rparr>\<rparr>)"

definition recycled ::
  "u16 \<Rightarrow> pool_ref \<Rightarrow> nat \<Rightarrow> 'w \<Rightarrow> ('w, 'c, 'x) drv_scheme \<Rightarrow> ('w, 'c, 'x) drv_scheme" where
  "recycled i p k w s =
     (let q = tx_queues (dev s) ! unat i in
      s\<lparr>world := w,
        pools := (pools s)[p := pool_extend (take k (tx_bufs_in_use q)) (pools s ! p)],
        dev := (dev s)\<lparr>tx_queues := (tx_queues (dev s))[unat i := txq_advance k q]\<rparr>\<rparr>)"

text \<open>The status address of the last descriptor of the batch that starts \<open>k\<close> slots past \<open>clean_index\<close>.\<close>

definition batch_status :: "IgbTxQueue \<Rightarrow> nat \<Rightarrow> usize" where
  "batch_status q k =
     tx_descriptors q ! ((unat (clean_index q) + k + 31) mod unat (tx_num_descriptors q)) + 12"

definition batch_done :: "'w platform \<Rightarrow> IgbTxQueue \<Rightarrow> nat \<Rightarrow> 'w \<Rightarrow> bool" where
  "batch_done E q k w \<longleftrightarrow>
     fst (volatile_read32 E (batch_status q k) w) AND IGB_ADVTXD_STAT_DD \<noteq> 0"

lemma wp_recycle_pass:
  fixes s :: "('w, 'c, 'x) drv_scheme"
  assumes "unat i < length (tx_queues (dev s))" and q: "q = tx_queues (dev s) ! unat i"
    and wf: "txq_wf q" and k: "k \<le> length (tx_bufs_in_use q)"
    and p: "tx_bufs_in_use q \<noteq> [] \<Longrightarrow> tx_pool q = Some p"
    and p': "p < length (pools s)"
    and small: "length (tx_bufs_in_use q) - k < 32 \<Longrightarrow>
      Q (Val (Inr ((ring_next (tx_num_descriptors q) ^^ k) (clean_index q)))) (recycling i p k w s)"
    and busy: "32 \<le> length (tx_bufs_in_use q) - k \<Longrightarrow> \<not> batch_done E q k w \<Longrightarrow>
      Q (Val (Inr ((ring_next (tx_num_descriptors q) ^^ k) (clean_index q))))
        (recycling i p k (snd (volatile_read32 E (batch_status q k) w)) s)"
    and fin: "32 \<le> length (tx_bufs_in_use q) - k \<Longrightarrow> batch_done E q k w \<Longrightarrow>
      Q (Val (Inl ((ring_next (tx_num_descriptors q) ^^ (k + 32)) (clean_index q))))
        (recycling i p (k + 32) (snd (volatile_read32 E (batch_status q k) w)) s)"
  shows "wp (recycle_pass E i (tx_index q) ((ring_next (tx_num_descriptors q) ^^ k) (clean_index q))) Q
           (recycling i p k w s)"
proof -
  let ?n = "tx_num_descriptors q" and ?L = "length (tx_bufs_in_use q)"
  let ?c = "(ring_next ?n ^^ k) (clean_index q)"
  have n: "ring_size_ok ?n" and c0: "unat (clean_index q) < unat ?n" and t: "unat (tx_index q) < unat ?n"
    and len: "length (tx_descriptors q) = unat ?n"
    and L: "?L = ring_dist (unat ?n) (unat (clean_index q)) (unat (tx_index q))"
    using wf by (simp_all add: txq_wf_def txq_in_flight_def)
  have uc: "unat ?c = (unat (clean_index q) + k) mod unat ?n" by (rule rg.iterate [OF n c0])
  have c: "unat ?c < unat ?n" using uc c0 by simp
  have d: "ring_dist (unat ?n) (unat ?c) (unat (tx_index q)) = ?L - k"
    unfolding uc L by (rule ring_dist_advance [OF c0 t]) (use k L in simp)
  have qi: "tx_queues (dev (recycling i p k w s)) ! unat i = q\<lparr>tx_bufs_in_use := drop k (tx_bufs_in_use q)\<rparr>"
    and li: "unat i < length (tx_queues (dev (recycling i p k w s)))"
    using assms(1) by (simp_all add: recycling_def Let_def q)
  have sb: "v <s ucast TX_CLEAN_BATCH \<longleftrightarrow> ?L - k < 32" if "sint v = int (?L - k)" for v :: "32 word"
    using that by (simp add: word_sless_alt TX_CLEAN_BATCH_def)
  show ?thesis
  proof (cases "?L - k < 32")
    case True
    show ?thesis unfolding recycle_pass_def
      by (simp add: wp_simps li qi)
        (rule wp_tx_cleanable [OF n c t], simp add: d sb True wp_simps small)
  next
    case False
    then have nonempty: "tx_bufs_in_use q \<noteq> []" and big: "32 \<le> ?L - k" by auto
    have n32: "32 < unat ?n"
      using False ring_dist_less [OF c0 t] L by linarith
    have slot: "(unat ?c + 31) mod unat ?n = (unat (clean_index q) + k + 31) mod unat ?n"
      using uc by (simp add: mod_add_left_eq)
    have lt: "(unat (clean_index q) + k + 31) mod unat ?n < unat ?n" using c0 by simp
    have "(ring_next ?n ^^ (Suc 31 + k)) (clean_index q) = ring_next ?n ((ring_next ?n ^^ 31) ?c)"
      by (simp only: funpow_add funpow.simps o_apply)
    then have nx: "ring_next ?n ((ring_next ?n ^^ 31) ?c) = (ring_next ?n ^^ (k + 32)) (clean_index q)"
      by (simp add: add.commute)
    have take_add: "take k xs @ take 32 (drop k xs) = take (k + 32) xs"
      "drop 32 (drop k xs) = drop (k + 32) xs" for xs :: "usize list"
      by (simp_all add: take_add add.commute)
    have rel: "wp (tx_release_batch i) R (recycling i p k w' s) = R (Val ()) (recycling i p (k + 32) w' s)"
      for R and w' :: 'w
    proof -
      show ?thesis
      proof (cases "?L - k = 32")
        case True
        then have "drop (k + 32) (tx_bufs_in_use q) = []" "take (k + 32) (tx_bufs_in_use q) = tx_bufs_in_use q"
          by simp_all
        with True show ?thesis using p [OF nonempty] p' assms(1)
          by (simp add: tx_release_batch_def wp_simps Let_def recycling_def q pool_extend_def)
      next
        case False
        then have "\<not> ?L - k \<le> 32" using big by simp
        then show ?thesis using p [OF nonempty] p' assms(1)
          by (simp add: tx_release_batch_def wp_simps Let_def recycling_def q pool_extend_def take_add
              add.commute [of k 32])
      qed
    qed
    have rd: "(recycling i p k w s)\<lparr>world := w'\<rparr> = recycling i p k w' s" "world (recycling i p k w s) = w" for w'
      by (simp_all add: recycling_def Let_def)
    have li': "unat i < length (tx_queues (dev (recycling i p k w' s)))" for w'
      using assms(1) by (simp add: recycling_def Let_def)
    show ?thesis unfolding recycle_pass_def
      apply (simp add: wp_simps li qi)
      apply (rule wp_tx_cleanable [OF n c t])
      apply (simp add: d sb False wp_simps)
      apply (rule wp_tx_cleanup_to [OF n c n32])
      apply (simp add: wp_simps len slot lt rd rel descriptor_offsets)
      using busy [OF big] fin [OF big] nx
      apply (simp add: batch_done_def batch_status_def wp_wrap_ring [OF n] slot lt wp_ret)
      done
  qed
qed

text \<open>
  What \<open>recycle_tx_buffers\<close> is meant to do, as a function: look at the batches of 32 in order,
  \<open>n\<close> of them being complete; count those the device reports done, up to the first that it
  does not. The result is the number of batches freed and the world after the reads.
\<close>

primrec clean_batches :: "'w platform \<Rightarrow> IgbTxQueue \<Rightarrow> nat \<Rightarrow> nat \<Rightarrow> 'w \<Rightarrow> nat \<times> 'w" where
  "clean_batches E q 0 m w = (m, w)"
| "clean_batches E q (Suc n) m w =
     (let w' = snd (volatile_read32 E (batch_status q (32 * m)) w) in
      if batch_done E q (32 * m) w then clean_batches E q n (Suc m) w' else (m, w'))"

lemma clean_batches_bound: "fst (clean_batches E q n m w) \<le> m + n"
proof (induction n arbitrary: m w)
  case (Suc n)
  then show ?case using Suc [of "Suc m"] by (auto simp: Let_def)
qed simp

lemma clean_loop:
  fixes s :: "('w, 'c, 'x) drv_scheme"
  assumes i: "unat i < length (tx_queues (dev s))" and q: "q = tx_queues (dev s) ! unat i"
    and wf: "txq_wf q"
    and p: "tx_bufs_in_use q \<noteq> [] \<Longrightarrow> tx_pool q = Some p" and p': "p < length (pools s)"
    and n: "32 * m \<le> length (tx_bufs_in_use q)" "(length (tx_bufs_in_use q) - 32 * m) div 32 = n"
  defines "at \<equiv> \<lambda>k. (ring_next (tx_num_descriptors q) ^^ k) (clean_index q)"
  shows "wp (loopM (recycle_pass E i (tx_index q)) (at (32 * m))) R (recycling i p (32 * m) w s) =
    R (Val (at (32 * fst (clean_batches E q n m w))))
      (recycling i p (32 * fst (clean_batches E q n m w)) (snd (clean_batches E q n m w)) s)"
  using n
proof (induction n arbitrary: m w)
  case 0
  let ?L = "length (tx_bufs_in_use q)"
  have "?L - 32 * m < 32" using 0 by (simp add: div_eq_0_iff)
  then have "wp (recycle_pass E i (tx_index q) (at (32 * m))) (\<lambda>r s'. r = Val (Inr (at (32 * m))) \<and>
      s' = recycling i p (32 * m) w s) (recycling i p (32 * m) w s)"
    unfolding at_def by (intro wp_recycle_pass [OF i q wf _ p p']) (use 0 in simp_all)
  note step = wp_exact [OF this]
  show ?case by (subst loopM_unfold) (simp add: wp_bindM step wp_ret)
next
  case (Suc n)
  let ?L = "length (tx_bufs_in_use q)" and ?w = "snd (volatile_read32 E (batch_status q (32 * m)) w)"
  have big: "32 \<le> ?L - 32 * m" using Suc.prems(2) by linarith
  have "(?L - 32 * m) div 32 = Suc ((?L - 32 * m - 32) div 32)" using big by (intro le_div_geq) simp_all
  then have rest: "32 * Suc m \<le> ?L" "(?L - 32 * Suc m) div 32 = n"
    using Suc.prems(2) big by (simp_all add: algebra_simps)
  let ?d = "batch_done E q (32 * m) w"
  have "wp (recycle_pass E i (tx_index q) (at (32 * m)))
      (\<lambda>r s'. r = (if ?d then Val (Inl (at (32 * Suc m))) else Val (Inr (at (32 * m)))) \<and>
        s' = (if ?d then recycling i p (32 * Suc m) ?w s else recycling i p (32 * m) ?w s)) (recycling i p (32 * m) w s)"
    unfolding at_def
    by (intro wp_recycle_pass [OF i q wf _ p p']) (use Suc.prems big in \<open>simp_all add: add.commute\<close>)
  note step = wp_exact [OF this]
  show ?case using Suc.IH [OF rest, of ?w]
    by (subst loopM_unfold) (simp add: wp_bindM step wp_ret Let_def)
qed

text \<open>\<open>recycle_tx_buffers\<close> returns, having freed the buffers of just those batches.\<close>

lemma recycle_tx_buffers_spec:
  fixes s :: "('w, 'c, 'x) drv_scheme"
  assumes i: "unat i < length (tx_queues (dev s))" and q: "q = tx_queues (dev s) ! unat i"
    and wf: "txq_wf q"
    and p: "tx_bufs_in_use q \<noteq> [] \<Longrightarrow> tx_pool q = Some p" and p': "p < length (pools s)"
    and r: "(m, w) = clean_batches E q (length (tx_bufs_in_use q) div 32) 0 (world s)"
  shows "recycle_tx_buffers E i s = Some (Val (), recycled i p (32 * m) w s)"
proof -
  let ?at = "\<lambda>k. (ring_next (tx_num_descriptors q) ^^ k) (clean_index q)"
  have start: "recycling i p 0 (world s) s = s"
    using i p' by (simp add: recycling_def Let_def pool_extend_def)
  have loop: "wp (loopM (recycle_pass E i (tx_index q)) (clean_index q)) R s =
      R (Val (?at (32 * m))) (recycling i p (32 * m) w s)" for R
    using clean_loop [OF i q wf p p', of 0 "length (tx_bufs_in_use q) div 32" E R "world s"]
    by (simp add: start r [symmetric])
  have "q\<lparr>tx_bufs_in_use := drop (32 * m) (tx_bufs_in_use q), clean_index := ?at (32 * m)\<rparr> = txq_advance (32 * m) q"
    by (simp add: txq_advance_def)
  then have commit: "wp (bindM (tx_queue_at i) (\<lambda>qu. set_tx_queue i (qu\<lparr>clean_index := ?at (32 * m)\<rparr>))) R
      (recycling i p (32 * m) w s) = R (Val ()) (recycled i p (32 * m) w s)" for R
    using i by (simp add: wp_simps recycling_def recycled_def Let_def q [symmetric])
  have "wp (recycle_tx_buffers E i) R s = wp (loopM (recycle_pass E i (tx_index q)) (clean_index q))
      (after (\<lambda>clean. wp (bindM (tx_queue_at i) (\<lambda>qu. set_tx_queue i (qu\<lparr>clean_index := clean\<rparr>))) R) R) s" for R
    using i by (simp add: recycle_tx_buffers_def wp_bindM wp_getsM Let_def q)
  then have "wp (recycle_tx_buffers E i) (\<lambda>r s'. r = Val () \<and> s' = recycled i p (32 * m) w s) s"
    by (simp add: loop commit)
  then show ?thesis by (auto elim: wpE)
qed

text \<open>It frees no more than there are.\<close>

lemma clean_batches_length:
  "(m, w) = clean_batches E q (length xs div 32) 0 w0 \<Longrightarrow> 32 * m \<le> length xs"
  using clean_batches_bound [of E q "length xs div 32" 0 w0] by (metis add_0 fst_conv div_times_less_eq_dividend
      mult.commute mult_le_mono2 order_trans)

end
