(* ===== verification/Descriptor_Spec.thy ===== *)
theory Descriptor_Spec
  imports Tx_Spec
begin

text \<open>
  The descriptors as the device sees them: the sixteen bytes that \<open>send\<close> leaves in memory, the
  fields that the getters take out of a written-back receive descriptor, and the busy wait for
  a transmit descriptor.
\<close>

section \<open>Little-endian bytes\<close>

lemma bit_le_value:
  "bit (le_value bs :: 'n::len word) i \<longleftrightarrow>
     i < LENGTH('n) \<and> i div 8 < length bs \<and> bit (bs ! (i div 8)) (i mod 8)"
proof (induction bs arbitrary: i)
  case (Cons b bs)
  show ?case
  proof (cases "i < 8")
    case True
    then show ?thesis by (auto simp: bit_simps)
  next
    case False
    have ub: "\<not> bit b i" using False bit_imp_le_length [of b i] by auto
    have "i div 8 = Suc ((i - 8) div 8)" "i mod 8 = (i - 8) mod 8"
      using False by (simp_all add: le_div_geq le_mod_geq)
    then show ?thesis using False ub Cons.IH [of "i - 8"] by (auto simp: bit_simps)
  qed
qed simp

lemma le_value_bytes: "le_value (le_bytes k v) = ucast (take_bit (8 * k) v)"
proof (rule bit_word_eqI)
  fix i
  have *: "8 * (i div 8) + i mod 8 = (i :: nat)" by simp
  have "i div 8 < k \<longleftrightarrow> i < 8 * k" by (simp add: less_mult_imp_div_less div_less_iff_less_mult mult.commute)
  moreover assume "i < LENGTH('a)"
  ultimately show "bit (le_value (le_bytes k v) :: 'a word) i \<longleftrightarrow> bit (ucast (take_bit (8 * k) v) :: 'a word) i"
    using bit_imp_le_length [of v i]
    by (auto simp: bit_le_value le_bytes_def bit_simps *)
qed

lemma le_value_append:
  "(le_value (xs @ ys) :: 'n::len word) = le_value xs OR push_bit (8 * length xs) (le_value ys)"
  by (induction xs) (simp_all add: push_bit_or or.assoc push_bit_push_bit)

lemma length_le_bytes [simp]: "length (le_bytes k v) = k"
  by (simp add: le_bytes_def)

definition tx_desc_upper :: "u16 \<Rightarrow> u64" where
  "tx_desc_upper len = ucast len OR push_bit 20 3 OR push_bit 24 0x2B OR push_bit 46 (ucast len)"

lemma tx_desc_upper_bytes:
  "le_value (le_bytes 2 len @ [0x30] @ [0x2B] @ le_bytes 4 (push_bit 14 (ucast len) :: u32)) =
     tx_desc_upper len"
proof -
  have "ucast (take_bit 16 len) = (ucast len :: u64)"
    by (rule bit_word_eqI) (auto simp: bit_simps dest: bit_imp_le_length)
  moreover have "push_bit 32 (ucast (take_bit 32 (push_bit 14 (ucast len :: u32)))) = (push_bit 46 (ucast len) :: u64)"
    by (rule bit_word_eqI) (auto simp: bit_simps dest: bit_imp_le_length)
  ultimately show ?thesis
    by (simp add: le_value_append le_value_bytes tx_desc_upper_def or.assoc push_bit_or push_bit_push_bit)
qed

text \<open>The bytes a transmit descriptor holds after \<open>send\<close>.\<close>

lemma tx_desc_bytes:
  assumes "plain_memory E"
  shows "map (\<lambda>b. load8 E b (tx_desc_written E desc addr len w)) (byte_addrs desc 8) = le_bytes 8 addr"
    and "map (\<lambda>b. load8 E b (tx_desc_written E desc addr len w)) (byte_addrs (desc + 8) 8) =
      le_bytes 2 len @ [0x30] @ [0x2B] @ le_bytes 4 (push_bit 14 (ucast len) :: u32)"
proof -
  have bm: "load8 E a (store8 E b v w) = (if a = b then v else load8 E a w)" for a b v w
    using assms by (simp add: plain_memory_def byte_memory_def)
  have w: "tx_desc_written E desc addr len w =
     store8 E (desc + 11) 0x2B (store_le E 4 (desc + 12) (push_bit 14 (ucast len) :: u32)
       (store8 E (desc + 10) 0x30 (store_le E 2 (desc + 8) len (store_le E 8 desc addr w))))"
    using assms [unfolded plain_memory_def] by (simp add: tx_desc_written_def)
  show "map (\<lambda>b. load8 E b (tx_desc_written E desc addr len w)) (byte_addrs desc 8) = le_bytes 8 addr"
    unfolding w by (simp add: store_le_def byte_addrs_def le_bytes_def upt_rec bm)
  show "map (\<lambda>b. load8 E b (tx_desc_written E desc addr len w)) (byte_addrs (desc + 8) 8) =
      le_bytes 2 len @ [0x30] @ [0x2B] @ le_bytes 4 (push_bit 14 (ucast len) :: u32)"
    unfolding w by (simp add: store_le_def byte_addrs_def le_bytes_def upt_rec bm)
qed

lemma tx_desc_image:
  assumes "plain_memory E"
  shows "load_le E 8 desc (tx_desc_written E desc addr len w) = addr \<and>
     load_le E 8 (desc + 8) (tx_desc_written E desc addr len w) = tx_desc_upper len"
  using tx_desc_upper_bytes [of len]
  by (simp add: load_le_def tx_desc_bytes [OF assms] le_value_bytes take_bit_word_eq_self)

section \<open>The receive descriptor, as the device writes it back\<close>

definition rx_writeback :: "u64 \<Rightarrow> u64 \<Rightarrow> u16 \<Rightarrow> u16 \<Rightarrow> u64" where
  "rx_writeback status err len vlan =
     take_bit 20 status OR push_bit 20 (take_bit 12 err) OR
     push_bit 32 (ucast len) OR push_bit 48 (ucast vlan)"

lemma rx_writeback_fields:
  "take_bit 19 (rx_writeback status err len vlan) = take_bit 19 status"
  "take_bit 11 (drop_bit 20 (rx_writeback status err len vlan)) = take_bit 11 err"
  "take_bit 15 (drop_bit 32 (rx_writeback status err len vlan)) = ucast (take_bit 15 len)"
  "take_bit 15 (drop_bit 48 (rx_writeback status err len vlan)) = ucast (take_bit 15 vlan)"
  by (rule bit_word_eqI; auto simp: rx_writeback_def bit_simps dest: bit_imp_le_length)+

lemma wp_read_header_field:
  assumes "bit_field_crate E" "lo < hi" "hi \<le> 64"
  shows "wp (read_header_field E lo hi desc) Q s =
     Q (Val (take_bit (hi - lo) (drop_bit lo (fst (volatile_read64 E (desc + 8) (world s))))))
       (s\<lparr>world := snd (volatile_read64 E (desc + 8) (world s))\<rparr>)"
  using assms by (simp add: read_header_field_def wp_simps bit_field_crate_def descriptor_offsets)

lemma wp_read_packet_field:
  assumes "bit_field_crate E" "lo < hi" "hi \<le> 64"
  shows "wp (read_packet_field E lo hi desc) Q s =
     Q (Val (take_bit (hi - lo) (drop_bit lo (fst (volatile_read64 E desc (world s))))))
       (s\<lparr>world := snd (volatile_read64 E desc (world s))\<rparr>)"
  using assms by (simp add: read_packet_field_def wp_simps bit_field_crate_def descriptor_offsets)

text \<open>The getters on a descriptor that the device has written back.\<close>

lemma rx_getters_decode:
  fixes s :: "('w, 'x) base_scheme"
  assumes "bit_field_crate E"
    and "volatile_read64 E (desc + 8) (world s) = (rx_writeback status err len vlan, w)"
  shows "get_ext_status E desc s = Some (Val (take_bit 19 status), s\<lparr>world := w\<rparr>)"
    and "get_ext_error E desc s = Some (Val (take_bit 11 err), s\<lparr>world := w\<rparr>)"
    and "rx_desc_length E desc s = Some (Val (ucast (take_bit 15 len)), s\<lparr>world := w\<rparr>)"
    and "get_vlan_tag E desc s = Some (Val (ucast (take_bit 15 vlan)), s\<lparr>world := w\<rparr>)"
    and "descriptor_done E desc s = Some (Val (bit status 0), s\<lparr>world := w\<rparr>)"
    and "end_of_packet E desc s = Some (Val (bit status 1), s\<lparr>world := w\<rparr>)"
proof -
  have field: "read_header_field E lo hi desc s =
      Some (Val (take_bit (hi - lo) (drop_bit lo (rx_writeback status err len vlan))), s\<lparr>world := w\<rparr>)"
    if "lo < hi" "hi \<le> 64" for lo hi
  proof -
    have "wp (read_header_field E lo hi desc) (\<lambda>r s'. r = Val (take_bit (hi - lo) (drop_bit lo (rx_writeback status err len vlan))) \<and>
        s' = s\<lparr>world := w\<rparr>) s"
      using assms by (simp add: wp_read_header_field that)
    then show ?thesis by (auto elim: wpE)
  qed
  show st: "get_ext_status E desc s = Some (Val (take_bit 19 status), s\<lparr>world := w\<rparr>)"
    by (simp add: get_ext_status_def field rx_writeback_fields)
  show "get_ext_error E desc s = Some (Val (take_bit 11 err), s\<lparr>world := w\<rparr>)"
    by (simp add: get_ext_error_def field rx_writeback_fields)
  show "rx_desc_length E desc s = Some (Val (ucast (take_bit 15 len)), s\<lparr>world := w\<rparr>)"
    by (simp add: rx_desc_length_def get_pkt_len_def field rx_writeback_fields)
  show "get_vlan_tag E desc s = Some (Val (ucast (take_bit 15 vlan)), s\<lparr>world := w\<rparr>)"
    by (simp add: get_vlan_tag_def field rx_writeback_fields)
  have one: "take_bit 19 status AND push_bit n 1 = push_bit n 1 \<longleftrightarrow> bit status n" if "n < 19" for n
  proof -
    have b: "bit (push_bit n (1 :: u64)) i \<longleftrightarrow> i = n" for i using that by (auto simp: bit_simps bit_1_iff)
    show ?thesis unfolding bit_eq_iff [of "_ AND _"] using that by (auto simp: bit_and_iff b bit_take_bit_iff simp del: push_bit_of_1 dest: spec [of _ n])
  qed
  show "descriptor_done E desc s = Some (Val (bit status 0), s\<lparr>world := w\<rparr>)"
    using one [of 0] by (simp add: descriptor_done_def bindM_def st ret_def RX_STATUS_DD_def)
  show "end_of_packet E desc s = Some (Val (bit status 1), s\<lparr>world := w\<rparr>)"
    using one [of 1] by (simp add: end_of_packet_def bindM_def st ret_def RX_STATUS_EOP_def)
qed

lemma rx_writeback_ones: "rx_writeback (- 1) (- 1) (- 1) (- 1) = - 1"
  by (rule bit_word_eqI) (auto simp: rx_writeback_def bit_simps)

section \<open>Waiting for a transmit descriptor\<close>

text \<open>The successive reads of the status word of a descriptor, and what the \<open>k\<close>-th one returns.\<close>

primrec tx_poll_world :: "'w platform \<Rightarrow> usize \<Rightarrow> nat \<Rightarrow> 'w \<Rightarrow> 'w" where
  "tx_poll_world E desc 0 w = w"
| "tx_poll_world E desc (Suc k) w = snd (volatile_read32 E (desc + 12) (tx_poll_world E desc k w))"

definition tx_poll_done :: "'w platform \<Rightarrow> usize \<Rightarrow> nat \<Rightarrow> 'w \<Rightarrow> bool" where
  "tx_poll_done E desc k w \<longleftrightarrow> bit (fst (volatile_read32 E (desc + 12) (tx_poll_world E desc k w))) 0"

lemma tx_done_bit: "(ucast (v :: u32) :: u8) AND TX_STATUS_DD = 0 \<longleftrightarrow> \<not> bit v 0"
proof -
  have "bit (ucast v :: u8) 0 \<longleftrightarrow> bit v 0" by (simp add: bit_simps)
  then show ?thesis using and_exp_eq_0_iff_not_bit [of "ucast v :: u8" 0]
    by (simp add: TX_STATUS_DD_def del: and_exp_eq_0_iff_not_bit)
qed

lemma tx_poll_pass:
  fixes s :: "('w, 'x) base_scheme"
  shows "wp (bindM (worldM (volatile_read32 E (tx_paylen_popts_cc_idx_sta desc))) (\<lambda>v.
       ret (if (ucast v :: u8) AND TX_STATUS_DD = 0 then Inl () else Inr ()))) Q (s\<lparr>world := tx_poll_world E desc k w\<rparr>) =
    Q (Val (if tx_poll_done E desc k w then Inr () else Inl ())) (s\<lparr>world := tx_poll_world E desc (Suc k) w\<rparr>)"
  by (simp add: wp_simps descriptor_offsets tx_done_bit tx_poll_done_def)

lemma wait_for_packet_tx_ends:
  fixes s :: "('w, 'x) base_scheme"
  assumes "tx_poll_done E desc k (world s)" and "\<And>j. j < k \<Longrightarrow> \<not> tx_poll_done E desc j (world s)"
    and "Q (Val ()) (s\<lparr>world := tx_poll_world E desc (Suc k) (world s)\<rparr>)"
  shows "wp (wait_for_packet_tx E desc) Q s"
proof -
  let ?st = "\<lambda>j. s\<lparr>world := tx_poll_world E desc j (world s)\<rparr>"
  have "wp (wait_for_packet_tx E desc) Q (?st 0)"
    unfolding wait_for_packet_tx_def
    by (rule wp_loopM_search [where k = k and st = ?st]) (use assms in \<open>simp_all only: tx_poll_pass, simp_all\<close>)
  then show ?thesis by simp
qed

lemma wait_for_packet_tx_diverges:
  fixes s :: "('w, 'x) base_scheme"
  assumes "\<And>k. \<not> tx_poll_done E desc k (world s)"
  shows "wait_for_packet_tx E desc s = None"
proof -
  let ?st = "\<lambda>j. s\<lparr>world := tx_poll_world E desc j (world s)\<rparr>"
  have "wait_for_packet_tx E desc (?st 0) = None"
    unfolding wait_for_packet_tx_def
    by (rule loopM_never [where st = ?st]) (use assms in \<open>simp only: tx_poll_pass, simp\<close>)
  then show ?thesis by simp
qed

end
