(* ===== verification/Ownership.thy ===== *)
theory Ownership
  imports Descriptor_Spec
begin

text \<open>
  Who owns a packet buffer. Every buffer of every pool is in exactly one place: on the pool's
  free stack, under a descriptor of a receive queue, in flight in a transmit queue, or in a
  packet the client holds. The client's state is the list of the packets it holds.
\<close>

section \<open>The places a buffer can be in\<close>

definition rx_share :: "pool_ref \<Rightarrow> IgbRxQueue \<Rightarrow> usize multiset" where
  "rx_share p q = (if rx_pool q = p then mset (rx_bufs_in_use q) else {#})"

definition tx_share :: "pool_ref \<Rightarrow> IgbTxQueue \<Rightarrow> usize multiset" where
  "tx_share p q = (if tx_pool q = Some p then mset (tx_bufs_in_use q) else {#})"

definition pkt_share :: "pool_ref \<Rightarrow> IgbNetBuf \<Rightarrow> usize multiset" where
  "pkt_share p b = (if packet_pool b = p then {#pool_entry b#} else {#})"

definition heap_share :: "pool_ref \<Rightarrow> ('w, IgbNetBuf list, 'x) heap_scheme \<Rightarrow> usize multiset" where
  "heap_share p h = mset (free_stack (pools h ! p)) + sum_list (map (pkt_share p) (client h))"

definition dev_share :: "pool_ref \<Rightarrow> IgbDevice \<Rightarrow> usize multiset" where
  "dev_share p d = sum_list (map (rx_share p) (rx_queues d)) + sum_list (map (tx_share p) (tx_queues d))"

lemma dev_share_tx_update:
  assumes "i < length (tx_queues d)" and "tx_share p q' + m = tx_share p (tx_queues d ! i) + n"
  shows "dev_share p (d\<lparr>tx_queues := (tx_queues d)[i := q']\<rparr>) + m = dev_share p d + n"
  using sum_list_map_update_add [of i "tx_queues d" "tx_share p" q' m n] assms
  by (simp add: dev_share_def add.assoc)

lemma dev_share_rx_update:
  assumes "i < length (rx_queues d)" and "rx_share p q' + m = rx_share p (rx_queues d ! i) + n"
  shows "dev_share p (d\<lparr>rx_queues := (rx_queues d)[i := q']\<rparr>) + m = dev_share p d + n"
proof -
  have "sum_list (map (rx_share p) ((rx_queues d)[i := q'])) + m =
      sum_list (map (rx_share p) (rx_queues d)) + n"
    using assms by (rule sum_list_map_update_add)
  then show ?thesis by (simp add: dev_share_def add_ac)
qed

section \<open>The invariant\<close>

text \<open>Pools that differ at most in what is on their free stacks.\<close>

definition same_shape :: "MemPool list \<Rightarrow> MemPool list \<Rightarrow> bool" where
  "same_shape ps ps' \<longleftrightarrow>
     map (\<lambda>p. p\<lparr>free_stack := []\<rparr>) ps' = map (\<lambda>p. p\<lparr>free_stack := []\<rparr>) ps"

definition heap_wf :: "('w, IgbNetBuf list, 'x) heap_scheme \<Rightarrow> bool" where
  "heap_wf h \<longleftrightarrow> (\<forall>p < length (pools h). pool_wf (pools h ! p)) \<and>
     (\<forall>b \<in> set (client h). packet_pool b < length (pools h))"

definition queues_wf :: "nat \<Rightarrow> IgbDevice \<Rightarrow> bool" where
  "queues_wf n d \<longleftrightarrow>
     (\<forall>q \<in> set (rx_queues d). rxq_wf q \<and> rx_pool q < n) \<and>
     (\<forall>q \<in> set (tx_queues d). txq_wf q \<and> (\<forall>p. tx_pool q = Some p \<longrightarrow> p < n))"

definition drv_inv :: "('w, IgbNetBuf list, 'x) drv_scheme \<Rightarrow> bool" where
  "drv_inv s \<longleftrightarrow> pools s \<noteq> [] \<and> heap_wf s \<and> queues_wf (length (pools s)) (dev s) \<and>
     (\<forall>p < length (pools s). heap_share p s + dev_share p (dev s) = all_bufs (pools s ! p))"

lemma all_bufs_count: "count (all_bufs p) b \<le> 1"
  using distinct_word_range [of "num_entries p"]
  by (auto simp: all_bufs_def distinct_count_atmost_1)

lemma all_bufs_member: "b \<in># all_bufs p \<longleftrightarrow> b < num_entries p"
  by (simp add: all_bufs_def set_word_range)

lemma all_bufs_free [simp]: "all_bufs (p\<lparr>free_stack := fs\<rparr>) = all_bufs p"
  by (simp add: all_bufs_def)

lemma same_shape_refl [simp]: "same_shape ps ps"
  by (simp add: same_shape_def)

lemma same_shape_trans: "same_shape a b \<Longrightarrow> same_shape b c \<Longrightarrow> same_shape a c"
  by (simp add: same_shape_def)

lemma same_shape_update [simp]:
  "same_shape ps (ps[p := (ps ! p)\<lparr>free_stack := fs\<rparr>])"
  by (simp add: same_shape_def map_update) (metis list_update_id map_update)

lemma same_shape_length: "same_shape ps ps' \<Longrightarrow> length ps' = length ps"
  unfolding same_shape_def by (drule arg_cong [where f = length]) simp

lemma same_shape_nth:
  assumes "same_shape ps ps'" and "p < length ps"
  shows "ps' ! p = (ps ! p)\<lparr>free_stack := free_stack (ps' ! p)\<rparr>"
proof -
  have "(ps' ! p)\<lparr>free_stack := []\<rparr> = (ps ! p)\<lparr>free_stack := []\<rparr>"
    using assms same_shape_length [OF assms(1)] unfolding same_shape_def by (metis nth_map)
  then show ?thesis by (cases "ps' ! p"; cases "ps ! p") simp
qed

lemma same_shape_all_bufs:
  "same_shape ps ps' \<Longrightarrow> p < length ps \<Longrightarrow> all_bufs (ps' ! p) = all_bufs (ps ! p)"
  using same_shape_nth [of ps ps' p] by (metis all_bufs_free)

lemma queues_wf_tx_update:
  "queues_wf n d \<Longrightarrow> txq_wf q \<Longrightarrow> (\<And>p. tx_pool q = Some p \<Longrightarrow> p < n) \<Longrightarrow>
     queues_wf n (d\<lparr>tx_queues := (tx_queues d)[i := q]\<rparr>)"
  by (auto simp: queues_wf_def dest!: set_update_subset_insert [THEN subsetD])

lemma queues_wf_rx_update:
  "queues_wf n d \<Longrightarrow> rxq_wf q \<Longrightarrow> rx_pool q < n \<Longrightarrow>
     queues_wf n (d\<lparr>rx_queues := (rx_queues d)[i := q]\<rparr>)"
  by (auto simp: queues_wf_def dest!: set_update_subset_insert [THEN subsetD])

lemma all_bufs_update [simp]:
  "p < length ps \<Longrightarrow> all_bufs (ps[h := (ps ! h)\<lparr>free_stack := fs\<rparr>] ! p) = all_bufs (ps ! p)"
  by (cases "p = h") (simp_all add: all_bufs_def)

text \<open>The invariant of a state that differs in one pool and in the device.\<close>

lemma drv_inv_update:
  assumes "drv_inv s" and "queues_wf (length (pools s)) d"
    and "pool_wf ((pools s ! h)\<lparr>free_stack := fs\<rparr>)"
    and "\<And>b. b \<in> set cl \<Longrightarrow> packet_pool b < length (pools s)"
    and "\<And>p. p < length (pools s) \<Longrightarrow>
      heap_share p (s\<lparr>pools := (pools s)[h := (pools s ! h)\<lparr>free_stack := fs\<rparr>], client := cl\<rparr>) + dev_share p d =
      heap_share p s + dev_share p (dev s)"
  shows "drv_inv (s\<lparr>world := w, pools := (pools s)[h := (pools s ! h)\<lparr>free_stack := fs\<rparr>],
                    dev := d, client := cl\<rparr>)"
proof -
  have "pool_wf ((pools s)[h := (pools s ! h)\<lparr>free_stack := fs\<rparr>] ! p)" if "p < length (pools s)" for p
    using assms(1,3) that by (cases "p = h") (simp_all add: drv_inv_def heap_wf_def)
  then show ?thesis using assms
    by (simp add: drv_inv_def heap_wf_def heap_share_def)
qed

text \<open>What no operation changes in a device: its register window and its ring sizes.\<close>

definition same_config :: "IgbDevice \<Rightarrow> IgbDevice \<Rightarrow> bool" where
  "same_config d d' \<longleftrightarrow> dev_addr d' = dev_addr d \<and> dev_len d' = dev_len d \<and>
     map rx_num_descriptors (rx_queues d') = map rx_num_descriptors (rx_queues d) \<and>
     map tx_num_descriptors (tx_queues d') = map tx_num_descriptors (tx_queues d)"

lemma same_config_refl [simp]: "same_config d d"
  by (simp add: same_config_def)

lemma map_update_same: "(i < length xs \<Longrightarrow> f y = f (xs ! i)) \<Longrightarrow> map f (xs[i := y]) = map f xs"
  by (cases "i < length xs") (simp_all add: map_update list_update_same_conv list_update_beyond)

lemma same_config_tx:
  "(i < length (tx_queues d) \<Longrightarrow> tx_num_descriptors q = tx_num_descriptors (tx_queues d ! i)) \<Longrightarrow>
     same_config d (d\<lparr>tx_queues := (tx_queues d)[i := q]\<rparr>)"
  by (simp add: same_config_def map_update_same)

lemma same_config_rx:
  "(i < length (rx_queues d) \<Longrightarrow> rx_num_descriptors q = rx_num_descriptors (rx_queues d ! i)) \<Longrightarrow>
     same_config d (d\<lparr>rx_queues := (rx_queues d)[i := q]\<rparr>)"
  by (simp add: same_config_def map_update_same)

section \<open>Moves of a buffer\<close>

text \<open>Freeing a buffer that is accounted for outside the stack succeeds.\<close>

lemma free_accounted:
  assumes "pool_wf p" and "add_mset b (mset (free_stack p)) \<subseteq># all_bufs p"
  shows "pool_free_buf b p = Inr (p\<lparr>free_stack := free_stack p @ [b]\<rparr>)"
proof -
  have "b \<in># all_bufs p" using assms(2) by (auto dest: mset_subset_eqD)
  then have "b < num_entries p" by (simp add: all_bufs_member)
  moreover have "b \<notin> set (free_stack p)"
  proof
    assume "b \<in> set (free_stack p)"
    then have "1 < count (add_mset b (mset (free_stack p))) b" by simp
    also have "\<dots> \<le> count (all_bufs p) b" using assms(2) by (rule mset_subset_eq_count)
    finally show False using all_bufs_count [of p b] by simp
  qed
  ultimately show ?thesis by (simp add: pool_free_buf_def)
qed

lemma pool_wf_stack:
  assumes "pool_wf p" and "mset fs \<subseteq># all_bufs p"
  shows "pool_wf (p\<lparr>free_stack := fs\<rparr>)"
proof -
  have "distinct fs"
    unfolding distinct_count_atmost_1
  proof (intro allI)
    fix a
    have "count (mset fs) a \<le> 1"
      using assms(2) all_bufs_count [of p a] by (meson mset_subset_eq_count order_trans)
    then show "count (mset fs) a = (if a \<in> set fs then 1 else 0)"
      using count_greater_zero_iff [of "mset fs" a] by (cases "a \<in> set fs") (simp_all add: le_Suc_eq)
  qed
  moreover have "b < num_entries p" if "b \<in> set fs" for b
    using assms(2) that all_bufs_member [of b p] by (auto dest: mset_subset_eqD)
  ultimately show ?thesis using assms(1) by (simp add: pool_wf_def)
qed

text \<open>
  A packet between two owners is at the head of the client's list: dropping it puts its buffer
  back on the stack, allocating one takes it off.
\<close>

lemma heap_share_cons [simp]:
  "heap_share p (s\<lparr>client := b # client s\<rparr>) = heap_share p s + pkt_share p b"
  by (simp add: heap_share_def add_ac)

lemma drop_inv:
  assumes inv: "drv_inv (s\<lparr>client := b # client s\<rparr>)"
  defines "h \<equiv> packet_pool b"
  shows "pool_free_buf (pool_entry b) (pools s ! h) = Inr ((pools s ! h)\<lparr>free_stack := free_stack (pools s ! h) @ [pool_entry b]\<rparr>)"
    and "drv_inv (s\<lparr>pools := (pools s)[h := (pools s ! h)\<lparr>free_stack := free_stack (pools s ! h) @ [pool_entry b]\<rparr>]\<rparr>)"
proof -
  let ?p = "(pools s ! h)\<lparr>free_stack := free_stack (pools s ! h) @ [pool_entry b]\<rparr>"
  have h: "h < length (pools s)" using inv by (simp add: drv_inv_def heap_wf_def h_def)
  have own: "heap_share p s + pkt_share p b + dev_share p (dev s) = all_bufs (pools s ! p)"
    if "p < length (pools s)" for p
    using inv that by (simp add: drv_inv_def)
  have "add_mset (pool_entry b) (mset (free_stack (pools s ! h))) \<subseteq># all_bufs (pools s ! h)"
    unfolding own [OF h, symmetric] by (simp add: pkt_share_def h_def heap_share_def)
  moreover have wf: "pool_wf (pools s ! h)" using inv h by (simp add: drv_inv_def heap_wf_def)
  ultimately show "pool_free_buf (pool_entry b) (pools s ! h) = Inr ?p"
    and "drv_inv (s\<lparr>pools := (pools s)[h := ?p]\<rparr>)"
  proof -
    assume sub: "add_mset (pool_entry b) (mset (free_stack (pools s ! h))) \<subseteq># all_bufs (pools s ! h)"
    then show "pool_free_buf (pool_entry b) (pools s ! h) = Inr ?p" using wf by (rule free_accounted [rotated])
    have "pool_wf ?p" using wf by (rule pool_wf_stack) (use sub in simp)
    moreover have "heap_share p (s\<lparr>pools := (pools s)[h := ?p]\<rparr>) = heap_share p s + pkt_share p b" for p
      using h by (cases "p = h") (simp_all add: heap_share_def pkt_share_def h_def add_ac)
    ultimately show "drv_inv (s\<lparr>pools := (pools s)[h := ?p]\<rparr>)"
      using inv h own
      by (auto simp: drv_inv_def heap_wf_def nth_list_update)
  qed
qed


lemma drv_inv_world [simp]: "drv_inv (s\<lparr>world := w\<rparr>) = drv_inv s"
  by (simp add: drv_inv_def heap_wf_def heap_share_def)

lemma drv_inv_pool: "drv_inv s \<Longrightarrow> p < length (pools s) \<Longrightarrow> pool_wf (pools s ! p)"
  by (simp add: drv_inv_def heap_wf_def)

lemma drv_inv_own:
  "drv_inv s \<Longrightarrow> p < length (pools s) \<Longrightarrow>
     heap_share p s + dev_share p (dev s) = all_bufs (pools s ! p)"
  by (simp add: drv_inv_def)

lemma drv_inv_tx:
  assumes "drv_inv s" "i < length (tx_queues (dev s))"
  shows "txq_wf (tx_queues (dev s) ! i)"
    and "tx_pool (tx_queues (dev s) ! i) = Some p \<Longrightarrow> p < length (pools s)"
  using assms by (auto simp: drv_inv_def queues_wf_def dest!: nth_mem)

lemma drv_inv_rx:
  assumes "drv_inv s" "i < length (rx_queues (dev s))"
  shows "rxq_wf (rx_queues (dev s) ! i)" and "rx_pool (rx_queues (dev s) ! i) < length (pools s)"
  using assms by (auto simp: drv_inv_def queues_wf_def dest!: nth_mem)

lemma drv_inv_member:
  assumes "drv_inv s" "p < length (pools s)" "b \<in># heap_share p s + dev_share p (dev s)"
  shows "b < num_entries (pools s ! p)"
  using assms drv_inv_own [of s p] by (simp add: all_bufs_member [symmetric])

lemma alloc_inv:
  assumes inv: "drv_inv s" and h: "h < length (pools s)"
    and ne: "free_stack (pools s ! h) \<noteq> []"
    and b: "packet_pool b = h" "pool_entry b = last (free_stack (pools s ! h))"
  shows "drv_inv (s\<lparr>pools := (pools s)[h := (pools s ! h)\<lparr>free_stack := butlast (free_stack (pools s ! h))\<rparr>],
                    client := b # client s\<rparr>)"
proof -
  let ?p = "(pools s ! h)\<lparr>free_stack := butlast (free_stack (pools s ! h))\<rparr>"
  have m: "add_mset (last (free_stack (pools s ! h))) (mset (butlast (free_stack (pools s ! h)))) =
      mset (free_stack (pools s ! h))"
    using ne by (rule mset_butlast_last)
  have "pool_alloc_buf (pools s ! h) = (Some (last (free_stack (pools s ! h))), ?p)"
    using ne by (simp add: pool_alloc_buf_def)
  then have "pool_wf ?p" using pool_alloc_wf drv_inv_pool [OF inv h] by blast
  moreover have "heap_share p (s\<lparr>pools := (pools s)[h := ?p], client := b # client s\<rparr>) = heap_share p s" for p
    using h b m by (cases "p = h") (simp_all add: heap_share_def pkt_share_def m [symmetric])
  ultimately show ?thesis
    using inv h b by (auto simp: drv_inv_def heap_wf_def nth_list_update)
qed

lemma recycled_inv:
  fixes s :: "('w, IgbNetBuf list, 'x) drv_scheme"
  assumes inv: "drv_inv s" and i: "unat i < length (tx_queues (dev s))"
    and q: "q = tx_queues (dev s) ! unat i" and k: "k \<le> length (tx_bufs_in_use q)"
    and p: "tx_bufs_in_use q \<noteq> [] \<Longrightarrow> tx_pool q = Some p" and p': "p < length (pools s)"
  shows "drv_inv (recycled i p k w s)"
proof -
  let ?ids = "take k (tx_bufs_in_use q)" and ?q = "txq_advance k q"
  let ?p = "pool_extend ?ids (pools s ! p)"
  have q': "txq_wf q" using drv_inv_tx [OF inv i] by (simp add: q)
  have split: "mset ?ids + mset (drop k (tx_bufs_in_use q)) = mset (tx_bufs_in_use q)"
    by (metis append_take_drop_id mset_append)
  have dev: "dev_share r ((dev s)\<lparr>tx_queues := (tx_queues (dev s))[unat i := ?q]\<rparr>) +
      (if r = p then mset ?ids else {#}) = dev_share r (dev s)" for r
  proof -
    have "tx_share r ?q + (if r = p then mset ?ids else {#}) = tx_share r q + {#}"
      using p split by (cases "tx_bufs_in_use q = []")
        (auto simp: tx_share_def txq_advance_def add.commute)
    then show ?thesis using i q dev_share_tx_update [of "unat i" "dev s" r ?q] by fastforce
  qed
  have heap: "heap_share r (s\<lparr>pools := (pools s)[p := ?p]\<rparr>) = heap_share r s + (if r = p then mset ?ids else {#})" for r
    using p' by (simp add: heap_share_def pool_extend_def)
  have "mset (free_stack (pools s ! p)) + mset ?ids \<subseteq># all_bufs (pools s ! p)"
  proof -
    have "all_bufs (pools s ! p) = mset (free_stack (pools s ! p)) + mset ?ids +
        (sum_list (map (pkt_share p) (client s)) +
         dev_share p ((dev s)\<lparr>tx_queues := (tx_queues (dev s))[unat i := ?q]\<rparr>))"
      unfolding drv_inv_own [OF inv p', symmetric] dev [of p, symmetric]
      by (simp add: heap_share_def add_ac)
    then show ?thesis by (metis mset_subset_eq_add_left)
  qed
  then have wf: "pool_wf ((pools s ! p)\<lparr>free_stack := free_stack (pools s ! p) @ ?ids\<rparr>)"
    using drv_inv_pool [OF inv p'] by (intro pool_wf_stack) simp_all
  have qs: "queues_wf (length (pools s)) ((dev s)\<lparr>tx_queues := (tx_queues (dev s))[unat i := ?q]\<rparr>)"
  proof (rule queues_wf_tx_update)
    show "queues_wf (length (pools s)) (dev s)" using inv by (simp add: drv_inv_def)
    show "txq_wf ?q" using q' k by (rule txq_advance_wf)
    show "r < length (pools s)" if "tx_pool ?q = Some r" for r
      using that drv_inv_tx(2) [OF inv i, of r] by (simp add: txq_advance_def q)
  qed
  have "drv_inv (s\<lparr>world := w, pools := (pools s)[p := (pools s ! p)\<lparr>free_stack := free_stack (pools s ! p) @ ?ids\<rparr>],
      dev := (dev s)\<lparr>tx_queues := (tx_queues (dev s))[unat i := ?q]\<rparr>, client := client s\<rparr>)"
  proof (rule drv_inv_update [OF inv qs wf])
    show "packet_pool b < length (pools s)" if "b \<in> set (client s)" for b
      using inv that by (simp add: drv_inv_def heap_wf_def)
    fix r
    show "heap_share r (s\<lparr>pools := (pools s)[p := (pools s ! p)\<lparr>free_stack := free_stack (pools s ! p) @ ?ids\<rparr>], client := client s\<rparr>) +
        dev_share r ((dev s)\<lparr>tx_queues := (tx_queues (dev s))[unat i := ?q]\<rparr>) = heap_share r s + dev_share r (dev s)"
      using heap [of r] dev [of r] by (simp add: pool_extend_def add_ac)
  qed
  then show ?thesis by (simp add: recycled_def Let_def q pool_extend_def)
qed


section \<open>The transmit operations keep the invariant\<close>

text \<open>
  A transmit queue remembers one pool, that of the packet sent last. Its buffers in flight
  are all of that pool only if a packet of another pool is sent on an empty queue.
\<close>

definition one_pool :: "IgbTxQueue \<Rightarrow> IgbNetBuf \<Rightarrow> bool" where
  "one_pool q b \<longleftrightarrow> tx_bufs_in_use q = [] \<or> tx_pool q = Some (packet_pool b)"

lemma sent_inv:
  fixes s :: "('w, IgbNetBuf list, 'x) drv_scheme"
  assumes inv: "drv_inv (s\<lparr>client := b # client s\<rparr>)" and i: "unat i < length (tx_queues (dev s))"
    and q: "q = tx_queues (dev s) ! unat i"
    and room: "length (tx_bufs_in_use q) + 1 < unat (tx_num_descriptors q)"
    and one: "one_pool q b"
  shows "drv_inv (sent_state E i b s)"
proof -
  let ?s = "s\<lparr>client := b # client s\<rparr>" and ?h = "packet_pool b"
  let ?q = "txq_push (pool_entry b) (q\<lparr>tx_pool := Some ?h\<rparr>)"
  let ?d = "(dev s)\<lparr>tx_queues := (tx_queues (dev s))[unat i := ?q]\<rparr>"
  have h: "?h < length (pools s)" using inv by (simp add: drv_inv_def heap_wf_def)
  have q': "txq_wf q" using drv_inv_tx(1) [OF inv] i by (simp add: q)
  then have "txq_wf (q\<lparr>tx_pool := Some ?h\<rparr>)" by (simp add: txq_wf_def txq_in_flight_def)
  then have wf: "txq_wf ?q" using room by (intro txq_push_wf) simp_all
  have dev: "dev_share r ?d + {#} = dev_share r (dev s) + pkt_share r b" for r
  proof (rule dev_share_tx_update [OF i])
    show "tx_share r ?q + {#} = tx_share r (tx_queues (dev s) ! unat i) + pkt_share r b"
      using one unfolding q [symmetric]
      by (auto simp: one_pool_def tx_share_def pkt_share_def txq_push_def)
  qed
  have qs: "queues_wf (length (pools ?s)) ?d"
    using inv h wf by (intro queues_wf_tx_update) (simp_all add: drv_inv_def txq_push_def)
  have same: "(pools s)[?h := (pools s ! ?h)\<lparr>free_stack := free_stack (pools s ! ?h)\<rparr>] = pools s"
    by simp
  have "drv_inv (?s\<lparr>world := w, pools := (pools ?s)[?h := (pools ?s ! ?h)\<lparr>free_stack := free_stack (pools s ! ?h)\<rparr>],
      dev := ?d, client := client s\<rparr>)" for w
  proof (rule drv_inv_update [OF inv qs])
    show "pool_wf ((pools ?s ! ?h)\<lparr>free_stack := free_stack (pools s ! ?h)\<rparr>)"
      using drv_inv_pool [OF inv] h by simp
    show "packet_pool c < length (pools ?s)" if "c \<in> set (client s)" for c
      using inv that by (simp add: drv_inv_def heap_wf_def)
    show "heap_share r (?s\<lparr>pools := (pools ?s)[?h := (pools ?s ! ?h)\<lparr>free_stack := free_stack (pools s ! ?h)\<rparr>],
          client := client s\<rparr>) + dev_share r ?d = heap_share r ?s + dev_share r (dev ?s)" for r
      using dev [of r] by (simp add: heap_share_def add_ac)
  qed
  from this [of "world s"] have "drv_inv (s\<lparr>dev := ?d\<rparr>)" by simp
  then show ?thesis by (simp add: sent_state_def Let_def q)
qed

lemma sent_config: "same_config (dev s) (dev (sent_state E i b s))"
  by (simp add: sent_state_def Let_def same_config_tx txq_push_def)

lemma recycled_config: "same_config (dev s) (dev (recycled i p k w s))"
  by (simp add: recycled_def Let_def same_config_tx txq_advance_def)

lemma send_total:
  fixes s :: "('w, IgbNetBuf list, 'x) drv_scheme"
  assumes inv: "drv_inv (s\<lparr>client := b # client s\<rparr>)"
    and one: "unat i < length (tx_queues (dev s)) \<Longrightarrow> one_pool (tx_queues (dev s) ! unat i) b"
    and reg: "unat i < length (tx_queues (dev s)) \<Longrightarrow> reg_ok (dev s) (IGB_TDT (ucast i))"
  shows "\<exists>r s'. send E i b s = Some (r, s') \<and> r \<in> {Val (), Err QueueFull, Err InvalidQueue} \<and>
    drv_inv s' \<and> same_config (dev s) (dev s')"
proof (cases "unat i < length (tx_queues (dev s))")
  case False
  show ?thesis
    using send_invalid_queue [OF False drop_inv(1) [OF inv]] drop_inv(2) [OF inv] by fastforce
next
  case True
  let ?q = "tx_queues (dev s) ! unat i"
  have wf: "txq_wf ?q" using drv_inv_tx(1) [OF inv] True by simp
  show ?thesis
  proof (cases "length (tx_bufs_in_use ?q) + 1 < unat (tx_num_descriptors ?q)")
    case room: True
    then show ?thesis
      using send_room [OF True refl wf room reg [OF True]] sent_inv [OF inv True refl room one [OF True]]
        sent_config by blast
  next
    case False
    show ?thesis
      using send_full [OF True wf False drop_inv(1) [OF inv]] drop_inv(2) [OF inv] by fastforce
  qed
qed

text \<open>The pool the buffers in flight of a queue belong to; any pool, if there are none.\<close>

lemma queue_pool:
  assumes inv: "drv_inv s" and i: "i < length (tx_queues (dev s))"
  obtains p where "p < length (pools s)"
    and "tx_bufs_in_use (tx_queues (dev s) ! i) \<noteq> [] \<Longrightarrow> tx_pool (tx_queues (dev s) ! i) = Some p"
proof (cases "tx_pool (tx_queues (dev s) ! i)")
  case None
  moreover have "0 < length (pools s)" using inv by (simp add: drv_inv_def)
  moreover have "txq_wf (tx_queues (dev s) ! i)" using drv_inv_tx(1) [OF inv i] .
  ultimately show ?thesis using that [of 0] by (auto simp: txq_wf_def)
next
  case (Some p)
  then show ?thesis using that drv_inv_tx(2) [OF inv i] by blast
qed

lemma recycle_total:
  fixes s :: "('w, IgbNetBuf list, 'x) drv_scheme"
  assumes inv: "drv_inv s"
  shows "\<exists>r s'. recycle_tx_buffers E i s = Some (r, s') \<and> r \<in> {Val (), Err InvalidQueue} \<and>
    drv_inv s' \<and> same_config (dev s) (dev s')"
proof (cases "unat i < length (tx_queues (dev s))")
  case False
  then have "wp (recycle_tx_buffers E i) (\<lambda>r s'. r = Err InvalidQueue \<and> s' = s) s"
    by (simp add: recycle_tx_buffers_def wp_simps)
  then show ?thesis using inv by (auto elim: wpE)
next
  case True
  let ?q = "tx_queues (dev s) ! unat i"
  obtain p where p: "p < length (pools s)" "tx_bufs_in_use ?q \<noteq> [] \<Longrightarrow> tx_pool ?q = Some p"
    using queue_pool [OF inv True] by blast
  obtain m w where mw: "(m, w) = clean_batches E ?q (length (tx_bufs_in_use ?q) div 32) 0 (world s)"
    by (metis surj_pair)
  have r: "recycle_tx_buffers E i s = Some (Val (), recycled i p (32 * m) w s)"
    using recycle_tx_buffers_spec [OF True refl drv_inv_tx(1) [OF inv True] p(2,1) mw] .
  have "drv_inv (recycled i p (32 * m) w s)"
    using recycled_inv [OF inv True refl clean_batches_length [OF mw] p(2,1)] .
  then show ?thesis using r recycled_config [of s i p "32 * m" w] by simp
qed

end
