(* ===== verification/Rx_Spec.thy ===== *)
theory Rx_Spec
  imports Ownership Memory_Spec
begin

text \<open>
  The receive side, specified: what the client's closure has to guarantee, what one pass of the
  receive loop does, and why the loop stops.
\<close>

lemma sum_exchange:
  assumes "d + x = d' + n" and "h + n = h' + (x :: 'a::cancel_comm_monoid_add)"
  shows "h + d = h' + d'"
proof -
  have "(h + d) + (x + n) = (h + n) + (d + x)" by (simp only: add_ac)
  also have "\<dots> = (h' + x) + (d' + n)" by (simp only: assms)
  also have "\<dots> = (h' + d') + (x + n)" by (simp only: add_ac)
  finally show ?thesis by simp
qed

section \<open>The closure's contract\<close>

text \<open>
  The closure is given a packet and owns it from then on: it keeps or frees the packet (and may
  free or allocate others), and the buffers it can reach are accounted for when it returns.
\<close>

definition closure_ok :: "(IgbNetBuf \<Rightarrow> (('w, IgbNetBuf list) heap, unit) prog) \<Rightarrow> bool" where
  "closure_ok f \<longleftrightarrow> (\<forall>b h. heap_wf h \<and> packet_pool b < length (pools h) \<and>
     (\<forall>p < length (pools h). heap_share p h + pkt_share p b \<subseteq># all_bufs (pools h ! p)) \<longrightarrow>
     wp (f b) (\<lambda>r h'. r = Val () \<and> same_shape (pools h) (pools h') \<and> heap_wf h' \<and>
        (\<forall>p < length (pools h). heap_share p h' = heap_share p h + pkt_share p b)) h)"

lemma wp_call_closure:
  fixes s :: "('w, IgbNetBuf list, 'x) drv_scheme"
  assumes f: "closure_ok f" and inv: "drv_inv (s\<lparr>client := b # client s\<rparr>)"
    and Q: "\<And>s'. drv_inv s' \<Longrightarrow> dev s' = dev s \<Longrightarrow> same_shape (pools s) (pools s') \<Longrightarrow> Q (Val ()) s'"
  shows "wp (call_closure f b) Q s"
proof -
  let ?h = "\<lparr>world = world s, pools = pools s, client = client s\<rparr>"
  have own: "heap_share p ?h + pkt_share p b + dev_share p (dev s) = all_bufs (pools s ! p)"
    if "p < length (pools s)" for p
    using drv_inv_own [OF inv] that by (simp add: heap_share_def add_ac)
  have "wp (f b) (\<lambda>r h'. r = Val () \<and> same_shape (pools ?h) (pools h') \<and> heap_wf h' \<and>
        (\<forall>p < length (pools ?h). heap_share p h' = heap_share p ?h + pkt_share p b)) ?h"
  proof (rule f [unfolded closure_ok_def, rule_format], intro conjI allI impI)
    show "heap_wf ?h" "packet_pool b < length (pools ?h)"
      using inv by (simp_all add: drv_inv_def heap_wf_def)
    show "heap_share p ?h + pkt_share p b \<subseteq># all_bufs (pools ?h ! p)" if "p < length (pools ?h)" for p
      using own [of p] that by (metis heap.select_convs(1) mset_subset_eq_add_left)
  qed
  then obtain h' where h': "f b ?h = Some (Val (), h')" "same_shape (pools s) (pools h')" "heap_wf h'"
    and sh: "\<And>p. p < length (pools s) \<Longrightarrow> heap_share p h' = heap_share p ?h + pkt_share p b"
    by (auto elim!: wpE)
  let ?s = "s\<lparr>world := world h', pools := pools h', client := client h'\<rparr>"
  have "drv_inv ?s"
    using inv h' sh own same_shape_length [OF h'(2)] same_shape_all_bufs [OF h'(2)]
    by (auto simp: drv_inv_def heap_wf_def heap_share_def)
  then show ?thesis using Q [of ?s] h' by (simp add: call_closure_def wp_def)
qed

text \<open>Closures that satisfy the contract: keep the packet, drop it, or choose.\<close>

definition keep_packet :: "IgbNetBuf \<Rightarrow> (('w, IgbNetBuf list) heap, unit) prog" where
  "keep_packet b = modifyM (\<lambda>h. h\<lparr>client := client h @ [b]\<rparr>)"

definition drop_packet :: "IgbNetBuf \<Rightarrow> (('w, IgbNetBuf list) heap, unit) prog" where
  "drop_packet b = Packet_drop b"

lemma keep_packet_ok: "closure_ok keep_packet"
  by (auto simp: closure_ok_def keep_packet_def wp_simps heap_wf_def heap_share_def add.assoc)

lemma drop_packet_ok: "closure_ok drop_packet"
  unfolding closure_ok_def
proof (intro allI impI, elim conjE)
  fix b :: IgbNetBuf and h :: "('a, IgbNetBuf list) heap"
  let ?h = "packet_pool b"
  assume wf: "heap_wf h" and h: "?h < length (pools h)"
    and own: "\<forall>p < length (pools h). heap_share p h + pkt_share p b \<subseteq># all_bufs (pools h ! p)"
  let ?p = "(pools h ! ?h)\<lparr>free_stack := free_stack (pools h ! ?h) @ [pool_entry b]\<rparr>"
  have "add_mset (pool_entry b) (mset (free_stack (pools h ! ?h))) \<subseteq># heap_share ?h h + pkt_share ?h b"
    by (simp add: heap_share_def pkt_share_def)
  then have sub: "add_mset (pool_entry b) (mset (free_stack (pools h ! ?h))) \<subseteq># all_bufs (pools h ! ?h)"
    using own h by (meson subset_mset.order_trans)
  have "pool_wf (pools h ! ?h)" using wf h by (simp add: heap_wf_def)
  then have free: "pool_free_buf (pool_entry b) (pools h ! ?h) = Inr ?p" and pwf: "pool_wf ?p"
    using sub by (auto intro: free_accounted pool_wf_stack)
  have "pool_wf ((pools h)[?h := ?p] ! p)" if "p < length (pools h)" for p
    using wf pwf that by (cases "p = ?h") (simp_all add: heap_wf_def)
  moreover have "heap_share p (h\<lparr>pools := (pools h)[?h := ?p]\<rparr>) = heap_share p h + pkt_share p b" for p
    using h by (cases "p = ?h") (simp_all add: heap_share_def pkt_share_def add_ac)
  ultimately show "wp (drop_packet b) (\<lambda>r h'. r = Val () \<and> same_shape (pools h) (pools h') \<and> heap_wf h' \<and>
        (\<forall>p < length (pools h). heap_share p h' = heap_share p h + pkt_share p b)) h"
    using wf free by (simp add: drop_packet_def Packet_drop_def wp_simps heap_wf_def)
qed

section \<open>One pass\<close>

text \<open>The status byte of the descriptor in slot \<open>c\<close>, as a read in world \<open>w\<close> finds it.\<close>

definition rx_status :: "'w platform \<Rightarrow> IgbRxQueue \<Rightarrow> usize \<Rightarrow> 'w \<Rightarrow> u8" where
  "rx_status E q c w =
     ucast (get_bits E (fst (volatile_read64 E (rx_descriptors q ! unat c + 8) w)) 0 19)"

lemma wp_get_ext_status [wp_simps]:
  "wp (get_ext_status E desc) Q s =
     Q (Val (get_bits E (fst (volatile_read64 E (desc + 8) (world s))) 0 19))
       (s\<lparr>world := snd (volatile_read64 E (desc + 8) (world s))\<rparr>)"
  by (simp add: get_ext_status_def read_header_field_def wp_simps descriptor_offsets)

lemma wp_rx_desc_length [wp_simps]:
  "wp (rx_desc_length E desc) Q s =
     Q (Val (get_bits E (fst (volatile_read64 E (desc + 8) (world s))) 32 47))
       (s\<lparr>world := snd (volatile_read64 E (desc + 8) (world s))\<rparr>)"
  by (simp add: rx_desc_length_def get_pkt_len_def read_header_field_def wp_simps descriptor_offsets)

text \<open>What a receive changes in the driver: the buffers of one queue, and free stacks.\<close>

definition rx_frame ::
  "u16 \<Rightarrow> ('w, IgbNetBuf list, 'x) drv_scheme \<Rightarrow> ('w, IgbNetBuf list, 'x) drv_scheme \<Rightarrow> bool" where
  "rx_frame i s s' \<longleftrightarrow> same_shape (pools s) (pools s') \<and>
     (\<exists>bufs. dev s' = (dev s)\<lparr>rx_queues := (rx_queues (dev s))[unat i :=
        (rx_queues (dev s) ! unat i)\<lparr>rx_bufs_in_use := bufs\<rparr>]\<rparr>)"

lemma rx_frame_refl [simp]: "rx_frame i s s"
proof -
  have "dev s = (dev s)\<lparr>rx_queues := (rx_queues (dev s))[unat i :=
      (rx_queues (dev s) ! unat i)\<lparr>rx_bufs_in_use := rx_bufs_in_use (rx_queues (dev s) ! unat i)\<rparr>]\<rparr>"
    by simp
  then show ?thesis unfolding rx_frame_def by (intro conjI same_shape_refl) (rule exI)
qed

lemma rx_frame_world [simp]: "rx_frame i s (s'\<lparr>world := w\<rparr>) = rx_frame i s s'"
  by (simp add: rx_frame_def)

lemma rx_frame_trans:
  assumes "unat i < length (rx_queues (dev s))" "rx_frame i s s'" "rx_frame i s' s''"
  shows "rx_frame i s s''"
  using assms by (auto simp: rx_frame_def intro: same_shape_trans)

lemma rx_frame_config: "rx_frame i s s' \<Longrightarrow> same_config (dev s) (dev s')"
  by (auto simp: rx_frame_def intro!: same_config_rx)

lemma rx_frame_queue:
  assumes "unat i < length (rx_queues (dev s))" "rx_frame i s s'"
  obtains bufs where "unat i < length (rx_queues (dev s'))"
    "rx_queues (dev s') ! unat i = (rx_queues (dev s) ! unat i)\<lparr>rx_bufs_in_use := bufs\<rparr>"
  using assms by (auto simp: rx_frame_def)

text \<open>A buffer of the pool takes the place of the buffer under a descriptor, which becomes a packet.\<close>

lemma replace_inv:
  fixes s :: "('w, IgbNetBuf list, 'x) drv_scheme"
  assumes inv: "drv_inv s" and i: "unat i < length (rx_queues (dev s))"
    and q: "q = rx_queues (dev s) ! unat i" and h: "h = rx_pool q"
    and c: "unat c < length (rx_bufs_in_use q)" and ne: "free_stack (pools s ! h) \<noteq> []"
    and b: "packet_pool b = h" "pool_entry b = rx_bufs_in_use q ! unat c"
  defines "q' \<equiv> q\<lparr>rx_bufs_in_use := (rx_bufs_in_use q)[unat c := last (free_stack (pools s ! h))]\<rparr>"
  shows "drv_inv (s\<lparr>world := w,
      pools := (pools s)[h := (pools s ! h)\<lparr>free_stack := butlast (free_stack (pools s ! h))\<rparr>],
      dev := (dev s)\<lparr>rx_queues := (rx_queues (dev s))[unat i := q']\<rparr>,
      client := b # client s\<rparr>)"
proof (rule drv_inv_update [OF inv])
  let ?fs = "butlast (free_stack (pools s ! h))" and ?new = "last (free_stack (pools s ! h))"
  have h': "h < length (pools s)" using drv_inv_rx(2) [OF inv i] by (simp add: h q)
  have wfq: "rxq_wf q" using drv_inv_rx(1) [OF inv i] by (simp add: q)
  show "queues_wf (length (pools s)) ((dev s)\<lparr>rx_queues := (rx_queues (dev s))[unat i := q']\<rparr>)"
    using inv wfq h' by (intro queues_wf_rx_update) (simp_all add: drv_inv_def q'_def rxq_wf_def h)
  have "pool_alloc_buf (pools s ! h) = (Some ?new, (pools s ! h)\<lparr>free_stack := ?fs\<rparr>)"
    using ne by (simp add: pool_alloc_buf_def)
  then show "pool_wf ((pools s ! h)\<lparr>free_stack := ?fs\<rparr>)"
    using pool_alloc_wf drv_inv_pool [OF inv h'] by blast
  show "packet_pool p < length (pools s)" if "p \<in> set (b # client s)" for p
    using inv that b(1) h' by (auto simp: drv_inv_def heap_wf_def)
  fix r
  have m: "add_mset ?new (mset ?fs) = mset (free_stack (pools s ! h))"
    using ne by (rule mset_butlast_last)
  have "dev_share r ((dev s)\<lparr>rx_queues := (rx_queues (dev s))[unat i := q']\<rparr>) + pkt_share r b =
      dev_share r (dev s) + (if r = h then {#?new#} else {#})"
  proof (rule dev_share_rx_update [OF i])
    show "rx_share r q' + pkt_share r b = rx_share r (rx_queues (dev s) ! unat i) + (if r = h then {#?new#} else {#})"
      using mset_nth_update [OF c, of ?new] b unfolding q [symmetric]
      by (simp add: rx_share_def pkt_share_def q'_def h)
  qed
  moreover have "heap_share r (s\<lparr>pools := (pools s)[h := (pools s ! h)\<lparr>free_stack := ?fs\<rparr>], client := b # client s\<rparr>) +
      (if r = h then {#?new#} else {#}) = heap_share r s + pkt_share r b"
    using h' m by (cases "r = h") (simp_all add: heap_share_def m [symmetric])
  ultimately show "heap_share r (s\<lparr>pools := (pools s)[h := (pools s ! h)\<lparr>free_stack := ?fs\<rparr>], client := b # client s\<rparr>) +
      dev_share r ((dev s)\<lparr>rx_queues := (rx_queues (dev s))[unat i := q']\<rparr>) = heap_share r s + dev_share r (dev s)"
    by (rule sum_exchange)
qed

lemma same_shape_entries: "same_shape ps ps' \<Longrightarrow> p < length ps \<Longrightarrow> num_entries (ps' ! p) = num_entries (ps ! p)"
  by (subst same_shape_nth) simp_all

lemma rx_bufs_member:
  fixes s :: "('w, IgbNetBuf list, 'x) drv_scheme"
  assumes inv: "drv_inv s" and i: "unat i < length (rx_queues (dev s))" and q: "q = rx_queues (dev s) ! unat i"
    and b: "b \<in> set (rx_bufs_in_use q)"
  shows "b < num_entries (pools s ! rx_pool q)"
proof (rule drv_inv_member [OF inv])
  show "rx_pool q < length (pools s)" using drv_inv_rx(2) [OF inv i] by (simp add: q)
  have "rx_share (rx_pool q) q \<subseteq># sum_list (map (rx_share (rx_pool q)) (rx_queues (dev s)))"
    using i by (intro member_sum_list_map) (simp add: q)
  then show "b \<in># heap_share (rx_pool q) s + dev_share (rx_pool q) (dev s)"
    using b by (auto simp: rx_share_def dev_share_def dest: mset_subset_eqD)
qed

lemma wp_rx_pass:
  fixes s :: "('w, IgbNetBuf list, 'x) drv_scheme"
  assumes f: "closure_ok f" and inv: "drv_inv s" and i: "unat i < length (rx_queues (dev s))"
    and q: "q = rx_queues (dev s) ! unat i" and c: "unat c < unat (rx_num_descriptors q)"
    and cnt: "unat cnt + 1 < 2 ^ 64"
    and idle: "rx_status E q c (world s) AND RX_STATUS_DD = 0 \<Longrightarrow>
      Q (Val (c, l, cnt)) (s\<lparr>world := w1\<rparr>)"
    and split: "rx_status E q c (world s) AND RX_STATUS_DD \<noteq> 0 \<Longrightarrow>
      rx_status E q c (world s) AND RX_STATUS_EOP = 0 \<Longrightarrow>
      Q (Panicked IncreaseBufferSize) (s\<lparr>world := w1\<rparr>)"
    and empty: "free_stack (pools s ! rx_pool q) = [] \<Longrightarrow> Q (Val (c, l, cnt)) (s\<lparr>world := w1\<rparr>)"
    and go: "\<And>s'. rx_status E q c (world s) AND RX_STATUS_DD \<noteq> 0 \<Longrightarrow> drv_inv s' \<Longrightarrow> rx_frame i s s' \<Longrightarrow>
      wp (receive_loop E i f n (ring_next (rx_num_descriptors q) c, c, cnt + 1)) Q s'"
    and w1: "w1 = snd (volatile_read64 E (rx_descriptors q ! unat c + 8) (world s))"
  shows "wp (receive_loop E i f (Suc n) (c, l, cnt)) Q s"
proof -
  let ?h = "rx_pool q" and ?bs = "rx_bufs_in_use q" and ?desc = "rx_descriptors q ! unat c"
  have wfq: "rxq_wf q" using drv_inv_rx(1) [OF inv i] by (simp add: q)
  then have len: "unat c < length ?bs" "unat c < length (rx_descriptors q)" and n: "ring_size_ok (rx_num_descriptors q)"
    using c by (simp_all add: rxq_wf_def)
  have h: "?h < length (pools s)" using drv_inv_rx(2) [OF inv i] by (simp add: q)
  show ?thesis
  proof (cases "rx_status E q c (world s) AND RX_STATUS_DD = 0 \<or>
      rx_status E q c (world s) AND RX_STATUS_EOP = 0 \<or> free_stack (pools s ! ?h) = []")
    case True
    then show ?thesis using idle split empty w1 i len
      by (auto simp: receive_loop.simps wp_simps q [symmetric] rx_status_def Let_def)
  next
    case False
    have st: "rx_status E q c (world s) AND RX_STATUS_DD \<noteq> 0" "rx_status E q c (world s) AND RX_STATUS_EOP \<noteq> 0"
      "free_stack (pools s ! ?h) \<noteq> []" using False by blast+
    let ?new = "last (free_stack (pools s ! ?h))"
    let ?q = "q\<lparr>rx_bufs_in_use := ?bs[unat c := ?new]\<rparr>"
    let ?pkt = "\<lambda>va pa len. Packet_new va pa len ?h (?bs ! unat c)"
    let ?ps = "(pools s)[?h := (pools s ! ?h)\<lparr>free_stack := butlast (free_stack (pools s ! ?h))\<rparr>]"
    let ?d = "(dev s)\<lparr>rx_queues := (rx_queues (dev s))[unat i := ?q]\<rparr>"
    let ?s = "\<lambda>w. s\<lparr>pools := ?ps, dev := ?d, world := w\<rparr>"
    have inv1: "drv_inv (?s w\<lparr>client := ?pkt va pa k # client (?s w)\<rparr>)" for w va pa k
    proof -
      have "drv_inv (s\<lparr>world := w, pools := ?ps, dev := ?d, client := ?pkt va pa k # client s\<rparr>)"
        using st(3) by (intro replace_inv [OF inv i q refl len(1)]) (simp_all add: Packet_new_def)
      moreover have "?s w\<lparr>client := ?pkt va pa k # client (?s w)\<rparr> =
          s\<lparr>world := w, pools := ?ps, dev := ?d, client := ?pkt va pa k # client s\<rparr>" by simp
      ultimately show ?thesis by (simp only:)
    qed
    have fr1: "rx_frame i s (?s w)" for w
      unfolding rx_frame_def q [symmetric] by (intro conjI exI [of _ "?bs[unat c := ?new]"]) simp_all
    have mem: "b < num_entries (pools s ! ?h)" if "b \<in> set ?bs" for b
      using rx_bufs_member [OF inv i q that] .
    have new: "?new < num_entries (pools s ! ?h)"
      using drv_inv_pool [OF inv h] False by (simp add: pool_wf_def)
    have wf: "pool_wf ((pools s ! ?h)\<lparr>free_stack := butlast (free_stack (pools s ! ?h))\<rparr>)"
      using drv_inv_pool [OF inv1, of ?h] h by simp
    have old: "?bs ! unat c < num_entries (pools s ! ?h)" using mem len(1) by simp
    have call: "wp (call_closure f (?pkt va pa k)) R (?s w)"
      if R: "\<And>s'. drv_inv s' \<Longrightarrow> rx_frame i s s' \<Longrightarrow> dev s' = dev (?s w) \<Longrightarrow>
          pool_wf (pools s' ! ?h) \<Longrightarrow> num_entries (pools s' ! ?h) = num_entries (pools s ! ?h) \<Longrightarrow> R (Val ()) s'"
      for R :: "unit outcome \<Rightarrow> ('w, IgbNetBuf list, 'x) drv_scheme \<Rightarrow> bool" and w va pa k
    proof (rule wp_call_closure [OF f inv1])
      fix s' :: "('w, IgbNetBuf list, 'x) drv_scheme"
      assume s': "drv_inv s'" "dev s' = dev (?s w)" "same_shape (pools (?s w)) (pools s')"
      have "rx_frame i (?s w) s'"
        using s'(2,3) i by (auto simp: rx_frame_def intro!: exI [of _ "?bs[unat c := ?new]"])
      then have "rx_frame i s s'" using rx_frame_trans [OF i fr1] by blast
      moreover have "num_entries (pools s' ! ?h) = num_entries (pools s ! ?h)"
        using same_shape_entries [OF s'(3), of ?h] h by simp
      moreover have "pool_wf (pools s' ! ?h)"
        using drv_inv_pool [OF s'(1), of ?h] same_shape_length [OF s'(3)] h by simp
      ultimately show "R (Val ()) s'" using R s' by blast
    qed
    show ?thesis using st(3) i len cnt st(1,2) [unfolded rx_status_def]
      apply (simp add: receive_loop.simps wp_simps q [symmetric] Let_def wf h old)
      apply (rule call)
      apply (simp add: wp_simps new wp_wrap_ring [OF n c] set_packet_address_def reset_status_def)
      apply (rule go [OF st(1)])
       apply simp_all
      done
  qed
qed

section \<open>The whole loop\<close>

text \<open>
  The \<open>k\<close> descriptors after \<open>c\<close> have been consumed; the loop stops because it has received what
  was asked for, because the next descriptor is not done, or because the pool is empty.
\<close>

definition rx_slot :: "IgbRxQueue \<Rightarrow> usize \<Rightarrow> nat \<Rightarrow> usize" where
  "rx_slot q c k = (ring_next (rx_num_descriptors q) ^^ k) c"

definition rx_stops :: "'w platform \<Rightarrow> IgbRxQueue \<Rightarrow> usize \<Rightarrow> usize list \<Rightarrow> bool" where
  "rx_stops E q c stack \<longleftrightarrow> stack = [] \<or> (\<exists>w. rx_status E q c w AND RX_STATUS_DD = 0)"

definition rx_splits :: "'w platform \<Rightarrow> IgbRxQueue \<Rightarrow> usize \<Rightarrow> bool" where
  "rx_splits E q c \<longleftrightarrow>
     (\<exists>w. rx_status E q c w AND RX_STATUS_DD \<noteq> 0 \<and> rx_status E q c w AND RX_STATUS_EOP = 0)"

definition rx_result ::
  "'w platform \<Rightarrow> IgbRxQueue \<Rightarrow> nat \<Rightarrow> usize \<times> usize \<times> usize \<Rightarrow> usize list \<Rightarrow>
   (usize \<times> usize \<times> usize) outcome \<Rightarrow> bool" where
  "rx_result E q n = (\<lambda>(c, l, cnt) stack r. \<exists>k \<le> n.
     r = Val (rx_slot q c k, if k = 0 then l else rx_slot q c (k - 1), cnt + word_of_nat k) \<and>
       (k = n \<or> rx_stops E q (rx_slot q c k) stack) \<or>
     r = Panicked IncreaseBufferSize \<and> rx_splits E q (rx_slot q c k))"

lemma rx_result_bufs [simp]: "rx_result E (q\<lparr>rx_bufs_in_use := bufs\<rparr>) = rx_result E q"
  by (simp add: rx_result_def rx_slot_def rx_stops_def rx_splits_def rx_status_def fun_eq_iff)

lemma rx_result_step:
  assumes "rx_result E q n (rx_slot q c 1, c, cnt + 1) stack r"
  shows "rx_result E q (Suc n) (c, l, cnt) stack r"
proof -
  have at: "rx_slot q (rx_slot q c 1) k = rx_slot q c (Suc k)" for k
    by (simp add: rx_slot_def funpow_swap1)
  obtain k where k: "k \<le> n" and
    "r = Val (rx_slot q c (Suc k), if k = 0 then c else rx_slot q (rx_slot q c 1) (k - 1), cnt + 1 + word_of_nat k) \<and>
       (k = n \<or> rx_stops E q (rx_slot q c (Suc k)) stack) \<or>
     r = Panicked IncreaseBufferSize \<and> rx_splits E q (rx_slot q c (Suc k))"
    using assms unfolding rx_result_def at prod.case by blast
  moreover have "(if k = 0 then c else rx_slot q (rx_slot q c 1) (k - 1)) = rx_slot q c k"
    unfolding at by (cases k) (simp_all add: rx_slot_def)
  ultimately show ?thesis
    unfolding rx_result_def prod.case by (intro exI [of _ "Suc k"]) (auto simp: add.assoc)
qed

lemma receive_loop_spec:
  fixes s :: "('w, IgbNetBuf list, 'x) drv_scheme"
  assumes f: "closure_ok f" and inv: "drv_inv s" and i: "unat i < length (rx_queues (dev s))"
    and q: "q = rx_queues (dev s) ! unat i" and c: "unat c < unat (rx_num_descriptors q)"
    and cnt: "unat cnt + n < 2 ^ 64"
  shows "wp (receive_loop E i f n (c, l, cnt)) (\<lambda>r s'. drv_inv s' \<and> rx_frame i s s' \<and>
     rx_result E q n (c, l, cnt) (free_stack (pools s' ! rx_pool q)) r) s"
  using inv i q c cnt
proof (induction n arbitrary: c l cnt s q)
  case 0
  then show ?case by (simp add: receive_loop.simps wp_simps rx_result_def rx_slot_def)
next
  case (Suc n)
  let ?n = "rx_num_descriptors q"
  have n: "ring_size_ok ?n" using drv_inv_rx(1) [OF Suc.prems(1,2)] Suc.prems(3) by (simp add: rxq_wf_def)
  have c1: "unat cnt + 1 < 2 ^ 64" using Suc.prems(5) by simp
  show ?case
  proof (rule wp_rx_pass [OF f Suc.prems(1,2,3,4) c1 _ _ _ _ refl])
    fix s' :: "('w, IgbNetBuf list, 'x) drv_scheme"
    assume s': "drv_inv s'" "rx_frame i s s'"
    obtain bufs where i': "unat i < length (rx_queues (dev s'))"
      and q': "rx_queues (dev s') ! unat i = q\<lparr>rx_bufs_in_use := bufs\<rparr>"
      using rx_frame_queue [OF Suc.prems(2) s'(2)] Suc.prems(3) by metis
    have nx: "unat (ring_next ?n c) < unat ?n" using rg.next_bound [OF n Suc.prems(4)] .
    have cnt: "unat (cnt + 1) + n < 2 ^ 64"
      using Suc.prems(5) c1 by (subst unat_add_no_wrap) simp_all
    have nx': "unat (ring_next ?n c) < unat (rx_num_descriptors (rx_queues (dev s') ! unat i))"
      using nx by (simp add: q')
    show "wp (receive_loop E i f n (ring_next ?n c, c, cnt + 1)) (\<lambda>r s''. drv_inv s'' \<and> rx_frame i s s'' \<and>
       rx_result E q (Suc n) (c, l, cnt) (free_stack (pools s'' ! rx_pool q)) r) s'"
    proof (rule wp_mono [OF Suc.IH [OF s'(1) i' refl nx' cnt, of c]])
      fix r and s'' :: "('w, IgbNetBuf list, 'x) drv_scheme"
      assume "drv_inv s'' \<and> rx_frame i s' s'' \<and>
        rx_result E (rx_queues (dev s') ! unat i) n (ring_next ?n c, c, cnt + 1)
          (free_stack (pools s'' ! rx_pool (rx_queues (dev s') ! unat i))) r"
      then show "drv_inv s'' \<and> rx_frame i s s'' \<and>
        rx_result E q (Suc n) (c, l, cnt) (free_stack (pools s'' ! rx_pool q)) r"
        using rx_frame_trans [OF Suc.prems(2) s'(2)]
          rx_result_step [of E q n c cnt "free_stack (pools s'' ! rx_pool q)" r l]
        by (simp add: q' rx_slot_def)
    qed
  qed (use Suc.prems in \<open>auto simp: rx_result_def rx_slot_def rx_stops_def rx_splits_def intro!: exI [of _ 0]\<close>)
qed

lemma rx_index_inv:
  fixes s :: "('w, IgbNetBuf list, 'x) drv_scheme"
  assumes inv: "drv_inv s" and i: "unat i < length (rx_queues (dev s))"
    and c: "unat c < unat (rx_num_descriptors (rx_queues (dev s) ! unat i))"
  shows "drv_inv (s\<lparr>dev := (dev s)\<lparr>rx_queues := (rx_queues (dev s))[unat i :=
           (rx_queues (dev s) ! unat i)\<lparr>rx_index := c\<rparr>]\<rparr>\<rparr>)"
proof -
  let ?q = "(rx_queues (dev s) ! unat i)\<lparr>rx_index := c\<rparr>"
  have "queues_wf (length (pools s)) ((dev s)\<lparr>rx_queues := (rx_queues (dev s))[unat i := ?q]\<rparr>)"
    using inv drv_inv_rx [OF inv i] c
    by (intro queues_wf_rx_update) (simp_all add: drv_inv_def rxq_wf_def)
  moreover have "dev_share r ((dev s)\<lparr>rx_queues := (rx_queues (dev s))[unat i := ?q]\<rparr>) = dev_share r (dev s)" for r
    using dev_share_rx_update [OF i, of r ?q "{#}" "{#}"] by (simp add: rx_share_def)
  ultimately show ?thesis using inv by (simp add: drv_inv_def heap_wf_def heap_share_def)
qed

section \<open>receive_packets\<close>

text \<open>
  A receive on a queue whose next descriptor is done returns the number \<open>k\<close> of packets the
  closure was given, moves \<open>rx_index\<close> past their descriptors and gives the device the last of
  them through the tail register.
\<close>

lemma receive_packets_spec:
  fixes s :: "('w, IgbNetBuf list, 'x) drv_scheme"
  assumes f: "closure_ok f" and inv: "drv_inv s" and i: "unat i < length (rx_queues (dev s))"
    and q: "q = rx_queues (dev s) ! unat i" and big: "1 < unat (rx_num_descriptors q)"
    and reg: "reg_ok (dev s) (IGB_RDT (ucast i))"
  shows "wp (receive_packets E i m f) (\<lambda>r s'. drv_inv s' \<and> same_config (dev s) (dev s') \<and>
     (if rx_status E q (rx_index q) (world s) AND RX_STATUS_DD = 0
      then r = Err NotReady \<and> s' = s\<lparr>world := world s'\<rparr>
      else r = Panicked IncreaseBufferSize \<and> (\<exists>k \<le> unat m. rx_splits E q (rx_slot q (rx_index q) k)) \<or>
       (\<exists>k \<le> unat m. \<exists>w bufs. r = Val (word_of_nat k) \<and>
         (k = unat m \<or> rx_stops E q (rx_slot q (rx_index q) k) (free_stack (pools s' ! rx_pool q))) \<and>
         rx_queues (dev s') = (rx_queues (dev s))[unat i :=
           q\<lparr>rx_bufs_in_use := bufs, rx_index := rx_slot q (rx_index q) k\<rparr>] \<and>
         (0 < k \<longrightarrow> world s' = mmio_write E (dev_addr (dev s) + ucast (IGB_RDT (ucast i)))
                        (ucast (rx_slot q (rx_index q) (k - 1))) w)))) s"
proof -
  let ?n = "rx_num_descriptors q" and ?c = "rx_index q"
  have wfq: "rxq_wf q" using drv_inv_rx(1) [OF inv i] by (simp add: q)
  then have n: "ring_size_ok ?n" and c: "unat ?c < unat ?n" and len: "unat ?c < length (rx_descriptors q)"
    by (simp_all add: rxq_wf_def)
  let ?w = "snd (volatile_read64 E (rx_descriptors q ! unat ?c + 8) (world s))"
  let ?Q = "\<lambda>r s'. drv_inv s' \<and> same_config (dev s) (dev s') \<and>
     (if rx_status E q ?c (world s) AND RX_STATUS_DD = 0
      then r = Err NotReady \<and> s' = s\<lparr>world := world s'\<rparr>
      else r = Panicked IncreaseBufferSize \<and> (\<exists>k \<le> unat m. rx_splits E q (rx_slot q ?c k)) \<or>
       (\<exists>k \<le> unat m. \<exists>w bufs. r = Val (word_of_nat k) \<and>
         (k = unat m \<or> rx_stops E q (rx_slot q ?c k) (free_stack (pools s' ! rx_pool q))) \<and>
         rx_queues (dev s') = (rx_queues (dev s))[unat i :=
           q\<lparr>rx_bufs_in_use := bufs, rx_index := rx_slot q ?c k\<rparr>] \<and>
         (0 < k \<longrightarrow> world s' = mmio_write E (dev_addr (dev s) + ucast (IGB_RDT (ucast i)))
                        (ucast (rx_slot q ?c (k - 1))) w)))"
  show ?thesis
  proof (cases "rx_status E q ?c (world s) AND RX_STATUS_DD = 0")
    case True
    then show ?thesis using i len inv
      by (simp add: receive_packets_def can_recv_def wp_simps q [symmetric] rx_status_def)
  next
    case False
    let ?s = "s\<lparr>world := ?w\<rparr>"
    have inv': "drv_inv ?s" and i': "unat i < length (rx_queues (dev ?s))" and q': "q = rx_queues (dev ?s) ! unat i"
      using inv i q by simp_all
    have run: "wp (receive_packets E i m f) R s = wp (receive_loop E i f (unat m) (?c, ?c, 0))
       (after (\<lambda>x. wp (case x of (c', l', cnt) \<Rightarrow> seqM (if c' \<noteq> l' then seqM (set_reg32 E (IGB_RDT (ucast i)) (ucast l'))
             (bindM (rx_queue_at i) (\<lambda>queue. set_rx_queue i (queue\<lparr>rx_index := c'\<rparr>))) else ret ()) (ret cnt)) R) R) ?s" for R
      using i len False
      by (simp add: receive_packets_def can_recv_def wp_simps q [symmetric] rx_status_def Let_def)
    show ?thesis unfolding run
    proof (rule wp_mono [OF receive_loop_spec [OF f inv' i' q' c, of 0 "unat m" E ?c]])
      fix r and s' :: "('w, IgbNetBuf list, 'x) drv_scheme"
      assume a: "drv_inv s' \<and> rx_frame i ?s s' \<and> rx_result E q (unat m) (?c, ?c, 0) (free_stack (pools s' ! rx_pool q)) r"
      show "after (\<lambda>x. wp (case x of (c', l', cnt) \<Rightarrow> seqM (if c' \<noteq> l' then seqM (set_reg32 E (IGB_RDT (ucast i)) (ucast l'))
             (bindM (rx_queue_at i) (\<lambda>queue. set_rx_queue i (queue\<lparr>rx_index := c'\<rparr>))) else ret ()) (ret cnt)) ?Q) ?Q r s'"
      proof (cases "r = Panicked IncreaseBufferSize \<and> (\<exists>k \<le> unat m. rx_splits E q (rx_slot q ?c k))")
        case True
        then show ?thesis using a False rx_frame_config [of i ?s s'] by simp
      next
        case no_panic: False
        then obtain k where k: "k \<le> unat m"
          and r: "r = Val (rx_slot q ?c k, if k = 0 then ?c else rx_slot q ?c (k - 1), word_of_nat k)"
          and stop: "k = unat m \<or> rx_stops E q (rx_slot q ?c k) (free_stack (pools s' ! rx_pool q))"
          using a by (auto simp: rx_result_def)
        have fr: "rx_frame i s s'" using a by (simp add: rx_frame_def)
        obtain bufs where i'': "unat i < length (rx_queues (dev s'))"
          and d: "dev s' = (dev s)\<lparr>rx_queues := (rx_queues (dev s))[unat i := q\<lparr>rx_bufs_in_use := bufs\<rparr>]\<rparr>"
          using fr i by (auto simp: rx_frame_def q)
        have reg': "reg_ok (dev s') (IGB_RDT (ucast i))" using reg by (simp add: d reg_ok_def)
        have slot: "unat (rx_slot q ?c j) < unat ?n" for j
          using rg.iterate [OF n c] c by (simp add: rx_slot_def)
        have inv'': "drv_inv (s'\<lparr>world := w, dev := (dev s')\<lparr>rx_queues := (rx_queues (dev s'))[unat i :=
            q\<lparr>rx_bufs_in_use := bufs, rx_index := rx_slot q ?c k\<rparr>]\<rparr>\<rparr>)" for w
          using rx_index_inv [of "s'\<lparr>world := w\<rparr>" i "rx_slot q ?c k"] a i'' slot [of k] i by (simp add: d)
        show ?thesis
        proof (cases "k = 0")
          case True
          have "q\<lparr>rx_bufs_in_use := bufs, rx_index := ?c\<rparr> = q\<lparr>rx_bufs_in_use := bufs\<rparr>" by simp
          then show ?thesis using True a k r stop False d rx_frame_config [OF fr]
            by (auto simp: wp_simps rx_slot_def; intro exI [of _ 0] conjI exI [of _ bufs]; simp)
        next
          case pos: False
          have "rx_slot q ?c k = ring_next ?n (rx_slot q ?c (k - 1))"
            using pos by (cases k) (simp_all add: rx_slot_def)
          then have "rx_slot q ?c k \<noteq> rx_slot q ?c (k - 1)"
            using rg.next_neq [OF n big slot] by simp
          moreover have "same_config (dev s) ((dev s)\<lparr>rx_queues := (rx_queues (dev s))[unat i :=
              q\<lparr>rx_bufs_in_use := bufs, rx_index := rx_slot q ?c k\<rparr>]\<rparr>)"
            by (rule same_config_rx) (simp add: q)
          ultimately show ?thesis using pos k r stop False d reg' i'' inv'' i
            by (simp add: wp_simps) (intro conjI exI [of _ k] exI [of _ bufs]; auto)
        qed
      qed
    qed (use unsigned_less [of m] in simp)
  qed
qed

section \<open>One packet\<close>

lemma status_bit:
  assumes "bit_field_crate E" and "n < 8"
  shows "(ucast (get_bits E v 0 19) :: u8) AND push_bit n 1 = 0 \<longleftrightarrow> \<not> bit v n"
proof -
  have g: "get_bits E v 0 19 = take_bit 19 v" using assms(1) by (simp add: bit_field_crate_def)
  have b: "bit ((ucast (take_bit 19 v) :: u8) AND push_bit n 1) k \<longleftrightarrow> k = n \<and> bit v n" for k
    using assms(2) by (auto simp: bit_simps bit_1_iff)
  show ?thesis
  proof (cases "bit v n")
    case True
    then show ?thesis using b [of n] unfolding g by (metis bit_0_eq bot_apply bot_bool_def)
  next
    case False
    then show ?thesis unfolding g by (auto intro!: bit_word_eqI simp: b simp del: push_bit_of_1 bit_and_iff)
  qed
qed

lemma wp_call_keep [wp_simps]:
  "wp (call_closure keep_packet b) Q s = Q (Val ()) (s\<lparr>client := client s @ [b]\<rparr>)"
  by (simp add: call_closure_def keep_packet_def modifyM_def wp_def)

end
