(* ===== verification/System.thy ===== *)
theory System
  imports Rx_Spec
begin

text \<open>
  The driver as a transition system: whatever sequence of calls a client makes, with the device
  acting in between, every buffer keeps exactly one owner and no call panics by a double free.
\<close>

type_synonym 'w nic = "('w, IgbNetBuf list) drv"

section \<open>Steps\<close>

text \<open>
  A packet of the client's list is moved into the call that consumes it. A client sends packets
  of one pool per queue as long as the queue is busy, and gives \<open>receive_packets\<close> a closure that
  meets the contract of theory Rx\_Spec. After a panic there is no further step.
\<close>

inductive nic_step :: "'w platform \<Rightarrow> 'w nic \<Rightarrow> 'w nic \<Rightarrow> bool" for E where
  step_alloc: "h < length (pools s) \<Longrightarrow> packet_pool_ok (pools s ! h) \<Longrightarrow>
    IgbNetBuf_alloc E h sz s = Some (Val b, s') \<Longrightarrow> nic_step E s (s'\<lparr>client := b # client s'\<rparr>)"
| step_no_memory: "h < length (pools s) \<Longrightarrow> packet_pool_ok (pools s ! h) \<Longrightarrow>
    IgbNetBuf_alloc E h sz s = Some (Err e, s') \<Longrightarrow> nic_step E s s'"
| step_drop: "client s = xs @ b # ys \<Longrightarrow>
    Packet_drop b (s\<lparr>client := xs @ ys\<rparr>) = Some (Val (), s') \<Longrightarrow> nic_step E s s'"
| step_send: "client s = xs @ b # ys \<Longrightarrow>
    (unat i < length (tx_queues (dev s)) \<Longrightarrow> one_pool (tx_queues (dev s) ! unat i) b) \<Longrightarrow>
    send E i b (s\<lparr>client := xs @ ys\<rparr>) = Some (r, s') \<Longrightarrow> nic_step E s s'"
| step_recycle: "recycle_tx_buffers E i s = Some (r, s') \<Longrightarrow> nic_step E s s'"
| step_receive: "closure_ok f \<Longrightarrow> receive_packets E i m f s = Some (r, s') \<Longrightarrow>
    r \<noteq> Panicked IncreaseBufferSize \<Longrightarrow> nic_step E s s'"
| step_can_send: "can_send E i s = Some (r, s') \<Longrightarrow> nic_step E s s'"
| step_can_receive: "can_receive E i s = Some (r, s') \<Longrightarrow> nic_step E s s'"
| step_device: "nic_step E s (s\<lparr>world := w\<rparr>)"

inductive_cases nic_stepE: "nic_step E s s'"

text \<open>The registers the running driver writes are mapped, and a receive ring has two slots or more.\<close>

definition config_ok :: "IgbDevice \<Rightarrow> bool" where
  "config_ok d \<longleftrightarrow>
     (\<forall>i :: u16. unat i < length (rx_queues d) \<longrightarrow> reg_ok d (IGB_RDT (ucast i))) \<and>
     (\<forall>i :: u16. unat i < length (tx_queues d) \<longrightarrow> reg_ok d (IGB_TDT (ucast i))) \<and>
     (\<forall>n \<in> set (map rx_num_descriptors (rx_queues d)). 1 < unat n)"

lemma same_config_ok: "same_config d d' \<Longrightarrow> config_ok d \<Longrightarrow> config_ok d'"
  unfolding config_ok_def same_config_def reg_ok_def by (metis length_map)

lemma client_perm:
  assumes "mset cl = mset (client s)"
  shows "drv_inv (s\<lparr>client := cl\<rparr>) = drv_inv s"
proof -
  have "sum_list (map (pkt_share p) cl) = sum_list (map (pkt_share p) (client s))" for p
    using assms by (metis mset_map sum_mset_sum_list)
  moreover have "set cl = set (client s)" using assms by (rule mset_eq_setD)
  ultimately show ?thesis by (simp add: drv_inv_def heap_wf_def heap_share_def)
qed

lemma take_out:
  assumes "drv_inv s" "client s = xs @ b # ys"
  shows "drv_inv ((s\<lparr>client := xs @ ys\<rparr>)\<lparr>client := b # client (s\<lparr>client := xs @ ys\<rparr>)\<rparr>)"
  using client_perm [of "b # xs @ ys" s] assms by simp

lemma wp_IgbNetBuf_alloc [wp_simps]:
  assumes "packet_pool_ok (pools s ! h)" and "h < length (pools s)"
  shows "wp (IgbNetBuf_alloc E h sz) Q s =
    (let p = pools s ! h; b = last (free_stack p) in
     if entry_size p - PACKET_HEADROOM < sz \<or> free_stack p = [] then Q (Err NoMemory) s
     else Q (Val (new_packet p h sz b))
       (s\<lparr>pools := (pools s)[h := p\<lparr>free_stack := butlast (free_stack p)\<rparr>]\<rparr>))"
  using assms by (simp add: IgbNetBuf_alloc_def wp_simps Let_def)

lemma alloc_total:
  assumes inv: "drv_inv s" and h: "h < length (pools s)" and ok: "packet_pool_ok (pools s ! h)"
  shows "wp (IgbNetBuf_alloc E h sz) (\<lambda>r s'. dev s' = dev s \<and>
     (r = Err NoMemory \<and> s' = s \<or> (\<exists>b. r = Val b \<and> drv_inv (s'\<lparr>client := b # client s'\<rparr>)))) s"
  using ok h alloc_inv [OF inv h, of "new_packet (pools s ! h) h sz (last (free_stack (pools s ! h)))"]
  by (auto simp: wp_simps Let_def new_packet_def Packet_new_def)

lemma drop_total:
  assumes inv: "drv_inv (s\<lparr>client := b # client s\<rparr>)"
  shows "\<exists>s'. Packet_drop b s = Some (Val (), s') \<and> drv_inv s' \<and> dev s' = dev s"
proof -
  have "wp (Packet_drop b) (\<lambda>r s'. r = Val () \<and> drv_inv s' \<and> dev s' = dev s) s"
    using drop_inv [OF inv] by (simp add: Packet_drop_def wp_simps)
  then show ?thesis by (auto elim: wpE)
qed

lemma receive_total:
  fixes s :: "'w nic"
  assumes f: "closure_ok f" and inv: "drv_inv s" and cfg: "config_ok (dev s)"
  shows "wp (receive_packets E i m f) (\<lambda>r s'. drv_inv s' \<and> same_config (dev s) (dev s') \<and>
     ((\<exists>n. r = Val n) \<or> r \<in> {Err NotReady, Err InvalidQueue, Panicked IncreaseBufferSize})) s"
proof (cases "unat i < length (rx_queues (dev s))")
  case True
  let ?q = "rx_queues (dev s) ! unat i"
  have "1 < unat (rx_num_descriptors ?q)" "reg_ok (dev s) (IGB_RDT (ucast i))"
    using cfg True by (simp_all add: config_ok_def)
  from receive_packets_spec [OF f inv True refl this] show ?thesis
    by (rule wp_mono) (auto split: if_splits)
next
  case False
  then show ?thesis using inv by (simp add: receive_packets_def wp_simps)
qed

lemma query_total:
  assumes inv: "drv_inv s"
  shows "wp (can_send E i) (\<lambda>r s'. drv_inv s' \<and> dev s' = dev s) s"
    and "wp (can_receive E i) (\<lambda>r s'. drv_inv s' \<and> dev s' = dev s) s"
proof -
  show "wp (can_send E i) (\<lambda>r s'. drv_inv s' \<and> dev s' = dev s) s"
    using inv drv_inv_tx(1) [OF inv, of "unat i"]
    by (cases "unat i < length (tx_queues (dev s))") (simp_all add: can_send_def wp_simps)
  have "unat (rx_index (rx_queues (dev s) ! unat i)) < length (rx_descriptors (rx_queues (dev s) ! unat i))"
    if "unat i < length (rx_queues (dev s))"
    using drv_inv_rx(1) [OF inv that] by (simp add: rxq_wf_def)
  then show "wp (can_receive E i) (\<lambda>r s'. drv_inv s' \<and> dev s' = dev s) s"
    using inv by (cases "unat i < length (rx_queues (dev s))")
      (simp_all add: can_receive_def can_recv_def wp_simps)
qed

section \<open>The invariant of every reachable state\<close>

definition nic_inv :: "'w nic \<Rightarrow> bool" where
  "nic_inv s \<longleftrightarrow> drv_inv s \<and> config_ok (dev s)"

lemma nic_step_keeps:
  assumes "nic_step E s s'" and "nic_inv s"
  shows "nic_inv s' \<and> same_config (dev s) (dev s')"
  using assms
proof (induction rule: nic_step.induct)
  case (step_alloc h s sz b s')
  then show ?case using alloc_total [of s h E sz] by (auto simp: nic_inv_def elim!: wpE)
next
  case (step_no_memory h s sz e s')
  then show ?case using alloc_total [of s h E sz] by (auto simp: nic_inv_def elim!: wpE)
next
  case (step_drop s xs b ys s')
  then show ?case using drop_total [OF take_out] by (fastforce simp: nic_inv_def)
next
  case (step_send s xs b ys i r s')
  have inv: "drv_inv s" and cfg: "config_ok (dev s)" using step_send.prems by (simp_all add: nic_inv_def)
  have "drv_inv s' \<and> same_config (dev s) (dev s')"
    using send_total [OF take_out [OF inv step_send.hyps(1)], of i E] step_send.hyps(2,3) cfg
    by (simp add: config_ok_def)
  then show ?case using cfg by (auto simp: nic_inv_def intro: same_config_ok)
next
  case (step_recycle i s r s')
  then show ?case using recycle_total [of s E i] by (auto simp: nic_inv_def intro: same_config_ok)
next
  case (step_receive f i m s r s')
  then show ?case using receive_total [of f s E i m]
    by (auto simp: nic_inv_def intro: same_config_ok elim!: wpE)
next
  case (step_can_send i s r s')
  then show ?case using query_total(1) [of s E i] by (auto simp: nic_inv_def elim!: wpE)
next
  case (step_can_receive i s r s')
  then show ?case using query_total(2) [of s E i] by (auto simp: nic_inv_def elim!: wpE)
next
  case (step_device s w)
  then show ?case by (simp add: nic_inv_def)
qed

lemma nic_step_inv: "nic_step E s s' \<Longrightarrow> nic_inv s \<Longrightarrow> nic_inv s'"
  using nic_step_keeps by blast

lemma nic_reach_inv: "(nic_step E)\<^sup>*\<^sup>* s s' \<Longrightarrow> nic_inv s \<Longrightarrow> nic_inv s'"
  by (induction rule: rtranclp_induct) (auto intro: nic_step_inv)


section \<open>What follows for a client\<close>

text \<open>Every buffer is somewhere, and in one place only.\<close>

lemma nic_inv_count:
  assumes "nic_inv s" "p < length (pools s)" "b < num_entries (pools s ! p)"
  shows "count (heap_share p s + dev_share p (dev s)) b = 1"
proof -
  have "b \<in># all_bufs (pools s ! p)" using assms(3) by (simp add: all_bufs_member)
  then have "0 < count (all_bufs (pools s ! p)) b" by simp
  then have "count (all_bufs (pools s ! p)) b = 1"
    using all_bufs_count [of "pools s ! p" b] by linarith
  then show ?thesis using drv_inv_own [of s p] assms(1,2) by (simp add: nic_inv_def)
qed

lemma nic_inv_size:
  assumes "nic_inv s" "p < length (pools s)"
  shows "length (free_stack (pools s ! p)) + size (sum_list (map (pkt_share p) (client s))) +
    size (dev_share p (dev s)) = unat (num_entries (pools s ! p))"
proof -
  have "size (heap_share p s + dev_share p (dev s)) = size (all_bufs (pools s ! p))"
    using drv_inv_own [of s p] assms by (simp add: nic_inv_def)
  then show ?thesis by (simp add: heap_share_def all_bufs_def)
qed

text \<open>Two packets of the client never share a buffer.\<close>

lemma sum_list_two:
  assumes "i < length xs" "j < length xs" "i \<noteq> j"
  shows "f (xs ! i) + f (xs ! j) \<subseteq># sum_list (map f xs)"
  using assms
proof (induction xs arbitrary: i j)
  case (Cons x xs)
  have one: "f (xs ! k) \<subseteq># sum_list (map f xs)" if "k < length xs" for k
    using that by (intro member_sum_list_map) simp
  show ?case
  proof (cases i)
    case 0
    then obtain k where "j = Suc k" using Cons.prems by (cases j) auto
    then show ?thesis using 0 one [of k] Cons.prems by simp
  next
    case (Suc k)
    show ?thesis
    proof (cases j)
      case 0
      then show ?thesis using Suc one [of k] Cons.prems by (simp add: add.commute)
    next
      case (Suc l)
      then show ?thesis using \<open>i = Suc k\<close> Cons.IH [of k l] Cons.prems
        by (auto intro: subset_mset.order_trans)
    qed
  qed
qed simp

lemma nic_inv_exclusive:
  assumes "nic_inv s" "i < length (client s)" "j < length (client s)" "i \<noteq> j"
    and "packet_pool (client s ! i) = packet_pool (client s ! j)"
  shows "pool_entry (client s ! i) \<noteq> pool_entry (client s ! j)"
proof
  let ?p = "packet_pool (client s ! i)"
  assume e: "pool_entry (client s ! i) = pool_entry (client s ! j)"
  have p: "?p < length (pools s)" using assms(1,2) by (simp add: nic_inv_def drv_inv_def heap_wf_def)
  have "pkt_share ?p (client s ! i) + pkt_share ?p (client s ! j) \<subseteq># sum_list (map (pkt_share ?p) (client s))"
    using assms(2,3,4) by (rule sum_list_two)
  also have "\<dots> \<subseteq># heap_share ?p s + dev_share ?p (dev s)"
    by (simp add: heap_share_def add_ac)
  also have "\<dots> = all_bufs (pools s ! ?p)" using drv_inv_own [of s ?p] assms(1) p by (simp add: nic_inv_def)
  finally have "2 \<le> count (all_bufs (pools s ! ?p)) (pool_entry (client s ! i))"
    using e assms(5) by (auto simp: pkt_share_def dest!: mset_subset_eq_count [of _ _ "pool_entry (client s ! j)"])
  then show False using all_bufs_count [of "pools s ! ?p" "pool_entry (client s ! i)"] by simp
qed

end
