(* ===== verification/Layout.thy ===== *)
theory Layout
  imports Platform
begin

text \<open>
  The layout that Rust gives a type marked \<open>repr(C)\<close>: each field at the next multiple of its
  alignment, in the order of declaration, the size rounded up to the alignment; a union has all
  its fields at the start; \<open>packed\<close> leaves no gaps. A type is described by a value of type \<open>ctype\<close>,
  so sizes and offsets are computed. \<open>usize\<close> is 64 bits wide, an enumeration is a C \<open>int\<close>, and
  \<open>char\<close> is Rust's, a Unicode scalar value of four bytes.
\<close>

datatype ctype =
    TU8 | TU16 | TU32 | TU64 | TBool | TChar | TEnum
  | TArray ctype nat
  | TStruct bool "(string \<times> ctype) list"
  | TUnion "(string \<times> ctype) list"

definition round_up :: "nat \<Rightarrow> nat \<Rightarrow> nat" where
  "round_up n a = (n + a - 1) div a * a"

fun align_of :: "ctype \<Rightarrow> nat" and align_fields :: "(string \<times> ctype) list \<Rightarrow> nat" where
  "align_of TU8 = 1"
| "align_of TU16 = 2"
| "align_of TU32 = 4"
| "align_of TU64 = 8"
| "align_of TBool = 1"
| "align_of TChar = 4"
| "align_of TEnum = 4"
| "align_of (TArray t n) = align_of t"
| "align_of (TStruct packed fs) = (if packed then 1 else align_fields fs)"
| "align_of (TUnion fs) = align_fields fs"
| "align_fields [] = 1"
| "align_fields ((name, t) # fs) = max (align_of t) (align_fields fs)"

definition place :: "bool \<Rightarrow> nat \<Rightarrow> ctype \<Rightarrow> nat" where
  "place packed off t = (if packed then off else round_up off (align_of t))"

fun size_of :: "ctype \<Rightarrow> nat"
  and struct_end :: "bool \<Rightarrow> nat \<Rightarrow> (string \<times> ctype) list \<Rightarrow> nat"
  and union_end :: "(string \<times> ctype) list \<Rightarrow> nat" where
  "size_of TU8 = 1"
| "size_of TU16 = 2"
| "size_of TU32 = 4"
| "size_of TU64 = 8"
| "size_of TBool = 1"
| "size_of TChar = 4"
| "size_of TEnum = 4"
| "size_of (TArray t n) = n * size_of t"
| "size_of (TStruct packed fs) =
     (if packed then struct_end True 0 fs else round_up (struct_end False 0 fs) (align_fields fs))"
| "size_of (TUnion fs) = round_up (union_end fs) (align_fields fs)"
| "struct_end packed off [] = off"
| "struct_end packed off ((name, t) # fs) = struct_end packed (place packed off t + size_of t) fs"
| "union_end [] = 0"
| "union_end ((name, t) # fs) = max (size_of t) (union_end fs)"

text \<open>The fields of a structure with their offsets.\<close>

fun placed :: "bool \<Rightarrow> nat \<Rightarrow> (string \<times> ctype) list \<Rightarrow> (string \<times> nat \<times> ctype) list" where
  "placed packed off [] = []"
| "placed packed off ((name, t) # fs) =
     (name, place packed off t, t) # placed packed (place packed off t + size_of t) fs"

fun fields_of :: "ctype \<Rightarrow> (string \<times> nat \<times> ctype) list" where
  "fields_of (TStruct packed fs) = placed packed 0 fs"
| "fields_of (TUnion fs) = map (\<lambda>(name, t). (name, 0, t)) fs"
| "fields_of _ = []"

text \<open>A place expression \<open>x.f.g\<close>: its offset in \<open>x\<close>, and its type.\<close>

fun locate :: "ctype \<Rightarrow> string list \<Rightarrow> (nat \<times> ctype) option" where
  "locate t [] = Some (0, t)"
| "locate t (f # path) = (case map_of (fields_of t) f of
     None \<Rightarrow> None
   | Some (off, ft) \<Rightarrow> map_option (\<lambda>(o2, lt). (off + o2, lt)) (locate ft path))"

definition offset_of :: "ctype \<Rightarrow> string list \<Rightarrow> nat option" where
  "offset_of t path = map_option fst (locate t path)"

text \<open>What a field of a value at an address holds, in memory that no device writes meanwhile.\<close>

definition read_field :: "'w platform \<Rightarrow> usize \<Rightarrow> ctype \<Rightarrow> string list \<Rightarrow> 'w \<Rightarrow> 'n::len word option" where
  "read_field E base t path w =
     map_option (\<lambda>(off, ft). load_le E (size_of ft) (base + word_of_nat off) w) (locate t path)"

section \<open>The layout is sound\<close>

lemma round_up_ge: "0 < a \<Longrightarrow> n \<le> round_up n a"
proof -
  assume "0 < a"
  then have "n + a - 1 < (n + a - 1) div a * a + a" using div_mult_mod_eq [of "n + a - 1" a] mod_less_divisor [of a "n + a - 1"] by linarith
  then show ?thesis using \<open>0 < a\<close> by (simp add: round_up_def)
qed

lemma round_up_dvd [simp]: "a dvd round_up n a"
  by (simp add: round_up_def)

lemma round_up_least: "a dvd m \<Longrightarrow> n \<le> m \<Longrightarrow> round_up n a \<le> m"
proof -
  assume "a dvd m" "n \<le> m"
  then obtain k where k: "m = k * a" by (metis dvd_def mult.commute)
  show ?thesis
  proof (cases "a = 0")
    case False
    then have "(n + a - 1) div a < Suc k" using \<open>n \<le> m\<close> k by (simp add: div_less_iff_less_mult)
    then show ?thesis by (simp add: round_up_def k)
  qed (simp add: round_up_def)
qed

lemma align_fields_ge: "f \<in> set fs \<Longrightarrow> align_of (snd f) \<le> align_fields fs"
  by (induction fs) (auto simp: le_max_iff_disj)

text \<open>Alignments are powers of two, so the larger of two is a multiple of the other.\<close>

lemma align_power:
  "\<exists>k. align_of t = 2 ^ k" "\<exists>k. align_fields fs = 2 ^ k"
proof (induction t and fs rule: align_of_align_fields.induct)
  case (9 packed fs)
  then show ?case by (auto intro: exI [of _ 0])
next
  case 2 show ?case by (rule exI [of _ 1]) simp
next
  case 3 show ?case by (rule exI [of _ 2]) simp
next
  case 4 show ?case by (rule exI [of _ 3]) simp
next
  case 6 show ?case by (rule exI [of _ 2]) simp
next
  case 7 show ?case by (rule exI [of _ 2]) simp
next
  case (12 name t fs)
  then show ?case by (auto simp: max_def)
qed (auto intro: exI [of _ 0])

lemma align_pos [simp]: "0 < align_of t" "0 < align_fields fs"
  using align_power(1) [of t] align_power(2) [of fs] by auto

lemma align_dvd_fields: "f \<in> set fs \<Longrightarrow> align_of (snd f) dvd align_fields fs"
proof -
  assume "f \<in> set fs"
  then have "align_of (snd f) \<le> align_fields fs" by (rule align_fields_ge)
  then show ?thesis using align_power(1) [of "snd f"] align_power(2) [of fs] by (auto simp: le_imp_power_dvd)
qed

text \<open>A size is a multiple of the alignment: the elements of an array are aligned too.\<close>

lemma align_dvd_size: "align_of t dvd size_of t"
  by (induction t) (auto simp: dvd_mult)

lemma place_ge [simp]: "off \<le> place packed off t"
  by (simp add: place_def round_up_ge)

lemma struct_end_ge: "off \<le> struct_end packed off fs"
proof (induction fs arbitrary: off)
  case (Cons f fs)
  show ?case
  proof (cases f)
    case (Pair n t)
    have "off \<le> place packed off t + size_of t" using place_ge [of off packed t] by linarith
    then show ?thesis using Cons [of "place packed off t + size_of t"] Pair by simp
  qed
qed simp

lemma placed_bounds:
  "(name, o1, t) \<in> set (placed packed off fs) \<Longrightarrow> off \<le> o1 \<and> o1 + size_of t \<le> struct_end packed off fs"
proof (induction packed off fs rule: placed.induct)
  case (2 packed off n u fs)
  let ?next = "place packed off u + size_of u"
  show ?case
  proof (cases "(name, o1, t) = (n, place packed off u, u)")
    case True
    then show ?thesis using struct_end_ge [of ?next packed fs] by simp
  next
    case False
    then have "(name, o1, t) \<in> set (placed packed ?next fs)" using 2(2) by auto
    from 2(1) [OF this] have "?next \<le> o1 \<and> o1 + size_of t \<le> struct_end packed ?next fs" .
    moreover have "off \<le> ?next" using place_ge [of off packed u] by linarith
    ultimately show ?thesis by simp
  qed
qed simp

text \<open>The fields of a structure lie in it, one behind the other, each at a multiple of its alignment.\<close>

lemma placed_disjoint:
  "sorted_wrt (\<lambda>(_, o1, t1) (_, o2, _). o1 + size_of t1 \<le> o2) (placed packed off fs)"
proof (induction packed off fs rule: placed.induct)
  case (2 packed off n u fs)
  then show ?case by (auto dest: placed_bounds)
qed simp

lemma placed_aligned: "(name, o1, t) \<in> set (placed False off fs) \<Longrightarrow> align_of t dvd o1"
  by (induction False off fs rule: placed.induct) (auto simp: place_def)

lemma size_of_covers: "struct_end packed 0 fs \<le> size_of (TStruct packed fs)"
  by (simp add: round_up_ge)

lemma union_end_ge: "(name, t) \<in> set fs \<Longrightarrow> size_of t \<le> union_end fs"
  by (induction fs) (auto simp: le_max_iff_disj)

lemma field_inside: "(name, off, ft) \<in> set (fields_of t) \<Longrightarrow> off + size_of ft \<le> size_of t"
proof (cases t)
  case (TStruct packed fs)
  assume "(name, off, ft) \<in> set (fields_of t)"
  then have "off + size_of ft \<le> struct_end packed 0 fs" using TStruct placed_bounds [of name off ft packed 0 fs] by simp
  then have "off + size_of ft \<le> size_of (TStruct packed fs)" using size_of_covers [of packed fs] by (rule order_trans)
  then show ?thesis by (simp only: TStruct)
next
  case (TUnion fs)
  assume "(name, off, ft) \<in> set (fields_of t)"
  then have "off = 0" "size_of ft \<le> union_end fs" using TUnion union_end_ge [of name ft fs] by auto
  then show ?thesis using round_up_ge [of "align_fields fs" "union_end fs"] TUnion by simp
qed auto

lemma locate_inside: "locate t path = Some (off, ft) \<Longrightarrow> off + size_of ft \<le> size_of t"
proof (induction t path arbitrary: off rule: locate.induct)
  case (2 t f path)
  then obtain o1 t1 o2 where m: "map_of (fields_of t) f = Some (o1, t1)"
    and l: "locate t1 path = Some (o2, ft)" and o: "off = o1 + o2"
    by (auto split: option.splits)
  have "o2 + size_of ft \<le> size_of t1" using 2(1) [OF m refl l] .
  moreover have "o1 + size_of t1 \<le> size_of t" by (rule field_inside [OF map_of_SomeD [OF m]])
  ultimately show ?case using o by linarith
qed simp

text \<open>A place is computed by the lemmas on it, or by \<open>code_simp\<close>.\<close>

declare locate.simps(2) [simp del]

end
