(* ===== verification/Masks_Phy.thy ===== *)
theory Masks_Phy
  imports Regs_Virtual
begin

text \<open>
  The bit masks of the DMA control registers, of the MDIO interface and of the PHYs.
  From \<open>src/constants.rs\<close>, with the values of the source.
\<close>

definition IGB_INTEL_VENDOR_ID :: u32 where
  "IGB_INTEL_VENDOR_ID = 0x8086"

definition IGB_RXNFGPC :: u32 where
  "IGB_RXNFGPC = 0x041B0"

definition IGB_RXNFGBCL :: u32 where
  "IGB_RXNFGBCL = 0x041B4"

definition IGB_RXNFGBCH :: u32 where
  "IGB_RXNFGBCH = 0x041B8"

definition IGB_RXDGPC :: u32 where
  "IGB_RXDGPC = 0x02F50"

definition IGB_RXDGBCL :: u32 where
  "IGB_RXDGBCL = 0x02F54"

definition IGB_RXDGBCH :: u32 where
  "IGB_RXDGBCH = 0x02F58"

definition IGB_RXDDGPC :: u32 where
  "IGB_RXDDGPC = 0x02F5C"

definition IGB_RXDDGBCL :: u32 where
  "IGB_RXDDGBCL = 0x02F60"

definition IGB_RXDDGBCH :: u32 where
  "IGB_RXDDGBCH = 0x02F64"

definition IGB_RXLPBKGPC :: u32 where
  "IGB_RXLPBKGPC = 0x02F68"

definition IGB_RXLPBKGBCL :: u32 where
  "IGB_RXLPBKGBCL = 0x02F6C"

definition IGB_RXLPBKGBCH :: u32 where
  "IGB_RXLPBKGBCH = 0x02F70"

definition IGB_RXDLPBKGPC :: u32 where
  "IGB_RXDLPBKGPC = 0x02F74"

definition IGB_RXDLPBKGBCL :: u32 where
  "IGB_RXDLPBKGBCL = 0x02F78"

definition IGB_RXDLPBKGBCH :: u32 where
  "IGB_RXDLPBKGBCH = 0x02F7C"

definition IGB_TXDGPC :: u32 where
  "IGB_TXDGPC = 0x087A0"

definition IGB_TXDGBCL :: u32 where
  "IGB_TXDGBCL = 0x087A4"

definition IGB_TXDGBCH :: u32 where
  "IGB_TXDGBCH = 0x087A8"

definition IGB_RXDSTATCTRL :: u32 where
  "IGB_RXDSTATCTRL = 0x02F40"

definition IGB_VALIDATE_LINK_READY_TIMEOUT :: u32 where
  "IGB_VALIDATE_LINK_READY_TIMEOUT = 50"

definition IGB_CORECTL :: u32 where
  "IGB_CORECTL = 0x014F00"

definition IGB_BARCTRL :: u32 where
  "IGB_BARCTRL = 0x110F4"

definition IGB_BARCTRL_FLSIZE :: u32 where
  "IGB_BARCTRL_FLSIZE = 0x0700"

definition IGB_BARCTRL_FLSIZE_SHIFT :: u32 where
  "IGB_BARCTRL_FLSIZE_SHIFT = 8"

definition IGB_BARCTRL_CSRSIZE :: u32 where
  "IGB_BARCTRL_CSRSIZE = 0x2000"

definition IGB_RSCCTL_RSCEN :: u32 where
  "IGB_RSCCTL_RSCEN = 0x01"

definition IGB_RSCCTL_MAXDESC_1 :: u32 where
  "IGB_RSCCTL_MAXDESC_1 = 0x00"

definition IGB_RSCCTL_MAXDESC_4 :: u32 where
  "IGB_RSCCTL_MAXDESC_4 = 0x04"

definition IGB_RSCCTL_MAXDESC_8 :: u32 where
  "IGB_RSCCTL_MAXDESC_8 = 0x08"

definition IGB_RSCCTL_MAXDESC_16 :: u32 where
  "IGB_RSCCTL_MAXDESC_16 = 0x0C"

definition IGB_RSCCTL_TS_DIS :: u32 where
  "IGB_RSCCTL_TS_DIS = 0x02"

definition IGB_RSCDBU_RSCSMALDIS_MASK :: u32 where
  "IGB_RSCDBU_RSCSMALDIS_MASK = 0x0000007F"

definition IGB_RSCDBU_RSCACKDIS :: u32 where
  "IGB_RSCDBU_RSCACKDIS = 0x00000080"

definition IGB_RDRXCTL_RDMTS_1_2 :: u32 where
  "IGB_RDRXCTL_RDMTS_1_2 = 0x00000000"

definition IGB_RDRXCTL_PSP :: u32 where
  "IGB_RDRXCTL_PSP = 0x00000004"

definition IGB_RDRXCTL_MVMEN :: u32 where
  "IGB_RDRXCTL_MVMEN = 0x00000020"

definition IGB_RDRXCTL_RSC_PUSH_DIS :: u32 where
  "IGB_RDRXCTL_RSC_PUSH_DIS = 0x00000020"

definition IGB_RDRXCTL_DMAIDONE :: u32 where
  "IGB_RDRXCTL_DMAIDONE = 0x00000008"

definition IGB_RDRXCTL_RSC_PUSH :: u32 where
  "IGB_RDRXCTL_RSC_PUSH = 0x00000080"

definition IGB_RDRXCTL_AGGDIS :: u32 where
  "IGB_RDRXCTL_AGGDIS = 0x00010000"

definition IGB_RDRXCTL_RSCFRSTSIZE :: u32 where
  "IGB_RDRXCTL_RSCFRSTSIZE = 0x003E0000"

definition IGB_RDRXCTL_RSCLLIDIS :: u32 where
  "IGB_RDRXCTL_RSCLLIDIS = 0x00800000"

definition IGB_RDRXCTL_RSCACKC :: u32 where
  "IGB_RDRXCTL_RSCACKC = 0x02000000"

definition IGB_RDRXCTL_FCOE_WRFIX :: u32 where
  "IGB_RDRXCTL_FCOE_WRFIX = 0x04000000"

definition IGB_RDRXCTL_MBINTEN :: u32 where
  "IGB_RDRXCTL_MBINTEN = 0x10000000"

definition IGB_RDRXCTL_MDP_EN :: u32 where
  "IGB_RDRXCTL_MDP_EN = 0x20000000"

definition IGB_RQTC_TC0_MASK :: u32 where
  "IGB_RQTC_TC0_MASK = push_bit 0 (0x7 :: u32)"

definition IGB_RQTC_TC1_MASK :: u32 where
  "IGB_RQTC_TC1_MASK = push_bit 4 (0x7 :: u32)"

definition IGB_RQTC_TC2_MASK :: u32 where
  "IGB_RQTC_TC2_MASK = push_bit 8 (0x7 :: u32)"

definition IGB_RQTC_TC3_MASK :: u32 where
  "IGB_RQTC_TC3_MASK = push_bit 12 (0x7 :: u32)"

definition IGB_RQTC_TC4_MASK :: u32 where
  "IGB_RQTC_TC4_MASK = push_bit 16 (0x7 :: u32)"

definition IGB_RQTC_TC5_MASK :: u32 where
  "IGB_RQTC_TC5_MASK = push_bit 20 (0x7 :: u32)"

definition IGB_RQTC_TC6_MASK :: u32 where
  "IGB_RQTC_TC6_MASK = push_bit 24 (0x7 :: u32)"

definition IGB_RQTC_TC7_MASK :: u32 where
  "IGB_RQTC_TC7_MASK = push_bit 28 (0x7 :: u32)"

definition IGB_PSRTYPE_RQPL_MASK :: u32 where
  "IGB_PSRTYPE_RQPL_MASK = 0x7"

definition IGB_PSRTYPE_RQPL_SHIFT :: u32 where
  "IGB_PSRTYPE_RQPL_SHIFT = 29"

definition IGB_CTRL_GIO_DIS :: u32 where
  "IGB_CTRL_GIO_DIS = 0x00000004"

definition IGB_CTRL_RST :: u32 where
  "IGB_CTRL_RST = 0x04000000"

definition IGB_CTRL_PHY_RST :: u32 where
  "IGB_CTRL_PHY_RST = 0x80000000"

definition IGB_CTRL_RST_MASK :: u32 where
  "IGB_CTRL_RST_MASK = IGB_CTRL_PHY_RST OR IGB_CTRL_RST"

definition IGB_FACTPS_MNGCG :: u32 where
  "IGB_FACTPS_MNGCG = 0x20000000"

definition IGB_FACTPS_LFS :: u32 where
  "IGB_FACTPS_LFS = 0x40000000"

definition IGB_MHADD_MFS_MASK :: u32 where
  "IGB_MHADD_MFS_MASK = 0xFFFF0000"

definition IGB_MHADD_MFS_SHIFT :: u32 where
  "IGB_MHADD_MFS_SHIFT = 16"

definition IGB_CTRL_EXT_PFRSTD :: u32 where
  "IGB_CTRL_EXT_PFRSTD = 0x00004000"

definition IGB_CTRL_EXT_NS_DIS :: u32 where
  "IGB_CTRL_EXT_NS_DIS = 0x00010000"

definition IGB_CTRL_EXT_RO_DIS :: u32 where
  "IGB_CTRL_EXT_RO_DIS = 0x00020000"

definition IGB_CTRL_EXT_DRV_LOAD :: u32 where
  "IGB_CTRL_EXT_DRV_LOAD = 0x10000000"

definition IGB_DCA_CTRL_DCA_ENABLE :: u32 where
  "IGB_DCA_CTRL_DCA_ENABLE = 0x00000000"

definition IGB_DCA_CTRL_DCA_DISABLE :: u32 where
  "IGB_DCA_CTRL_DCA_DISABLE = 0x00000001"

definition IGB_DCA_CTRL_DCA_MODE_CB1 :: u32 where
  "IGB_DCA_CTRL_DCA_MODE_CB1 = 0x00"

definition IGB_DCA_CTRL_DCA_MODE_CB2 :: u32 where
  "IGB_DCA_CTRL_DCA_MODE_CB2 = 0x02"

definition IGB_DCA_RXCTRL_CPUID_MASK :: u32 where
  "IGB_DCA_RXCTRL_CPUID_MASK = 0x0000001F"

definition IGB_DCA_RXCTRL_CPUID_MASK_82599 :: u32 where
  "IGB_DCA_RXCTRL_CPUID_MASK_82599 = 0xFF000000"

definition IGB_DCA_RXCTRL_CPUID_SHIFT_82599 :: u32 where
  "IGB_DCA_RXCTRL_CPUID_SHIFT_82599 = 24"

definition IGB_DCA_RXCTRL_DESC_DCA_EN :: u32 where
  "IGB_DCA_RXCTRL_DESC_DCA_EN = push_bit 5 (1 :: u32)"

definition IGB_DCA_RXCTRL_HEAD_DCA_EN :: u32 where
  "IGB_DCA_RXCTRL_HEAD_DCA_EN = push_bit 6 (1 :: u32)"

definition IGB_DCA_RXCTRL_DATA_DCA_EN :: u32 where
  "IGB_DCA_RXCTRL_DATA_DCA_EN = push_bit 7 (1 :: u32)"

definition IGB_DCA_RXCTRL_DESC_RRO_EN :: u32 where
  "IGB_DCA_RXCTRL_DESC_RRO_EN = push_bit 9 (1 :: u32)"

definition IGB_DCA_RXCTRL_DATA_WRO_EN :: u32 where
  "IGB_DCA_RXCTRL_DATA_WRO_EN = push_bit 13 (1 :: u32)"

definition IGB_DCA_RXCTRL_HEAD_WRO_EN :: u32 where
  "IGB_DCA_RXCTRL_HEAD_WRO_EN = push_bit 15 (1 :: u32)"

definition IGB_DCA_TXCTRL_CPUID_MASK :: u32 where
  "IGB_DCA_TXCTRL_CPUID_MASK = 0x0000001F"

definition IGB_DCA_TXCTRL_CPUID_MASK_82599 :: u32 where
  "IGB_DCA_TXCTRL_CPUID_MASK_82599 = 0xFF000000"

definition IGB_DCA_TXCTRL_CPUID_SHIFT_82599 :: u32 where
  "IGB_DCA_TXCTRL_CPUID_SHIFT_82599 = 24"

definition IGB_DCA_TXCTRL_DESC_DCA_EN :: u32 where
  "IGB_DCA_TXCTRL_DESC_DCA_EN = push_bit 5 (1 :: u32)"

definition IGB_DCA_TXCTRL_DESC_RRO_EN :: u32 where
  "IGB_DCA_TXCTRL_DESC_RRO_EN = push_bit 9 (1 :: u32)"

definition IGB_DCA_TXCTRL_DESC_WRO_EN :: u32 where
  "IGB_DCA_TXCTRL_DESC_WRO_EN = push_bit 11 (1 :: u32)"

definition IGB_DCA_TXCTRL_DATA_RRO_EN :: u32 where
  "IGB_DCA_TXCTRL_DATA_RRO_EN = push_bit 13 (1 :: u32)"

definition IGB_DCA_MAX_QUEUES_82598 :: u32 where
  "IGB_DCA_MAX_QUEUES_82598 = 16"

definition IGB_MSCA_NP_ADDR_MASK :: u32 where
  "IGB_MSCA_NP_ADDR_MASK = 0x0000FFFF"

definition IGB_MSCA_NP_ADDR_SHIFT :: u32 where
  "IGB_MSCA_NP_ADDR_SHIFT = 0"

definition IGB_MSCA_DEV_TYPE_MASK :: u32 where
  "IGB_MSCA_DEV_TYPE_MASK = 0x001F0000"

definition IGB_MSCA_DEV_TYPE_SHIFT :: u32 where
  "IGB_MSCA_DEV_TYPE_SHIFT = 16"

definition IGB_MSCA_PHY_ADDR_MASK :: u32 where
  "IGB_MSCA_PHY_ADDR_MASK = 0x03E00000"

definition IGB_MSCA_PHY_ADDR_SHIFT :: u32 where
  "IGB_MSCA_PHY_ADDR_SHIFT = 21"

definition IGB_MSCA_OP_CODE_MASK :: u32 where
  "IGB_MSCA_OP_CODE_MASK = 0x0C000000"

definition IGB_MSCA_OP_CODE_SHIFT :: u32 where
  "IGB_MSCA_OP_CODE_SHIFT = 26"

definition IGB_MSCA_ADDR_CYCLE :: u32 where
  "IGB_MSCA_ADDR_CYCLE = 0x00000000"

definition IGB_MSCA_WRITE :: u32 where
  "IGB_MSCA_WRITE = 0x04000000"

definition IGB_MSCA_READ :: u32 where
  "IGB_MSCA_READ = 0x0C000000"

definition IGB_MSCA_READ_AUTOINC :: u32 where
  "IGB_MSCA_READ_AUTOINC = 0x08000000"

definition IGB_MSCA_ST_CODE_MASK :: u32 where
  "IGB_MSCA_ST_CODE_MASK = 0x30000000"

definition IGB_MSCA_ST_CODE_SHIFT :: u32 where
  "IGB_MSCA_ST_CODE_SHIFT = 28"

definition IGB_MSCA_NEW_PROTOCOL :: u32 where
  "IGB_MSCA_NEW_PROTOCOL = 0x00000000"

definition IGB_MSCA_OLD_PROTOCOL :: u32 where
  "IGB_MSCA_OLD_PROTOCOL = 0x10000000"

definition IGB_MSCA_MDI_COMMAND :: u32 where
  "IGB_MSCA_MDI_COMMAND = 0x40000000"

definition IGB_MSCA_MDI_IN_PROG_EN :: u32 where
  "IGB_MSCA_MDI_IN_PROG_EN = 0x80000000"

definition IGB_MSRWD_WRITE_DATA_MASK :: u32 where
  "IGB_MSRWD_WRITE_DATA_MASK = 0x0000FFFF"

definition IGB_MSRWD_WRITE_DATA_SHIFT :: u32 where
  "IGB_MSRWD_WRITE_DATA_SHIFT = 0"

definition IGB_MSRWD_READ_DATA_MASK :: u32 where
  "IGB_MSRWD_READ_DATA_MASK = 0xFFFF0000"

definition IGB_MSRWD_READ_DATA_SHIFT :: u32 where
  "IGB_MSRWD_READ_DATA_SHIFT = 16"

definition IGB_ATLAS_PDN_LPBK :: u32 where
  "IGB_ATLAS_PDN_LPBK = 0x24"

definition IGB_ATLAS_PDN_10G :: u32 where
  "IGB_ATLAS_PDN_10G = 0xB"

definition IGB_ATLAS_PDN_1G :: u32 where
  "IGB_ATLAS_PDN_1G = 0xC"

definition IGB_ATLAS_PDN_AN :: u32 where
  "IGB_ATLAS_PDN_AN = 0xD"

definition IGB_ATLASCTL_WRITE_CMD :: u32 where
  "IGB_ATLASCTL_WRITE_CMD = 0x00010000"

definition IGB_ATLAS_PDN_TX_REG_EN :: u32 where
  "IGB_ATLAS_PDN_TX_REG_EN = 0x10"

definition IGB_ATLAS_PDN_TX_10G_QL_ALL :: u32 where
  "IGB_ATLAS_PDN_TX_10G_QL_ALL = 0xF0"

definition IGB_ATLAS_PDN_TX_1G_QL_ALL :: u32 where
  "IGB_ATLAS_PDN_TX_1G_QL_ALL = 0xF0"

definition IGB_ATLAS_PDN_TX_AN_QL_ALL :: u32 where
  "IGB_ATLAS_PDN_TX_AN_QL_ALL = 0xF0"

definition IGB_CORECTL_WRITE_CMD :: u32 where
  "IGB_CORECTL_WRITE_CMD = 0x00010000"

definition IGB_MDIO_ZERO_DEV_TYPE :: u32 where
  "IGB_MDIO_ZERO_DEV_TYPE = 0x0"

definition IGB_MDIO_PMA_PMD_DEV_TYPE :: u32 where
  "IGB_MDIO_PMA_PMD_DEV_TYPE = 0x1"

definition IGB_MDIO_PCS_DEV_TYPE :: u32 where
  "IGB_MDIO_PCS_DEV_TYPE = 0x3"

definition IGB_MDIO_PHY_XS_DEV_TYPE :: u32 where
  "IGB_MDIO_PHY_XS_DEV_TYPE = 0x4"

definition IGB_MDIO_AUTO_NEG_DEV_TYPE :: u32 where
  "IGB_MDIO_AUTO_NEG_DEV_TYPE = 0x7"

definition IGB_MDIO_VENDOR_SPECIFIC_1_DEV_TYPE :: u32 where
  "IGB_MDIO_VENDOR_SPECIFIC_1_DEV_TYPE = 0x1E"

definition IGB_TWINAX_DEV :: u32 where
  "IGB_TWINAX_DEV = 1"

definition IGB_MDIO_COMMAND_TIMEOUT :: u32 where
  "IGB_MDIO_COMMAND_TIMEOUT = 100"

definition IGB_MDIO_VENDOR_SPECIFIC_1_CONTROL :: u32 where
  "IGB_MDIO_VENDOR_SPECIFIC_1_CONTROL = 0x0"

definition IGB_MDIO_VENDOR_SPECIFIC_1_STATUS :: u32 where
  "IGB_MDIO_VENDOR_SPECIFIC_1_STATUS = 0x1"

definition IGB_MDIO_VENDOR_SPECIFIC_1_LINK_STATUS :: u32 where
  "IGB_MDIO_VENDOR_SPECIFIC_1_LINK_STATUS = 0x0008"

definition IGB_MDIO_VENDOR_SPECIFIC_1_SPEED_STATUS :: u32 where
  "IGB_MDIO_VENDOR_SPECIFIC_1_SPEED_STATUS = 0x0010"

definition IGB_MDIO_VENDOR_SPECIFIC_1_10G_SPEED :: u32 where
  "IGB_MDIO_VENDOR_SPECIFIC_1_10G_SPEED = 0x0018"

definition IGB_MDIO_VENDOR_SPECIFIC_1_1G_SPEED :: u32 where
  "IGB_MDIO_VENDOR_SPECIFIC_1_1G_SPEED = 0x0010"

definition IGB_MDIO_AUTO_NEG_CONTROL :: u32 where
  "IGB_MDIO_AUTO_NEG_CONTROL = 0x0"

definition IGB_MDIO_AUTO_NEG_STATUS :: u32 where
  "IGB_MDIO_AUTO_NEG_STATUS = 0x1"

definition IGB_MDIO_AUTO_NEG_VENDOR_STAT :: u32 where
  "IGB_MDIO_AUTO_NEG_VENDOR_STAT = 0xC800"

definition IGB_MDIO_AUTO_NEG_VENDOR_TX_ALARM :: u32 where
  "IGB_MDIO_AUTO_NEG_VENDOR_TX_ALARM = 0xCC00"

definition IGB_MDIO_AUTO_NEG_VENDOR_TX_ALARM2 :: u32 where
  "IGB_MDIO_AUTO_NEG_VENDOR_TX_ALARM2 = 0xCC01"

definition IGB_MDIO_AUTO_NEG_VEN_LSC :: u32 where
  "IGB_MDIO_AUTO_NEG_VEN_LSC = 0x1"

definition IGB_MDIO_AUTO_NEG_ADVT :: u32 where
  "IGB_MDIO_AUTO_NEG_ADVT = 0x10"

definition IGB_MDIO_AUTO_NEG_LP :: u32 where
  "IGB_MDIO_AUTO_NEG_LP = 0x13"

definition IGB_MDIO_AUTO_NEG_EEE_ADVT :: u32 where
  "IGB_MDIO_AUTO_NEG_EEE_ADVT = 0x3C"

definition IGB_AUTO_NEG_10GBASE_EEE_ADVT :: u32 where
  "IGB_AUTO_NEG_10GBASE_EEE_ADVT = 0x8"

definition IGB_AUTO_NEG_1000BASE_EEE_ADVT :: u32 where
  "IGB_AUTO_NEG_1000BASE_EEE_ADVT = 0x4"

definition IGB_AUTO_NEG_100BASE_EEE_ADVT :: u32 where
  "IGB_AUTO_NEG_100BASE_EEE_ADVT = 0x2"

definition IGB_MDIO_PHY_XS_CONTROL :: u32 where
  "IGB_MDIO_PHY_XS_CONTROL = 0x0"

definition IGB_MDIO_PHY_XS_RESET :: u32 where
  "IGB_MDIO_PHY_XS_RESET = 0x8000"

definition IGB_MDIO_PHY_ID_HIGH :: u32 where
  "IGB_MDIO_PHY_ID_HIGH = 0x2"

definition IGB_MDIO_PHY_ID_LOW :: u32 where
  "IGB_MDIO_PHY_ID_LOW = 0x3"

definition IGB_MDIO_PHY_SPEED_ABILITY :: u32 where
  "IGB_MDIO_PHY_SPEED_ABILITY = 0x4"

definition IGB_MDIO_PHY_SPEED_10G :: u32 where
  "IGB_MDIO_PHY_SPEED_10G = 0x0001"

definition IGB_MDIO_PHY_SPEED_1G :: u32 where
  "IGB_MDIO_PHY_SPEED_1G = 0x0010"

definition IGB_MDIO_PHY_SPEED_100M :: u32 where
  "IGB_MDIO_PHY_SPEED_100M = 0x0020"

definition IGB_MDIO_PHY_EXT_ABILITY :: u32 where
  "IGB_MDIO_PHY_EXT_ABILITY = 0xB"

definition IGB_MDIO_PHY_10GBASET_ABILITY :: u32 where
  "IGB_MDIO_PHY_10GBASET_ABILITY = 0x0004"

definition IGB_MDIO_PHY_1000BASET_ABILITY :: u32 where
  "IGB_MDIO_PHY_1000BASET_ABILITY = 0x0020"

definition IGB_MDIO_PHY_100BASETX_ABILITY :: u32 where
  "IGB_MDIO_PHY_100BASETX_ABILITY = 0x0080"

definition IGB_MDIO_PHY_SET_LOW_POWER_MODE :: u32 where
  "IGB_MDIO_PHY_SET_LOW_POWER_MODE = 0x0800"

definition IGB_AUTO_NEG_LP_STATUS :: u32 where
  "IGB_AUTO_NEG_LP_STATUS = 0xE820"

definition IGB_AUTO_NEG_LP_1000BASE_CAP :: u32 where
  "IGB_AUTO_NEG_LP_1000BASE_CAP = 0x8000"

definition IGB_AUTO_NEG_LP_10GBASE_CAP :: u32 where
  "IGB_AUTO_NEG_LP_10GBASE_CAP = 0x0800"

definition IGB_AUTO_NEG_10GBASET_STAT :: u32 where
  "IGB_AUTO_NEG_10GBASET_STAT = 0x0021"

definition IGB_MDIO_TX_VENDOR_ALARMS_3 :: u32 where
  "IGB_MDIO_TX_VENDOR_ALARMS_3 = 0xCC02"

definition IGB_MDIO_TX_VENDOR_ALARMS_3_RST_MASK :: u32 where
  "IGB_MDIO_TX_VENDOR_ALARMS_3_RST_MASK = 0x3"

definition IGB_MDIO_GLOBAL_RES_PR_10 :: u32 where
  "IGB_MDIO_GLOBAL_RES_PR_10 = 0xC479"

definition IGB_MDIO_POWER_UP_STALL :: u32 where
  "IGB_MDIO_POWER_UP_STALL = 0x8000"

definition IGB_MDIO_GLOBAL_INT_CHIP_STD_MASK :: u32 where
  "IGB_MDIO_GLOBAL_INT_CHIP_STD_MASK = 0xFF00"

definition IGB_MDIO_GLOBAL_CHIP_STD_INT_FLAG :: u32 where
  "IGB_MDIO_GLOBAL_CHIP_STD_INT_FLAG = 0xFC00"

definition IGB_MDIO_GLOBAL_INT_CHIP_VEN_MASK :: u32 where
  "IGB_MDIO_GLOBAL_INT_CHIP_VEN_MASK = 0xFF01"

definition IGB_MDIO_GLOBAL_INT_CHIP_VEN_FLAG :: u32 where
  "IGB_MDIO_GLOBAL_INT_CHIP_VEN_FLAG = 0xFC01"

definition IGB_MDIO_GLOBAL_ALARM_1 :: u32 where
  "IGB_MDIO_GLOBAL_ALARM_1 = 0xCC00"

definition IGB_MDIO_GLOBAL_ALM_1_DEV_FAULT :: u32 where
  "IGB_MDIO_GLOBAL_ALM_1_DEV_FAULT = 0x0010"

definition IGB_MDIO_GLOBAL_ALM_1_HI_TMP_FAIL :: u32 where
  "IGB_MDIO_GLOBAL_ALM_1_HI_TMP_FAIL = 0x4000"

definition IGB_MDIO_GLOBAL_FAULT_MSG :: u32 where
  "IGB_MDIO_GLOBAL_FAULT_MSG = 0xC850"

definition IGB_MDIO_GLOBAL_FAULT_MSG_HI_TMP :: u32 where
  "IGB_MDIO_GLOBAL_FAULT_MSG_HI_TMP = 0x8007"

definition IGB_MDIO_GLOBAL_INT_MASK :: u32 where
  "IGB_MDIO_GLOBAL_INT_MASK = 0xD400"

definition IGB_MDIO_GLOBAL_AN_VEN_ALM_INT_EN :: u32 where
  "IGB_MDIO_GLOBAL_AN_VEN_ALM_INT_EN = 0x1000"

definition IGB_MDIO_GLOBAL_ALARM_1_INT :: u32 where
  "IGB_MDIO_GLOBAL_ALARM_1_INT = 0x4"

definition IGB_MDIO_GLOBAL_VEN_ALM_INT_EN :: u32 where
  "IGB_MDIO_GLOBAL_VEN_ALM_INT_EN = 0x1"

definition IGB_MDIO_GLOBAL_STD_ALM2_INT :: u32 where
  "IGB_MDIO_GLOBAL_STD_ALM2_INT = 0x200"

definition IGB_MDIO_GLOBAL_INT_HI_TEMP_EN :: u32 where
  "IGB_MDIO_GLOBAL_INT_HI_TEMP_EN = 0x4000"

definition IGB_MDIO_GLOBAL_INT_DEV_FAULT_EN :: u32 where
  "IGB_MDIO_GLOBAL_INT_DEV_FAULT_EN = 0x0010"

definition IGB_MDIO_PMA_PMD_CONTROL_ADDR :: u32 where
  "IGB_MDIO_PMA_PMD_CONTROL_ADDR = 0x0000"

definition IGB_MDIO_PMA_PMD_SDA_SCL_ADDR :: u32 where
  "IGB_MDIO_PMA_PMD_SDA_SCL_ADDR = 0xC30A"

definition IGB_MDIO_PMA_PMD_SDA_SCL_DATA :: u32 where
  "IGB_MDIO_PMA_PMD_SDA_SCL_DATA = 0xC30B"

definition IGB_MDIO_PMA_PMD_SDA_SCL_STAT :: u32 where
  "IGB_MDIO_PMA_PMD_SDA_SCL_STAT = 0xC30C"

definition IGB_MDIO_PMA_TX_VEN_LASI_INT_MASK :: u32 where
  "IGB_MDIO_PMA_TX_VEN_LASI_INT_MASK = 0xD401"

definition IGB_MDIO_PMA_TX_VEN_LASI_INT_EN :: u32 where
  "IGB_MDIO_PMA_TX_VEN_LASI_INT_EN = 0x1"

definition IGB_MDIO_PMD_STD_TX_DISABLE_CNTR :: u32 where
  "IGB_MDIO_PMD_STD_TX_DISABLE_CNTR = 0x9"

definition IGB_MDIO_PMD_GLOBAL_TX_DISABLE :: u32 where
  "IGB_MDIO_PMD_GLOBAL_TX_DISABLE = 0x0001"

definition IGB_PCRC8ECL :: u32 where
  "IGB_PCRC8ECL = 0x0E810"

definition IGB_PCRC8ECH :: u32 where
  "IGB_PCRC8ECH = 0x0E811"

definition IGB_PCRC8ECH_MASK :: u32 where
  "IGB_PCRC8ECH_MASK = 0x1F"

definition IGB_LDPCECL :: u32 where
  "IGB_LDPCECL = 0x0E820"

definition IGB_LDPCECH :: u32 where
  "IGB_LDPCECH = 0x0E821"

definition IGB_MDIO_PHY_LOW_POWER_MODE :: u32 where
  "IGB_MDIO_PHY_LOW_POWER_MODE = 0x0800"

definition IGB_MDIO_XENPAK_LASI_STATUS :: u32 where
  "IGB_MDIO_XENPAK_LASI_STATUS = 0x9005"

definition IGB_XENPAK_LASI_LINK_STATUS_ALARM :: u32 where
  "IGB_XENPAK_LASI_LINK_STATUS_ALARM = 0x1"

definition IGB_MDIO_AUTO_NEG_LINK_STATUS :: u32 where
  "IGB_MDIO_AUTO_NEG_LINK_STATUS = 0x4"

definition IGB_MDIO_AUTO_NEG_VENDOR_STATUS_MASK :: u32 where
  "IGB_MDIO_AUTO_NEG_VENDOR_STATUS_MASK = 0x7"

definition IGB_MDIO_AUTO_NEG_VEN_STAT_SPEED_MASK :: u32 where
  "IGB_MDIO_AUTO_NEG_VEN_STAT_SPEED_MASK = 0x6"

definition IGB_MDIO_AUTO_NEG_VENDOR_STATUS_10M_HALF :: u32 where
  "IGB_MDIO_AUTO_NEG_VENDOR_STATUS_10M_HALF = 0x0"

definition IGB_MDIO_AUTO_NEG_VENDOR_STATUS_10M_FULL :: u32 where
  "IGB_MDIO_AUTO_NEG_VENDOR_STATUS_10M_FULL = 0x1"

definition IGB_MDIO_AUTO_NEG_VENDOR_STATUS_100M_HALF :: u32 where
  "IGB_MDIO_AUTO_NEG_VENDOR_STATUS_100M_HALF = 0x2"

definition IGB_MDIO_AUTO_NEG_VENDOR_STATUS_100M_FULL :: u32 where
  "IGB_MDIO_AUTO_NEG_VENDOR_STATUS_100M_FULL = 0x3"

definition IGB_MDIO_AUTO_NEG_VENDOR_STATUS_1GB_HALF :: u32 where
  "IGB_MDIO_AUTO_NEG_VENDOR_STATUS_1GB_HALF = 0x4"

definition IGB_MDIO_AUTO_NEG_VENDOR_STATUS_1GB_FULL :: u32 where
  "IGB_MDIO_AUTO_NEG_VENDOR_STATUS_1GB_FULL = 0x5"

definition IGB_MDIO_AUTO_NEG_VENDOR_STATUS_10GB_HALF :: u32 where
  "IGB_MDIO_AUTO_NEG_VENDOR_STATUS_10GB_HALF = 0x6"

definition IGB_MDIO_AUTO_NEG_VENDOR_STATUS_10GB_FULL :: u32 where
  "IGB_MDIO_AUTO_NEG_VENDOR_STATUS_10GB_FULL = 0x7"

definition IGB_MDIO_AUTO_NEG_VENDOR_STATUS_1GB :: u32 where
  "IGB_MDIO_AUTO_NEG_VENDOR_STATUS_1GB = 0x4"

definition IGB_MDIO_AUTO_NEG_VENDOR_STATUS_10GB :: u32 where
  "IGB_MDIO_AUTO_NEG_VENDOR_STATUS_10GB = 0x6"

definition IGB_MII_10GBASE_T_AUTONEG_CTRL_REG :: u32 where
  "IGB_MII_10GBASE_T_AUTONEG_CTRL_REG = 0x20"

definition IGB_MII_AUTONEG_VENDOR_PROVISION_1_REG :: u32 where
  "IGB_MII_AUTONEG_VENDOR_PROVISION_1_REG = 0xC400"

definition IGB_MII_AUTONEG_XNP_TX_REG :: u32 where
  "IGB_MII_AUTONEG_XNP_TX_REG = 0x17"

definition IGB_MII_AUTONEG_ADVERTISE_REG :: u32 where
  "IGB_MII_AUTONEG_ADVERTISE_REG = 0x10"

definition IGB_MII_10GBASE_T_ADVERTISE :: u32 where
  "IGB_MII_10GBASE_T_ADVERTISE = 0x1000"

definition IGB_MII_1GBASE_T_ADVERTISE_XNP_TX :: u32 where
  "IGB_MII_1GBASE_T_ADVERTISE_XNP_TX = 0x4000"

definition IGB_MII_1GBASE_T_ADVERTISE :: u32 where
  "IGB_MII_1GBASE_T_ADVERTISE = 0x8000"

definition IGB_MII_2_5GBASE_T_ADVERTISE :: u32 where
  "IGB_MII_2_5GBASE_T_ADVERTISE = 0x0400"

definition IGB_MII_5GBASE_T_ADVERTISE :: u32 where
  "IGB_MII_5GBASE_T_ADVERTISE = 0x0800"

definition IGB_MII_100BASE_T_ADVERTISE :: u32 where
  "IGB_MII_100BASE_T_ADVERTISE = 0x0100"

definition IGB_MII_100BASE_T_ADVERTISE_HALF :: u32 where
  "IGB_MII_100BASE_T_ADVERTISE_HALF = 0x0080"

definition IGB_MII_RESTART :: u32 where
  "IGB_MII_RESTART = 0x200"

definition IGB_MII_AUTONEG_COMPLETE :: u32 where
  "IGB_MII_AUTONEG_COMPLETE = 0x20"

definition IGB_MII_AUTONEG_LINK_UP :: u32 where
  "IGB_MII_AUTONEG_LINK_UP = 0x04"

definition IGB_MII_AUTONEG_REG :: u32 where
  "IGB_MII_AUTONEG_REG = 0x0"

definition IGB_PHY_REVISION_MASK :: u32 where
  "IGB_PHY_REVISION_MASK = 0xFFFFFFF0"

definition IGB_MAX_PHY_ADDR :: u32 where
  "IGB_MAX_PHY_ADDR = 32"

definition TN1010_PHY_ID :: u32 where
  "TN1010_PHY_ID = 0x00A19410"

definition TNX_FW_REV :: u32 where
  "TNX_FW_REV = 0xB"

definition X540_PHY_ID :: u32 where
  "X540_PHY_ID = 0x01540200"

definition X550_PHY_ID2 :: u32 where
  "X550_PHY_ID2 = 0x01540223"

definition X550_PHY_ID3 :: u32 where
  "X550_PHY_ID3 = 0x01540221"

definition X557_PHY_ID :: u32 where
  "X557_PHY_ID = 0x01540240"

definition X557_PHY_ID2 :: u32 where
  "X557_PHY_ID2 = 0x01540250"

definition AQ_FW_REV :: u32 where
  "AQ_FW_REV = 0x20"

definition QT2022_PHY_ID :: u32 where
  "QT2022_PHY_ID = 0x0043A400"

definition ATH_PHY_ID :: u32 where
  "ATH_PHY_ID = 0x03429050"

definition IGB_M88E1500_E_PHY_ID :: u32 where
  "IGB_M88E1500_E_PHY_ID = 0x01410DD0"

definition IGB_M88E1543_E_PHY_ID :: u32 where
  "IGB_M88E1543_E_PHY_ID = 0x01410EA0"

definition IGB_PHY_INIT_OFFSET_NL :: u32 where
  "IGB_PHY_INIT_OFFSET_NL = 0x002B"

definition IGB_PHY_INIT_END_NL :: u32 where
  "IGB_PHY_INIT_END_NL = 0xFFFF"

definition IGB_CONTROL_MASK_NL :: u32 where
  "IGB_CONTROL_MASK_NL = 0xF000"

definition IGB_DATA_MASK_NL :: u32 where
  "IGB_DATA_MASK_NL = 0x0FFF"

definition IGB_CONTROL_SHIFT_NL :: u32 where
  "IGB_CONTROL_SHIFT_NL = 12"

definition IGB_DELAY_NL :: u32 where
  "IGB_DELAY_NL = 0"

definition IGB_DATA_NL :: u32 where
  "IGB_DATA_NL = 1"

definition IGB_CONTROL_NL :: u32 where
  "IGB_CONTROL_NL = 0x000F"

definition IGB_CONTROL_EOL_NL :: u32 where
  "IGB_CONTROL_EOL_NL = 0x0FFF"

definition IGB_CONTROL_SOL_NL :: u32 where
  "IGB_CONTROL_SOL_NL = 0x0000"

end
