(* ===== verification/Masks_Intr.thy ===== *)
theory Masks_Intr
  imports Masks_Phy
begin

text \<open>
  The bit masks of the packet buffers, of the pools and of the interrupt registers.
  From \<open>src/constants.rs\<close>, with the values of the source.
\<close>

definition IGB_SDP0_GPIEN_X540 :: u32 where
  "IGB_SDP0_GPIEN_X540 = 0x00000002"

definition IGB_SDP1_GPIEN_X540 :: u32 where
  "IGB_SDP1_GPIEN_X540 = 0x00000004"

definition IGB_SDP2_GPIEN_X540 :: u32 where
  "IGB_SDP2_GPIEN_X540 = 0x00000008"

definition IGB_SDP0_GPIEN_X550 :: u32 where
  "IGB_SDP0_GPIEN_X550 = IGB_SDP0_GPIEN_X540"

definition IGB_SDP1_GPIEN_X550 :: u32 where
  "IGB_SDP1_GPIEN_X550 = IGB_SDP1_GPIEN_X540"

definition IGB_SDP2_GPIEN_X550 :: u32 where
  "IGB_SDP2_GPIEN_X550 = IGB_SDP2_GPIEN_X540"

definition IGB_SDP0_GPIEN_X550EM_x :: u32 where
  "IGB_SDP0_GPIEN_X550EM_x = IGB_SDP0_GPIEN_X540"

definition IGB_SDP1_GPIEN_X550EM_x :: u32 where
  "IGB_SDP1_GPIEN_X550EM_x = IGB_SDP1_GPIEN_X540"

definition IGB_SDP2_GPIEN_X550EM_x :: u32 where
  "IGB_SDP2_GPIEN_X550EM_x = IGB_SDP2_GPIEN_X540"

definition IGB_SDP0_GPIEN_X550EM_a :: u32 where
  "IGB_SDP0_GPIEN_X550EM_a = IGB_SDP0_GPIEN_X540"

definition IGB_SDP1_GPIEN_X550EM_a :: u32 where
  "IGB_SDP1_GPIEN_X550EM_a = IGB_SDP1_GPIEN_X540"

definition IGB_SDP2_GPIEN_X550EM_a :: u32 where
  "IGB_SDP2_GPIEN_X550EM_a = IGB_SDP2_GPIEN_X540"

definition IGB_GPIE_OCD :: u32 where
  "IGB_GPIE_OCD = 0x00000020"

definition IGB_GPIE_EIMEN :: u32 where
  "IGB_GPIE_EIMEN = 0x00000040"

definition IGB_GPIE_RSC_DELAY_SHIFT :: u32 where
  "IGB_GPIE_RSC_DELAY_SHIFT = 11"

definition IGB_GPIE_VTMODE_MASK :: u32 where
  "IGB_GPIE_VTMODE_MASK = 0x0000C000"

definition IGB_GPIE_VTMODE_16 :: u32 where
  "IGB_GPIE_VTMODE_16 = 0x00004000"

definition IGB_GPIE_VTMODE_32 :: u32 where
  "IGB_GPIE_VTMODE_32 = 0x00008000"

definition IGB_GPIE_VTMODE_64 :: u32 where
  "IGB_GPIE_VTMODE_64 = 0x0000C000"

definition IGB_MAX_PACKET_BUFFERS :: u32 where
  "IGB_MAX_PACKET_BUFFERS = 8"

definition IGB_TXPBSIZE_20KB :: u32 where
  "IGB_TXPBSIZE_20KB = 0x00005000"

definition IGB_TXPBSIZE_40KB :: u32 where
  "IGB_TXPBSIZE_40KB = 0x0000A000"

definition IGB_RXPBSIZE_48KB :: u32 where
  "IGB_RXPBSIZE_48KB = 0x0000C000"

definition IGB_RXPBSIZE_64KB :: u32 where
  "IGB_RXPBSIZE_64KB = 0x00010000"

definition IGB_RXPBSIZE_80KB :: u32 where
  "IGB_RXPBSIZE_80KB = 0x00014000"

definition IGB_RXPBSIZE_MAX :: u32 where
  "IGB_RXPBSIZE_MAX = 0x00080000"

definition IGB_TXPBSIZE_MAX :: u32 where
  "IGB_TXPBSIZE_MAX = 0x00028000"

definition IGB_TXPKT_SIZE_MAX :: u32 where
  "IGB_TXPKT_SIZE_MAX = 0xA"

definition IGB_MAX_PB :: u32 where
  "IGB_MAX_PB = 8"

definition PBA_STRATEGY_EQUAL :: u32 where
  "PBA_STRATEGY_EQUAL = 0"

definition PBA_STRATEGY_WEIGHTED :: u32 where
  "PBA_STRATEGY_WEIGHTED = 1"

definition IGB_TFCS_TXOFF :: u32 where
  "IGB_TFCS_TXOFF = 0x00000001"

definition IGB_TFCS_TXOFF0 :: u32 where
  "IGB_TFCS_TXOFF0 = 0x00000100"

definition IGB_TFCS_TXOFF1 :: u32 where
  "IGB_TFCS_TXOFF1 = 0x00000200"

definition IGB_TFCS_TXOFF2 :: u32 where
  "IGB_TFCS_TXOFF2 = 0x00000400"

definition IGB_TFCS_TXOFF3 :: u32 where
  "IGB_TFCS_TXOFF3 = 0x00000800"

definition IGB_TFCS_TXOFF4 :: u32 where
  "IGB_TFCS_TXOFF4 = 0x00001000"

definition IGB_TFCS_TXOFF5 :: u32 where
  "IGB_TFCS_TXOFF5 = 0x00002000"

definition IGB_TFCS_TXOFF6 :: u32 where
  "IGB_TFCS_TXOFF6 = 0x00004000"

definition IGB_TFCS_TXOFF7 :: u32 where
  "IGB_TFCS_TXOFF7 = 0x00008000"

definition IGB_TCPTIMER_KS :: u32 where
  "IGB_TCPTIMER_KS = 0x00000100"

definition IGB_TCPTIMER_COUNT_ENABLE :: u32 where
  "IGB_TCPTIMER_COUNT_ENABLE = 0x00000200"

definition IGB_TCPTIMER_COUNT_FINISH :: u32 where
  "IGB_TCPTIMER_COUNT_FINISH = 0x00000400"

definition IGB_TCPTIMER_LOOP :: u32 where
  "IGB_TCPTIMER_LOOP = 0x00000800"

definition IGB_TCPTIMER_DURATION_MASK :: u32 where
  "IGB_TCPTIMER_DURATION_MASK = 0x000000FF"

definition IGB_HLREG0_TXCRCEN :: u32 where
  "IGB_HLREG0_TXCRCEN = 0x00000001"

definition IGB_HLREG0_JUMBOEN :: u32 where
  "IGB_HLREG0_JUMBOEN = 0x00000004"

definition IGB_HLREG0_TXPADEN :: u32 where
  "IGB_HLREG0_TXPADEN = 0x00000400"

definition IGB_HLREG0_TXPAUSEEN :: u32 where
  "IGB_HLREG0_TXPAUSEEN = 0x00001000"

definition IGB_HLREG0_RXPAUSEEN :: u32 where
  "IGB_HLREG0_RXPAUSEEN = 0x00004000"

definition IGB_HLREG0_LPBK :: u32 where
  "IGB_HLREG0_LPBK = 0x00008000"

definition IGB_HLREG0_MDCSPD :: u32 where
  "IGB_HLREG0_MDCSPD = 0x00010000"

definition IGB_HLREG0_CONTMDC :: u32 where
  "IGB_HLREG0_CONTMDC = 0x00020000"

definition IGB_HLREG0_CTRLFLTR :: u32 where
  "IGB_HLREG0_CTRLFLTR = 0x00040000"

definition IGB_HLREG0_PREPEND :: u32 where
  "IGB_HLREG0_PREPEND = 0x00F00000"

definition IGB_HLREG0_PRIPAUSEEN :: u32 where
  "IGB_HLREG0_PRIPAUSEEN = 0x01000000"

definition IGB_HLREG0_RXPAUSERECDA :: u32 where
  "IGB_HLREG0_RXPAUSERECDA = 0x06000000"

definition IGB_HLREG0_RXLNGTHERREN :: u32 where
  "IGB_HLREG0_RXLNGTHERREN = 0x08000000"

definition IGB_HLREG0_RXPADSTRIPEN :: u32 where
  "IGB_HLREG0_RXPADSTRIPEN = 0x10000000"

definition IGB_VMD_CTL_VMDQ_EN :: u32 where
  "IGB_VMD_CTL_VMDQ_EN = 0x00000001"

definition IGB_VMD_CTL_VMDQ_FILTER :: u32 where
  "IGB_VMD_CTL_VMDQ_FILTER = 0x00000002"

definition IGB_VT_CTL_DIS_DEFPL :: u32 where
  "IGB_VT_CTL_DIS_DEFPL = 0x20000000"

definition IGB_VT_CTL_REPLEN :: u32 where
  "IGB_VT_CTL_REPLEN = 0x40000000"

definition IGB_VT_CTL_VT_ENABLE :: u32 where
  "IGB_VT_CTL_VT_ENABLE = 0x00000001"

definition IGB_VT_CTL_POOL_SHIFT :: u32 where
  "IGB_VT_CTL_POOL_SHIFT = 7"

definition IGB_VT_CTL_POOL_MASK :: u32 where
  "IGB_VT_CTL_POOL_MASK = push_bit (unat IGB_VT_CTL_POOL_SHIFT) (0x3F :: u32)"

definition IGB_VMOLR_UPE :: u32 where
  "IGB_VMOLR_UPE = 0x00400000"

definition IGB_VMOLR_VPE :: u32 where
  "IGB_VMOLR_VPE = 0x00800000"

definition IGB_VMOLR_AUPE :: u32 where
  "IGB_VMOLR_AUPE = 0x01000000"

definition IGB_VMOLR_ROMPE :: u32 where
  "IGB_VMOLR_ROMPE = 0x02000000"

definition IGB_VMOLR_ROPE :: u32 where
  "IGB_VMOLR_ROPE = 0x04000000"

definition IGB_VMOLR_BAM :: u32 where
  "IGB_VMOLR_BAM = 0x08000000"

definition IGB_VMOLR_MPE :: u32 where
  "IGB_VMOLR_MPE = 0x10000000"

definition IGB_VFRE_ENABLE_ALL :: u32 where
  "IGB_VFRE_ENABLE_ALL = 0xFFFFFFFF"

definition IGB_VF_INIT_TIMEOUT :: u32 where
  "IGB_VF_INIT_TIMEOUT = 200"

definition IGB_RDHMPN_RDICADDR :: u32 where
  "IGB_RDHMPN_RDICADDR = 0x007FF800"

definition IGB_RDHMPN_RDICRDREQ :: u32 where
  "IGB_RDHMPN_RDICRDREQ = 0x00800000"

definition IGB_RDHMPN_RDICADDR_SHIFT :: u32 where
  "IGB_RDHMPN_RDICADDR_SHIFT = 11"

definition IGB_TDHMPN_TDICADDR :: u32 where
  "IGB_TDHMPN_TDICADDR = 0x003FF800"

definition IGB_TDHMPN_TDICRDREQ :: u32 where
  "IGB_TDHMPN_TDICRDREQ = 0x00800000"

definition IGB_TDHMPN_TDICADDR_SHIFT :: u32 where
  "IGB_TDHMPN_TDICADDR_SHIFT = 11"

definition IGB_RDMAM_MEM_SEL_SHIFT :: u32 where
  "IGB_RDMAM_MEM_SEL_SHIFT = 13"

definition IGB_RDMAM_DWORD_SHIFT :: u32 where
  "IGB_RDMAM_DWORD_SHIFT = 9"

definition IGB_RDMAM_DESC_COMP_FIFO :: u32 where
  "IGB_RDMAM_DESC_COMP_FIFO = 1"

definition IGB_RDMAM_DFC_CMD_FIFO :: u32 where
  "IGB_RDMAM_DFC_CMD_FIFO = 2"

definition IGB_RDMAM_RSC_HEADER_ADDR :: u32 where
  "IGB_RDMAM_RSC_HEADER_ADDR = 3"

definition IGB_RDMAM_TCN_STATUS_RAM :: u32 where
  "IGB_RDMAM_TCN_STATUS_RAM = 4"

definition IGB_RDMAM_WB_COLL_FIFO :: u32 where
  "IGB_RDMAM_WB_COLL_FIFO = 5"

definition IGB_RDMAM_QSC_CNT_RAM :: u32 where
  "IGB_RDMAM_QSC_CNT_RAM = 6"

definition IGB_RDMAM_QSC_FCOE_RAM :: u32 where
  "IGB_RDMAM_QSC_FCOE_RAM = 7"

definition IGB_RDMAM_QSC_QUEUE_CNT :: u32 where
  "IGB_RDMAM_QSC_QUEUE_CNT = 8"

definition IGB_RDMAM_QSC_QUEUE_RAM :: u32 where
  "IGB_RDMAM_QSC_QUEUE_RAM = 0xA"

definition IGB_RDMAM_QSC_RSC_RAM :: u32 where
  "IGB_RDMAM_QSC_RSC_RAM = 0xB"

definition IGB_RDMAM_DESC_COM_FIFO_RANGE :: u32 where
  "IGB_RDMAM_DESC_COM_FIFO_RANGE = 135"

definition IGB_RDMAM_DESC_COM_FIFO_COUNT :: u32 where
  "IGB_RDMAM_DESC_COM_FIFO_COUNT = 4"

definition IGB_RDMAM_DFC_CMD_FIFO_RANGE :: u32 where
  "IGB_RDMAM_DFC_CMD_FIFO_RANGE = 48"

definition IGB_RDMAM_DFC_CMD_FIFO_COUNT :: u32 where
  "IGB_RDMAM_DFC_CMD_FIFO_COUNT = 7"

definition IGB_RDMAM_RSC_HEADER_ADDR_RANGE :: u32 where
  "IGB_RDMAM_RSC_HEADER_ADDR_RANGE = 32"

definition IGB_RDMAM_RSC_HEADER_ADDR_COUNT :: u32 where
  "IGB_RDMAM_RSC_HEADER_ADDR_COUNT = 4"

definition IGB_RDMAM_TCN_STATUS_RAM_RANGE :: u32 where
  "IGB_RDMAM_TCN_STATUS_RAM_RANGE = 256"

definition IGB_RDMAM_TCN_STATUS_RAM_COUNT :: u32 where
  "IGB_RDMAM_TCN_STATUS_RAM_COUNT = 9"

definition IGB_RDMAM_WB_COLL_FIFO_RANGE :: u32 where
  "IGB_RDMAM_WB_COLL_FIFO_RANGE = 8"

definition IGB_RDMAM_WB_COLL_FIFO_COUNT :: u32 where
  "IGB_RDMAM_WB_COLL_FIFO_COUNT = 4"

definition IGB_RDMAM_QSC_CNT_RAM_RANGE :: u32 where
  "IGB_RDMAM_QSC_CNT_RAM_RANGE = 64"

definition IGB_RDMAM_QSC_CNT_RAM_COUNT :: u32 where
  "IGB_RDMAM_QSC_CNT_RAM_COUNT = 4"

definition IGB_RDMAM_QSC_FCOE_RAM_RANGE :: u32 where
  "IGB_RDMAM_QSC_FCOE_RAM_RANGE = 512"

definition IGB_RDMAM_QSC_FCOE_RAM_COUNT :: u32 where
  "IGB_RDMAM_QSC_FCOE_RAM_COUNT = 5"

definition IGB_RDMAM_QSC_QUEUE_CNT_RANGE :: u32 where
  "IGB_RDMAM_QSC_QUEUE_CNT_RANGE = 32"

definition IGB_RDMAM_QSC_QUEUE_CNT_COUNT :: u32 where
  "IGB_RDMAM_QSC_QUEUE_CNT_COUNT = 4"

definition IGB_RDMAM_QSC_QUEUE_RAM_RANGE :: u32 where
  "IGB_RDMAM_QSC_QUEUE_RAM_RANGE = 128"

definition IGB_RDMAM_QSC_QUEUE_RAM_COUNT :: u32 where
  "IGB_RDMAM_QSC_QUEUE_RAM_COUNT = 8"

definition IGB_RDMAM_QSC_RSC_RAM_RANGE :: u32 where
  "IGB_RDMAM_QSC_RSC_RAM_RANGE = 32"

definition IGB_RDMAM_QSC_RSC_RAM_COUNT :: u32 where
  "IGB_RDMAM_QSC_RSC_RAM_COUNT = 8"

definition IGB_TXDESCIC_READY :: u32 where
  "IGB_TXDESCIC_READY = 0x80000000"

definition IGB_RXCSUM_IPPCSE :: u32 where
  "IGB_RXCSUM_IPPCSE = 0x00001000"

definition IGB_RXCSUM_PCSD :: u32 where
  "IGB_RXCSUM_PCSD = 0x00002000"

definition IGB_FCRTL_XONE :: u32 where
  "IGB_FCRTL_XONE = 0x80000000"

definition IGB_FCRTH_FCEN :: u32 where
  "IGB_FCRTH_FCEN = 0x80000000"

definition IGB_PAP_TXPAUSECNT_MASK :: u32 where
  "IGB_PAP_TXPAUSECNT_MASK = 0x0000FFFF"

definition IGB_RMCS_RRM :: u32 where
  "IGB_RMCS_RRM = 0x00000002"

definition IGB_RMCS_RAC :: u32 where
  "IGB_RMCS_RAC = 0x00000004"

definition IGB_RMCS_DFP :: u32 where
  "IGB_RMCS_DFP = IGB_RMCS_RAC"

definition IGB_RMCS_TFCE_802_3X :: u32 where
  "IGB_RMCS_TFCE_802_3X = 0x00000008"

definition IGB_RMCS_TFCE_PRIORITY :: u32 where
  "IGB_RMCS_TFCE_PRIORITY = 0x00000010"

definition IGB_RMCS_ARBDIS :: u32 where
  "IGB_RMCS_ARBDIS = 0x00000040"

definition IGB_FCCFG_TFCE_802_3X :: u32 where
  "IGB_FCCFG_TFCE_802_3X = 0x00000008"

definition IGB_FCCFG_TFCE_PRIORITY :: u32 where
  "IGB_FCCFG_TFCE_PRIORITY = 0x00000010"

definition IGB_EICR_FLOW_DIR :: u32 where
  "IGB_EICR_FLOW_DIR = 0x00010000"

definition IGB_EICR_RX_MISS :: u32 where
  "IGB_EICR_RX_MISS = 0x00020000"

definition IGB_EICR_PCI :: u32 where
  "IGB_EICR_PCI = 0x00040000"

definition IGB_EICR_MAILBOX :: u32 where
  "IGB_EICR_MAILBOX = 0x00080000"

definition IGB_EICR_LSC :: u32 where
  "IGB_EICR_LSC = 0x00100000"

definition IGB_EICR_LINKSEC :: u32 where
  "IGB_EICR_LINKSEC = 0x00200000"

definition IGB_EICR_MNG :: u32 where
  "IGB_EICR_MNG = 0x00400000"

definition IGB_EICR_TS :: u32 where
  "IGB_EICR_TS = 0x00800000"

definition IGB_EICR_TIMESYNC :: u32 where
  "IGB_EICR_TIMESYNC = 0x01000000"

definition IGB_EICR_ECC :: u32 where
  "IGB_EICR_ECC = 0x10000000"

definition IGB_EICR_GPI_SDP0_X540 :: u32 where
  "IGB_EICR_GPI_SDP0_X540 = 0x02000000"

definition IGB_EICR_GPI_SDP1_X540 :: u32 where
  "IGB_EICR_GPI_SDP1_X540 = 0x04000000"

definition IGB_EICR_GPI_SDP2_X540 :: u32 where
  "IGB_EICR_GPI_SDP2_X540 = 0x08000000"

definition IGB_EICR_GPI_SDP0_X550 :: u32 where
  "IGB_EICR_GPI_SDP0_X550 = IGB_EICR_GPI_SDP0_X540"

definition IGB_EICR_GPI_SDP1_X550 :: u32 where
  "IGB_EICR_GPI_SDP1_X550 = IGB_EICR_GPI_SDP1_X540"

definition IGB_EICR_GPI_SDP2_X550 :: u32 where
  "IGB_EICR_GPI_SDP2_X550 = IGB_EICR_GPI_SDP2_X540"

definition IGB_EICR_GPI_SDP0_X550EM_x :: u32 where
  "IGB_EICR_GPI_SDP0_X550EM_x = IGB_EICR_GPI_SDP0_X540"

definition IGB_EICR_GPI_SDP1_X550EM_x :: u32 where
  "IGB_EICR_GPI_SDP1_X550EM_x = IGB_EICR_GPI_SDP1_X540"

definition IGB_EICR_GPI_SDP2_X550EM_x :: u32 where
  "IGB_EICR_GPI_SDP2_X550EM_x = IGB_EICR_GPI_SDP2_X540"

definition IGB_EICR_GPI_SDP0_X550EM_a :: u32 where
  "IGB_EICR_GPI_SDP0_X550EM_a = IGB_EICR_GPI_SDP0_X540"

definition IGB_EICR_GPI_SDP1_X550EM_a :: u32 where
  "IGB_EICR_GPI_SDP1_X550EM_a = IGB_EICR_GPI_SDP1_X540"

definition IGB_EICR_GPI_SDP2_X550EM_a :: u32 where
  "IGB_EICR_GPI_SDP2_X550EM_a = IGB_EICR_GPI_SDP2_X540"

definition IGB_EICR_PBUR :: u32 where
  "IGB_EICR_PBUR = 0x10000000"

definition IGB_EICR_DHER :: u32 where
  "IGB_EICR_DHER = 0x20000000"

definition IGB_EICR_TCP_TIMER :: u32 where
  "IGB_EICR_TCP_TIMER = 0x40000000"

definition IGB_EICR_OTHER :: u32 where
  "IGB_EICR_OTHER = 0x80000000"

definition IGB_EICS_RTX_QUEUE :: u32 where
  "IGB_EICS_RTX_QUEUE = IGB_EICR_RTX_QUEUE"

definition IGB_EICS_FLOW_DIR :: u32 where
  "IGB_EICS_FLOW_DIR = IGB_EICR_FLOW_DIR"

definition IGB_EICS_RX_MISS :: u32 where
  "IGB_EICS_RX_MISS = IGB_EICR_RX_MISS"

definition IGB_EICS_PCI :: u32 where
  "IGB_EICS_PCI = IGB_EICR_PCI"

definition IGB_EICS_MAILBOX :: u32 where
  "IGB_EICS_MAILBOX = IGB_EICR_MAILBOX"

definition IGB_EICS_LSC :: u32 where
  "IGB_EICS_LSC = IGB_EICR_LSC"

definition IGB_EICS_MNG :: u32 where
  "IGB_EICS_MNG = IGB_EICR_MNG"

definition IGB_EICS_TIMESYNC :: u32 where
  "IGB_EICS_TIMESYNC = IGB_EICR_TIMESYNC"

definition IGB_EICS_GPI_SDP0 :: u32 where
  "IGB_EICS_GPI_SDP0 = IGB_EICR_GPI_SDP0"

definition IGB_EICS_GPI_SDP1 :: u32 where
  "IGB_EICS_GPI_SDP1 = IGB_EICR_GPI_SDP1"

definition IGB_EICS_GPI_SDP2 :: u32 where
  "IGB_EICS_GPI_SDP2 = IGB_EICR_GPI_SDP2"

definition IGB_EICS_ECC :: u32 where
  "IGB_EICS_ECC = IGB_EICR_ECC"

definition IGB_EICS_PBUR :: u32 where
  "IGB_EICS_PBUR = IGB_EICR_PBUR"

definition IGB_EICS_DHER :: u32 where
  "IGB_EICS_DHER = IGB_EICR_DHER"

definition IGB_EICS_TCP_TIMER :: u32 where
  "IGB_EICS_TCP_TIMER = IGB_EICR_TCP_TIMER"

definition IGB_EICS_OTHER :: u32 where
  "IGB_EICS_OTHER = IGB_EICR_OTHER"

definition IGB_EIMS_FLOW_DIR :: u32 where
  "IGB_EIMS_FLOW_DIR = IGB_EICR_FLOW_DIR"

definition IGB_EIMS_RX_MISS :: u32 where
  "IGB_EIMS_RX_MISS = IGB_EICR_RX_MISS"

definition IGB_EIMS_PCI :: u32 where
  "IGB_EIMS_PCI = IGB_EICR_PCI"

definition IGB_EIMS_MAILBOX :: u32 where
  "IGB_EIMS_MAILBOX = IGB_EICR_MAILBOX"

definition IGB_EIMS_LSC :: u32 where
  "IGB_EIMS_LSC = IGB_EICR_LSC"

definition IGB_EIMS_MNG :: u32 where
  "IGB_EIMS_MNG = IGB_EICR_MNG"

definition IGB_EIMS_TS :: u32 where
  "IGB_EIMS_TS = IGB_EICR_TS"

definition IGB_EIMS_TIMESYNC :: u32 where
  "IGB_EIMS_TIMESYNC = IGB_EICR_TIMESYNC"

definition IGB_EIMS_GPI_SDP0 :: u32 where
  "IGB_EIMS_GPI_SDP0 = IGB_EICR_GPI_SDP0"

definition IGB_EIMS_GPI_SDP1 :: u32 where
  "IGB_EIMS_GPI_SDP1 = IGB_EICR_GPI_SDP1"

definition IGB_EIMS_GPI_SDP2 :: u32 where
  "IGB_EIMS_GPI_SDP2 = IGB_EICR_GPI_SDP2"

definition IGB_EIMS_ECC :: u32 where
  "IGB_EIMS_ECC = IGB_EICR_ECC"

definition IGB_EIMS_PBUR :: u32 where
  "IGB_EIMS_PBUR = IGB_EICR_PBUR"

definition IGB_EIMS_DHER :: u32 where
  "IGB_EIMS_DHER = IGB_EICR_DHER"

definition IGB_EIMS_TCP_TIMER :: u32 where
  "IGB_EIMS_TCP_TIMER = IGB_EICR_TCP_TIMER"

definition IGB_EIMS_OTHER :: u32 where
  "IGB_EIMS_OTHER = IGB_EICR_OTHER"

definition IGB_EIMC_RTX_QUEUE :: u32 where
  "IGB_EIMC_RTX_QUEUE = IGB_EICR_RTX_QUEUE"

definition IGB_EIMC_FLOW_DIR :: u32 where
  "IGB_EIMC_FLOW_DIR = IGB_EICR_FLOW_DIR"

definition IGB_EIMC_RX_MISS :: u32 where
  "IGB_EIMC_RX_MISS = IGB_EICR_RX_MISS"

definition IGB_EIMC_PCI :: u32 where
  "IGB_EIMC_PCI = IGB_EICR_PCI"

definition IGB_EIMC_MAILBOX :: u32 where
  "IGB_EIMC_MAILBOX = IGB_EICR_MAILBOX"

definition IGB_EIMC_LSC :: u32 where
  "IGB_EIMC_LSC = IGB_EICR_LSC"

definition IGB_EIMC_MNG :: u32 where
  "IGB_EIMC_MNG = IGB_EICR_MNG"

definition IGB_EIMC_TIMESYNC :: u32 where
  "IGB_EIMC_TIMESYNC = IGB_EICR_TIMESYNC"

definition IGB_EIMC_GPI_SDP0 :: u32 where
  "IGB_EIMC_GPI_SDP0 = IGB_EICR_GPI_SDP0"

definition IGB_EIMC_GPI_SDP1 :: u32 where
  "IGB_EIMC_GPI_SDP1 = IGB_EICR_GPI_SDP1"

definition IGB_EIMC_GPI_SDP2 :: u32 where
  "IGB_EIMC_GPI_SDP2 = IGB_EICR_GPI_SDP2"

definition IGB_EIMC_ECC :: u32 where
  "IGB_EIMC_ECC = IGB_EICR_ECC"

definition IGB_EIMC_PBUR :: u32 where
  "IGB_EIMC_PBUR = IGB_EICR_PBUR"

definition IGB_EIMC_DHER :: u32 where
  "IGB_EIMC_DHER = IGB_EICR_DHER"

definition IGB_EIMC_TCP_TIMER :: u32 where
  "IGB_EIMC_TCP_TIMER = IGB_EICR_TCP_TIMER"

definition IGB_EIMC_OTHER :: u32 where
  "IGB_EIMC_OTHER = IGB_EICR_OTHER"

definition IGB_EIMS_ENABLE_MASK :: u32 where
  "IGB_EIMS_ENABLE_MASK = ((IGB_EIMS_RTX_QUEUE OR IGB_EIMS_LSC) OR IGB_EIMS_TCP_TIMER) OR IGB_EIMS_OTHER"

definition IGB_IMIR_PORT_IM_EN :: u32 where
  "IGB_IMIR_PORT_IM_EN = 0x00010000"

definition IGB_IMIR_PORT_BP :: u32 where
  "IGB_IMIR_PORT_BP = 0x00020000"

definition IGB_IMIREXT_SIZE_BP :: u32 where
  "IGB_IMIREXT_SIZE_BP = 0x00001000"

definition IGB_IMIREXT_CTRL_URG :: u32 where
  "IGB_IMIREXT_CTRL_URG = 0x00002000"

definition IGB_IMIREXT_CTRL_ACK :: u32 where
  "IGB_IMIREXT_CTRL_ACK = 0x00004000"

definition IGB_IMIREXT_CTRL_PSH :: u32 where
  "IGB_IMIREXT_CTRL_PSH = 0x00008000"

definition IGB_IMIREXT_CTRL_RST :: u32 where
  "IGB_IMIREXT_CTRL_RST = 0x00010000"

definition IGB_IMIREXT_CTRL_SYN :: u32 where
  "IGB_IMIREXT_CTRL_SYN = 0x00020000"

definition IGB_IMIREXT_CTRL_FIN :: u32 where
  "IGB_IMIREXT_CTRL_FIN = 0x00040000"

definition IGB_IMIREXT_CTRL_BP :: u32 where
  "IGB_IMIREXT_CTRL_BP = 0x00080000"

definition IGB_IMIR_SIZE_BP_82599 :: u32 where
  "IGB_IMIR_SIZE_BP_82599 = 0x00001000"

definition IGB_IMIR_CTRL_URG_82599 :: u32 where
  "IGB_IMIR_CTRL_URG_82599 = 0x00002000"

definition IGB_IMIR_CTRL_ACK_82599 :: u32 where
  "IGB_IMIR_CTRL_ACK_82599 = 0x00004000"

definition IGB_IMIR_CTRL_PSH_82599 :: u32 where
  "IGB_IMIR_CTRL_PSH_82599 = 0x00008000"

definition IGB_IMIR_CTRL_RST_82599 :: u32 where
  "IGB_IMIR_CTRL_RST_82599 = 0x00010000"

definition IGB_IMIR_CTRL_SYN_82599 :: u32 where
  "IGB_IMIR_CTRL_SYN_82599 = 0x00020000"

definition IGB_IMIR_CTRL_FIN_82599 :: u32 where
  "IGB_IMIR_CTRL_FIN_82599 = 0x00040000"

definition IGB_IMIR_CTRL_BP_82599 :: u32 where
  "IGB_IMIR_CTRL_BP_82599 = 0x00080000"

definition IGB_IMIR_LLI_EN_82599 :: u32 where
  "IGB_IMIR_LLI_EN_82599 = 0x00100000"

definition IGB_IMIR_RX_QUEUE_MASK_82599 :: u32 where
  "IGB_IMIR_RX_QUEUE_MASK_82599 = 0x0000007F"

definition IGB_IMIR_RX_QUEUE_SHIFT_82599 :: u32 where
  "IGB_IMIR_RX_QUEUE_SHIFT_82599 = 21"

definition IGB_IMIRVP_PRIORITY_MASK :: u32 where
  "IGB_IMIRVP_PRIORITY_MASK = 0x00000007"

definition IGB_IMIRVP_PRIORITY_EN :: u32 where
  "IGB_IMIRVP_PRIORITY_EN = 0x00000008"

definition IGB_MAX_FTQF_FILTERS :: u32 where
  "IGB_MAX_FTQF_FILTERS = 128"

definition IGB_FTQF_PROTOCOL_MASK :: u32 where
  "IGB_FTQF_PROTOCOL_MASK = 0x00000003"

definition IGB_FTQF_PROTOCOL_TCP :: u32 where
  "IGB_FTQF_PROTOCOL_TCP = 0x00000000"

definition IGB_FTQF_PROTOCOL_UDP :: u32 where
  "IGB_FTQF_PROTOCOL_UDP = 0x00000001"

definition IGB_FTQF_PROTOCOL_SCTP :: u32 where
  "IGB_FTQF_PROTOCOL_SCTP = 2"

definition IGB_FTQF_PRIORITY_MASK :: u32 where
  "IGB_FTQF_PRIORITY_MASK = 0x00000007"

definition IGB_FTQF_PRIORITY_SHIFT :: u32 where
  "IGB_FTQF_PRIORITY_SHIFT = 2"

definition IGB_FTQF_POOL_MASK :: u32 where
  "IGB_FTQF_POOL_MASK = 0x0000003F"

definition IGB_FTQF_POOL_SHIFT :: u32 where
  "IGB_FTQF_POOL_SHIFT = 8"

definition IGB_FTQF_5TUPLE_MASK_MASK :: u32 where
  "IGB_FTQF_5TUPLE_MASK_MASK = 0x0000001F"

definition IGB_FTQF_5TUPLE_MASK_SHIFT :: u32 where
  "IGB_FTQF_5TUPLE_MASK_SHIFT = 25"

definition IGB_FTQF_SOURCE_ADDR_MASK :: u32 where
  "IGB_FTQF_SOURCE_ADDR_MASK = 0x1E"

definition IGB_FTQF_DEST_ADDR_MASK :: u32 where
  "IGB_FTQF_DEST_ADDR_MASK = 0x1D"

definition IGB_FTQF_SOURCE_PORT_MASK :: u32 where
  "IGB_FTQF_SOURCE_PORT_MASK = 0x1B"

definition IGB_FTQF_DEST_PORT_MASK :: u32 where
  "IGB_FTQF_DEST_PORT_MASK = 0x17"

definition IGB_FTQF_PROTOCOL_COMP_MASK :: u32 where
  "IGB_FTQF_PROTOCOL_COMP_MASK = 0x0F"

definition IGB_FTQF_POOL_MASK_EN :: u32 where
  "IGB_FTQF_POOL_MASK_EN = 0x40000000"

definition IGB_FTQF_QUEUE_ENABLE :: u32 where
  "IGB_FTQF_QUEUE_ENABLE = 0x80000000"

definition IGB_IVAR_REG_NUM :: u32 where
  "IGB_IVAR_REG_NUM = 25"

definition IGB_IVAR_REG_NUM_82599 :: u32 where
  "IGB_IVAR_REG_NUM_82599 = 64"

definition IGB_IVAR_TXRX_ENTRY :: u32 where
  "IGB_IVAR_TXRX_ENTRY = 96"

definition IGB_IVAR_RX_ENTRY :: u32 where
  "IGB_IVAR_RX_ENTRY = 64"

definition IGB_IVAR_TX_ENTRY :: u32 where
  "IGB_IVAR_TX_ENTRY = 32"

definition IGB_IVAR_TCP_TIMER_INDEX :: u32 where
  "IGB_IVAR_TCP_TIMER_INDEX = 96"

definition IGB_IVAR_OTHER_CAUSES_INDEX :: u32 where
  "IGB_IVAR_OTHER_CAUSES_INDEX = 97"

definition IGB_MAX_ETQF_FILTERS :: u32 where
  "IGB_MAX_ETQF_FILTERS = 8"

definition IGB_ETQF_FCOE :: u32 where
  "IGB_ETQF_FCOE = 0x08000000"

definition IGB_ETQF_BCN :: u32 where
  "IGB_ETQF_BCN = 0x10000000"

definition IGB_ETQF_TX_ANTISPOOF :: u32 where
  "IGB_ETQF_TX_ANTISPOOF = 0x20000000"

definition IGB_ETQF_1588 :: u32 where
  "IGB_ETQF_1588 = 0x40000000"

definition IGB_ETQF_FILTER_EN :: u32 where
  "IGB_ETQF_FILTER_EN = 0x80000000"

definition IGB_ETQF_POOL_ENABLE :: u32 where
  "IGB_ETQF_POOL_ENABLE = push_bit 26 (1 :: u32)"

definition IGB_ETQF_POOL_SHIFT :: u32 where
  "IGB_ETQF_POOL_SHIFT = 20"

definition IGB_ETQS_RX_QUEUE :: u32 where
  "IGB_ETQS_RX_QUEUE = 0x007F0000"

definition IGB_ETQS_RX_QUEUE_SHIFT :: u32 where
  "IGB_ETQS_RX_QUEUE_SHIFT = 16"

definition IGB_ETQS_LLI :: u32 where
  "IGB_ETQS_LLI = 0x20000000"

definition IGB_ETQS_QUEUE_EN :: u32 where
  "IGB_ETQS_QUEUE_EN = 0x80000000"

definition IGB_ETQF_FILTER_EAPOL :: u32 where
  "IGB_ETQF_FILTER_EAPOL = 0"

definition IGB_ETQF_FILTER_FCOE :: u32 where
  "IGB_ETQF_FILTER_FCOE = 2"

definition IGB_ETQF_FILTER_1588 :: u32 where
  "IGB_ETQF_FILTER_1588 = 3"

definition IGB_ETQF_FILTER_FIP :: u32 where
  "IGB_ETQF_FILTER_FIP = 4"

definition IGB_ETQF_FILTER_LLDP :: u32 where
  "IGB_ETQF_FILTER_LLDP = 5"

definition IGB_ETQF_FILTER_LACP :: u32 where
  "IGB_ETQF_FILTER_LACP = 6"

definition IGB_ETQF_FILTER_FC :: u32 where
  "IGB_ETQF_FILTER_FC = 7"

end
