(* ===== verification/Masks_Link.thy ===== *)
theory Masks_Link
  imports Masks_Intr
begin

text \<open>
  The bit masks of the VLAN, status, LED and link registers and of the semaphores.
  From \<open>src/constants.rs\<close>, with the values of the source.
\<close>

definition IGB_VLNCTRL_VET :: u32 where
  "IGB_VLNCTRL_VET = 0x0000FFFF"

definition IGB_VLNCTRL_CFI :: u32 where
  "IGB_VLNCTRL_CFI = 0x10000000"

definition IGB_VLNCTRL_CFIEN :: u32 where
  "IGB_VLNCTRL_CFIEN = 0x20000000"

definition IGB_VLNCTRL_VFE :: u32 where
  "IGB_VLNCTRL_VFE = 0x40000000"

definition IGB_VLNCTRL_VME :: u32 where
  "IGB_VLNCTRL_VME = 0x80000000"

definition IGB_VLVF_VIEN :: u32 where
  "IGB_VLVF_VIEN = 0x80000000"

definition IGB_VLVF_ENTRIES :: u32 where
  "IGB_VLVF_ENTRIES = 64"

definition IGB_VLVF_VLANID_MASK :: u32 where
  "IGB_VLVF_VLANID_MASK = 0x00000FFF"

definition IGB_VMVIR_VLANA_DEFAULT :: u32 where
  "IGB_VMVIR_VLANA_DEFAULT = 0x40000000"

definition IGB_VMVIR_VLANA_NEVER :: u32 where
  "IGB_VMVIR_VLANA_NEVER = 0x80000000"

definition IGB_ETHERNET_IEEE_VLAN_TYPE :: u32 where
  "IGB_ETHERNET_IEEE_VLAN_TYPE = 0x8100"

definition IGB_STATUS_LAN_ID :: u32 where
  "IGB_STATUS_LAN_ID = 0x0000000C"

definition IGB_STATUS_LAN_ID_SHIFT :: u32 where
  "IGB_STATUS_LAN_ID_SHIFT = 2"

definition IGB_STATUS_GIO :: u32 where
  "IGB_STATUS_GIO = 0x00080000"

definition IGB_STATUS_LAN_ID_0 :: u32 where
  "IGB_STATUS_LAN_ID_0 = 0x00000000"

definition IGB_STATUS_LAN_ID_1 :: u32 where
  "IGB_STATUS_LAN_ID_1 = 0x00000004"

definition IGB_ESDP_SDP0 :: u32 where
  "IGB_ESDP_SDP0 = 0x00000001"

definition IGB_ESDP_SDP1 :: u32 where
  "IGB_ESDP_SDP1 = 0x00000002"

definition IGB_ESDP_SDP2 :: u32 where
  "IGB_ESDP_SDP2 = 0x00000004"

definition IGB_ESDP_SDP3 :: u32 where
  "IGB_ESDP_SDP3 = 0x00000008"

definition IGB_ESDP_SDP4 :: u32 where
  "IGB_ESDP_SDP4 = 0x00000010"

definition IGB_ESDP_SDP5 :: u32 where
  "IGB_ESDP_SDP5 = 0x00000020"

definition IGB_ESDP_SDP6 :: u32 where
  "IGB_ESDP_SDP6 = 0x00000040"

definition IGB_ESDP_SDP7 :: u32 where
  "IGB_ESDP_SDP7 = 0x00000080"

definition IGB_ESDP_SDP0_DIR :: u32 where
  "IGB_ESDP_SDP0_DIR = 0x00000100"

definition IGB_ESDP_SDP1_DIR :: u32 where
  "IGB_ESDP_SDP1_DIR = 0x00000200"

definition IGB_ESDP_SDP2_DIR :: u32 where
  "IGB_ESDP_SDP2_DIR = 0x00000400"

definition IGB_ESDP_SDP3_DIR :: u32 where
  "IGB_ESDP_SDP3_DIR = 0x00000800"

definition IGB_ESDP_SDP4_DIR :: u32 where
  "IGB_ESDP_SDP4_DIR = 0x00001000"

definition IGB_ESDP_SDP5_DIR :: u32 where
  "IGB_ESDP_SDP5_DIR = 0x00002000"

definition IGB_ESDP_SDP6_DIR :: u32 where
  "IGB_ESDP_SDP6_DIR = 0x00004000"

definition IGB_ESDP_SDP7_DIR :: u32 where
  "IGB_ESDP_SDP7_DIR = 0x00008000"

definition IGB_ESDP_SDP0_NATIVE :: u32 where
  "IGB_ESDP_SDP0_NATIVE = 0x00010000"

definition IGB_ESDP_SDP1_NATIVE :: u32 where
  "IGB_ESDP_SDP1_NATIVE = 0x00020000"

definition IGB_X557_LED_MANUAL_SET_MASK :: u32 where
  "IGB_X557_LED_MANUAL_SET_MASK = push_bit 8 (1 :: u32)"

definition IGB_X557_MAX_LED_INDEX :: u32 where
  "IGB_X557_MAX_LED_INDEX = 3"

definition IGB_X557_LED_PROVISIONING :: u32 where
  "IGB_X557_LED_PROVISIONING = 0xC430"

definition IGB_LED_LINK_UP :: u32 where
  "IGB_LED_LINK_UP = 0x0"

definition IGB_LED_LINK_10G :: u32 where
  "IGB_LED_LINK_10G = 0x1"

definition IGB_LED_MAC :: u32 where
  "IGB_LED_MAC = 0x2"

definition IGB_LED_FILTER :: u32 where
  "IGB_LED_FILTER = 0x3"

definition IGB_LED_LINK_ACTIVE :: u32 where
  "IGB_LED_LINK_ACTIVE = 0x4"

definition IGB_LED_LINK_1G :: u32 where
  "IGB_LED_LINK_1G = 0x5"

definition IGB_LED_ON :: u32 where
  "IGB_LED_ON = 0xE"

definition IGB_LED_OFF :: u32 where
  "IGB_LED_OFF = 0xF"

definition IGB_AUTOC_KX4_KX_SUPP_MASK :: u32 where
  "IGB_AUTOC_KX4_KX_SUPP_MASK = 0xC0000000"

definition IGB_AUTOC_KX4_SUPP :: u32 where
  "IGB_AUTOC_KX4_SUPP = 0x80000000"

definition IGB_AUTOC_KX_SUPP :: u32 where
  "IGB_AUTOC_KX_SUPP = 0x40000000"

definition IGB_AUTOC_PAUSE :: u32 where
  "IGB_AUTOC_PAUSE = 0x30000000"

definition IGB_AUTOC_ASM_PAUSE :: u32 where
  "IGB_AUTOC_ASM_PAUSE = 0x20000000"

definition IGB_AUTOC_SYM_PAUSE :: u32 where
  "IGB_AUTOC_SYM_PAUSE = 0x10000000"

definition IGB_AUTOC_RF :: u32 where
  "IGB_AUTOC_RF = 0x08000000"

definition IGB_AUTOC_PD_TMR :: u32 where
  "IGB_AUTOC_PD_TMR = 0x06000000"

definition IGB_AUTOC_AN_RX_LOOSE :: u32 where
  "IGB_AUTOC_AN_RX_LOOSE = 0x01000000"

definition IGB_AUTOC_AN_RX_DRIFT :: u32 where
  "IGB_AUTOC_AN_RX_DRIFT = 0x00800000"

definition IGB_AUTOC_AN_RX_ALIGN :: u32 where
  "IGB_AUTOC_AN_RX_ALIGN = 0x007C0000"

definition IGB_AUTOC_FECA :: u32 where
  "IGB_AUTOC_FECA = 0x00040000"

definition IGB_AUTOC_FECR :: u32 where
  "IGB_AUTOC_FECR = 0x00020000"

definition IGB_AUTOC_KR_SUPP :: u32 where
  "IGB_AUTOC_KR_SUPP = 0x00010000"

definition IGB_AUTOC_AN_RESTART :: u32 where
  "IGB_AUTOC_AN_RESTART = 0x00001000"

definition IGB_AUTOC_FLU :: u32 where
  "IGB_AUTOC_FLU = 0x00000001"

definition IGB_AUTOC_LMS_SHIFT :: u32 where
  "IGB_AUTOC_LMS_SHIFT = 13"

definition IGB_AUTOC_LMS_10G_SERIAL :: u32 where
  "IGB_AUTOC_LMS_10G_SERIAL = push_bit (unat IGB_AUTOC_LMS_SHIFT) (0x3 :: u32)"

definition IGB_AUTOC_LMS_KX4_KX_KR :: u32 where
  "IGB_AUTOC_LMS_KX4_KX_KR = push_bit (unat IGB_AUTOC_LMS_SHIFT) (0x4 :: u32)"

definition IGB_AUTOC_LMS_SGMII_1G_100M :: u32 where
  "IGB_AUTOC_LMS_SGMII_1G_100M = push_bit (unat IGB_AUTOC_LMS_SHIFT) (0x5 :: u32)"

definition IGB_AUTOC_LMS_KX4_KX_KR_1G_AN :: u32 where
  "IGB_AUTOC_LMS_KX4_KX_KR_1G_AN = push_bit (unat IGB_AUTOC_LMS_SHIFT) (0x6 :: u32)"

definition IGB_AUTOC_LMS_KX4_KX_KR_SGMII :: u32 where
  "IGB_AUTOC_LMS_KX4_KX_KR_SGMII = push_bit (unat IGB_AUTOC_LMS_SHIFT) (0x7 :: u32)"

definition IGB_AUTOC_LMS_MASK :: u32 where
  "IGB_AUTOC_LMS_MASK = push_bit (unat IGB_AUTOC_LMS_SHIFT) (0x7 :: u32)"

definition IGB_AUTOC_LMS_1G_LINK_NO_AN :: u32 where
  "IGB_AUTOC_LMS_1G_LINK_NO_AN = push_bit (unat IGB_AUTOC_LMS_SHIFT) (0x0 :: u32)"

definition IGB_AUTOC_LMS_10G_LINK_NO_AN :: u32 where
  "IGB_AUTOC_LMS_10G_LINK_NO_AN = push_bit (unat IGB_AUTOC_LMS_SHIFT) (0x1 :: u32)"

definition IGB_AUTOC_LMS_1G_AN :: u32 where
  "IGB_AUTOC_LMS_1G_AN = push_bit (unat IGB_AUTOC_LMS_SHIFT) (0x2 :: u32)"

definition IGB_AUTOC_LMS_KX4_AN :: u32 where
  "IGB_AUTOC_LMS_KX4_AN = push_bit (unat IGB_AUTOC_LMS_SHIFT) (0x4 :: u32)"

definition IGB_AUTOC_LMS_KX4_AN_1G_AN :: u32 where
  "IGB_AUTOC_LMS_KX4_AN_1G_AN = push_bit (unat IGB_AUTOC_LMS_SHIFT) (0x6 :: u32)"

definition IGB_AUTOC_10G_PMA_PMD_SHIFT :: u32 where
  "IGB_AUTOC_10G_PMA_PMD_SHIFT = 7"

definition IGB_AUTOC_LMS_ATTACH_TYPE :: u32 where
  "IGB_AUTOC_LMS_ATTACH_TYPE = push_bit (unat IGB_AUTOC_10G_PMA_PMD_SHIFT) (0x7 :: u32)"

definition IGB_AUTOC_1G_PMA_PMD_MASK :: u32 where
  "IGB_AUTOC_1G_PMA_PMD_MASK = 0x00000200"

definition IGB_AUTOC_1G_PMA_PMD_SHIFT :: u32 where
  "IGB_AUTOC_1G_PMA_PMD_SHIFT = 9"

definition IGB_AUTOC_10G_PMA_PMD_MASK :: u32 where
  "IGB_AUTOC_10G_PMA_PMD_MASK = 0x00000180"

definition IGB_AUTOC_10G_XAUI :: u32 where
  "IGB_AUTOC_10G_XAUI = push_bit (unat IGB_AUTOC_10G_PMA_PMD_SHIFT) (0x0 :: u32)"

definition IGB_AUTOC_10G_KX4 :: u32 where
  "IGB_AUTOC_10G_KX4 = push_bit (unat IGB_AUTOC_10G_PMA_PMD_SHIFT) (0x1 :: u32)"

definition IGB_AUTOC_10G_CX4 :: u32 where
  "IGB_AUTOC_10G_CX4 = push_bit (unat IGB_AUTOC_10G_PMA_PMD_SHIFT) (0x2 :: u32)"

definition IGB_AUTOC_1G_BX :: u32 where
  "IGB_AUTOC_1G_BX = push_bit (unat IGB_AUTOC_1G_PMA_PMD_SHIFT) (0x0 :: u32)"

definition IGB_AUTOC_1G_KX :: u32 where
  "IGB_AUTOC_1G_KX = push_bit (unat IGB_AUTOC_1G_PMA_PMD_SHIFT) (0x1 :: u32)"

definition IGB_AUTOC_1G_SFI :: u32 where
  "IGB_AUTOC_1G_SFI = push_bit (unat IGB_AUTOC_1G_PMA_PMD_SHIFT) (0x0 :: u32)"

definition IGB_AUTOC_1G_KX_BX :: u32 where
  "IGB_AUTOC_1G_KX_BX = push_bit (unat IGB_AUTOC_1G_PMA_PMD_SHIFT) (0x1 :: u32)"

definition IGB_AUTOC2_UPPER_MASK :: u32 where
  "IGB_AUTOC2_UPPER_MASK = 0xFFFF0000"

definition IGB_AUTOC2_10G_SERIAL_PMA_PMD_MASK :: u32 where
  "IGB_AUTOC2_10G_SERIAL_PMA_PMD_MASK = 0x00030000"

definition IGB_AUTOC2_10G_SERIAL_PMA_PMD_SHIFT :: u32 where
  "IGB_AUTOC2_10G_SERIAL_PMA_PMD_SHIFT = 16"

definition IGB_AUTOC2_10G_KR :: u32 where
  "IGB_AUTOC2_10G_KR = push_bit (unat IGB_AUTOC2_10G_SERIAL_PMA_PMD_SHIFT) (0x0 :: u32)"

definition IGB_AUTOC2_10G_XFI :: u32 where
  "IGB_AUTOC2_10G_XFI = push_bit (unat IGB_AUTOC2_10G_SERIAL_PMA_PMD_SHIFT) (0x1 :: u32)"

definition IGB_AUTOC2_10G_SFI :: u32 where
  "IGB_AUTOC2_10G_SFI = push_bit (unat IGB_AUTOC2_10G_SERIAL_PMA_PMD_SHIFT) (0x2 :: u32)"

definition IGB_AUTOC2_LINK_DISABLE_ON_D3_MASK :: u32 where
  "IGB_AUTOC2_LINK_DISABLE_ON_D3_MASK = 0x50000000"

definition IGB_AUTOC2_LINK_DISABLE_MASK :: u32 where
  "IGB_AUTOC2_LINK_DISABLE_MASK = 0x70000000"

definition IGB_MACC_FLU :: u32 where
  "IGB_MACC_FLU = 0x00000001"

definition IGB_MACC_FSV_10G :: u32 where
  "IGB_MACC_FSV_10G = 0x00030000"

definition IGB_MACC_FS :: u32 where
  "IGB_MACC_FS = 0x00040000"

definition IGB_MAC_RX2TX_LPBK :: u32 where
  "IGB_MAC_RX2TX_LPBK = 0x00000002"

definition IGB_MMNGC_MNG_VETO :: u32 where
  "IGB_MMNGC_MNG_VETO = 0x00000001"

definition IGB_LINKS_KX_AN_COMP :: u32 where
  "IGB_LINKS_KX_AN_COMP = 0x80000000"

definition IGB_LINKS_SPEED :: u32 where
  "IGB_LINKS_SPEED = 0x20000000"

definition IGB_LINKS_MODE :: u32 where
  "IGB_LINKS_MODE = 0x18000000"

definition IGB_LINKS_RX_MODE :: u32 where
  "IGB_LINKS_RX_MODE = 0x06000000"

definition IGB_LINKS_TX_MODE :: u32 where
  "IGB_LINKS_TX_MODE = 0x01800000"

definition IGB_LINKS_XGXS_EN :: u32 where
  "IGB_LINKS_XGXS_EN = 0x00400000"

definition IGB_LINKS_SGMII_EN :: u32 where
  "IGB_LINKS_SGMII_EN = 0x02000000"

definition IGB_LINKS_PCS_1G_EN :: u32 where
  "IGB_LINKS_PCS_1G_EN = 0x00200000"

definition IGB_LINKS_1G_AN_EN :: u32 where
  "IGB_LINKS_1G_AN_EN = 0x00100000"

definition IGB_LINKS_KX_AN_IDLE :: u32 where
  "IGB_LINKS_KX_AN_IDLE = 0x00080000"

definition IGB_LINKS_1G_SYNC :: u32 where
  "IGB_LINKS_1G_SYNC = 0x00040000"

definition IGB_LINKS_10G_ALIGN :: u32 where
  "IGB_LINKS_10G_ALIGN = 0x00020000"

definition IGB_LINKS_10G_LANE_SYNC :: u32 where
  "IGB_LINKS_10G_LANE_SYNC = 0x00017000"

definition IGB_LINKS_TL_FAULT :: u32 where
  "IGB_LINKS_TL_FAULT = 0x00001000"

definition IGB_LINKS_SIGNAL :: u32 where
  "IGB_LINKS_SIGNAL = 0x00000F00"

definition IGB_LINKS_SPEED_NON_STD :: u32 where
  "IGB_LINKS_SPEED_NON_STD = 0x08000000"

definition IGB_LINKS_SPEED_82599 :: u32 where
  "IGB_LINKS_SPEED_82599 = 0x30000000"

definition IGB_LINKS_SPEED_10G_82599 :: u32 where
  "IGB_LINKS_SPEED_10G_82599 = 0x30000000"

definition IGB_LINKS_SPEED_1G_82599 :: u32 where
  "IGB_LINKS_SPEED_1G_82599 = 0x20000000"

definition IGB_LINKS_SPEED_100_82599 :: u32 where
  "IGB_LINKS_SPEED_100_82599 = 0x10000000"

definition IGB_LINKS_SPEED_10_X550EM_A :: u32 where
  "IGB_LINKS_SPEED_10_X550EM_A = 0x00000000"

definition IGB_LINK_UP_TIME :: u32 where
  "IGB_LINK_UP_TIME = 90"

definition IGB_AUTO_NEG_TIME :: u32 where
  "IGB_AUTO_NEG_TIME = 45"

definition IGB_LINKS2_AN_SUPPORTED :: u32 where
  "IGB_LINKS2_AN_SUPPORTED = 0x00000040"

definition IGB_PCS1GLSTA_LINK_OK :: u32 where
  "IGB_PCS1GLSTA_LINK_OK = 1"

definition IGB_PCS1GLSTA_SYNK_OK :: u32 where
  "IGB_PCS1GLSTA_SYNK_OK = 0x10"

definition IGB_PCS1GLSTA_AN_COMPLETE :: u32 where
  "IGB_PCS1GLSTA_AN_COMPLETE = 0x10000"

definition IGB_PCS1GLSTA_AN_PAGE_RX :: u32 where
  "IGB_PCS1GLSTA_AN_PAGE_RX = 0x20000"

definition IGB_PCS1GLSTA_AN_TIMED_OUT :: u32 where
  "IGB_PCS1GLSTA_AN_TIMED_OUT = 0x40000"

definition IGB_PCS1GLSTA_AN_REMOTE_FAULT :: u32 where
  "IGB_PCS1GLSTA_AN_REMOTE_FAULT = 0x80000"

definition IGB_PCS1GLSTA_AN_ERROR_RWS :: u32 where
  "IGB_PCS1GLSTA_AN_ERROR_RWS = 0x100000"

definition IGB_PCS1GANA_SYM_PAUSE :: u32 where
  "IGB_PCS1GANA_SYM_PAUSE = 0x80"

definition IGB_PCS1GANA_ASM_PAUSE :: u32 where
  "IGB_PCS1GANA_ASM_PAUSE = 0x100"

definition IGB_PCS1GLCTL_AN_1G_TIMEOUT_EN :: u32 where
  "IGB_PCS1GLCTL_AN_1G_TIMEOUT_EN = 0x00040000"

definition IGB_PCS1GLCTL_FLV_LINK_UP :: u32 where
  "IGB_PCS1GLCTL_FLV_LINK_UP = 1"

definition IGB_PCS1GLCTL_FORCE_LINK :: u32 where
  "IGB_PCS1GLCTL_FORCE_LINK = 0x20"

definition IGB_PCS1GLCTL_LOW_LINK_LATCH :: u32 where
  "IGB_PCS1GLCTL_LOW_LINK_LATCH = 0x40"

definition IGB_PCS1GLCTL_AN_ENABLE :: u32 where
  "IGB_PCS1GLCTL_AN_ENABLE = 0x10000"

definition IGB_PCS1GLCTL_AN_RESTART :: u32 where
  "IGB_PCS1GLCTL_AN_RESTART = 0x20000"

definition IGB_ANLP1_PAUSE :: u32 where
  "IGB_ANLP1_PAUSE = 0x0C00"

definition IGB_ANLP1_SYM_PAUSE :: u32 where
  "IGB_ANLP1_SYM_PAUSE = 0x0400"

definition IGB_ANLP1_ASM_PAUSE :: u32 where
  "IGB_ANLP1_ASM_PAUSE = 0x0800"

definition IGB_ANLP1_AN_STATE_MASK :: u32 where
  "IGB_ANLP1_AN_STATE_MASK = 0x000f0000"

definition IGB_SWSM_SMBI :: u32 where
  "IGB_SWSM_SMBI = 0x00000001"

definition IGB_SWSM_SWESMBI :: u32 where
  "IGB_SWSM_SWESMBI = 0x00000002"

definition IGB_SWSM_WMNG :: u32 where
  "IGB_SWSM_WMNG = 0x00000004"

definition IGB_SWFW_REGSMP :: u32 where
  "IGB_SWFW_REGSMP = 0x80000000"

definition IGB_GSSR_EEP_SM :: u32 where
  "IGB_GSSR_EEP_SM = 0x0001"

definition IGB_GSSR_PHY0_SM :: u32 where
  "IGB_GSSR_PHY0_SM = 0x0002"

definition IGB_GSSR_PHY1_SM :: u32 where
  "IGB_GSSR_PHY1_SM = 0x0004"

definition IGB_GSSR_MAC_CSR_SM :: u32 where
  "IGB_GSSR_MAC_CSR_SM = 0x0008"

definition IGB_GSSR_FLASH_SM :: u32 where
  "IGB_GSSR_FLASH_SM = 0x0010"

definition IGB_GSSR_NVM_UPDATE_SM :: u32 where
  "IGB_GSSR_NVM_UPDATE_SM = 0x0200"

definition IGB_GSSR_SW_MNG_SM :: u32 where
  "IGB_GSSR_SW_MNG_SM = 0x0400"

definition IGB_GSSR_TOKEN_SM :: u32 where
  "IGB_GSSR_TOKEN_SM = 0x40000000"

definition IGB_GSSR_SHARED_I2C_SM :: u32 where
  "IGB_GSSR_SHARED_I2C_SM = 0x1806"

definition IGB_GSSR_I2C_MASK :: u32 where
  "IGB_GSSR_I2C_MASK = 0x1800"

definition IGB_GSSR_NVM_PHY_MASK :: u32 where
  "IGB_GSSR_NVM_PHY_MASK = 0xF"

definition IGB_FWSTS_FWRI :: u32 where
  "IGB_FWSTS_FWRI = 0x00000200"

end
