(* ===== verification/Masks_Nvm.thy ===== *)
theory Masks_Nvm
  imports Masks_Link
begin

text \<open>
  The EEPROM and flash commands, words and masks, and those of the PCI configuration space.
  From \<open>src/constants.rs\<close>, with the values of the source.
\<close>

definition IGB_EEC_SK :: u32 where
  "IGB_EEC_SK = 0x00000001"

definition IGB_EEC_CS :: u32 where
  "IGB_EEC_CS = 0x00000002"

definition IGB_EEC_DI :: u32 where
  "IGB_EEC_DI = 0x00000004"

definition IGB_EEC_DO :: u32 where
  "IGB_EEC_DO = 0x00000008"

definition IGB_EEC_FWE_MASK :: u32 where
  "IGB_EEC_FWE_MASK = 0x00000030"

definition IGB_EEC_FWE_DIS :: u32 where
  "IGB_EEC_FWE_DIS = 0x00000010"

definition IGB_EEC_FWE_EN :: u32 where
  "IGB_EEC_FWE_EN = 0x00000020"

definition IGB_EEC_FWE_SHIFT :: u32 where
  "IGB_EEC_FWE_SHIFT = 4"

definition IGB_EEC_REQ :: u32 where
  "IGB_EEC_REQ = 0x00000040"

definition IGB_EEC_GNT :: u32 where
  "IGB_EEC_GNT = 0x00000080"

definition IGB_EEC_PRES :: u32 where
  "IGB_EEC_PRES = 0x00000100"

definition IGB_EEC_ARD :: u32 where
  "IGB_EEC_ARD = 0x00000200"

definition IGB_EEC_FLUP :: u32 where
  "IGB_EEC_FLUP = 0x00800000"

definition IGB_EEC_SEC1VAL :: u32 where
  "IGB_EEC_SEC1VAL = 0x02000000"

definition IGB_EEC_FLUDONE :: u32 where
  "IGB_EEC_FLUDONE = 0x04000000"

definition IGB_EEC_ADDR_SIZE :: u32 where
  "IGB_EEC_ADDR_SIZE = 0x00000400"

definition IGB_EEC_SIZE :: u32 where
  "IGB_EEC_SIZE = 0x00007800"

definition IGB_EERD_MAX_ADDR :: u32 where
  "IGB_EERD_MAX_ADDR = 0x00003FFF"

definition IGB_EEC_SIZE_SHIFT :: u32 where
  "IGB_EEC_SIZE_SHIFT = 11"

definition IGB_EEPROM_WORD_SIZE_SHIFT :: u32 where
  "IGB_EEPROM_WORD_SIZE_SHIFT = 6"

definition IGB_EEPROM_OPCODE_BITS :: u32 where
  "IGB_EEPROM_OPCODE_BITS = 8"

definition IGB_FLA_LOCKED :: u32 where
  "IGB_FLA_LOCKED = 0x00000040"

definition IGB_PBANUM_LENGTH :: u32 where
  "IGB_PBANUM_LENGTH = 11"

definition IGB_PBANUM_PTR_GUARD :: u32 where
  "IGB_PBANUM_PTR_GUARD = 0xFAFA"

definition IGB_EEPROM_CHECKSUM :: u32 where
  "IGB_EEPROM_CHECKSUM = 0x3F"

definition IGB_EEPROM_SUM :: u32 where
  "IGB_EEPROM_SUM = 0xBABA"

definition IGB_EEPROM_CTRL_4 :: u32 where
  "IGB_EEPROM_CTRL_4 = 0x45"

definition IGB_EE_CTRL_4_INST_ID :: u32 where
  "IGB_EE_CTRL_4_INST_ID = 0x10"

definition IGB_EE_CTRL_4_INST_ID_SHIFT :: u32 where
  "IGB_EE_CTRL_4_INST_ID_SHIFT = 4"

definition IGB_PCIE_ANALOG_PTR :: u32 where
  "IGB_PCIE_ANALOG_PTR = 0x03"

definition IGB_ATLAS0_CONFIG_PTR :: u32 where
  "IGB_ATLAS0_CONFIG_PTR = 0x04"

definition IGB_PHY_PTR :: u32 where
  "IGB_PHY_PTR = 0x04"

definition IGB_ATLAS1_CONFIG_PTR :: u32 where
  "IGB_ATLAS1_CONFIG_PTR = 0x05"

definition IGB_OPTION_ROM_PTR :: u32 where
  "IGB_OPTION_ROM_PTR = 0x05"

definition IGB_PCIE_GENERAL_PTR :: u32 where
  "IGB_PCIE_GENERAL_PTR = 0x06"

definition IGB_PCIE_CONFIG0_PTR :: u32 where
  "IGB_PCIE_CONFIG0_PTR = 0x07"

definition IGB_PCIE_CONFIG1_PTR :: u32 where
  "IGB_PCIE_CONFIG1_PTR = 0x08"

definition IGB_CORE0_PTR :: u32 where
  "IGB_CORE0_PTR = 0x09"

definition IGB_CORE1_PTR :: u32 where
  "IGB_CORE1_PTR = 0x0A"

definition IGB_MAC0_PTR :: u32 where
  "IGB_MAC0_PTR = 0x0B"

definition IGB_MAC1_PTR :: u32 where
  "IGB_MAC1_PTR = 0x0C"

definition IGB_CSR0_CONFIG_PTR :: u32 where
  "IGB_CSR0_CONFIG_PTR = 0x0D"

definition IGB_CSR1_CONFIG_PTR :: u32 where
  "IGB_CSR1_CONFIG_PTR = 0x0E"

definition IGB_PCIE_ANALOG_PTR_X550 :: u32 where
  "IGB_PCIE_ANALOG_PTR_X550 = 0x02"

definition IGB_SHADOW_RAM_SIZE_X550 :: u32 where
  "IGB_SHADOW_RAM_SIZE_X550 = 0x4000"

definition IGB_IGB_PCIE_GENERAL_SIZE :: u32 where
  "IGB_IGB_PCIE_GENERAL_SIZE = 0x24"

definition IGB_PCIE_CONFIG_SIZE :: u32 where
  "IGB_PCIE_CONFIG_SIZE = 0x08"

definition IGB_EEPROM_LAST_WORD :: u32 where
  "IGB_EEPROM_LAST_WORD = 0x41"

definition IGB_FW_PTR :: u32 where
  "IGB_FW_PTR = 0x0F"

definition IGB_PBANUM0_PTR :: u32 where
  "IGB_PBANUM0_PTR = 0x15"

definition IGB_PBANUM1_PTR :: u32 where
  "IGB_PBANUM1_PTR = 0x16"

definition IGB_ALT_MAC_ADDR_PTR :: u32 where
  "IGB_ALT_MAC_ADDR_PTR = 0x37"

definition IGB_FREE_SPACE_PTR :: u32 where
  "IGB_FREE_SPACE_PTR = 0x3E"

definition IGB_ETS_CFG :: u32 where
  "IGB_ETS_CFG = 0x26"

definition IGB_ETS_LTHRES_DELTA_MASK :: u32 where
  "IGB_ETS_LTHRES_DELTA_MASK = 0x07C0"

definition IGB_ETS_LTHRES_DELTA_SHIFT :: u32 where
  "IGB_ETS_LTHRES_DELTA_SHIFT = 6"

definition IGB_ETS_TYPE_MASK :: u32 where
  "IGB_ETS_TYPE_MASK = 0x0038"

definition IGB_ETS_TYPE_SHIFT :: u32 where
  "IGB_ETS_TYPE_SHIFT = 3"

definition IGB_ETS_TYPE_EMC :: u32 where
  "IGB_ETS_TYPE_EMC = 0x000"

definition IGB_ETS_NUM_SENSORS_MASK :: u32 where
  "IGB_ETS_NUM_SENSORS_MASK = 0x0007"

definition IGB_ETS_DATA_LOC_MASK :: u32 where
  "IGB_ETS_DATA_LOC_MASK = 0x3C00"

definition IGB_ETS_DATA_LOC_SHIFT :: u32 where
  "IGB_ETS_DATA_LOC_SHIFT = 10"

definition IGB_ETS_DATA_INDEX_MASK :: u32 where
  "IGB_ETS_DATA_INDEX_MASK = 0x0300"

definition IGB_ETS_DATA_INDEX_SHIFT :: u32 where
  "IGB_ETS_DATA_INDEX_SHIFT = 8"

definition IGB_ETS_DATA_HTHRESH_MASK :: u32 where
  "IGB_ETS_DATA_HTHRESH_MASK = 0x00FF"

definition IGB_SAN_MAC_ADDR_PTR :: u32 where
  "IGB_SAN_MAC_ADDR_PTR = 0x28"

definition IGB_DEVICE_CAPS :: u32 where
  "IGB_DEVICE_CAPS = 0x2C"

definition IGB_82599_SERIAL_NUMBER_MAC_ADDR :: u32 where
  "IGB_82599_SERIAL_NUMBER_MAC_ADDR = 0x11"

definition IGB_X550_SERIAL_NUMBER_MAC_ADDR :: u32 where
  "IGB_X550_SERIAL_NUMBER_MAC_ADDR = 0x04"

definition IGB_PCIE_MSIX_82599_CAPS :: u32 where
  "IGB_PCIE_MSIX_82599_CAPS = 0x72"

definition IGB_MAX_MSIX_VECTORS_82599 :: u32 where
  "IGB_MAX_MSIX_VECTORS_82599 = 0x40"

definition IGB_PCIE_MSIX_82598_CAPS :: u32 where
  "IGB_PCIE_MSIX_82598_CAPS = 0x62"

definition IGB_MAX_MSIX_VECTORS_82598 :: u32 where
  "IGB_MAX_MSIX_VECTORS_82598 = 0x13"

definition IGB_PCIE_MSIX_TBL_SZ_MASK :: u32 where
  "IGB_PCIE_MSIX_TBL_SZ_MASK = 0x7FF"

definition IGB_ISCSI_BOOT_CAPS :: u32 where
  "IGB_ISCSI_BOOT_CAPS = 0x0033"

definition IGB_ISCSI_SETUP_PORT_0 :: u32 where
  "IGB_ISCSI_SETUP_PORT_0 = 0x0030"

definition IGB_ISCSI_SETUP_PORT_1 :: u32 where
  "IGB_ISCSI_SETUP_PORT_1 = 0x0034"

definition IGB_EEPROM_MAX_RETRY_SPI :: u32 where
  "IGB_EEPROM_MAX_RETRY_SPI = 5000"

definition IGB_EEPROM_STATUS_RDY_SPI :: u32 where
  "IGB_EEPROM_STATUS_RDY_SPI = 0x01"

definition IGB_EEPROM_READ_OPCODE_SPI :: u32 where
  "IGB_EEPROM_READ_OPCODE_SPI = 0x03"

definition IGB_EEPROM_WRITE_OPCODE_SPI :: u32 where
  "IGB_EEPROM_WRITE_OPCODE_SPI = 0x02"

definition IGB_EEPROM_A8_OPCODE_SPI :: u32 where
  "IGB_EEPROM_A8_OPCODE_SPI = 0x08"

definition IGB_EEPROM_WREN_OPCODE_SPI :: u32 where
  "IGB_EEPROM_WREN_OPCODE_SPI = 0x06"

definition IGB_EEPROM_WRDI_OPCODE_SPI :: u32 where
  "IGB_EEPROM_WRDI_OPCODE_SPI = 0x04"

definition IGB_EEPROM_RDSR_OPCODE_SPI :: u32 where
  "IGB_EEPROM_RDSR_OPCODE_SPI = 0x05"

definition IGB_EEPROM_WRSR_OPCODE_SPI :: u32 where
  "IGB_EEPROM_WRSR_OPCODE_SPI = 0x01"

definition IGB_EEPROM_ERASE4K_OPCODE_SPI :: u32 where
  "IGB_EEPROM_ERASE4K_OPCODE_SPI = 0x20"

definition IGB_EEPROM_ERASE64K_OPCODE_SPI :: u32 where
  "IGB_EEPROM_ERASE64K_OPCODE_SPI = 0xD8"

definition IGB_EEPROM_ERASE256_OPCODE_SPI :: u32 where
  "IGB_EEPROM_ERASE256_OPCODE_SPI = 0xDB"

definition IGB_EEPROM_RW_REG_DATA :: u32 where
  "IGB_EEPROM_RW_REG_DATA = 16"

definition IGB_EEPROM_RW_REG_DONE :: u32 where
  "IGB_EEPROM_RW_REG_DONE = 2"

definition IGB_EEPROM_RW_REG_START :: u32 where
  "IGB_EEPROM_RW_REG_START = 1"

definition IGB_EEPROM_RW_ADDR_SHIFT :: u32 where
  "IGB_EEPROM_RW_ADDR_SHIFT = 2"

definition IGB_NVM_POLL_WRITE :: u32 where
  "IGB_NVM_POLL_WRITE = 1"

definition IGB_NVM_POLL_READ :: u32 where
  "IGB_NVM_POLL_READ = 0"

definition NVM_INIT_CTRL_3 :: u32 where
  "NVM_INIT_CTRL_3 = 0x38"

definition NVM_INIT_CTRL_3_LPLU :: u32 where
  "NVM_INIT_CTRL_3_LPLU = 0x8"

definition NVM_INIT_CTRL_3_D10GMP_PORT0 :: u32 where
  "NVM_INIT_CTRL_3_D10GMP_PORT0 = 0x40"

definition NVM_INIT_CTRL_3_D10GMP_PORT1 :: u32 where
  "NVM_INIT_CTRL_3_D10GMP_PORT1 = 0x100"

definition IGB_ETH_LENGTH_OF_ADDRESS :: u32 where
  "IGB_ETH_LENGTH_OF_ADDRESS = 6"

definition IGB_EEPROM_PAGE_SIZE_MAX :: u32 where
  "IGB_EEPROM_PAGE_SIZE_MAX = 128"

definition IGB_EEPROM_RD_BUFFER_MAX_COUNT :: u32 where
  "IGB_EEPROM_RD_BUFFER_MAX_COUNT = 256"

definition IGB_EEPROM_WR_BUFFER_MAX_COUNT :: u32 where
  "IGB_EEPROM_WR_BUFFER_MAX_COUNT = 256"

definition IGB_EEPROM_CTRL_2 :: u32 where
  "IGB_EEPROM_CTRL_2 = 1"

definition IGB_EEPROM_CCD_BIT :: u32 where
  "IGB_EEPROM_CCD_BIT = 2"

definition IGB_EEPROM_GRANT_ATTEMPTS :: u32 where
  "IGB_EEPROM_GRANT_ATTEMPTS = 1000"

definition IGB_EERD_EEWR_ATTEMPTS :: u32 where
  "IGB_EERD_EEWR_ATTEMPTS = 100000"

definition IGB_FLUDONE_ATTEMPTS :: u32 where
  "IGB_FLUDONE_ATTEMPTS = 20000"

definition IGB_PCIE_CTRL2 :: u32 where
  "IGB_PCIE_CTRL2 = 0x5"

definition IGB_PCIE_CTRL2_DUMMY_ENABLE :: u32 where
  "IGB_PCIE_CTRL2_DUMMY_ENABLE = 0x8"

definition IGB_PCIE_CTRL2_LAN_DISABLE :: u32 where
  "IGB_PCIE_CTRL2_LAN_DISABLE = 0x2"

definition IGB_PCIE_CTRL2_DISABLE_SELECT :: u32 where
  "IGB_PCIE_CTRL2_DISABLE_SELECT = 0x1"

definition IGB_SAN_MAC_ADDR_PORT0_OFFSET :: u32 where
  "IGB_SAN_MAC_ADDR_PORT0_OFFSET = 0x0"

definition IGB_SAN_MAC_ADDR_PORT1_OFFSET :: u32 where
  "IGB_SAN_MAC_ADDR_PORT1_OFFSET = 0x3"

definition IGB_DEVICE_CAPS_ALLOW_ANY_SFP :: u32 where
  "IGB_DEVICE_CAPS_ALLOW_ANY_SFP = 0x1"

definition IGB_DEVICE_CAPS_FCOE_OFFLOADS :: u32 where
  "IGB_DEVICE_CAPS_FCOE_OFFLOADS = 0x2"

definition IGB_DEVICE_CAPS_NO_CROSSTALK_WR :: u32 where
  "IGB_DEVICE_CAPS_NO_CROSSTALK_WR = push_bit 7 (1 :: u32)"

definition IGB_FW_LESM_PARAMETERS_PTR :: u32 where
  "IGB_FW_LESM_PARAMETERS_PTR = 0x2"

definition IGB_FW_LESM_STATE_1 :: u32 where
  "IGB_FW_LESM_STATE_1 = 0x1"

definition IGB_FW_LESM_STATE_ENABLED :: u32 where
  "IGB_FW_LESM_STATE_ENABLED = 0x8000"

definition IGB_FW_PASSTHROUGH_PATCH_CONFIG_PTR :: u32 where
  "IGB_FW_PASSTHROUGH_PATCH_CONFIG_PTR = 0x4"

definition IGB_FW_PATCH_VERSION_4 :: u32 where
  "IGB_FW_PATCH_VERSION_4 = 0x7"

definition IGB_FCOE_IBA_CAPS_BLK_PTR :: u32 where
  "IGB_FCOE_IBA_CAPS_BLK_PTR = 0x33"

definition IGB_FCOE_IBA_CAPS_FCOE :: u32 where
  "IGB_FCOE_IBA_CAPS_FCOE = 0x20"

definition IGB_ISCSI_FCOE_BLK_PTR :: u32 where
  "IGB_ISCSI_FCOE_BLK_PTR = 0x17"

definition IGB_ISCSI_FCOE_FLAGS_OFFSET :: u32 where
  "IGB_ISCSI_FCOE_FLAGS_OFFSET = 0x0"

definition IGB_ISCSI_FCOE_FLAGS_ENABLE :: u32 where
  "IGB_ISCSI_FCOE_FLAGS_ENABLE = 0x1"

definition IGB_ALT_SAN_MAC_ADDR_BLK_PTR :: u32 where
  "IGB_ALT_SAN_MAC_ADDR_BLK_PTR = 0x27"

definition IGB_ALT_SAN_MAC_ADDR_CAPS_OFFSET :: u32 where
  "IGB_ALT_SAN_MAC_ADDR_CAPS_OFFSET = 0x0"

definition IGB_ALT_SAN_MAC_ADDR_PORT0_OFFSET :: u32 where
  "IGB_ALT_SAN_MAC_ADDR_PORT0_OFFSET = 0x1"

definition IGB_ALT_SAN_MAC_ADDR_PORT1_OFFSET :: u32 where
  "IGB_ALT_SAN_MAC_ADDR_PORT1_OFFSET = 0x4"

definition IGB_ALT_SAN_MAC_ADDR_WWNN_OFFSET :: u32 where
  "IGB_ALT_SAN_MAC_ADDR_WWNN_OFFSET = 0x7"

definition IGB_ALT_SAN_MAC_ADDR_WWPN_OFFSET :: u32 where
  "IGB_ALT_SAN_MAC_ADDR_WWPN_OFFSET = 0x8"

definition IGB_ALT_SAN_MAC_ADDR_CAPS_SANMAC :: u32 where
  "IGB_ALT_SAN_MAC_ADDR_CAPS_SANMAC = 0x0"

definition IGB_ALT_SAN_MAC_ADDR_CAPS_ALTWWN :: u32 where
  "IGB_ALT_SAN_MAC_ADDR_CAPS_ALTWWN = 0x1"

definition IGB_X540_FW_PASSTHROUGH_PATCH_CONFIG_PTR :: u32 where
  "IGB_X540_FW_PASSTHROUGH_PATCH_CONFIG_PTR = 0x4"

definition IGB_X540_FW_MODULE_MASK :: u32 where
  "IGB_X540_FW_MODULE_MASK = 0x7FFF"

definition IGB_X540_FW_MODULE_LENGTH :: u32 where
  "IGB_X540_FW_MODULE_LENGTH = 0x1000"

definition IGB_X540_FW_PATCH_VERSION_2 :: u32 where
  "IGB_X540_FW_PATCH_VERSION_2 = 0x5"

definition IGB_X540_FW_PATCH_VERSION_3 :: u32 where
  "IGB_X540_FW_PATCH_VERSION_3 = 0x6"

definition IGB_X540_FW_PATCH_VERSION_4 :: u32 where
  "IGB_X540_FW_PATCH_VERSION_4 = 0x7"

definition IGB_DEVICE_CAPS_WOL_PORT0_1 :: u32 where
  "IGB_DEVICE_CAPS_WOL_PORT0_1 = 0x4"

definition IGB_DEVICE_CAPS_WOL_PORT0 :: u32 where
  "IGB_DEVICE_CAPS_WOL_PORT0 = 0x8"

definition IGB_DEVICE_CAPS_WOL_MASK :: u32 where
  "IGB_DEVICE_CAPS_WOL_MASK = 0xC"

definition IGB_PCI_DEVICE_STATUS :: u32 where
  "IGB_PCI_DEVICE_STATUS = 0xAA"

definition IGB_PCI_DEVICE_STATUS_TRANSACTION_PENDING :: u32 where
  "IGB_PCI_DEVICE_STATUS_TRANSACTION_PENDING = 0x0020"

definition IGB_PCI_LINK_STATUS :: u32 where
  "IGB_PCI_LINK_STATUS = 0xB2"

definition IGB_PCI_DEVICE_CONTROL2 :: u32 where
  "IGB_PCI_DEVICE_CONTROL2 = 0xC8"

definition IGB_PCI_LINK_WIDTH :: u32 where
  "IGB_PCI_LINK_WIDTH = 0x3F0"

definition IGB_PCI_LINK_WIDTH_1 :: u32 where
  "IGB_PCI_LINK_WIDTH_1 = 0x10"

definition IGB_PCI_LINK_WIDTH_2 :: u32 where
  "IGB_PCI_LINK_WIDTH_2 = 0x20"

definition IGB_PCI_LINK_WIDTH_4 :: u32 where
  "IGB_PCI_LINK_WIDTH_4 = 0x40"

definition IGB_PCI_LINK_WIDTH_8 :: u32 where
  "IGB_PCI_LINK_WIDTH_8 = 0x80"

definition IGB_PCI_LINK_SPEED :: u32 where
  "IGB_PCI_LINK_SPEED = 0xF"

definition IGB_PCI_LINK_SPEED_2500 :: u32 where
  "IGB_PCI_LINK_SPEED_2500 = 0x1"

definition IGB_PCI_LINK_SPEED_5000 :: u32 where
  "IGB_PCI_LINK_SPEED_5000 = 0x2"

definition IGB_PCI_LINK_SPEED_8000 :: u32 where
  "IGB_PCI_LINK_SPEED_8000 = 0x3"

definition IGB_PCI_HEADER_TYPE_REGISTER :: u32 where
  "IGB_PCI_HEADER_TYPE_REGISTER = 0x0E"

definition IGB_PCI_HEADER_TYPE_MULTIFUNC :: u32 where
  "IGB_PCI_HEADER_TYPE_MULTIFUNC = 0x80"

definition IGB_PCI_DEVICE_CONTROL2_16ms :: u32 where
  "IGB_PCI_DEVICE_CONTROL2_16ms = 0x0005"

definition IGB_PCIDEVCTRL2_TIMEO_MASK :: u32 where
  "IGB_PCIDEVCTRL2_TIMEO_MASK = 0xf"

definition IGB_PCIDEVCTRL2_16_32ms_def :: u32 where
  "IGB_PCIDEVCTRL2_16_32ms_def = 0x0"

definition IGB_PCIDEVCTRL2_50_100us :: u32 where
  "IGB_PCIDEVCTRL2_50_100us = 0x1"

definition IGB_PCIDEVCTRL2_1_2ms :: u32 where
  "IGB_PCIDEVCTRL2_1_2ms = 0x2"

definition IGB_PCIDEVCTRL2_16_32ms :: u32 where
  "IGB_PCIDEVCTRL2_16_32ms = 0x5"

definition IGB_PCIDEVCTRL2_65_130ms :: u32 where
  "IGB_PCIDEVCTRL2_65_130ms = 0x6"

definition IGB_PCIDEVCTRL2_260_520ms :: u32 where
  "IGB_PCIDEVCTRL2_260_520ms = 0x9"

definition IGB_PCIDEVCTRL2_1_2s :: u32 where
  "IGB_PCIDEVCTRL2_1_2s = 0xa"

definition IGB_PCIDEVCTRL2_4_8s :: u32 where
  "IGB_PCIDEVCTRL2_4_8s = 0xd"

definition IGB_PCIDEVCTRL2_17_34s :: u32 where
  "IGB_PCIDEVCTRL2_17_34s = 0xe"

definition IGB_PCI_MASTER_DISABLE_TIMEOUT :: u32 where
  "IGB_PCI_MASTER_DISABLE_TIMEOUT = 800"

end
