(* ===== verification/Masks_Rx.thy ===== *)
theory Masks_Rx
  imports Masks_Nvm
begin

text \<open>
  The bit masks of the receive and transmit control registers and of the legacy and advanced
  receive descriptors.
  From \<open>src/constants.rs\<close>, with the values of the source.
\<close>

definition IGB_RAH_VIND_MASK :: u32 where
  "IGB_RAH_VIND_MASK = 0x003C0000"

definition IGB_RAH_VIND_SHIFT :: u32 where
  "IGB_RAH_VIND_SHIFT = 18"

definition IGB_RAH_AV :: u32 where
  "IGB_RAH_AV = 0x80000000"

definition IGB_CLEAR_VMDQ_ALL :: u32 where
  "IGB_CLEAR_VMDQ_ALL = 0xFFFFFFFF"

definition IGB_RFCTL_ISCSI_DIS :: u32 where
  "IGB_RFCTL_ISCSI_DIS = 0x00000001"

definition IGB_RFCTL_ISCSI_DWC_MASK :: u32 where
  "IGB_RFCTL_ISCSI_DWC_MASK = 0x0000003E"

definition IGB_RFCTL_ISCSI_DWC_SHIFT :: u32 where
  "IGB_RFCTL_ISCSI_DWC_SHIFT = 1"

definition IGB_RFCTL_RSC_DIS :: u32 where
  "IGB_RFCTL_RSC_DIS = 0x00000020"

definition IGB_RFCTL_NFSW_DIS :: u32 where
  "IGB_RFCTL_NFSW_DIS = 0x00000040"

definition IGB_RFCTL_NFSR_DIS :: u32 where
  "IGB_RFCTL_NFSR_DIS = 0x00000080"

definition IGB_RFCTL_NFS_VER_MASK :: u32 where
  "IGB_RFCTL_NFS_VER_MASK = 0x00000300"

definition IGB_RFCTL_NFS_VER_SHIFT :: u32 where
  "IGB_RFCTL_NFS_VER_SHIFT = 8"

definition IGB_RFCTL_NFS_VER_2 :: u32 where
  "IGB_RFCTL_NFS_VER_2 = 0"

definition IGB_RFCTL_NFS_VER_3 :: u32 where
  "IGB_RFCTL_NFS_VER_3 = 1"

definition IGB_RFCTL_NFS_VER_4 :: u32 where
  "IGB_RFCTL_NFS_VER_4 = 2"

definition IGB_RFCTL_IPV6_DIS :: u32 where
  "IGB_RFCTL_IPV6_DIS = 0x00000400"

definition IGB_RFCTL_IPV6_XSUM_DIS :: u32 where
  "IGB_RFCTL_IPV6_XSUM_DIS = 0x00000800"

definition IGB_RFCTL_IPFRSP_DIS :: u32 where
  "IGB_RFCTL_IPFRSP_DIS = 0x00004000"

definition IGB_RFCTL_IPV6_EX_DIS :: u32 where
  "IGB_RFCTL_IPV6_EX_DIS = 0x00010000"

definition IGB_RFCTL_NEW_IPV6_EXT_DIS :: u32 where
  "IGB_RFCTL_NEW_IPV6_EXT_DIS = 0x00020000"

definition IGB_TXDCTL_SWFLSH :: u32 where
  "IGB_TXDCTL_SWFLSH = 0x04000000"

definition IGB_TXDCTL_WTHRESH_SHIFT :: u32 where
  "IGB_TXDCTL_WTHRESH_SHIFT = 16"

definition IGB_TX_PAD_ENABLE :: u32 where
  "IGB_TX_PAD_ENABLE = 0x00000400"

definition IGB_JUMBO_FRAME_ENABLE :: u32 where
  "IGB_JUMBO_FRAME_ENABLE = 0x00000004"

definition IGB_MAX_FRAME_SZ :: u32 where
  "IGB_MAX_FRAME_SZ = 0x40040000"

definition IGB_TDWBAL_HEAD_WB_ENABLE :: u32 where
  "IGB_TDWBAL_HEAD_WB_ENABLE = 0x1"

definition IGB_TDWBAL_SEQNUM_WB_ENABLE :: u32 where
  "IGB_TDWBAL_SEQNUM_WB_ENABLE = 0x2"

definition IGB_RXCTRL_DMBYPS :: u32 where
  "IGB_RXCTRL_DMBYPS = 0x00000002"

definition IGB_RXDCTL_SWFLSH :: u32 where
  "IGB_RXDCTL_SWFLSH = 0x04000000"

definition IGB_RXDCTL_RLPMLMASK :: u32 where
  "IGB_RXDCTL_RLPMLMASK = 0x00003FFF"

definition IGB_RXDCTL_RLPML_EN :: u32 where
  "IGB_RXDCTL_RLPML_EN = 0x00008000"

definition IGB_RXDCTL_VME :: u32 where
  "IGB_RXDCTL_VME = 0x40000000"

definition IGB_TSAUXC_EN_CLK :: u32 where
  "IGB_TSAUXC_EN_CLK = 0x00000004"

definition IGB_TSAUXC_SYNCLK :: u32 where
  "IGB_TSAUXC_SYNCLK = 0x00000008"

definition IGB_TSAUXC_SDP0_INT :: u32 where
  "IGB_TSAUXC_SDP0_INT = 0x00000040"

definition IGB_TSAUXC_EN_TT0 :: u32 where
  "IGB_TSAUXC_EN_TT0 = 0x00000001"

definition IGB_TSAUXC_EN_TT1 :: u32 where
  "IGB_TSAUXC_EN_TT1 = 0x00000002"

definition IGB_TSAUXC_ST0 :: u32 where
  "IGB_TSAUXC_ST0 = 0x00000010"

definition IGB_TSAUXC_DISABLE_SYSTIME :: u32 where
  "IGB_TSAUXC_DISABLE_SYSTIME = 0x80000000"

definition IGB_TSSDP_TS_SDP0_SEL_MASK :: u32 where
  "IGB_TSSDP_TS_SDP0_SEL_MASK = 0x000000C0"

definition IGB_TSSDP_TS_SDP0_CLK0 :: u32 where
  "IGB_TSSDP_TS_SDP0_CLK0 = 0x00000080"

definition IGB_TSSDP_TS_SDP0_EN :: u32 where
  "IGB_TSSDP_TS_SDP0_EN = 0x00000100"

definition IGB_TSYNCTXCTL_VALID :: u32 where
  "IGB_TSYNCTXCTL_VALID = 0x00000001"

definition IGB_TSYNCTXCTL_ENABLED :: u32 where
  "IGB_TSYNCTXCTL_ENABLED = 0x00000010"

definition IGB_TSYNCRXCTL_VALID :: u32 where
  "IGB_TSYNCRXCTL_VALID = 0x00000001"

definition IGB_TSYNCRXCTL_TYPE_MASK :: u32 where
  "IGB_TSYNCRXCTL_TYPE_MASK = 0x0000000E"

definition IGB_TSYNCRXCTL_TYPE_L2_V2 :: u32 where
  "IGB_TSYNCRXCTL_TYPE_L2_V2 = 0x00"

definition IGB_TSYNCRXCTL_TYPE_L4_V1 :: u32 where
  "IGB_TSYNCRXCTL_TYPE_L4_V1 = 0x02"

definition IGB_TSYNCRXCTL_TYPE_L2_L4_V2 :: u32 where
  "IGB_TSYNCRXCTL_TYPE_L2_L4_V2 = 0x04"

definition IGB_TSYNCRXCTL_TYPE_ALL :: u32 where
  "IGB_TSYNCRXCTL_TYPE_ALL = 0x08"

definition IGB_TSYNCRXCTL_TYPE_EVENT_V2 :: u32 where
  "IGB_TSYNCRXCTL_TYPE_EVENT_V2 = 0x0A"

definition IGB_TSYNCRXCTL_ENABLED :: u32 where
  "IGB_TSYNCRXCTL_ENABLED = 0x00000010"

definition IGB_TSYNCRXCTL_TSIP_UT_EN :: u32 where
  "IGB_TSYNCRXCTL_TSIP_UT_EN = 0x00800000"

definition IGB_TSYNCRXCTL_TSIP_UP_MASK :: u32 where
  "IGB_TSYNCRXCTL_TSIP_UP_MASK = 0xFF000000"

definition IGB_TSIM_SYS_WRAP :: u32 where
  "IGB_TSIM_SYS_WRAP = 0x00000001"

definition IGB_TSIM_TXTS :: u32 where
  "IGB_TSIM_TXTS = 0x00000002"

definition IGB_TSIM_TADJ :: u32 where
  "IGB_TSIM_TADJ = 0x00000080"

definition IGB_TSICR_SYS_WRAP :: u32 where
  "IGB_TSICR_SYS_WRAP = IGB_TSIM_SYS_WRAP"

definition IGB_TSICR_TXTS :: u32 where
  "IGB_TSICR_TXTS = IGB_TSIM_TXTS"

definition IGB_TSICR_TADJ :: u32 where
  "IGB_TSICR_TADJ = IGB_TSIM_TADJ"

definition IGB_RXMTRL_V1_CTRLT_MASK :: u32 where
  "IGB_RXMTRL_V1_CTRLT_MASK = 0x000000FF"

definition IGB_RXMTRL_V1_SYNC_MSG :: u32 where
  "IGB_RXMTRL_V1_SYNC_MSG = 0x00"

definition IGB_RXMTRL_V1_DELAY_REQ_MSG :: u32 where
  "IGB_RXMTRL_V1_DELAY_REQ_MSG = 0x01"

definition IGB_RXMTRL_V1_FOLLOWUP_MSG :: u32 where
  "IGB_RXMTRL_V1_FOLLOWUP_MSG = 0x02"

definition IGB_RXMTRL_V1_DELAY_RESP_MSG :: u32 where
  "IGB_RXMTRL_V1_DELAY_RESP_MSG = 0x03"

definition IGB_RXMTRL_V1_MGMT_MSG :: u32 where
  "IGB_RXMTRL_V1_MGMT_MSG = 0x04"

definition IGB_RXMTRL_V2_MSGID_MASK :: u32 where
  "IGB_RXMTRL_V2_MSGID_MASK = 0x0000FF00"

definition IGB_RXMTRL_V2_SYNC_MSG :: u32 where
  "IGB_RXMTRL_V2_SYNC_MSG = 0x0000"

definition IGB_RXMTRL_V2_DELAY_REQ_MSG :: u32 where
  "IGB_RXMTRL_V2_DELAY_REQ_MSG = 0x0100"

definition IGB_RXMTRL_V2_PDELAY_REQ_MSG :: u32 where
  "IGB_RXMTRL_V2_PDELAY_REQ_MSG = 0x0200"

definition IGB_RXMTRL_V2_PDELAY_RESP_MSG :: u32 where
  "IGB_RXMTRL_V2_PDELAY_RESP_MSG = 0x0300"

definition IGB_RXMTRL_V2_FOLLOWUP_MSG :: u32 where
  "IGB_RXMTRL_V2_FOLLOWUP_MSG = 0x0800"

definition IGB_RXMTRL_V2_DELAY_RESP_MSG :: u32 where
  "IGB_RXMTRL_V2_DELAY_RESP_MSG = 0x0900"

definition IGB_RXMTRL_V2_PDELAY_FOLLOWUP_MSG :: u32 where
  "IGB_RXMTRL_V2_PDELAY_FOLLOWUP_MSG = 0x0A00"

definition IGB_RXMTRL_V2_ANNOUNCE_MSG :: u32 where
  "IGB_RXMTRL_V2_ANNOUNCE_MSG = 0x0B00"

definition IGB_RXMTRL_V2_SIGNALLING_MSG :: u32 where
  "IGB_RXMTRL_V2_SIGNALLING_MSG = 0x0C00"

definition IGB_RXMTRL_V2_MGMT_MSG :: u32 where
  "IGB_RXMTRL_V2_MGMT_MSG = 0x0D00"

definition IGB_FCTRL_SBP :: u32 where
  "IGB_FCTRL_SBP = 0x00000002"

definition IGB_FCTRL_PMCF :: u32 where
  "IGB_FCTRL_PMCF = 0x00001000"

definition IGB_FCTRL_DPF :: u32 where
  "IGB_FCTRL_DPF = 0x00002000"

definition IGB_FCTRL_RPFCE :: u32 where
  "IGB_FCTRL_RPFCE = 0x00004000"

definition IGB_FCTRL_RFCE :: u32 where
  "IGB_FCTRL_RFCE = 0x00008000"

definition IGB_MFLCN_PMCF :: u32 where
  "IGB_MFLCN_PMCF = 0x00000001"

definition IGB_MFLCN_DPF :: u32 where
  "IGB_MFLCN_DPF = 0x00000002"

definition IGB_MFLCN_RPFCE :: u32 where
  "IGB_MFLCN_RPFCE = 0x00000004"

definition IGB_MFLCN_RFCE :: u32 where
  "IGB_MFLCN_RFCE = 0x00000008"

definition IGB_MFLCN_RPFCE_MASK :: u32 where
  "IGB_MFLCN_RPFCE_MASK = 0x00000FF4"

definition IGB_MFLCN_RPFCE_SHIFT :: u32 where
  "IGB_MFLCN_RPFCE_SHIFT = 4"

definition IGB_MRQC_RSSEN :: u32 where
  "IGB_MRQC_RSSEN = 0x00000001"

definition IGB_MRQC_MRQE_MASK :: u32 where
  "IGB_MRQC_MRQE_MASK = 0xF"

definition IGB_MRQC_RT8TCEN :: u32 where
  "IGB_MRQC_RT8TCEN = 0x00000002"

definition IGB_MRQC_RT4TCEN :: u32 where
  "IGB_MRQC_RT4TCEN = 0x00000003"

definition IGB_MRQC_RTRSS8TCEN :: u32 where
  "IGB_MRQC_RTRSS8TCEN = 0x00000004"

definition IGB_MRQC_RTRSS4TCEN :: u32 where
  "IGB_MRQC_RTRSS4TCEN = 0x00000005"

definition IGB_MRQC_VMDQEN :: u32 where
  "IGB_MRQC_VMDQEN = 0x00000008"

definition IGB_MRQC_VMDQRSS32EN :: u32 where
  "IGB_MRQC_VMDQRSS32EN = 0x0000000A"

definition IGB_MRQC_VMDQRSS64EN :: u32 where
  "IGB_MRQC_VMDQRSS64EN = 0x0000000B"

definition IGB_MRQC_VMDQRT8TCEN :: u32 where
  "IGB_MRQC_VMDQRT8TCEN = 0x0000000C"

definition IGB_MRQC_VMDQRT4TCEN :: u32 where
  "IGB_MRQC_VMDQRT4TCEN = 0x0000000D"

definition IGB_MRQC_L3L4TXSWEN :: u32 where
  "IGB_MRQC_L3L4TXSWEN = 0x00008000"

definition IGB_MRQC_RSS_FIELD_MASK :: u32 where
  "IGB_MRQC_RSS_FIELD_MASK = 0xFFFF0000"

definition IGB_MRQC_RSS_FIELD_IPV4_TCP :: u32 where
  "IGB_MRQC_RSS_FIELD_IPV4_TCP = 0x00010000"

definition IGB_MRQC_RSS_FIELD_IPV4 :: u32 where
  "IGB_MRQC_RSS_FIELD_IPV4 = 0x00020000"

definition IGB_MRQC_RSS_FIELD_IPV6_EX_TCP :: u32 where
  "IGB_MRQC_RSS_FIELD_IPV6_EX_TCP = 0x00040000"

definition IGB_MRQC_RSS_FIELD_IPV6_EX :: u32 where
  "IGB_MRQC_RSS_FIELD_IPV6_EX = 0x00080000"

definition IGB_MRQC_RSS_FIELD_IPV6 :: u32 where
  "IGB_MRQC_RSS_FIELD_IPV6 = 0x00100000"

definition IGB_MRQC_RSS_FIELD_IPV6_TCP :: u32 where
  "IGB_MRQC_RSS_FIELD_IPV6_TCP = 0x00200000"

definition IGB_MRQC_RSS_FIELD_IPV4_UDP :: u32 where
  "IGB_MRQC_RSS_FIELD_IPV4_UDP = 0x00400000"

definition IGB_MRQC_RSS_FIELD_IPV6_UDP :: u32 where
  "IGB_MRQC_RSS_FIELD_IPV6_UDP = 0x00800000"

definition IGB_MRQC_RSS_FIELD_IPV6_EX_UDP :: u32 where
  "IGB_MRQC_RSS_FIELD_IPV6_EX_UDP = 0x01000000"

definition IGB_MRQC_MULTIPLE_RSS :: u32 where
  "IGB_MRQC_MULTIPLE_RSS = 0x00002000"

definition IGB_QDE_ENABLE :: u32 where
  "IGB_QDE_ENABLE = 0x00000001"

definition IGB_QDE_HIDE_VLAN :: u32 where
  "IGB_QDE_HIDE_VLAN = 0x00000002"

definition IGB_QDE_IDX_MASK :: u32 where
  "IGB_QDE_IDX_MASK = 0x00007F00"

definition IGB_QDE_IDX_SHIFT :: u32 where
  "IGB_QDE_IDX_SHIFT = 8"

definition IGB_QDE_WRITE :: u32 where
  "IGB_QDE_WRITE = 0x00010000"

definition IGB_QDE_READ :: u32 where
  "IGB_QDE_READ = 0x00020000"

definition IGB_TXD_POPTS_IXSM :: u32 where
  "IGB_TXD_POPTS_IXSM = 0x01"

definition IGB_TXD_POPTS_TXSM :: u32 where
  "IGB_TXD_POPTS_TXSM = 0x02"

definition IGB_TXD_CMD_EOP :: u32 where
  "IGB_TXD_CMD_EOP = 0x01000000"

definition IGB_TXD_CMD_IFCS :: u32 where
  "IGB_TXD_CMD_IFCS = 0x02000000"

definition IGB_TXD_CMD_IC :: u32 where
  "IGB_TXD_CMD_IC = 0x04000000"

definition IGB_TXD_CMD_RS :: u32 where
  "IGB_TXD_CMD_RS = 0x08000000"

definition IGB_TXD_CMD_DEXT :: u32 where
  "IGB_TXD_CMD_DEXT = 0x20000000"

definition IGB_TXD_CMD_VLE :: u32 where
  "IGB_TXD_CMD_VLE = 0x40000000"

definition IGB_RXDADV_IPSEC_STATUS_SECP :: u32 where
  "IGB_RXDADV_IPSEC_STATUS_SECP = 0x00020000"

definition IGB_RXDADV_IPSEC_ERROR_INVALID_PROTOCOL :: u32 where
  "IGB_RXDADV_IPSEC_ERROR_INVALID_PROTOCOL = 0x08000000"

definition IGB_RXDADV_IPSEC_ERROR_INVALID_LENGTH :: u32 where
  "IGB_RXDADV_IPSEC_ERROR_INVALID_LENGTH = 0x10000000"

definition IGB_RXDADV_IPSEC_ERROR_AUTH_FAILED :: u32 where
  "IGB_RXDADV_IPSEC_ERROR_AUTH_FAILED = 0x18000000"

definition IGB_RXDADV_IPSEC_ERROR_BIT_MASK :: u32 where
  "IGB_RXDADV_IPSEC_ERROR_BIT_MASK = 0x18000000"

definition IGB_MTQC_RT_ENA :: u32 where
  "IGB_MTQC_RT_ENA = 0x1"

definition IGB_MTQC_VT_ENA :: u32 where
  "IGB_MTQC_VT_ENA = 0x2"

definition IGB_MTQC_64Q_1PB :: u32 where
  "IGB_MTQC_64Q_1PB = 0x0"

definition IGB_MTQC_32VF :: u32 where
  "IGB_MTQC_32VF = 0x8"

definition IGB_MTQC_64VF :: u32 where
  "IGB_MTQC_64VF = 0x4"

definition IGB_MTQC_4TC_4TQ :: u32 where
  "IGB_MTQC_4TC_4TQ = 0x8"

definition IGB_MTQC_8TC_8TQ :: u32 where
  "IGB_MTQC_8TC_8TQ = 0xC"

definition IGB_RXD_STAT_DD :: u32 where
  "IGB_RXD_STAT_DD = 0x01"

definition IGB_RXD_STAT_EOP :: u32 where
  "IGB_RXD_STAT_EOP = 0x02"

definition IGB_RXD_STAT_FLM :: u32 where
  "IGB_RXD_STAT_FLM = 0x04"

definition IGB_RXD_STAT_VP :: u32 where
  "IGB_RXD_STAT_VP = 0x08"

definition IGB_RXDADV_NEXTP_MASK :: u32 where
  "IGB_RXDADV_NEXTP_MASK = 0x000FFFF0"

definition IGB_RXDADV_NEXTP_SHIFT :: u32 where
  "IGB_RXDADV_NEXTP_SHIFT = 0x00000004"

definition IGB_RXD_STAT_UDPCS :: u32 where
  "IGB_RXD_STAT_UDPCS = 0x10"

definition IGB_RXD_STAT_L4CS :: u32 where
  "IGB_RXD_STAT_L4CS = 0x20"

definition IGB_RXD_STAT_IPCS :: u32 where
  "IGB_RXD_STAT_IPCS = 0x40"

definition IGB_RXD_STAT_PIF :: u32 where
  "IGB_RXD_STAT_PIF = 0x80"

definition IGB_RXD_STAT_CRCV :: u32 where
  "IGB_RXD_STAT_CRCV = 0x100"

definition IGB_RXD_STAT_OUTERIPCS :: u32 where
  "IGB_RXD_STAT_OUTERIPCS = 0x100"

definition IGB_RXD_STAT_VEXT :: u32 where
  "IGB_RXD_STAT_VEXT = 0x200"

definition IGB_RXD_STAT_UDPV :: u32 where
  "IGB_RXD_STAT_UDPV = 0x400"

definition IGB_RXD_STAT_DYNINT :: u32 where
  "IGB_RXD_STAT_DYNINT = 0x800"

definition IGB_RXD_STAT_LLINT :: u32 where
  "IGB_RXD_STAT_LLINT = 0x800"

definition IGB_RXD_STAT_TSIP :: u32 where
  "IGB_RXD_STAT_TSIP = 0x08000"

definition IGB_RXD_STAT_TS :: u32 where
  "IGB_RXD_STAT_TS = 0x10000"

definition IGB_RXD_STAT_SECP :: u32 where
  "IGB_RXD_STAT_SECP = 0x20000"

definition IGB_RXD_STAT_LB :: u32 where
  "IGB_RXD_STAT_LB = 0x40000"

definition IGB_RXD_STAT_ACK :: u32 where
  "IGB_RXD_STAT_ACK = 0x8000"

definition IGB_RXD_ERR_CE :: u32 where
  "IGB_RXD_ERR_CE = 0x01"

definition IGB_RXD_ERR_LE :: u32 where
  "IGB_RXD_ERR_LE = 0x02"

definition IGB_RXD_ERR_PE :: u32 where
  "IGB_RXD_ERR_PE = 0x08"

definition IGB_RXD_ERR_OSE :: u32 where
  "IGB_RXD_ERR_OSE = 0x10"

definition IGB_RXD_ERR_USE :: u32 where
  "IGB_RXD_ERR_USE = 0x20"

definition IGB_RXD_ERR_TCPE :: u32 where
  "IGB_RXD_ERR_TCPE = 0x40"

definition IGB_RXD_ERR_IPE :: u32 where
  "IGB_RXD_ERR_IPE = 0x80"

definition IGB_RXDADV_ERR_MASK :: u32 where
  "IGB_RXDADV_ERR_MASK = 0xfff00000"

definition IGB_RXDADV_ERR_SHIFT :: u32 where
  "IGB_RXDADV_ERR_SHIFT = 20"

definition IGB_RXDADV_ERR_OUTERIPER :: u32 where
  "IGB_RXDADV_ERR_OUTERIPER = 0x04000000"

definition IGB_RXDADV_ERR_RXE :: u32 where
  "IGB_RXDADV_ERR_RXE = 0x20000000"

definition IGB_RXDADV_ERR_FCEOFE :: u32 where
  "IGB_RXDADV_ERR_FCEOFE = 0x80000000"

definition IGB_RXDADV_ERR_FCERR :: u32 where
  "IGB_RXDADV_ERR_FCERR = 0x00700000"

definition IGB_RXDADV_ERR_FDIR_LEN :: u32 where
  "IGB_RXDADV_ERR_FDIR_LEN = 0x00100000"

definition IGB_RXDADV_ERR_FDIR_DROP :: u32 where
  "IGB_RXDADV_ERR_FDIR_DROP = 0x00200000"

definition IGB_RXDADV_ERR_FDIR_COLL :: u32 where
  "IGB_RXDADV_ERR_FDIR_COLL = 0x00400000"

definition IGB_RXDADV_ERR_HBO :: u32 where
  "IGB_RXDADV_ERR_HBO = 0x00800000"

definition IGB_RXDADV_ERR_CE :: u32 where
  "IGB_RXDADV_ERR_CE = 0x01000000"

definition IGB_RXDADV_ERR_LE :: u32 where
  "IGB_RXDADV_ERR_LE = 0x02000000"

definition IGB_RXDADV_ERR_PE :: u32 where
  "IGB_RXDADV_ERR_PE = 0x08000000"

definition IGB_RXDADV_ERR_OSE :: u32 where
  "IGB_RXDADV_ERR_OSE = 0x10000000"

definition IGB_RXDADV_ERR_USE :: u32 where
  "IGB_RXDADV_ERR_USE = 0x20000000"

definition IGB_RXDADV_ERR_TCPE :: u32 where
  "IGB_RXDADV_ERR_TCPE = 0x40000000"

definition IGB_RXDADV_ERR_IPE :: u32 where
  "IGB_RXDADV_ERR_IPE = 0x80000000"

definition IGB_RXD_VLAN_ID_MASK :: u32 where
  "IGB_RXD_VLAN_ID_MASK = 0x0FFF"

definition IGB_RXD_PRI_MASK :: u32 where
  "IGB_RXD_PRI_MASK = 0xE000"

definition IGB_RXD_PRI_SHIFT :: u32 where
  "IGB_RXD_PRI_SHIFT = 13"

definition IGB_RXD_CFI_MASK :: u32 where
  "IGB_RXD_CFI_MASK = 0x1000"

definition IGB_RXD_CFI_SHIFT :: u32 where
  "IGB_RXD_CFI_SHIFT = 12"

definition IGB_RXDADV_STAT_DD :: u32 where
  "IGB_RXDADV_STAT_DD = IGB_RXD_STAT_DD"

definition IGB_RXDADV_STAT_EOP :: u32 where
  "IGB_RXDADV_STAT_EOP = IGB_RXD_STAT_EOP"

definition IGB_RXDADV_STAT_FLM :: u32 where
  "IGB_RXDADV_STAT_FLM = IGB_RXD_STAT_FLM"

definition IGB_RXDADV_STAT_VP :: u32 where
  "IGB_RXDADV_STAT_VP = IGB_RXD_STAT_VP"

definition IGB_RXDADV_STAT_MASK :: u32 where
  "IGB_RXDADV_STAT_MASK = 0x000fffff"

definition IGB_RXDADV_STAT_FCEOFS :: u32 where
  "IGB_RXDADV_STAT_FCEOFS = 0x00000040"

definition IGB_RXDADV_STAT_FCSTAT :: u32 where
  "IGB_RXDADV_STAT_FCSTAT = 0x00000030"

definition IGB_RXDADV_STAT_FCSTAT_NOMTCH :: u32 where
  "IGB_RXDADV_STAT_FCSTAT_NOMTCH = 0x00000000"

definition IGB_RXDADV_STAT_FCSTAT_NODDP :: u32 where
  "IGB_RXDADV_STAT_FCSTAT_NODDP = 0x00000010"

definition IGB_RXDADV_STAT_FCSTAT_FCPRSP :: u32 where
  "IGB_RXDADV_STAT_FCSTAT_FCPRSP = 0x00000020"

definition IGB_RXDADV_STAT_FCSTAT_DDP :: u32 where
  "IGB_RXDADV_STAT_FCSTAT_DDP = 0x00000030"

definition IGB_RXDADV_STAT_TS :: u32 where
  "IGB_RXDADV_STAT_TS = 0x00010000"

definition IGB_RXDADV_STAT_TSIP :: u32 where
  "IGB_RXDADV_STAT_TSIP = 0x00008000"

definition IGB_PSRTYPE_TCPHDR :: u32 where
  "IGB_PSRTYPE_TCPHDR = 0x00000010"

definition IGB_PSRTYPE_UDPHDR :: u32 where
  "IGB_PSRTYPE_UDPHDR = 0x00000020"

definition IGB_PSRTYPE_IPV4HDR :: u32 where
  "IGB_PSRTYPE_IPV4HDR = 0x00000100"

definition IGB_PSRTYPE_IPV6HDR :: u32 where
  "IGB_PSRTYPE_IPV6HDR = 0x00000200"

definition IGB_PSRTYPE_L2HDR :: u32 where
  "IGB_PSRTYPE_L2HDR = 0x00001000"

definition IGB_SRRCTL_BSIZEPKT_SHIFT :: u32 where
  "IGB_SRRCTL_BSIZEPKT_SHIFT = 10"

definition IGB_SRRCTL_BSIZEHDRSIZE_SHIFT :: u32 where
  "IGB_SRRCTL_BSIZEHDRSIZE_SHIFT = 2"

definition IGB_SRRCTL_RDMTS_SHIFT :: u32 where
  "IGB_SRRCTL_RDMTS_SHIFT = 22"

definition IGB_SRRCTL_RDMTS_MASK :: u32 where
  "IGB_SRRCTL_RDMTS_MASK = 0x01C00000"

definition IGB_SRRCTL_DROP_EN :: u32 where
  "IGB_SRRCTL_DROP_EN = 0x10000000"

definition IGB_SRRCTL_BSIZEPKT_MASK :: u32 where
  "IGB_SRRCTL_BSIZEPKT_MASK = 0x0000007F"

definition IGB_SRRCTL_BSIZEHDR_MASK :: u32 where
  "IGB_SRRCTL_BSIZEHDR_MASK = 0x00003F00"

definition IGB_SRRCTL_DESCTYPE_LEGACY :: u32 where
  "IGB_SRRCTL_DESCTYPE_LEGACY = 0x00000000"

definition IGB_SRRCTL_DESCTYPE_ADV_ONEBUF :: u32 where
  "IGB_SRRCTL_DESCTYPE_ADV_ONEBUF = 0x02000000"

definition IGB_SRRCTL_DESCTYPE_HDR_SPLIT :: u32 where
  "IGB_SRRCTL_DESCTYPE_HDR_SPLIT = 0x04000000"

definition IGB_SRRCTL_DESCTYPE_HDR_REPLICATION_LARGE_PKT :: u32 where
  "IGB_SRRCTL_DESCTYPE_HDR_REPLICATION_LARGE_PKT = 0x08000000"

definition IGB_SRRCTL_DESCTYPE_HDR_SPLIT_ALWAYS :: u32 where
  "IGB_SRRCTL_DESCTYPE_HDR_SPLIT_ALWAYS = 0x0A000000"

definition IGB_SRRCTL_DESCTYPE_MASK :: u32 where
  "IGB_SRRCTL_DESCTYPE_MASK = 0x0E000000"

definition IGB_RXDPS_HDRSTAT_HDRSP :: u32 where
  "IGB_RXDPS_HDRSTAT_HDRSP = 0x00008000"

definition IGB_RXDPS_HDRSTAT_HDRLEN_MASK :: u32 where
  "IGB_RXDPS_HDRSTAT_HDRLEN_MASK = 0x000003FF"

definition IGB_RXDADV_RSSTYPE_MASK :: u32 where
  "IGB_RXDADV_RSSTYPE_MASK = 0x0000000F"

definition IGB_RXDADV_PKTTYPE_MASK :: u32 where
  "IGB_RXDADV_PKTTYPE_MASK = 0x0000FFF0"

definition IGB_RXDADV_PKTTYPE_MASK_EX :: u32 where
  "IGB_RXDADV_PKTTYPE_MASK_EX = 0x0001FFF0"

definition IGB_RXDADV_HDRBUFLEN_MASK :: u32 where
  "IGB_RXDADV_HDRBUFLEN_MASK = 0x00007FE0"

definition IGB_RXDADV_RSCCNT_MASK :: u32 where
  "IGB_RXDADV_RSCCNT_MASK = 0x001E0000"

definition IGB_RXDADV_RSCCNT_SHIFT :: u32 where
  "IGB_RXDADV_RSCCNT_SHIFT = 17"

definition IGB_RXDADV_HDRBUFLEN_SHIFT :: u32 where
  "IGB_RXDADV_HDRBUFLEN_SHIFT = 5"

definition IGB_RXDADV_SPLITHEADER_EN :: u32 where
  "IGB_RXDADV_SPLITHEADER_EN = 0x00001000"

definition IGB_RXDADV_SPH :: u32 where
  "IGB_RXDADV_SPH = 0x8000"

definition IGB_RXDADV_RSSTYPE_NONE :: u32 where
  "IGB_RXDADV_RSSTYPE_NONE = 0x00000000"

definition IGB_RXDADV_RSSTYPE_IPV4_TCP :: u32 where
  "IGB_RXDADV_RSSTYPE_IPV4_TCP = 0x00000001"

definition IGB_RXDADV_RSSTYPE_IPV4 :: u32 where
  "IGB_RXDADV_RSSTYPE_IPV4 = 0x00000002"

definition IGB_RXDADV_RSSTYPE_IPV6_TCP :: u32 where
  "IGB_RXDADV_RSSTYPE_IPV6_TCP = 0x00000003"

definition IGB_RXDADV_RSSTYPE_IPV6_EX :: u32 where
  "IGB_RXDADV_RSSTYPE_IPV6_EX = 0x00000004"

definition IGB_RXDADV_RSSTYPE_IPV6 :: u32 where
  "IGB_RXDADV_RSSTYPE_IPV6 = 0x00000005"

definition IGB_RXDADV_RSSTYPE_IPV6_TCP_EX :: u32 where
  "IGB_RXDADV_RSSTYPE_IPV6_TCP_EX = 0x00000006"

definition IGB_RXDADV_RSSTYPE_IPV4_UDP :: u32 where
  "IGB_RXDADV_RSSTYPE_IPV4_UDP = 0x00000007"

definition IGB_RXDADV_RSSTYPE_IPV6_UDP :: u32 where
  "IGB_RXDADV_RSSTYPE_IPV6_UDP = 0x00000008"

definition IGB_RXDADV_RSSTYPE_IPV6_UDP_EX :: u32 where
  "IGB_RXDADV_RSSTYPE_IPV6_UDP_EX = 0x00000009"

definition IGB_RXDADV_PKTTYPE_NONE :: u32 where
  "IGB_RXDADV_PKTTYPE_NONE = 0x00000000"

definition IGB_RXDADV_PKTTYPE_IPV4 :: u32 where
  "IGB_RXDADV_PKTTYPE_IPV4 = 0x00000010"

definition IGB_RXDADV_PKTTYPE_IPV4_EX :: u32 where
  "IGB_RXDADV_PKTTYPE_IPV4_EX = 0x00000020"

definition IGB_RXDADV_PKTTYPE_IPV6 :: u32 where
  "IGB_RXDADV_PKTTYPE_IPV6 = 0x00000040"

definition IGB_RXDADV_PKTTYPE_IPV6_EX :: u32 where
  "IGB_RXDADV_PKTTYPE_IPV6_EX = 0x00000080"

definition IGB_RXDADV_PKTTYPE_TCP :: u32 where
  "IGB_RXDADV_PKTTYPE_TCP = 0x00000100"

definition IGB_RXDADV_PKTTYPE_UDP :: u32 where
  "IGB_RXDADV_PKTTYPE_UDP = 0x00000200"

definition IGB_RXDADV_PKTTYPE_SCTP :: u32 where
  "IGB_RXDADV_PKTTYPE_SCTP = 0x00000400"

definition IGB_RXDADV_PKTTYPE_NFS :: u32 where
  "IGB_RXDADV_PKTTYPE_NFS = 0x00000800"

definition IGB_RXDADV_PKTTYPE_GENEVE :: u32 where
  "IGB_RXDADV_PKTTYPE_GENEVE = 0x00000800"

definition IGB_RXDADV_PKTTYPE_VXLAN :: u32 where
  "IGB_RXDADV_PKTTYPE_VXLAN = 0x00000800"

definition IGB_RXDADV_PKTTYPE_TUNNEL :: u32 where
  "IGB_RXDADV_PKTTYPE_TUNNEL = 0x00010000"

definition IGB_RXDADV_PKTTYPE_IPSEC_ESP :: u32 where
  "IGB_RXDADV_PKTTYPE_IPSEC_ESP = 0x00001000"

definition IGB_RXDADV_PKTTYPE_IPSEC_AH :: u32 where
  "IGB_RXDADV_PKTTYPE_IPSEC_AH = 0x00002000"

definition IGB_RXDADV_PKTTYPE_LINKSEC :: u32 where
  "IGB_RXDADV_PKTTYPE_LINKSEC = 0x00004000"

definition IGB_RXDADV_PKTTYPE_ETQF :: u32 where
  "IGB_RXDADV_PKTTYPE_ETQF = 0x00008000"

definition IGB_RXDADV_PKTTYPE_ETQF_MASK :: u32 where
  "IGB_RXDADV_PKTTYPE_ETQF_MASK = 0x00000070"

definition IGB_RXDADV_PKTTYPE_ETQF_SHIFT :: u32 where
  "IGB_RXDADV_PKTTYPE_ETQF_SHIFT = 4"

definition IGB_RXDADV_LNKSEC_STATUS_SECP :: u32 where
  "IGB_RXDADV_LNKSEC_STATUS_SECP = 0x00020000"

definition IGB_RXDADV_LNKSEC_ERROR_NO_SA_MATCH :: u32 where
  "IGB_RXDADV_LNKSEC_ERROR_NO_SA_MATCH = 0x08000000"

definition IGB_RXDADV_LNKSEC_ERROR_REPLAY_ERROR :: u32 where
  "IGB_RXDADV_LNKSEC_ERROR_REPLAY_ERROR = 0x10000000"

definition IGB_RXDADV_LNKSEC_ERROR_BIT_MASK :: u32 where
  "IGB_RXDADV_LNKSEC_ERROR_BIT_MASK = 0x18000000"

definition IGB_RXDADV_LNKSEC_ERROR_BAD_SIG :: u32 where
  "IGB_RXDADV_LNKSEC_ERROR_BAD_SIG = 0x18000000"

definition IGB_RXD_ERR_FRAME_ERR_MASK :: u32 where
  "IGB_RXD_ERR_FRAME_ERR_MASK = (((IGB_RXD_ERR_CE OR IGB_RXD_ERR_LE) OR IGB_RXD_ERR_PE) OR IGB_RXD_ERR_OSE) OR IGB_RXD_ERR_USE"

definition IGB_RXDADV_ERR_FRAME_ERR_MASK :: u32 where
  "IGB_RXDADV_ERR_FRAME_ERR_MASK = (((IGB_RXDADV_ERR_CE OR IGB_RXDADV_ERR_LE) OR IGB_RXDADV_ERR_PE) OR IGB_RXDADV_ERR_OSE) OR IGB_RXDADV_ERR_USE"

definition IGB_RXDADV_ERR_FRAME_ERR_MASK_82599 :: u32 where
  "IGB_RXDADV_ERR_FRAME_ERR_MASK_82599 = IGB_RXDADV_ERR_RXE"

definition IGB_MCSTCTRL_MFE :: u32 where
  "IGB_MCSTCTRL_MFE = 0x4"

definition IGB_REQ_TX_DESCRIPTOR_MULTIPLE :: u32 where
  "IGB_REQ_TX_DESCRIPTOR_MULTIPLE = 8"

definition IGB_REQ_RX_DESCRIPTOR_MULTIPLE :: u32 where
  "IGB_REQ_RX_DESCRIPTOR_MULTIPLE = 8"

definition IGB_REQ_TX_BUFFER_GRANULARITY :: u32 where
  "IGB_REQ_TX_BUFFER_GRANULARITY = 1024"

definition IGB_RX_DESC_SPECIAL_VLAN_MASK :: u32 where
  "IGB_RX_DESC_SPECIAL_VLAN_MASK = 0x0FFF"

definition IGB_RX_DESC_SPECIAL_PRI_MASK :: u32 where
  "IGB_RX_DESC_SPECIAL_PRI_MASK = 0xE000"

definition IGB_RX_DESC_SPECIAL_PRI_SHIFT :: u32 where
  "IGB_RX_DESC_SPECIAL_PRI_SHIFT = 0x000D"

definition IGB_TX_DESC_SPECIAL_PRI_SHIFT :: u32 where
  "IGB_TX_DESC_SPECIAL_PRI_SHIFT = IGB_RX_DESC_SPECIAL_PRI_SHIFT"

end
