(* ===== verification/Masks_Fw.thy ===== *)
theory Masks_Fw
  imports Masks_Rx
begin

text \<open>
  The flow director, and the commands of the firmware's host interface.
  From \<open>src/constants.rs\<close>, with the values of the source.
\<close>

definition IGB_FDIRCTRL_PBALLOC_64K :: u32 where
  "IGB_FDIRCTRL_PBALLOC_64K = 0x00000001"

definition IGB_FDIRCTRL_PBALLOC_128K :: u32 where
  "IGB_FDIRCTRL_PBALLOC_128K = 0x00000002"

definition IGB_FDIRCTRL_PBALLOC_256K :: u32 where
  "IGB_FDIRCTRL_PBALLOC_256K = 0x00000003"

definition IGB_FDIRCTRL_INIT_DONE :: u32 where
  "IGB_FDIRCTRL_INIT_DONE = 0x00000008"

definition IGB_FDIRCTRL_PERFECT_MATCH :: u32 where
  "IGB_FDIRCTRL_PERFECT_MATCH = 0x00000010"

definition IGB_FDIRCTRL_REPORT_STATUS :: u32 where
  "IGB_FDIRCTRL_REPORT_STATUS = 0x00000020"

definition IGB_FDIRCTRL_REPORT_STATUS_ALWAYS :: u32 where
  "IGB_FDIRCTRL_REPORT_STATUS_ALWAYS = 0x00000080"

definition IGB_FDIRCTRL_DROP_Q_SHIFT :: u32 where
  "IGB_FDIRCTRL_DROP_Q_SHIFT = 8"

definition IGB_FDIRCTRL_DROP_Q_MASK :: u32 where
  "IGB_FDIRCTRL_DROP_Q_MASK = 0x00007F00"

definition IGB_FDIRCTRL_FLEX_SHIFT :: u32 where
  "IGB_FDIRCTRL_FLEX_SHIFT = 16"

definition IGB_FDIRCTRL_DROP_NO_MATCH :: u32 where
  "IGB_FDIRCTRL_DROP_NO_MATCH = 0x00008000"

definition IGB_FDIRCTRL_FILTERMODE_SHIFT :: u32 where
  "IGB_FDIRCTRL_FILTERMODE_SHIFT = 21"

definition IGB_FDIRCTRL_FILTERMODE_MACVLAN :: u32 where
  "IGB_FDIRCTRL_FILTERMODE_MACVLAN = 0x0001"

definition IGB_FDIRCTRL_FILTERMODE_CLOUD :: u32 where
  "IGB_FDIRCTRL_FILTERMODE_CLOUD = 0x0002"

definition IGB_FDIRCTRL_SEARCHLIM :: u32 where
  "IGB_FDIRCTRL_SEARCHLIM = 0x00800000"

definition IGB_FDIRCTRL_FILTERMODE_MASK :: u32 where
  "IGB_FDIRCTRL_FILTERMODE_MASK = 0x00E00000"

definition IGB_FDIRCTRL_MAX_LENGTH_SHIFT :: u32 where
  "IGB_FDIRCTRL_MAX_LENGTH_SHIFT = 24"

definition IGB_FDIRCTRL_FULL_THRESH_MASK :: u32 where
  "IGB_FDIRCTRL_FULL_THRESH_MASK = 0xF0000000"

definition IGB_FDIRCTRL_FULL_THRESH_SHIFT :: u32 where
  "IGB_FDIRCTRL_FULL_THRESH_SHIFT = 28"

definition IGB_FDIRTCPM_DPORTM_SHIFT :: u32 where
  "IGB_FDIRTCPM_DPORTM_SHIFT = 16"

definition IGB_FDIRUDPM_DPORTM_SHIFT :: u32 where
  "IGB_FDIRUDPM_DPORTM_SHIFT = 16"

definition IGB_FDIRIP6M_DIPM_SHIFT :: u32 where
  "IGB_FDIRIP6M_DIPM_SHIFT = 16"

definition IGB_FDIRM_VLANID :: u32 where
  "IGB_FDIRM_VLANID = 0x00000001"

definition IGB_FDIRM_VLANP :: u32 where
  "IGB_FDIRM_VLANP = 0x00000002"

definition IGB_FDIRM_POOL :: u32 where
  "IGB_FDIRM_POOL = 0x00000004"

definition IGB_FDIRM_L4P :: u32 where
  "IGB_FDIRM_L4P = 0x00000008"

definition IGB_FDIRM_FLEX :: u32 where
  "IGB_FDIRM_FLEX = 0x00000010"

definition IGB_FDIRM_DIPv6 :: u32 where
  "IGB_FDIRM_DIPv6 = 0x00000020"

definition IGB_FDIRM_L3P :: u32 where
  "IGB_FDIRM_L3P = 0x00000040"

definition IGB_FDIRIP6M_INNER_MAC :: u32 where
  "IGB_FDIRIP6M_INNER_MAC = 0x03F0"

definition IGB_FDIRIP6M_TUNNEL_TYPE :: u32 where
  "IGB_FDIRIP6M_TUNNEL_TYPE = 0x0800"

definition IGB_FDIRIP6M_TNI_VNI :: u32 where
  "IGB_FDIRIP6M_TNI_VNI = 0xF000"

definition IGB_FDIRIP6M_TNI_VNI_24 :: u32 where
  "IGB_FDIRIP6M_TNI_VNI_24 = 0x1000"

definition IGB_FDIRIP6M_ALWAYS_MASK :: u32 where
  "IGB_FDIRIP6M_ALWAYS_MASK = 0x040F"

definition IGB_FDIRFREE_FREE_MASK :: u32 where
  "IGB_FDIRFREE_FREE_MASK = 0xFFFF"

definition IGB_FDIRFREE_FREE_SHIFT :: u32 where
  "IGB_FDIRFREE_FREE_SHIFT = 0"

definition IGB_FDIRFREE_COLL_MASK :: u32 where
  "IGB_FDIRFREE_COLL_MASK = 0x7FFF0000"

definition IGB_FDIRFREE_COLL_SHIFT :: u32 where
  "IGB_FDIRFREE_COLL_SHIFT = 16"

definition IGB_FDIRLEN_MAXLEN_MASK :: u32 where
  "IGB_FDIRLEN_MAXLEN_MASK = 0x3F"

definition IGB_FDIRLEN_MAXLEN_SHIFT :: u32 where
  "IGB_FDIRLEN_MAXLEN_SHIFT = 0"

definition IGB_FDIRLEN_MAXHASH_MASK :: u32 where
  "IGB_FDIRLEN_MAXHASH_MASK = 0x7FFF0000"

definition IGB_FDIRLEN_MAXHASH_SHIFT :: u32 where
  "IGB_FDIRLEN_MAXHASH_SHIFT = 16"

definition IGB_FDIRUSTAT_ADD_MASK :: u32 where
  "IGB_FDIRUSTAT_ADD_MASK = 0xFFFF"

definition IGB_FDIRUSTAT_ADD_SHIFT :: u32 where
  "IGB_FDIRUSTAT_ADD_SHIFT = 0"

definition IGB_FDIRUSTAT_REMOVE_MASK :: u32 where
  "IGB_FDIRUSTAT_REMOVE_MASK = 0xFFFF0000"

definition IGB_FDIRUSTAT_REMOVE_SHIFT :: u32 where
  "IGB_FDIRUSTAT_REMOVE_SHIFT = 16"

definition IGB_FDIRFSTAT_FADD_MASK :: u32 where
  "IGB_FDIRFSTAT_FADD_MASK = 0x00FF"

definition IGB_FDIRFSTAT_FADD_SHIFT :: u32 where
  "IGB_FDIRFSTAT_FADD_SHIFT = 0"

definition IGB_FDIRFSTAT_FREMOVE_MASK :: u32 where
  "IGB_FDIRFSTAT_FREMOVE_MASK = 0xFF00"

definition IGB_FDIRFSTAT_FREMOVE_SHIFT :: u32 where
  "IGB_FDIRFSTAT_FREMOVE_SHIFT = 8"

definition IGB_FDIRPORT_DESTINATION_SHIFT :: u32 where
  "IGB_FDIRPORT_DESTINATION_SHIFT = 16"

definition IGB_FDIRVLAN_FLEX_SHIFT :: u32 where
  "IGB_FDIRVLAN_FLEX_SHIFT = 16"

definition IGB_FDIRHASH_BUCKET_VALID_SHIFT :: u32 where
  "IGB_FDIRHASH_BUCKET_VALID_SHIFT = 15"

definition IGB_FDIRHASH_SIG_SW_INDEX_SHIFT :: u32 where
  "IGB_FDIRHASH_SIG_SW_INDEX_SHIFT = 16"

definition IGB_FDIRCMD_CMD_MASK :: u32 where
  "IGB_FDIRCMD_CMD_MASK = 0x00000003"

definition IGB_FDIRCMD_CMD_ADD_FLOW :: u32 where
  "IGB_FDIRCMD_CMD_ADD_FLOW = 0x00000001"

definition IGB_FDIRCMD_CMD_REMOVE_FLOW :: u32 where
  "IGB_FDIRCMD_CMD_REMOVE_FLOW = 0x00000002"

definition IGB_FDIRCMD_CMD_QUERY_REM_FILT :: u32 where
  "IGB_FDIRCMD_CMD_QUERY_REM_FILT = 0x00000003"

definition IGB_FDIRCMD_FILTER_VALID :: u32 where
  "IGB_FDIRCMD_FILTER_VALID = 0x00000004"

definition IGB_FDIRCMD_FILTER_UPDATE :: u32 where
  "IGB_FDIRCMD_FILTER_UPDATE = 0x00000008"

definition IGB_FDIRCMD_IPv6DMATCH :: u32 where
  "IGB_FDIRCMD_IPv6DMATCH = 0x00000010"

definition IGB_FDIRCMD_L4TYPE_UDP :: u32 where
  "IGB_FDIRCMD_L4TYPE_UDP = 0x00000020"

definition IGB_FDIRCMD_L4TYPE_TCP :: u32 where
  "IGB_FDIRCMD_L4TYPE_TCP = 0x00000040"

definition IGB_FDIRCMD_L4TYPE_SCTP :: u32 where
  "IGB_FDIRCMD_L4TYPE_SCTP = 0x00000060"

definition IGB_FDIRCMD_IPV6 :: u32 where
  "IGB_FDIRCMD_IPV6 = 0x00000080"

definition IGB_FDIRCMD_CLEARHT :: u32 where
  "IGB_FDIRCMD_CLEARHT = 0x00000100"

definition IGB_FDIRCMD_DROP :: u32 where
  "IGB_FDIRCMD_DROP = 0x00000200"

definition IGB_FDIRCMD_INT :: u32 where
  "IGB_FDIRCMD_INT = 0x00000400"

definition IGB_FDIRCMD_LAST :: u32 where
  "IGB_FDIRCMD_LAST = 0x00000800"

definition IGB_FDIRCMD_COLLISION :: u32 where
  "IGB_FDIRCMD_COLLISION = 0x00001000"

definition IGB_FDIRCMD_QUEUE_EN :: u32 where
  "IGB_FDIRCMD_QUEUE_EN = 0x00008000"

definition IGB_FDIRCMD_FLOW_TYPE_SHIFT :: u32 where
  "IGB_FDIRCMD_FLOW_TYPE_SHIFT = 5"

definition IGB_FDIRCMD_RX_QUEUE_SHIFT :: u32 where
  "IGB_FDIRCMD_RX_QUEUE_SHIFT = 16"

definition IGB_FDIRCMD_TUNNEL_FILTER_SHIFT :: u32 where
  "IGB_FDIRCMD_TUNNEL_FILTER_SHIFT = 23"

definition IGB_FDIRCMD_VT_POOL_SHIFT :: u32 where
  "IGB_FDIRCMD_VT_POOL_SHIFT = 24"

definition IGB_FDIR_INIT_DONE_POLL :: u32 where
  "IGB_FDIR_INIT_DONE_POLL = 10"

definition IGB_FDIRCMD_CMD_POLL :: u32 where
  "IGB_FDIRCMD_CMD_POLL = 10"

definition IGB_FDIRCMD_TUNNEL_FILTER :: u32 where
  "IGB_FDIRCMD_TUNNEL_FILTER = 0x00800000"

definition IGB_FDIR_DROP_QUEUE :: u32 where
  "IGB_FDIR_DROP_QUEUE = 127"

definition IGB_HI_MAX_BLOCK_BYTE_LENGTH :: u32 where
  "IGB_HI_MAX_BLOCK_BYTE_LENGTH = 1792"

definition IGB_HI_MAX_BLOCK_DWORD_LENGTH :: u32 where
  "IGB_HI_MAX_BLOCK_DWORD_LENGTH = 448"

definition IGB_HI_COMMAND_TIMEOUT :: u32 where
  "IGB_HI_COMMAND_TIMEOUT = 500"

definition IGB_HI_FLASH_ERASE_TIMEOUT :: u32 where
  "IGB_HI_FLASH_ERASE_TIMEOUT = 1000"

definition IGB_HI_FLASH_UPDATE_TIMEOUT :: u32 where
  "IGB_HI_FLASH_UPDATE_TIMEOUT = 5000"

definition IGB_HI_FLASH_APPLY_TIMEOUT :: u32 where
  "IGB_HI_FLASH_APPLY_TIMEOUT = 0"

definition IGB_HI_PHY_MGMT_REQ_TIMEOUT :: u32 where
  "IGB_HI_PHY_MGMT_REQ_TIMEOUT = 2000"

definition FW_CEM_HDR_LEN :: u32 where
  "FW_CEM_HDR_LEN = 0x4"

definition FW_CEM_CMD_DRIVER_INFO :: u32 where
  "FW_CEM_CMD_DRIVER_INFO = 0xDD"

definition FW_CEM_CMD_DRIVER_INFO_LEN :: u32 where
  "FW_CEM_CMD_DRIVER_INFO_LEN = 0x5"

definition FW_CEM_CMD_RESERVED :: u32 where
  "FW_CEM_CMD_RESERVED = 0x0"

definition FW_CEM_UNUSED_VER :: u32 where
  "FW_CEM_UNUSED_VER = 0x0"

definition FW_CEM_MAX_RETRIES :: u32 where
  "FW_CEM_MAX_RETRIES = 3"

definition FW_CEM_RESP_STATUS_SUCCESS :: u32 where
  "FW_CEM_RESP_STATUS_SUCCESS = 0x1"

definition FW_CEM_DRIVER_VERSION_SIZE :: u32 where
  "FW_CEM_DRIVER_VERSION_SIZE = 39"

definition FW_READ_SHADOW_RAM_CMD :: u32 where
  "FW_READ_SHADOW_RAM_CMD = 0x31"

definition FW_READ_SHADOW_RAM_LEN :: u32 where
  "FW_READ_SHADOW_RAM_LEN = 0x6"

definition FW_WRITE_SHADOW_RAM_CMD :: u32 where
  "FW_WRITE_SHADOW_RAM_CMD = 0x33"

definition FW_WRITE_SHADOW_RAM_LEN :: u32 where
  "FW_WRITE_SHADOW_RAM_LEN = 0xA"

definition FW_SHADOW_RAM_DUMP_CMD :: u32 where
  "FW_SHADOW_RAM_DUMP_CMD = 0x36"

definition FW_SHADOW_RAM_DUMP_LEN :: u32 where
  "FW_SHADOW_RAM_DUMP_LEN = 0"

definition FW_DEFAULT_CHECKSUM :: u32 where
  "FW_DEFAULT_CHECKSUM = 0xFF"

definition FW_NVM_DATA_OFFSET :: u32 where
  "FW_NVM_DATA_OFFSET = 3"

definition FW_MAX_READ_BUFFER_SIZE :: u32 where
  "FW_MAX_READ_BUFFER_SIZE = 1024"

definition FW_DISABLE_RXEN_CMD :: u32 where
  "FW_DISABLE_RXEN_CMD = 0xDE"

definition FW_DISABLE_RXEN_LEN :: u32 where
  "FW_DISABLE_RXEN_LEN = 0x1"

definition FW_PHY_MGMT_REQ_CMD :: u32 where
  "FW_PHY_MGMT_REQ_CMD = 0x20"

definition FW_PHY_TOKEN_REQ_CMD :: u32 where
  "FW_PHY_TOKEN_REQ_CMD = 0xA"

definition FW_PHY_TOKEN_REQ_LEN :: u32 where
  "FW_PHY_TOKEN_REQ_LEN = 2"

definition FW_PHY_TOKEN_REQ :: u32 where
  "FW_PHY_TOKEN_REQ = 0"

definition FW_PHY_TOKEN_REL :: u32 where
  "FW_PHY_TOKEN_REL = 1"

definition FW_PHY_TOKEN_OK :: u32 where
  "FW_PHY_TOKEN_OK = 1"

definition FW_PHY_TOKEN_RETRY :: u32 where
  "FW_PHY_TOKEN_RETRY = 0x80"

definition FW_INT_PHY_REQ_CMD :: u32 where
  "FW_INT_PHY_REQ_CMD = 0xB"

definition FW_INT_PHY_REQ_LEN :: u32 where
  "FW_INT_PHY_REQ_LEN = 10"

definition FW_INT_PHY_REQ_READ :: u32 where
  "FW_INT_PHY_REQ_READ = 0"

definition FW_INT_PHY_REQ_WRITE :: u32 where
  "FW_INT_PHY_REQ_WRITE = 1"

definition FW_PHY_ACT_REQ_CMD :: u32 where
  "FW_PHY_ACT_REQ_CMD = 5"

definition FW_PHY_ACT_DATA_COUNT :: u32 where
  "FW_PHY_ACT_DATA_COUNT = 4"

definition FW_PHY_ACT_REQ_LEN :: u32 where
  "FW_PHY_ACT_REQ_LEN = 4 + (4 * FW_PHY_ACT_DATA_COUNT)"

definition FW_PHY_ACT_INIT_PHY :: u32 where
  "FW_PHY_ACT_INIT_PHY = 1"

definition FW_PHY_ACT_SETUP_LINK :: u32 where
  "FW_PHY_ACT_SETUP_LINK = 2"

definition FW_PHY_ACT_LINK_SPEED_10 :: u32 where
  "FW_PHY_ACT_LINK_SPEED_10 = push_bit 0 (1 :: u32)"

definition FW_PHY_ACT_LINK_SPEED_100 :: u32 where
  "FW_PHY_ACT_LINK_SPEED_100 = push_bit 1 (1 :: u32)"

definition FW_PHY_ACT_LINK_SPEED_1G :: u32 where
  "FW_PHY_ACT_LINK_SPEED_1G = push_bit 2 (1 :: u32)"

definition FW_PHY_ACT_LINK_SPEED_2_5G :: u32 where
  "FW_PHY_ACT_LINK_SPEED_2_5G = push_bit 3 (1 :: u32)"

definition FW_PHY_ACT_LINK_SPEED_5G :: u32 where
  "FW_PHY_ACT_LINK_SPEED_5G = push_bit 4 (1 :: u32)"

definition FW_PHY_ACT_LINK_SPEED_10G :: u32 where
  "FW_PHY_ACT_LINK_SPEED_10G = push_bit 5 (1 :: u32)"

definition FW_PHY_ACT_LINK_SPEED_20G :: u32 where
  "FW_PHY_ACT_LINK_SPEED_20G = push_bit 6 (1 :: u32)"

definition FW_PHY_ACT_LINK_SPEED_25G :: u32 where
  "FW_PHY_ACT_LINK_SPEED_25G = push_bit 7 (1 :: u32)"

definition FW_PHY_ACT_LINK_SPEED_40G :: u32 where
  "FW_PHY_ACT_LINK_SPEED_40G = push_bit 8 (1 :: u32)"

definition FW_PHY_ACT_LINK_SPEED_50G :: u32 where
  "FW_PHY_ACT_LINK_SPEED_50G = push_bit 9 (1 :: u32)"

definition FW_PHY_ACT_LINK_SPEED_100G :: u32 where
  "FW_PHY_ACT_LINK_SPEED_100G = push_bit 10 (1 :: u32)"

definition FW_PHY_ACT_SETUP_LINK_PAUSE_NONE :: u32 where
  "FW_PHY_ACT_SETUP_LINK_PAUSE_NONE = 0"

definition FW_PHY_ACT_SETUP_LINK_PAUSE_TX :: u32 where
  "FW_PHY_ACT_SETUP_LINK_PAUSE_TX = 1"

definition FW_PHY_ACT_SETUP_LINK_PAUSE_RX :: u32 where
  "FW_PHY_ACT_SETUP_LINK_PAUSE_RX = 2"

definition FW_PHY_ACT_SETUP_LINK_PAUSE_RXTX :: u32 where
  "FW_PHY_ACT_SETUP_LINK_PAUSE_RXTX = 3"

definition FW_PHY_ACT_SETUP_LINK_LP :: u32 where
  "FW_PHY_ACT_SETUP_LINK_LP = push_bit 18 (1 :: u32)"

definition FW_PHY_ACT_SETUP_LINK_HP :: u32 where
  "FW_PHY_ACT_SETUP_LINK_HP = push_bit 19 (1 :: u32)"

definition FW_PHY_ACT_SETUP_LINK_EEE :: u32 where
  "FW_PHY_ACT_SETUP_LINK_EEE = push_bit 20 (1 :: u32)"

definition FW_PHY_ACT_SETUP_LINK_AN :: u32 where
  "FW_PHY_ACT_SETUP_LINK_AN = push_bit 22 (1 :: u32)"

definition FW_PHY_ACT_SETUP_LINK_RSP_DOWN :: u32 where
  "FW_PHY_ACT_SETUP_LINK_RSP_DOWN = push_bit 0 (1 :: u32)"

definition FW_PHY_ACT_GET_LINK_INFO :: u32 where
  "FW_PHY_ACT_GET_LINK_INFO = 3"

definition FW_PHY_ACT_GET_LINK_INFO_EEE :: u32 where
  "FW_PHY_ACT_GET_LINK_INFO_EEE = push_bit 19 (1 :: u32)"

definition FW_PHY_ACT_GET_LINK_INFO_FC_TX :: u32 where
  "FW_PHY_ACT_GET_LINK_INFO_FC_TX = push_bit 20 (1 :: u32)"

definition FW_PHY_ACT_GET_LINK_INFO_FC_RX :: u32 where
  "FW_PHY_ACT_GET_LINK_INFO_FC_RX = push_bit 21 (1 :: u32)"

definition FW_PHY_ACT_GET_LINK_INFO_POWER :: u32 where
  "FW_PHY_ACT_GET_LINK_INFO_POWER = push_bit 22 (1 :: u32)"

definition FW_PHY_ACT_GET_LINK_INFO_AN_COMPLETE :: u32 where
  "FW_PHY_ACT_GET_LINK_INFO_AN_COMPLETE = push_bit 24 (1 :: u32)"

definition FW_PHY_ACT_GET_LINK_INFO_TEMP :: u32 where
  "FW_PHY_ACT_GET_LINK_INFO_TEMP = push_bit 25 (1 :: u32)"

definition FW_PHY_ACT_GET_LINK_INFO_LP_FC_TX :: u32 where
  "FW_PHY_ACT_GET_LINK_INFO_LP_FC_TX = push_bit 28 (1 :: u32)"

definition FW_PHY_ACT_GET_LINK_INFO_LP_FC_RX :: u32 where
  "FW_PHY_ACT_GET_LINK_INFO_LP_FC_RX = push_bit 29 (1 :: u32)"

definition FW_PHY_ACT_FORCE_LINK_DOWN :: u32 where
  "FW_PHY_ACT_FORCE_LINK_DOWN = 4"

definition FW_PHY_ACT_FORCE_LINK_DOWN_OFF :: u32 where
  "FW_PHY_ACT_FORCE_LINK_DOWN_OFF = push_bit 0 (1 :: u32)"

definition FW_PHY_ACT_PHY_SW_RESET :: u32 where
  "FW_PHY_ACT_PHY_SW_RESET = 5"

definition FW_PHY_ACT_PHY_HW_RESET :: u32 where
  "FW_PHY_ACT_PHY_HW_RESET = 6"

definition FW_PHY_ACT_GET_PHY_INFO :: u32 where
  "FW_PHY_ACT_GET_PHY_INFO = 7"

definition FW_PHY_ACT_UD_2 :: u32 where
  "FW_PHY_ACT_UD_2 = 0x1002"

definition FW_PHY_ACT_UD_2_10G_KR_EEE :: u32 where
  "FW_PHY_ACT_UD_2_10G_KR_EEE = push_bit 6 (1 :: u32)"

definition FW_PHY_ACT_UD_2_10G_KX4_EEE :: u32 where
  "FW_PHY_ACT_UD_2_10G_KX4_EEE = push_bit 5 (1 :: u32)"

definition FW_PHY_ACT_UD_2_1G_KX_EEE :: u32 where
  "FW_PHY_ACT_UD_2_1G_KX_EEE = push_bit 4 (1 :: u32)"

definition FW_PHY_ACT_UD_2_10G_T_EEE :: u32 where
  "FW_PHY_ACT_UD_2_10G_T_EEE = push_bit 3 (1 :: u32)"

definition FW_PHY_ACT_UD_2_1G_T_EEE :: u32 where
  "FW_PHY_ACT_UD_2_1G_T_EEE = push_bit 2 (1 :: u32)"

definition FW_PHY_ACT_UD_2_100M_TX_EEE :: u32 where
  "FW_PHY_ACT_UD_2_100M_TX_EEE = push_bit 1 (1 :: u32)"

definition FW_PHY_ACT_RETRIES :: u32 where
  "FW_PHY_ACT_RETRIES = 50"

definition FW_PHY_INFO_SPEED_MASK :: u32 where
  "FW_PHY_INFO_SPEED_MASK = 0xFFF"

definition FW_PHY_INFO_ID_HI_MASK :: u32 where
  "FW_PHY_INFO_ID_HI_MASK = 0xFFFF0000"

definition FW_PHY_INFO_ID_LO_MASK :: u32 where
  "FW_PHY_INFO_ID_LO_MASK = 0x0000FFFF"

end
