(* ===== verification/Masks_Tx.thy ===== *)
theory Masks_Tx
  imports Masks_Fw
begin

text \<open>
  The bit masks of the advanced transmit descriptor, link speeds and layers, flow-control delays.
  From \<open>src/constants.rs\<close>, with the values of the source.
\<close>

definition IGB_ADVTXD_DTALEN_MASK :: u32 where
  "IGB_ADVTXD_DTALEN_MASK = 0x0000FFFF"

definition IGB_ADVTXD_MAC_LINKSEC :: u32 where
  "IGB_ADVTXD_MAC_LINKSEC = 0x00040000"

definition IGB_ADVTXD_MAC_TSTAMP :: u32 where
  "IGB_ADVTXD_MAC_TSTAMP = 0x00080000"

definition IGB_ADVTXD_IPSEC_SA_INDEX_MASK :: u32 where
  "IGB_ADVTXD_IPSEC_SA_INDEX_MASK = 0x000003FF"

definition IGB_ADVTXD_IPSEC_ESP_LEN_MASK :: u32 where
  "IGB_ADVTXD_IPSEC_ESP_LEN_MASK = 0x000001FF"

definition IGB_ADVTXD_DTYP_MASK :: u32 where
  "IGB_ADVTXD_DTYP_MASK = 0x00F00000"

definition IGB_ADVTXD_DTYP_CTXT :: u32 where
  "IGB_ADVTXD_DTYP_CTXT = 0x00200000"

definition IGB_ADVTXD_DTYP_DATA :: u32 where
  "IGB_ADVTXD_DTYP_DATA = 0x00300000"

definition IGB_ADVTXD_DCMD_EOP :: u32 where
  "IGB_ADVTXD_DCMD_EOP = IGB_TXD_CMD_EOP"

definition IGB_ADVTXD_DCMD_IFCS :: u32 where
  "IGB_ADVTXD_DCMD_IFCS = IGB_TXD_CMD_IFCS"

definition IGB_ADVTXD_DCMD_RS :: u32 where
  "IGB_ADVTXD_DCMD_RS = IGB_TXD_CMD_RS"

definition IGB_ADVTXD_DCMD_DDTYP_ISCSI :: u32 where
  "IGB_ADVTXD_DCMD_DDTYP_ISCSI = 0x10000000"

definition IGB_ADVTXD_DCMD_DEXT :: u32 where
  "IGB_ADVTXD_DCMD_DEXT = IGB_TXD_CMD_DEXT"

definition IGB_ADVTXD_DCMD_VLE :: u32 where
  "IGB_ADVTXD_DCMD_VLE = IGB_TXD_CMD_VLE"

definition IGB_ADVTXD_DCMD_TSE :: u32 where
  "IGB_ADVTXD_DCMD_TSE = 0x80000000"

definition IGB_ADVTXD_STAT_SN_CRC :: u32 where
  "IGB_ADVTXD_STAT_SN_CRC = 0x00000002"

definition IGB_ADVTXD_STAT_RSV :: u32 where
  "IGB_ADVTXD_STAT_RSV = 0x0000000C"

definition IGB_ADVTXD_IDX_SHIFT :: u32 where
  "IGB_ADVTXD_IDX_SHIFT = 4"

definition IGB_ADVTXD_CC :: u32 where
  "IGB_ADVTXD_CC = 0x00000080"

definition IGB_ADVTXD_POPTS_SHIFT :: u32 where
  "IGB_ADVTXD_POPTS_SHIFT = 8"

definition IGB_ADVTXD_POPTS_IXSM :: u32 where
  "IGB_ADVTXD_POPTS_IXSM = push_bit (unat IGB_ADVTXD_POPTS_SHIFT) IGB_TXD_POPTS_IXSM"

definition IGB_ADVTXD_POPTS_TXSM :: u32 where
  "IGB_ADVTXD_POPTS_TXSM = push_bit (unat IGB_ADVTXD_POPTS_SHIFT) IGB_TXD_POPTS_TXSM"

definition IGB_ADVTXD_POPTS_ISCO_1ST :: u32 where
  "IGB_ADVTXD_POPTS_ISCO_1ST = 0x00000000"

definition IGB_ADVTXD_POPTS_ISCO_MDL :: u32 where
  "IGB_ADVTXD_POPTS_ISCO_MDL = 0x00000800"

definition IGB_ADVTXD_POPTS_ISCO_LAST :: u32 where
  "IGB_ADVTXD_POPTS_ISCO_LAST = 0x00001000"

definition IGB_ADVTXD_POPTS_ISCO_FULL :: u32 where
  "IGB_ADVTXD_POPTS_ISCO_FULL = 0x00001800"

definition IGB_ADVTXD_POPTS_RSV :: u32 where
  "IGB_ADVTXD_POPTS_RSV = 0x00002000"

definition IGB_ADVTXD_PAYLEN_SHIFT :: u32 where
  "IGB_ADVTXD_PAYLEN_SHIFT = 14"

definition IGB_ADVTXD_MACLEN_SHIFT :: u32 where
  "IGB_ADVTXD_MACLEN_SHIFT = 9"

definition IGB_ADVTXD_VLAN_SHIFT :: u32 where
  "IGB_ADVTXD_VLAN_SHIFT = 16"

definition IGB_ADVTXD_TUCMD_IPV4 :: u32 where
  "IGB_ADVTXD_TUCMD_IPV4 = 0x00000400"

definition IGB_ADVTXD_TUCMD_IPV6 :: u32 where
  "IGB_ADVTXD_TUCMD_IPV6 = 0x00000000"

definition IGB_ADVTXD_TUCMD_L4T_UDP :: u32 where
  "IGB_ADVTXD_TUCMD_L4T_UDP = 0x00000000"

definition IGB_ADVTXD_TUCMD_L4T_TCP :: u32 where
  "IGB_ADVTXD_TUCMD_L4T_TCP = 0x00000800"

definition IGB_ADVTXD_TUCMD_L4T_SCTP :: u32 where
  "IGB_ADVTXD_TUCMD_L4T_SCTP = 0x00001000"

definition IGB_ADVTXD_TUCMD_L4T_RSV :: u32 where
  "IGB_ADVTXD_TUCMD_L4T_RSV = 0x00001800"

definition IGB_ADVTXD_TUCMD_MKRREQ :: u32 where
  "IGB_ADVTXD_TUCMD_MKRREQ = 0x00002000"

definition IGB_ADVTXD_POPTS_IPSEC :: u32 where
  "IGB_ADVTXD_POPTS_IPSEC = 0x00000400"

definition IGB_ADVTXD_TUCMD_IPSEC_TYPE_ESP :: u32 where
  "IGB_ADVTXD_TUCMD_IPSEC_TYPE_ESP = 0x00002000"

definition IGB_ADVTXD_TUCMD_IPSEC_ENCRYPT_EN :: u32 where
  "IGB_ADVTXD_TUCMD_IPSEC_ENCRYPT_EN = 0x00004000"

definition IGB_ADVTXT_TUCMD_FCOE :: u32 where
  "IGB_ADVTXT_TUCMD_FCOE = 0x00008000"

definition IGB_ADVTXD_FCOEF_EOF_MASK :: u32 where
  "IGB_ADVTXD_FCOEF_EOF_MASK = push_bit 10 (0x3 :: u32)"

definition IGB_ADVTXD_FCOEF_SOF :: u32 where
  "IGB_ADVTXD_FCOEF_SOF = push_bit 10 (push_bit 2 (1 :: u32))"

definition IGB_ADVTXD_FCOEF_PARINC :: u32 where
  "IGB_ADVTXD_FCOEF_PARINC = push_bit 10 (push_bit 3 (1 :: u32))"

definition IGB_ADVTXD_FCOEF_ORIE :: u32 where
  "IGB_ADVTXD_FCOEF_ORIE = push_bit 10 (push_bit 4 (1 :: u32))"

definition IGB_ADVTXD_FCOEF_ORIS :: u32 where
  "IGB_ADVTXD_FCOEF_ORIS = push_bit 10 (push_bit 5 (1 :: u32))"

definition IGB_ADVTXD_FCOEF_EOF_N :: u32 where
  "IGB_ADVTXD_FCOEF_EOF_N = push_bit 10 (0x0 :: u32)"

definition IGB_ADVTXD_FCOEF_EOF_T :: u32 where
  "IGB_ADVTXD_FCOEF_EOF_T = push_bit 10 (0x1 :: u32)"

definition IGB_ADVTXD_FCOEF_EOF_NI :: u32 where
  "IGB_ADVTXD_FCOEF_EOF_NI = push_bit 10 (0x2 :: u32)"

definition IGB_ADVTXD_FCOEF_EOF_A :: u32 where
  "IGB_ADVTXD_FCOEF_EOF_A = push_bit 10 (0x3 :: u32)"

definition IGB_ADVTXD_L4LEN_SHIFT :: u32 where
  "IGB_ADVTXD_L4LEN_SHIFT = 8"

definition IGB_ADVTXD_MSS_SHIFT :: u32 where
  "IGB_ADVTXD_MSS_SHIFT = 16"

definition IGB_ADVTXD_OUTER_IPLEN :: u32 where
  "IGB_ADVTXD_OUTER_IPLEN = 16"

definition IGB_ADVTXD_TUNNEL_LEN :: u32 where
  "IGB_ADVTXD_TUNNEL_LEN = 24"

definition IGB_ADVTXD_TUNNEL_TYPE_SHIFT :: u32 where
  "IGB_ADVTXD_TUNNEL_TYPE_SHIFT = 16"

definition IGB_ADVTXD_OUTERIPCS_SHIFT :: u32 where
  "IGB_ADVTXD_OUTERIPCS_SHIFT = 17"

definition IGB_ADVTXD_TUNNEL_TYPE_NVGRE :: u32 where
  "IGB_ADVTXD_TUNNEL_TYPE_NVGRE = 1"

definition IGB_ADVTXD_OUTERIPCS_SHIFT_X550EM_a :: u32 where
  "IGB_ADVTXD_OUTERIPCS_SHIFT_X550EM_a = 26"

definition IGB_LINK_SPEED_UNKNOWN :: u32 where
  "IGB_LINK_SPEED_UNKNOWN = 0"

definition IGB_LINK_SPEED_10_FULL :: u32 where
  "IGB_LINK_SPEED_10_FULL = 0x0002"

definition IGB_LINK_SPEED_100_FULL :: u32 where
  "IGB_LINK_SPEED_100_FULL = 0x0008"

definition IGB_LINK_SPEED_1GB_FULL :: u32 where
  "IGB_LINK_SPEED_1GB_FULL = 0x0020"

definition IGB_LINK_SPEED_2_5GB_FULL :: u32 where
  "IGB_LINK_SPEED_2_5GB_FULL = 0x0400"

definition IGB_LINK_SPEED_5GB_FULL :: u32 where
  "IGB_LINK_SPEED_5GB_FULL = 0x0800"

definition IGB_LINK_SPEED_10GB_FULL :: u32 where
  "IGB_LINK_SPEED_10GB_FULL = 0x0080"

definition IGB_LINK_SPEED_82598_AUTONEG :: u32 where
  "IGB_LINK_SPEED_82598_AUTONEG = IGB_LINK_SPEED_1GB_FULL OR IGB_LINK_SPEED_10GB_FULL"

definition IGB_LINK_SPEED_82599_AUTONEG :: u32 where
  "IGB_LINK_SPEED_82599_AUTONEG = (IGB_LINK_SPEED_100_FULL OR IGB_LINK_SPEED_1GB_FULL) OR IGB_LINK_SPEED_10GB_FULL"

definition IGB_PHYSICAL_LAYER_UNKNOWN :: u32 where
  "IGB_PHYSICAL_LAYER_UNKNOWN = 0"

definition IGB_PHYSICAL_LAYER_10GBASE_T :: u32 where
  "IGB_PHYSICAL_LAYER_10GBASE_T = 0x00001"

definition IGB_PHYSICAL_LAYER_1000BASE_T :: u32 where
  "IGB_PHYSICAL_LAYER_1000BASE_T = 0x00002"

definition IGB_PHYSICAL_LAYER_100BASE_TX :: u32 where
  "IGB_PHYSICAL_LAYER_100BASE_TX = 0x00004"

definition IGB_PHYSICAL_LAYER_SFP_PLUS_CU :: u32 where
  "IGB_PHYSICAL_LAYER_SFP_PLUS_CU = 0x00008"

definition IGB_PHYSICAL_LAYER_10GBASE_LR :: u32 where
  "IGB_PHYSICAL_LAYER_10GBASE_LR = 0x00010"

definition IGB_PHYSICAL_LAYER_10GBASE_LRM :: u32 where
  "IGB_PHYSICAL_LAYER_10GBASE_LRM = 0x00020"

definition IGB_PHYSICAL_LAYER_10GBASE_SR :: u32 where
  "IGB_PHYSICAL_LAYER_10GBASE_SR = 0x00040"

definition IGB_PHYSICAL_LAYER_10GBASE_KX4 :: u32 where
  "IGB_PHYSICAL_LAYER_10GBASE_KX4 = 0x00080"

definition IGB_PHYSICAL_LAYER_10GBASE_CX4 :: u32 where
  "IGB_PHYSICAL_LAYER_10GBASE_CX4 = 0x00100"

definition IGB_PHYSICAL_LAYER_1000BASE_KX :: u32 where
  "IGB_PHYSICAL_LAYER_1000BASE_KX = 0x00200"

definition IGB_PHYSICAL_LAYER_1000BASE_BX :: u32 where
  "IGB_PHYSICAL_LAYER_1000BASE_BX = 0x00400"

definition IGB_PHYSICAL_LAYER_10GBASE_KR :: u32 where
  "IGB_PHYSICAL_LAYER_10GBASE_KR = 0x00800"

definition IGB_PHYSICAL_LAYER_10GBASE_XAUI :: u32 where
  "IGB_PHYSICAL_LAYER_10GBASE_XAUI = 0x01000"

definition IGB_PHYSICAL_LAYER_SFP_ACTIVE_DA :: u32 where
  "IGB_PHYSICAL_LAYER_SFP_ACTIVE_DA = 0x02000"

definition IGB_PHYSICAL_LAYER_1000BASE_SX :: u32 where
  "IGB_PHYSICAL_LAYER_1000BASE_SX = 0x04000"

definition IGB_PHYSICAL_LAYER_10BASE_T :: u32 where
  "IGB_PHYSICAL_LAYER_10BASE_T = 0x08000"

definition IGB_PHYSICAL_LAYER_2500BASE_KX :: u32 where
  "IGB_PHYSICAL_LAYER_2500BASE_KX = 0x10000"

definition IGB_CABLE_DO :: u32 where
  "IGB_CABLE_DO = 5000"

definition IGB_ATR_BUCKET_HASH_KEY :: u32 where
  "IGB_ATR_BUCKET_HASH_KEY = 0x3DAD14E2"

definition IGB_ATR_SIGNATURE_HASH_KEY :: u32 where
  "IGB_ATR_SIGNATURE_HASH_KEY = 0x174D3614"

definition IGB_ATR_HASH_MASK :: u32 where
  "IGB_ATR_HASH_MASK = 0x7fff"

definition IGB_ATR_L4TYPE_MASK :: u32 where
  "IGB_ATR_L4TYPE_MASK = 0x3"

definition IGB_ATR_L4TYPE_UDP :: u32 where
  "IGB_ATR_L4TYPE_UDP = 0x1"

definition IGB_ATR_L4TYPE_TCP :: u32 where
  "IGB_ATR_L4TYPE_TCP = 0x2"

definition IGB_ATR_L4TYPE_SCTP :: u32 where
  "IGB_ATR_L4TYPE_SCTP = 0x3"

definition IGB_ATR_L4TYPE_IPV6_MASK :: u32 where
  "IGB_ATR_L4TYPE_IPV6_MASK = 0x4"

definition IGB_ATR_L4TYPE_TUNNEL_MASK :: u32 where
  "IGB_ATR_L4TYPE_TUNNEL_MASK = 0x10"

definition IGB_SMARTSPEED_MAX_RETRIES :: u32 where
  "IGB_SMARTSPEED_MAX_RETRIES = 3"

end
