(* ===== verification/Hw_Layouts.thy ===== *)
theory Hw_Layouts
  imports Layout Masks_Tx
begin

text \<open>
  The structures and unions of \<open>src/constants.rs\<close> as layouts (theory Layout): the firmware's host
  interface commands, legacy and advanced descriptors, the flow director's input, statistics. No code
  makes values of them; what they say is where each field lies.
\<close>

definition IGB_dmac_config :: ctype where
  "IGB_dmac_config = TStruct False
    [(''watchdog_timer'', TU16),
     (''fcoe_en'', TBool),
     (''link_speed'', TU32),
     (''fcoe_tc'', TU8),
     (''num_tcs'', TU8)]"

definition IGB_hic_hdr_cmd_or_resp :: ctype where
  "IGB_hic_hdr_cmd_or_resp = TUnion
    [(''cmd_resv'', TU8),
     (''ret_status'', TU8),
     (''_union_align'', TU8)]"

definition IGB_hic_hdr :: ctype where
  "IGB_hic_hdr = TStruct False
    [(''cmd'', TU8),
     (''buf_len'', TU8),
     (''cmd_or_resp'', IGB_hic_hdr_cmd_or_resp),
     (''checksum'', TU8)]"

definition IGB_hic_hdr2_req :: ctype where
  "IGB_hic_hdr2_req = TStruct False
    [(''cmd'', TU8),
     (''buf_lenh'', TU8),
     (''buf_lenl'', TU8),
     (''checksum'', TU8)]"

definition IGB_hic_hdr2_rsp :: ctype where
  "IGB_hic_hdr2_rsp = TStruct False
    [(''cmd'', TU8),
     (''buf_lenl'', TU8),
     (''buf_lenh_status'', TU8),
     (''checksum'', TU8)]"

definition IGB_hic_hdr2 :: ctype where
  "IGB_hic_hdr2 = TUnion
    [(''req'', IGB_hic_hdr2_req),
     (''rsp'', IGB_hic_hdr2_rsp)]"

definition IGB_hic_drv_info :: ctype where
  "IGB_hic_drv_info = TStruct True
    [(''hdr'', IGB_hic_hdr),
     (''port_num'', TU8),
     (''ver_sub'', TU8),
     (''ver_build'', TU8),
     (''ver_min'', TU8),
     (''ver_maj'', TU8),
     (''pad'', TU8),
     (''pad2'', TU16)]"

definition IGB_hic_drv_info2 :: ctype where
  "IGB_hic_drv_info2 = TStruct False
    [(''hdr'', IGB_hic_hdr),
     (''port_num'', TU8),
     (''ver_sub'', TU8),
     (''ver_build'', TU8),
     (''ver_min'', TU8),
     (''ver_maj'', TU8),
     (''driver_string'', TArray TChar (unat FW_CEM_DRIVER_VERSION_SIZE))]"

definition IGB_hic_read_shadow_ram :: ctype where
  "IGB_hic_read_shadow_ram = TStruct True
    [(''hdr'', IGB_hic_hdr2),
     (''address'', TU32),
     (''length'', TU16),
     (''pad2'', TU16),
     (''data'', TU16),
     (''pad3'', TU16)]"

definition IGB_hic_write_shadow_ram :: ctype where
  "IGB_hic_write_shadow_ram = TStruct True
    [(''hdr'', IGB_hic_hdr2),
     (''address'', TU32),
     (''length'', TU16),
     (''pad2'', TU16),
     (''data'', TU16),
     (''pad3'', TU16)]"

definition IGB_hic_disable_rxen :: ctype where
  "IGB_hic_disable_rxen = TStruct True
    [(''hdr'', IGB_hic_hdr),
     (''port_number'', TU8),
     (''pad2'', TU8),
     (''pad3'', TU16)]"

definition IGB_hic_phy_token_req :: ctype where
  "IGB_hic_phy_token_req = TStruct True
    [(''hdr'', IGB_hic_hdr),
     (''port_number'', TU8),
     (''command_type'', TU8),
     (''pad'', TU16)]"

definition IGB_hic_internal_phy_req :: ctype where
  "IGB_hic_internal_phy_req = TStruct True
    [(''hdr'', IGB_hic_hdr),
     (''port_number'', TU8),
     (''command_type'', TU8),
     (''address'', TU16),
     (''rsv1'', TU16),
     (''write_data'', TU32),
     (''pad'', TU16)]"

definition IGB_hic_internal_phy_resp :: ctype where
  "IGB_hic_internal_phy_resp = TStruct True
    [(''hdr'', IGB_hic_hdr),
     (''read_data'', TU32)]"

definition IGB_hic_phy_activity_req :: ctype where
  "IGB_hic_phy_activity_req = TStruct True
    [(''hdr'', IGB_hic_hdr),
     (''port_number'', TU8),
     (''pad'', TU8),
     (''activity_id'', TU16),
     (''data'', TArray TU32 (unat FW_PHY_ACT_DATA_COUNT))]"

definition IGB_hic_phy_activity_resp :: ctype where
  "IGB_hic_phy_activity_resp = TStruct True
    [(''hdr'', IGB_hic_hdr),
     (''data'', TArray TU32 (unat FW_PHY_ACT_DATA_COUNT))]"

definition IGB_legacy_tx_desc_lower_flags :: ctype where
  "IGB_legacy_tx_desc_lower_flags = TStruct False
    [(''length'', TU16),
     (''cso'', TU8),
     (''cmd'', TU8)]"

definition IGB_legacy_tx_desc_lower :: ctype where
  "IGB_legacy_tx_desc_lower = TUnion
    [(''data'', TU32),
     (''flags'', IGB_legacy_tx_desc_lower_flags),
     (''_union_align'', TU32)]"

definition IGB_legacy_tx_desc_upper_fields :: ctype where
  "IGB_legacy_tx_desc_upper_fields = TStruct False
    [(''status'', TU8),
     (''css'', TU8),
     (''vlan'', TU16)]"

definition IGB_legacy_tx_desc_upper :: ctype where
  "IGB_legacy_tx_desc_upper = TUnion
    [(''data'', TU32),
     (''fields'', IGB_legacy_tx_desc_upper_fields),
     (''_union_align'', TU32)]"

definition IGB_legacy_tx_desc :: ctype where
  "IGB_legacy_tx_desc = TStruct False
    [(''buffer_addr'', TU64),
     (''lower'', IGB_legacy_tx_desc_lower),
     (''upper'', IGB_legacy_tx_desc_upper)]"

definition IGB_adv_tx_desc_read :: ctype where
  "IGB_adv_tx_desc_read = TStruct False
    [(''buffer_addr'', TU64),
     (''cmd_type_len'', TU32),
     (''olinfo_status'', TU32)]"

definition IGB_adv_tx_desc_wb :: ctype where
  "IGB_adv_tx_desc_wb = TStruct False
    [(''rsvd'', TU64),
     (''nxtseq_seed'', TU32),
     (''status'', TU32)]"

definition IGB_adv_tx_desc :: ctype where
  "IGB_adv_tx_desc = TUnion
    [(''read'', IGB_adv_tx_desc_read),
     (''wb'', IGB_adv_tx_desc_wb),
     (''_union_align'', TArray TU64 2)]"

definition IGB_legacy_rx_desc :: ctype where
  "IGB_legacy_rx_desc = TStruct False
    [(''buffer_addr'', TU64),
     (''length'', TU16),
     (''csum'', TU16),
     (''status'', TU8),
     (''errors'', TU8),
     (''vlan'', TU16)]"

definition IGB_adv_rx_desc_read :: ctype where
  "IGB_adv_rx_desc_read = TStruct False
    [(''pkt_addr'', TU64),
     (''hdr_addr'', TU64)]"

definition IGB_adv_rx_desc_wb_lower_lo_dword_hs_rss :: ctype where
  "IGB_adv_rx_desc_wb_lower_lo_dword_hs_rss = TStruct False
    [(''pkt_info'', TU16),
     (''hdr_info'', TU16)]"

definition IGB_adv_rx_desc_wb_lower_lo_dword :: ctype where
  "IGB_adv_rx_desc_wb_lower_lo_dword = TUnion
    [(''data'', TU32),
     (''hs_rss'', IGB_adv_rx_desc_wb_lower_lo_dword_hs_rss)]"

definition IGB_adv_rx_desc_wb_lower_hi_dword_csum_ip :: ctype where
  "IGB_adv_rx_desc_wb_lower_hi_dword_csum_ip = TStruct False
    [(''ip_id'', TU16),
     (''csum'', TU16)]"

definition IGB_adv_rx_desc_wb_lower_hi_dword :: ctype where
  "IGB_adv_rx_desc_wb_lower_hi_dword = TUnion
    [(''rss'', TU32),
     (''csum_ip'', IGB_adv_rx_desc_wb_lower_hi_dword_csum_ip)]"

definition IGB_adv_rx_desc_wb_lower :: ctype where
  "IGB_adv_rx_desc_wb_lower = TStruct False
    [(''lo_dword'', IGB_adv_rx_desc_wb_lower_lo_dword),
     (''hi_dword'', IGB_adv_rx_desc_wb_lower_hi_dword)]"

definition IGB_adv_rx_desc_wb_upper :: ctype where
  "IGB_adv_rx_desc_wb_upper = TStruct False
    [(''status_error'', TU32),
     (''length'', TU16),
     (''vlan'', TU16)]"

definition IGB_adv_rx_desc_wb :: ctype where
  "IGB_adv_rx_desc_wb = TStruct False
    [(''lower'', IGB_adv_rx_desc_wb_lower),
     (''upper'', IGB_adv_rx_desc_wb_upper)]"

definition IGB_adv_rx_desc :: ctype where
  "IGB_adv_rx_desc = TUnion
    [(''read'', IGB_adv_rx_desc_read),
     (''wb'', IGB_adv_rx_desc_wb),
     (''_union_align'', TArray TU64 2)]"

definition IGB_adv_tx_context_desc :: ctype where
  "IGB_adv_tx_context_desc = TStruct False
    [(''vlan_macip_lens'', TU32),
     (''seqnum_seed'', TU32),
     (''type_tucmd_mlhl'', TU32),
     (''mss_l4len_idx'', TU32)]"

definition IGB_atr_input_formatted :: ctype where
  "IGB_atr_input_formatted = TStruct False
    [(''vm_pool'', TU8),
     (''flow_type'', TU8),
     (''vlan_id'', TU16),
     (''dst_ip'', TArray TU32 4),
     (''src_ip'', TArray TU32 4),
     (''inner_mac'', TArray TU8 6),
     (''tunnel_type'', TU16),
     (''tni_vni'', TU32),
     (''src_port'', TU16),
     (''dst_port'', TU16),
     (''flex_bytes'', TU16),
     (''bkt_hash'', TU16)]"

definition IGB_atr_input :: ctype where
  "IGB_atr_input = TUnion
    [(''formatted'', IGB_atr_input_formatted),
     (''dword_stream'', TArray TU32 14),
     (''_union_align'', TArray TU32 14)]"

definition IGB_atr_hash_dword_formatted :: ctype where
  "IGB_atr_hash_dword_formatted = TStruct False
    [(''vm_pool'', TU8),
     (''flow_type'', TU8),
     (''vlan_id'', TU16)]"

definition IGB_atr_hash_dword_port :: ctype where
  "IGB_atr_hash_dword_port = TStruct False
    [(''src'', TU16),
     (''dst'', TU16)]"

definition IGB_atr_hash_dword :: ctype where
  "IGB_atr_hash_dword = TUnion
    [(''formatted'', IGB_atr_hash_dword_formatted),
     (''ip'', TU32),
     (''port'', IGB_atr_hash_dword_port),
     (''flex_bytes'', TU16),
     (''dword'', TU32),
     (''_union_align'', TU32)]"

definition IGB_addr_filter_info :: ctype where
  "IGB_addr_filter_info = TStruct False
    [(''num_mc_addrs'', TU32),
     (''rar_used_count'', TU32),
     (''mta_in_use'', TU32),
     (''overflow_promisc'', TU32),
     (''user_set_promisc'', TBool)]"

definition IGB_bus_info :: ctype where
  "IGB_bus_info = TStruct False
    [(''speed'', TEnum),
     (''width'', TEnum),
     (''btype'', TEnum),
     (''func'', TU16),
     (''lan_id'', TU8),
     (''instance_id'', TU16)]"

definition IGB_fc_info :: ctype where
  "IGB_fc_info = TStruct False
    [(''high_water'', TArray TU32 (unat IGB_DCB_MAX_TRAFFIC_CLASS)),
     (''low_water'', TArray TU32 (unat IGB_DCB_MAX_TRAFFIC_CLASS)),
     (''pause_time'', TU16),
     (''send_xon'', TBool),
     (''strict_ieee'', TBool),
     (''disable_fc_autoneg'', TBool),
     (''fc_was_autonegged'', TBool),
     (''current_mode'', TEnum),
     (''requested_mode'', TEnum)]"

definition IGB_hw_stats :: ctype where
  "IGB_hw_stats = TStruct False
    [(''crcerrs'', TU64),
     (''illerrc'', TU64),
     (''errbc'', TU64),
     (''mspdc'', TU64),
     (''mpctotal'', TU64),
     (''mpc'', TArray TU64 8),
     (''mlfc'', TU64),
     (''mrfc'', TU64),
     (''rlec'', TU64),
     (''lxontxc'', TU64),
     (''lxonrxc'', TU64),
     (''lxofftxc'', TU64),
     (''lxoffrxc'', TU64),
     (''pxontxc'', TArray TU64 8),
     (''pxonrxc'', TArray TU64 8),
     (''pxofftxc'', TArray TU64 8),
     (''pxoffrxc'', TArray TU64 8),
     (''prc64'', TU64),
     (''prc127'', TU64),
     (''prc255'', TU64),
     (''prc511'', TU64),
     (''prc1023'', TU64),
     (''prc1522'', TU64),
     (''gprc'', TU64),
     (''bprc'', TU64),
     (''mprc'', TU64),
     (''gptc'', TU64),
     (''gorc'', TU64),
     (''gotc'', TU64),
     (''rnbc'', TArray TU64 8),
     (''ruc'', TU64),
     (''rfc'', TU64),
     (''roc'', TU64),
     (''rjc'', TU64),
     (''mngprc'', TU64),
     (''mngpdc'', TU64),
     (''mngptc'', TU64),
     (''tor'', TU64),
     (''tpr'', TU64),
     (''tpt'', TU64),
     (''ptc64'', TU64),
     (''ptc127'', TU64),
     (''ptc255'', TU64),
     (''ptc511'', TU64),
     (''ptc1023'', TU64),
     (''ptc1522'', TU64),
     (''mptc'', TU64),
     (''bptc'', TU64),
     (''xec'', TU64),
     (''qprc'', TArray TU64 16),
     (''qptc'', TArray TU64 16),
     (''qbrc'', TArray TU64 16),
     (''qbtc'', TArray TU64 16),
     (''qprdc'', TArray TU64 16),
     (''pxon2offc'', TArray TU64 8),
     (''fdirustat_add'', TU64),
     (''fdirustat_remove'', TU64),
     (''fdirfstat_fadd'', TU64),
     (''fdirfstat_fremove'', TU64),
     (''fdirmatch'', TU64),
     (''fdirmiss'', TU64),
     (''fccrc'', TU64),
     (''fclast'', TU64),
     (''fcoerpdc'', TU64),
     (''fcoeprc'', TU64),
     (''fcoeptc'', TU64),
     (''fcoedwrc'', TU64),
     (''fcoedwtc'', TU64),
     (''fcoe_noddp'', TU64),
     (''fcoe_noddp_ext_buff'', TU64),
     (''ldpcec'', TU64),
     (''pcrc8ec'', TU64),
     (''b2ospc'', TU64),
     (''b2ogprc'', TU64),
     (''o2bgptc'', TU64),
     (''o2bspc'', TU64)]"

definition ixgbevf_hw_stats :: ctype where
  "ixgbevf_hw_stats = TStruct False
    [(''base_vfgprc'', TU64),
     (''base_vfgptc'', TU64),
     (''base_vfgorc'', TU64),
     (''base_vfgotc'', TU64),
     (''base_vfmprc'', TU64),
     (''last_vfgprc'', TU64),
     (''last_vfgptc'', TU64),
     (''last_vfgorc'', TU64),
     (''last_vfgotc'', TU64),
     (''last_vfmprc'', TU64),
     (''vfgprc'', TU64),
     (''vfgptc'', TU64),
     (''vfgorc'', TU64),
     (''vfgotc'', TU64),
     (''vfmprc'', TU64),
     (''saved_reset_vfgprc'', TU64),
     (''saved_reset_vfgptc'', TU64),
     (''saved_reset_vfgorc'', TU64),
     (''saved_reset_vfgotc'', TU64),
     (''saved_reset_vfmprc'', TU64)]"

text \<open>The driver's own transmit descriptor, \<open>src/descriptor.rs\<close>, which is \<open>repr(C)\<close> too.\<close>

definition AdvancedTxDescriptor_layout :: ctype where
  "AdvancedTxDescriptor_layout = TStruct False
    [(''packet_buffer_address'', TU64),
     (''data_len'', TU16),
     (''dtyp_mac_rsv'', TU8),
     (''dcmd'', TU8),
     (''paylen_popts_cc_idx_sta'', TU32)]"

text \<open>The two tests of an Ethernet address, which read one and two bytes at a pointer.\<close>

definition IGB_IS_MULTICAST :: "'w platform \<Rightarrow> usize \<Rightarrow> 'w \<Rightarrow> bool" where
  "IGB_IS_MULTICAST E Address w \<longleftrightarrow> load8 E Address w AND 0x01 \<noteq> 0"

definition IGB_IS_BROADCAST :: "'w platform \<Rightarrow> usize \<Rightarrow> 'w \<Rightarrow> bool" where
  "IGB_IS_BROADCAST E Address w \<longleftrightarrow>
     load8 E Address w = 0xff \<and> load8 E (Address + 1) w = 0xff"

lemmas hw_layout_defs =
  IGB_dmac_config_def
  IGB_hic_hdr_cmd_or_resp_def
  IGB_hic_hdr_def
  IGB_hic_hdr2_req_def
  IGB_hic_hdr2_rsp_def
  IGB_hic_hdr2_def
  IGB_hic_drv_info_def
  IGB_hic_drv_info2_def
  IGB_hic_read_shadow_ram_def
  IGB_hic_write_shadow_ram_def
  IGB_hic_disable_rxen_def
  IGB_hic_phy_token_req_def
  IGB_hic_internal_phy_req_def
  IGB_hic_internal_phy_resp_def
  IGB_hic_phy_activity_req_def
  IGB_hic_phy_activity_resp_def
  IGB_legacy_tx_desc_lower_flags_def
  IGB_legacy_tx_desc_lower_def
  IGB_legacy_tx_desc_upper_fields_def
  IGB_legacy_tx_desc_upper_def
  IGB_legacy_tx_desc_def
  IGB_adv_tx_desc_read_def
  IGB_adv_tx_desc_wb_def
  IGB_adv_tx_desc_def
  IGB_legacy_rx_desc_def
  IGB_adv_rx_desc_read_def
  IGB_adv_rx_desc_wb_lower_lo_dword_hs_rss_def
  IGB_adv_rx_desc_wb_lower_lo_dword_def
  IGB_adv_rx_desc_wb_lower_hi_dword_csum_ip_def
  IGB_adv_rx_desc_wb_lower_hi_dword_def
  IGB_adv_rx_desc_wb_lower_def
  IGB_adv_rx_desc_wb_upper_def
  IGB_adv_rx_desc_wb_def
  IGB_adv_rx_desc_def
  IGB_adv_tx_context_desc_def
  IGB_atr_input_formatted_def
  IGB_atr_input_def
  IGB_atr_hash_dword_formatted_def
  IGB_atr_hash_dword_port_def
  IGB_atr_hash_dword_def
  IGB_addr_filter_info_def
  IGB_bus_info_def
  IGB_fc_info_def
  IGB_hw_stats_def
  ixgbevf_hw_stats_def
  AdvancedTxDescriptor_layout_def

end
