(* ===== verification/Draft_Layouts.thy ===== *)
theory Draft_Layouts
  imports Layout
begin

text \<open>
  The descriptor layouts of the earlier driver, \<open>src/doc/main/descriptor.rs\<close>. Its unions, other than
  \<open>HiDword\<close>, have no \<open>repr(C)\<close>; they are taken with all fields at the start, as the device needs.
  The trait \<open>Descriptor\<close> has no methods and marks the two types a ring can hold.
\<close>

definition AdvTxDescRead :: ctype where
  "AdvTxDescRead = TStruct False
    [(''buffer_addr'', TU64), (''cmd_type_len'', TU32), (''olinfo_status'', TU32)]"

definition AdvTxDescWB :: ctype where
  "AdvTxDescWB = TStruct False
    [(''rsvd'', TU64), (''nxtseq_seed'', TU32), (''status'', TU32)]"

definition AdvTxDesc :: ctype where
  "AdvTxDesc = TUnion [(''read'', AdvTxDescRead), (''write'', AdvTxDescWB)]"

definition AdvRxDescRead :: ctype where
  "AdvRxDescRead = TStruct False [(''pkt_addr'', TU64), (''hdr_addr'', TU64)]"

definition HsRss :: ctype where
  "HsRss = TStruct False [(''pkt_info'', TU16), (''hdr_info'', TU16)]"

definition LoDword :: ctype where
  "LoDword = TUnion [(''data'', TU32), (''hs_rss'', HsRss)]"

definition CsumIp :: ctype where
  "CsumIp = TStruct False [(''ip_id'', TU16), (''csum'', TU16)]"

definition HiDword :: ctype where
  "HiDword = TUnion [(''rss'', TU32), (''csum_ip'', CsumIp)]"

definition AdvRxDescWB :: ctype where
  "AdvRxDescWB = TStruct False
    [(''lo_dword'', LoDword), (''hi_dword'', HiDword), (''status_error'', TU32),
     (''length'', TU16), (''vlan'', TU16)]"

definition AdvRxDesc :: ctype where
  "AdvRxDesc = TUnion [(''read'', AdvRxDescRead), (''write'', AdvRxDescWB)]"

lemmas draft_layout_defs =
  AdvTxDescRead_def AdvTxDescWB_def AdvTxDesc_def AdvRxDescRead_def HsRss_def LoDword_def
  CsumIp_def HiDword_def AdvRxDescWB_def AdvRxDesc_def

end
