(* ===== verification/Layout_Spec.thy ===== *)
theory Layout_Spec
  imports Descriptor_Spec Hw_Layouts Draft_Layouts
begin

text \<open>
  The driver's descriptors against the layouts and masks of \<open>src/constants.rs\<close>: where its fields lie,
  what it writes in the names of the masks, which bits of the masks its getters return. The commands
  of the firmware's host interface against the lengths defined for them.
\<close>

section \<open>Layouts\<close>

text \<open>The two descriptions of the descriptors agree, and both are sixteen bytes.\<close>

lemma descriptor_sizes:
  "size_of IGB_adv_tx_desc = 16" "size_of IGB_adv_rx_desc = 16" "size_of IGB_legacy_tx_desc = 16"
  "size_of IGB_legacy_rx_desc = 16" "size_of IGB_adv_tx_context_desc = 16"
  "size_of AdvancedTxDescriptor_layout = 16" "size_of AdvTxDesc = 16" "size_of AdvRxDesc = 16"
  by code_simp+

lemma draft_descriptors_agree:
  "fields_of AdvTxDescRead = fields_of IGB_adv_tx_desc_read"
  "fields_of AdvTxDescWB = fields_of IGB_adv_tx_desc_wb"
  "fields_of AdvRxDescRead = fields_of IGB_adv_rx_desc_read"
  "offset_of AdvRxDescWB [''status_error''] = offset_of IGB_adv_rx_desc_wb [''upper'', ''status_error'']"
  "offset_of AdvRxDescWB [''length''] = offset_of IGB_adv_rx_desc_wb [''upper'', ''length'']"
  "offset_of AdvRxDescWB [''vlan''] = offset_of IGB_adv_rx_desc_wb [''upper'', ''vlan'']"
  by code_simp+

lemma locate_tx:
  "locate IGB_adv_tx_desc [''read'', ''buffer_addr''] = Some (0, TU64)"
  "locate IGB_adv_tx_desc [''read'', ''cmd_type_len''] = Some (8, TU32)"
  "locate IGB_adv_tx_desc [''read'', ''olinfo_status''] = Some (12, TU32)"
  "locate IGB_adv_tx_desc [''wb'', ''status''] = Some (12, TU32)"
  by code_simp+

lemma locate_driver_tx:
  "offset_of AdvancedTxDescriptor_layout [''packet_buffer_address''] = Some 0"
  "offset_of AdvancedTxDescriptor_layout [''data_len''] = Some 8"
  "offset_of AdvancedTxDescriptor_layout [''dtyp_mac_rsv''] = Some 10"
  "offset_of AdvancedTxDescriptor_layout [''dcmd''] = Some 11"
  "offset_of AdvancedTxDescriptor_layout [''paylen_popts_cc_idx_sta''] = Some 12"
  by code_simp+

section \<open>The transmit descriptor in the header's terms\<close>

lemma byte_addrs_halves:
  "byte_addrs a 4 = take 4 (byte_addrs a 8)" "byte_addrs (a + 4) 4 = drop 4 (byte_addrs a 8)"
  by (simp_all add: byte_addrs_def upt_rec)

lemma tx_cmd_type_len:
  "le_value (le_bytes 2 (len :: u16) @ [0x30, 0x2B]) =
     (ucast len OR IGB_ADVTXD_DTYP_DATA OR IGB_ADVTXD_DCMD_DEXT OR IGB_ADVTXD_DCMD_RS OR
      IGB_ADVTXD_DCMD_IFCS OR IGB_ADVTXD_DCMD_EOP :: u32)"
proof -
  have "ucast (take_bit 16 len) = (ucast len :: u32)"
    by (rule bit_word_eqI) (auto simp: bit_simps dest: bit_imp_le_length)
  then show ?thesis
    by (simp add: le_value_append le_value_bytes or.assoc IGB_ADVTXD_DTYP_DATA_def IGB_ADVTXD_DCMD_DEXT_def
        IGB_ADVTXD_DCMD_RS_def IGB_ADVTXD_DCMD_IFCS_def IGB_ADVTXD_DCMD_EOP_def IGB_TXD_CMD_DEXT_def
        IGB_TXD_CMD_RS_def IGB_TXD_CMD_IFCS_def IGB_TXD_CMD_EOP_def)
qed

lemma tx_desc_fields:
  fixes w :: 'w
  assumes "plain_memory E" and "w' = tx_desc_written E desc addr len w"
  shows "read_field E desc IGB_adv_tx_desc [''read'', ''buffer_addr''] w' = Some addr"
    and "read_field E desc IGB_adv_tx_desc [''read'', ''cmd_type_len''] w' =
      Some (ucast len OR IGB_ADVTXD_DTYP_DATA OR IGB_ADVTXD_DCMD_DEXT OR IGB_ADVTXD_DCMD_RS OR
        IGB_ADVTXD_DCMD_IFCS OR IGB_ADVTXD_DCMD_EOP :: u32)"
    and "read_field E desc IGB_adv_tx_desc [''read'', ''olinfo_status''] w' =
      Some (push_bit (unat IGB_ADVTXD_PAYLEN_SHIFT) (ucast len) :: u32)"
proof -
  note bytes = tx_desc_bytes [OF assms(1), of desc addr len w, folded assms(2)]
  have d: "desc + 12 = (desc + 8) + 4" by simp
  show "read_field E desc IGB_adv_tx_desc [''read'', ''buffer_addr''] w' = Some addr"
    using tx_desc_image [OF assms(1), of desc addr len w] by (simp add: read_field_def locate_tx assms(2))
  have "map (\<lambda>b. load8 E b w') (byte_addrs (desc + 8) 4) = le_bytes 2 len @ [0x30, 0x2B]"
    unfolding byte_addrs_halves(1) take_map [symmetric] bytes(2) by simp
  then show "read_field E desc IGB_adv_tx_desc [''read'', ''cmd_type_len''] w' =
      Some (ucast len OR IGB_ADVTXD_DTYP_DATA OR IGB_ADVTXD_DCMD_DEXT OR IGB_ADVTXD_DCMD_RS OR
        IGB_ADVTXD_DCMD_IFCS OR IGB_ADVTXD_DCMD_EOP :: u32)"
    by (simp add: read_field_def locate_tx load_le_def tx_cmd_type_len)
  have "map (\<lambda>b. load8 E b w') (byte_addrs (desc + 12) 4) = le_bytes 4 (push_bit 14 (ucast len) :: u32)"
    unfolding d byte_addrs_halves(2) drop_map [symmetric] bytes(2) by simp
  then show "read_field E desc IGB_adv_tx_desc [''read'', ''olinfo_status''] w' =
      Some (push_bit (unat IGB_ADVTXD_PAYLEN_SHIFT) (ucast len) :: u32)"
    by (simp add: read_field_def locate_tx load_le_def le_value_bytes take_bit_word_eq_self IGB_ADVTXD_PAYLEN_SHIFT_def)
qed

section \<open>The receive descriptor's getters and the header's masks\<close>

text \<open>
  The field of \<open>v\<close> that a mask selects, moved down to bit 0. A getter whose bit range ends one bit
  early returns it without its top bit.
\<close>

definition masked :: "u64 \<Rightarrow> u64 \<Rightarrow> nat \<Rightarrow> u64" where
  "masked v m sh = drop_bit sh (v AND m)"

lemma masked_range:
  assumes "m = push_bit lo (mask n)" and "lo + n \<le> 64"
  shows "masked v m lo = take_bit n (drop_bit lo v)"
  unfolding masked_def assms(1) by (rule bit_word_eqI) (use assms(2) in \<open>auto simp: bit_simps\<close>)

lemma header_masks:
  "ucast IGB_RXDADV_RSSTYPE_MASK = push_bit 0 (mask 4 :: u64)"
  "ucast IGB_RXDADV_PKTTYPE_MASK = push_bit 4 (mask 12 :: u64)"
  "ucast IGB_RXDADV_RSCCNT_MASK = push_bit 17 (mask 4 :: u64)"
  "push_bit 16 (ucast IGB_RXDADV_HDRBUFLEN_MASK) = push_bit 21 (mask 10 :: u64)"
  "ucast IGB_RXDADV_STAT_MASK = push_bit 0 (mask 20 :: u64)"
  "ucast IGB_RXDADV_ERR_MASK = push_bit 20 (mask 12 :: u64)"
  by (simp_all add: mask_numeral IGB_RXDADV_RSSTYPE_MASK_def IGB_RXDADV_PKTTYPE_MASK_def IGB_RXDADV_RSCCNT_MASK_def
      IGB_RXDADV_HDRBUFLEN_MASK_def IGB_RXDADV_STAT_MASK_def IGB_RXDADV_ERR_MASK_def)

lemma getters_masked:
  fixes s :: "('w, 'x) base_scheme"
  assumes "bit_field_crate E"
    and "volatile_read64 E desc (world s) = (lo, w1)" and "volatile_read64 E (desc + 8) (world s) = (hi, w2)"
  shows "get_packet_type E desc s = Some (Val (masked lo (ucast IGB_RXDADV_PKTTYPE_MASK) 4), s\<lparr>world := w1\<rparr>)"
    and "get_rss_type E desc s = Some (Val (take_bit 3 (masked lo (ucast IGB_RXDADV_RSSTYPE_MASK) 0)), s\<lparr>world := w1\<rparr>)"
    and "get_rsccnt E desc s =
      Some (Val (take_bit 3 (masked lo (ucast IGB_RXDADV_RSCCNT_MASK) (unat IGB_RXDADV_RSCCNT_SHIFT))), s\<lparr>world := w1\<rparr>)"
    and "get_hdr_len E desc s = Some (Val (take_bit 9
      (masked lo (push_bit 16 (ucast IGB_RXDADV_HDRBUFLEN_MASK)) (16 + unat IGB_RXDADV_HDRBUFLEN_SHIFT))), s\<lparr>world := w1\<rparr>)"
    and "get_ext_status E desc s = Some (Val (take_bit 19 (masked hi (ucast IGB_RXDADV_STAT_MASK) 0)), s\<lparr>world := w2\<rparr>)"
    and "get_ext_error E desc s =
      Some (Val (take_bit 11 (masked hi (ucast IGB_RXDADV_ERR_MASK) (unat IGB_RXDADV_ERR_SHIFT))), s\<lparr>world := w2\<rparr>)"
proof -
  have lo: "read_packet_field E a b desc s = Some (Val (take_bit (b - a) (drop_bit a lo)), s\<lparr>world := w1\<rparr>)"
    if "a < b" "b \<le> 64" for a b
  proof -
    have "wp (read_packet_field E a b desc) (\<lambda>r s'. r = Val (take_bit (b - a) (drop_bit a lo)) \<and> s' = s\<lparr>world := w1\<rparr>) s"
      using assms that by (simp add: wp_read_packet_field)
    then show ?thesis by (auto elim: wpE)
  qed
  have hi: "read_header_field E a b desc s = Some (Val (take_bit (b - a) (drop_bit a hi)), s\<lparr>world := w2\<rparr>)"
    if "a < b" "b \<le> 64" for a b
  proof -
    have "wp (read_header_field E a b desc) (\<lambda>r s'. r = Val (take_bit (b - a) (drop_bit a hi)) \<and> s' = s\<lparr>world := w2\<rparr>) s"
      using assms that by (simp add: wp_read_header_field)
    then show ?thesis by (auto elim: wpE)
  qed
  note m = masked_range [OF header_masks(1), simplified] masked_range [OF header_masks(2), simplified]
    masked_range [OF header_masks(3), simplified] masked_range [OF header_masks(4), simplified]
    masked_range [OF header_masks(5), simplified] masked_range [OF header_masks(6), simplified]
  show "get_packet_type E desc s = Some (Val (masked lo (ucast IGB_RXDADV_PKTTYPE_MASK) 4), s\<lparr>world := w1\<rparr>)"
    by (simp add: get_packet_type_def lo m)
  show "get_rss_type E desc s = Some (Val (take_bit 3 (masked lo (ucast IGB_RXDADV_RSSTYPE_MASK) 0)), s\<lparr>world := w1\<rparr>)"
    by (simp add: get_rss_type_def lo m)
  show "get_rsccnt E desc s =
      Some (Val (take_bit 3 (masked lo (ucast IGB_RXDADV_RSCCNT_MASK) (unat IGB_RXDADV_RSCCNT_SHIFT))), s\<lparr>world := w1\<rparr>)"
    by (simp add: get_rsccnt_def lo m IGB_RXDADV_RSCCNT_SHIFT_def)
  show "get_hdr_len E desc s = Some (Val (take_bit 9
      (masked lo (push_bit 16 (ucast IGB_RXDADV_HDRBUFLEN_MASK)) (16 + unat IGB_RXDADV_HDRBUFLEN_SHIFT))), s\<lparr>world := w1\<rparr>)"
    by (simp add: get_hdr_len_def lo m IGB_RXDADV_HDRBUFLEN_SHIFT_def)
  show "get_ext_status E desc s = Some (Val (take_bit 19 (masked hi (ucast IGB_RXDADV_STAT_MASK) 0)), s\<lparr>world := w2\<rparr>)"
    by (simp add: get_ext_status_def hi m)
  show "get_ext_error E desc s =
      Some (Val (take_bit 11 (masked hi (ucast IGB_RXDADV_ERR_MASK) (unat IGB_RXDADV_ERR_SHIFT))), s\<lparr>world := w2\<rparr>)"
    by (simp add: get_ext_error_def hi m IGB_RXDADV_ERR_SHIFT_def)
qed

section \<open>The firmware's host interface\<close>

text \<open>
  Each command's length, as it is sent in its header, is the number of bytes between the header and
  the padding. The second version of the driver information is not 48 bytes, as the comment
  on \<open>FW_CEM_DRIVER_VERSION_SIZE\<close> has it: an element of \<open>[char; N]\<close> has four.
\<close>

lemma host_command_layout:
  "size_of IGB_hic_hdr = unat FW_CEM_HDR_LEN"
  "offset_of IGB_hic_drv_info [''pad''] = Some (unat FW_CEM_HDR_LEN + unat FW_CEM_CMD_DRIVER_INFO_LEN)"
  "offset_of IGB_hic_read_shadow_ram [''pad2''] = Some (unat FW_CEM_HDR_LEN + unat FW_READ_SHADOW_RAM_LEN)"
  "offset_of IGB_hic_write_shadow_ram [''pad3''] = Some (unat FW_CEM_HDR_LEN + unat FW_WRITE_SHADOW_RAM_LEN)"
  "offset_of IGB_hic_disable_rxen [''pad2''] = Some (unat FW_CEM_HDR_LEN + unat FW_DISABLE_RXEN_LEN)"
  "offset_of IGB_hic_phy_token_req [''pad''] = Some (unat FW_CEM_HDR_LEN + unat FW_PHY_TOKEN_REQ_LEN)"
  "offset_of IGB_hic_internal_phy_req [''pad''] = Some (unat FW_CEM_HDR_LEN + unat FW_INT_PHY_REQ_LEN)"
  "size_of IGB_hic_phy_activity_req = unat FW_CEM_HDR_LEN + unat FW_PHY_ACT_REQ_LEN"
  "size_of IGB_hic_drv_info2 = 168" "unat FW_CEM_DRIVER_VERSION_SIZE + 9 = 48"
  by code_simp+

section \<open>Address tests\<close>

lemma broadcast_is_multicast: "IGB_IS_BROADCAST E a w \<Longrightarrow> IGB_IS_MULTICAST E a w"
  by (simp add: IGB_IS_BROADCAST_def IGB_IS_MULTICAST_def)

text \<open>The test for broadcast takes any address that begins with two bytes of ones.\<close>

lemma broadcast_needs_two_bytes:
  assumes "byte_memory E" and "IGB_IS_BROADCAST E a w" and "b \<noteq> a" "b \<noteq> a + 1"
  shows "IGB_IS_BROADCAST E a (store8 E b 0 w)"
  using assms by (simp add: IGB_IS_BROADCAST_def byte_memory_def)

end
