(* ===== verification/Ring_Memory.thy ===== *)
theory Ring_Memory
  imports Layout_Spec
begin

text \<open>
  Descriptors in memory: which accesses leave one alone, and that those of a ring do not overlap.
\<close>

section \<open>Memory a descriptor lies in\<close>

text \<open>Registers and memory are apart: writing a register does not change a byte of memory.\<close>

definition registers_apart :: "'w platform \<Rightarrow> bool" where
  "registers_apart E \<longleftrightarrow> (\<forall>a v w b. load8 E b (mmio_write E a v w) = load8 E b w)"

text \<open>Neither does reading one, nor waiting, while the device has no descriptor to complete.\<close>

definition memory_apart :: "'w platform \<Rightarrow> bool" where
  "memory_apart E \<longleftrightarrow> registers_apart E \<and> (\<forall>a w b. load8 E b (snd (mmio_read E a w)) = load8 E b w) \<and>
     (\<forall>ms w b. load8 E b (snd (wait_until (hal E) ms w)) = load8 E b w)"

definition still :: "'w platform \<Rightarrow> 'w \<Rightarrow> 'w \<Rightarrow> bool" where
  "still E w w' \<longleftrightarrow> (memory_apart E \<longrightarrow> (\<forall>b. load8 E b w' = load8 E b w))"

lemma still_refl [simp]: "still E w w"
  by (simp add: still_def)

lemma still_trans: "still E w w' \<Longrightarrow> still E w' w'' \<Longrightarrow> still E w w''"
  by (simp add: still_def)

lemma still_access [simp]:
  "still E w (snd (mmio_read E a w')) \<longleftrightarrow> still E w w'" "still E (snd (mmio_read E a w)) w' \<longleftrightarrow> still E w w'"
  "still E w (mmio_write E a v w') \<longleftrightarrow> still E w w'" "still E (mmio_write E a v w) w' \<longleftrightarrow> still E w w'"
  "still E w (snd (wait_until (hal E) ms w')) \<longleftrightarrow> still E w w'"
  "still E (snd (wait_until (hal E) ms w)) w' \<longleftrightarrow> still E w w'"
  by (auto simp: still_def memory_apart_def registers_apart_def)

lemma byte_addrs_within: "off + k \<le> m \<Longrightarrow> set (byte_addrs (a + word_of_nat off) k) \<subseteq> set (byte_addrs a m)"
proof
  fix x assume k: "off + k \<le> m" and "x \<in> set (byte_addrs (a + word_of_nat off) k)"
  then obtain i where "i < k" "x = a + word_of_nat (off + i)"
    by (auto simp: byte_addrs_def add.assoc)
  then show "x \<in> set (byte_addrs a m)" using k by (auto simp: byte_addrs_def intro!: image_eqI [of _ _ "off + i"])
qed

text \<open>A field depends only on the bytes of the value it is a field of.\<close>

lemma read_field_cong:
  assumes "\<And>a. a \<in> set (byte_addrs base (size_of t)) \<Longrightarrow> load8 E a w' = load8 E a w"
  shows "read_field E base t path w' = read_field E base t path w"
proof (cases "locate t path")
  case (Some r)
  obtain off ft where r: "r = (off, ft)" by (cases r)
  have "set (byte_addrs (base + word_of_nat off) (size_of ft)) \<subseteq> set (byte_addrs base (size_of t))"
    by (rule byte_addrs_within) (use Some r locate_inside in blast)
  then have eq: "map (\<lambda>b. load8 E b w') (byte_addrs (base + word_of_nat off) (size_of ft)) =
      map (\<lambda>b. load8 E b w) (byte_addrs (base + word_of_nat off) (size_of ft))"
    by (intro map_cong refl assms) blast
  show ?thesis unfolding read_field_def Some r load_le_def by (simp only: option.map prod.case eq)
qed (simp add: read_field_def)

definition desc_kept :: "'w platform \<Rightarrow> usize \<Rightarrow> 'w \<Rightarrow> 'w \<Rightarrow> bool" where
  "desc_kept E desc w w' \<longleftrightarrow> (\<forall>a \<in> set (byte_addrs desc 16). load8 E a w' = load8 E a w)"

lemma desc_kept_refl [simp]: "desc_kept E desc w w"
  by (simp add: desc_kept_def)

lemma desc_kept_trans: "desc_kept E desc w w' \<Longrightarrow> desc_kept E desc w' w'' \<Longrightarrow> desc_kept E desc w w''"
  by (simp add: desc_kept_def)

lemma store_le_kept:
  assumes "byte_memory E" and "set (byte_addrs a n) \<inter> set (byte_addrs desc 16) = {}"
  shows "desc_kept E desc w (store_le E n a v w)"
proof -
  have "x \<notin> fst ` set (zip (byte_addrs a n) (le_bytes n v))" if "x \<in> set (byte_addrs desc 16)" for x
    using that assms(2) by (auto dest: set_zip_leftD)
  then show ?thesis using load_store_bytes_other [OF assms(1)] by (simp add: desc_kept_def store_le_def)
qed

lemma load_stored:
  fixes v :: u32
  assumes "plain_memory E"
  shows "load_le E 4 a (store_le E 4 a v w) = v"
proof -
  have bm: "load8 E a (store8 E b v w) = (if a = b then v else load8 E a w)" for a b v w
    using assms by (simp add: plain_memory_def byte_memory_def)
  have "map (\<lambda>b. load8 E b (store_le E 4 a v w)) (byte_addrs a 4) = le_bytes 4 v"
    by (simp add: store_le_def byte_addrs_def le_bytes_def upt_rec bm)
  then show ?thesis by (simp add: load_le_def le_value_bytes take_bit_word_eq_self)
qed

lemma still_kept: "still E w w' \<Longrightarrow> memory_apart E \<Longrightarrow> desc_kept E desc w w'"
  by (simp add: still_def desc_kept_def)

section \<open>Descriptors of a ring\<close>

definition descs_apart :: "usize list \<Rightarrow> bool" where
  "descs_apart ds \<longleftrightarrow> (\<forall>j < length ds. \<forall>k < length ds. j \<noteq> k \<longrightarrow>
     set (byte_addrs (ds ! j) 16) \<inter> set (byte_addrs (ds ! k) 16) = {})"

text \<open>Of several rings: each is apart in itself, and its descriptors from those of the others.\<close>

definition desc_disjoint :: "usize \<Rightarrow> usize \<Rightarrow> bool" where
  "desc_disjoint d d' \<longleftrightarrow> set (byte_addrs d 16) \<inter> set (byte_addrs d' 16) = {}"

lemma desc_disjoint_sym: "desc_disjoint d d' \<longleftrightarrow> desc_disjoint d' d"
  by (auto simp: desc_disjoint_def)

lemma descs_apart_sorted: "descs_apart ds \<longleftrightarrow> sorted_wrt desc_disjoint ds"
proof
  assume "sorted_wrt desc_disjoint ds"
  then have "desc_disjoint (ds ! j) (ds ! k)" if "j < length ds" "k < length ds" "j \<noteq> k" for j k
    using that desc_disjoint_sym unfolding sorted_wrt_iff_nth_less by (metis linorder_neqE_nat)
  then show "descs_apart ds" by (simp add: descs_apart_def desc_disjoint_def)
qed (simp add: descs_apart_def sorted_wrt_iff_nth_less desc_disjoint_def)

lemma rings_apart_nth: "descs_apart (concat dss) \<Longrightarrow> i < length dss \<Longrightarrow> descs_apart (dss ! i)"
  unfolding descs_apart_sorted
  by (induction dss arbitrary: i) (auto simp: sorted_wrt_append nth_Cons split: nat.split)

lemma rings_apart_other:
  assumes "descs_apart (concat dss)" and "i < length dss" "j < length dss" "i \<noteq> j"
    and "d \<in> set (dss ! i)" "d' \<in> set (dss ! j)"
  shows "desc_disjoint d d'"
  using assms unfolding descs_apart_sorted
proof (induction dss arbitrary: i j)
  case (Cons ds dss)
  have later: "d \<in> set (concat dss)" if "k < length dss" "d \<in> set (dss ! k)" for d k
    using that by auto
  have first: "desc_disjoint x y" if "x \<in> set ds" "y \<in> set (concat dss)" for x y
    using that Cons.prems(1) by (auto simp: sorted_wrt_append)
  show ?case
  proof (cases i)
    case 0
    then show ?thesis using Cons.prems first later by (cases j) auto
  next
    case (Suc i')
    show ?thesis
    proof (cases j)
      case 0
      then have "desc_disjoint d' d" using Suc Cons.prems first [of d' d] later [of i' d] by simp
      then show ?thesis by (simp add: desc_disjoint_sym)
    next
      case (Suc j')
      then show ?thesis using \<open>i = Suc i'\<close> Cons.prems Cons.IH [of i' j'] by (simp add: sorted_wrt_append)
    qed
  qed
qed simp

text \<open>\<open>init\<close> puts them one behind the other.\<close>

definition ring_at :: "usize \<Rightarrow> usize list \<Rightarrow> bool" where
  "ring_at qs ds \<longleftrightarrow> (\<exists>a. a \<noteq> 0 \<and> unat a + unat qs * 16 < 2 ^ 64 \<and> ds = map (\<lambda>k. a + k * 16) (word_range qs))"

lemma ring_at_map: "a \<noteq> 0 \<Longrightarrow> unat a + unat qs * 16 < 2 ^ 64 \<Longrightarrow> ring_at qs (map (\<lambda>k. a + k * 16) (word_range qs))"
  unfolding ring_at_def by blast

lemma unat_byte_addrs:
  assumes "x \<in> set (byte_addrs a k)" and "unat a + k < 2 ^ 64"
  shows "unat a \<le> unat x \<and> unat x < unat a + k"
proof -
  obtain i where i: "i < k" "x = a + word_of_nat i" using assms(1) by (auto simp: byte_addrs_def)
  have "unat (word_of_nat i :: usize) = i" using i(1) assms(2) by (simp add: unat_of_nat take_bit_nat_eq_self)
  moreover have "unat a + i < 2 ^ 64" using i(1) assms(2) by linarith
  ultimately have "unat x = unat a + i" unfolding i(2) by (subst unat_add_no_wrap) simp_all
  then show ?thesis using i(1) by simp
qed

lemma descs_apart_consecutive:
  assumes "ds = map (\<lambda>k. a + k * 16) (word_range n)" and "unat a + unat n * 16 < 2 ^ 64"
  shows "descs_apart ds"
proof -
  have at: "unat (a + word_of_nat j * 16) = unat a + j * 16" if "j < unat n" for j
  proof -
    have u: "unat (word_of_nat j :: usize) = j" using that by (rule unat_word_of_nat_lt)
    have "unat (word_of_nat j * (16 :: usize)) = j * 16"
      using that assms(2) by (subst unat_mult_no_wrap) (simp_all add: u)
    then show ?thesis using that assms(2) by (subst unat_add_no_wrap) simp_all
  qed
  have "False" if jk: "j < unat n" "k < unat n" "j < k" and x: "x \<in> set (byte_addrs (a + word_of_nat j * 16) 16)"
      "x \<in> set (byte_addrs (a + word_of_nat k * 16) 16)" for j k x
  proof -
    have "unat (a + word_of_nat j * 16) + 16 < 2 ^ 64" "unat (a + word_of_nat k * 16) + 16 < 2 ^ 64"
      using at jk assms(2) by simp_all
    from unat_byte_addrs [OF x(1) this(1)] unat_byte_addrs [OF x(2) this(2)] show False using at jk by simp
  qed
  then have "set (byte_addrs (a + word_of_nat j * 16) 16) \<inter> set (byte_addrs (a + word_of_nat k * 16) 16) = {}"
    if "j < unat n" "k < unat n" "j \<noteq> k" for j k
    using that by (metis disjoint_iff linorder_neqE_nat)
  then show ?thesis unfolding descs_apart_def assms(1) by simp
qed

lemma ring_at_apart: "ring_at qs ds \<Longrightarrow> descs_apart ds"
  unfolding ring_at_def by (blast intro: descs_apart_consecutive)

end
