(* ===== verification/Rx_Slots.thy ===== *)
theory Rx_Slots
  imports Ring_Memory
begin

text \<open>
  Receive descriptors in memory: posted, with the address of a buffer for the device to fill, or
  completed by it. What \<open>set_packet_address\<close> and \<open>reset_status\<close> write, and the filling of a ring.
\<close>

section \<open>What a descriptor holds\<close>

lemma locate_rx:
  "locate IGB_adv_rx_desc [''read'', ''pkt_addr''] = Some (0, TU64)"
  "locate IGB_adv_rx_desc [''read'', ''hdr_addr''] = Some (8, TU64)"
  "locate IGB_adv_rx_desc [''wb'', ''upper'', ''status_error''] = Some (8, TU32)"
  by code_simp+

definition rx_done :: "'w platform \<Rightarrow> usize \<Rightarrow> 'w \<Rightarrow> bool" where
  "rx_done E desc w \<longleftrightarrow> (case read_field E desc IGB_adv_rx_desc [''wb'', ''upper'', ''status_error''] w of
     None \<Rightarrow> False | Some st \<Rightarrow> (st :: u32) AND IGB_RXD_STAT_DD \<noteq> 0)"

definition rx_posted :: "'w platform \<Rightarrow> usize \<Rightarrow> u64 \<Rightarrow> 'w \<Rightarrow> bool" where
  "rx_posted E desc addr w \<longleftrightarrow>
     read_field E desc IGB_adv_rx_desc [''read'', ''pkt_addr''] w = Some addr \<and>
     read_field E desc IGB_adv_rx_desc [''read'', ''hdr_addr''] w = Some (0 :: u64)"

lemma rx_desc_cong:
  assumes "desc_kept E desc w w'"
  shows "rx_done E desc w' \<longleftrightarrow> rx_done E desc w" and "rx_posted E desc addr w' \<longleftrightarrow> rx_posted E desc addr w"
proof -
  have eq: "load8 E a w' = load8 E a w" if "a \<in> set (byte_addrs desc (size_of IGB_adv_rx_desc))" for a
    using assms that by (simp add: desc_kept_def descriptor_sizes)
  note cong = read_field_cong [where base = desc and t = IGB_adv_rx_desc and E = E and w' = w' and w = w, OF eq]
  show "rx_done E desc w' \<longleftrightarrow> rx_done E desc w" "rx_posted E desc addr w' \<longleftrightarrow> rx_posted E desc addr w"
    unfolding rx_done_def rx_posted_def by (simp_all add: cong)
qed

text \<open>What \<open>set_packet_address\<close> and \<open>reset_status\<close> write.\<close>

definition rx_written :: "'w platform \<Rightarrow> usize \<Rightarrow> u64 \<Rightarrow> 'w \<Rightarrow> 'w" where
  "rx_written E desc addr w = store_le E 8 (desc + 8) (0 :: u64) (store_le E 8 desc addr w)"

lemma rx_written_posted:
  assumes "plain_memory E"
  shows "rx_posted E desc addr (rx_written E desc addr w)"
proof -
  have bm: "load8 E a (store8 E b v w) = (if a = b then v else load8 E a w)" for a b v w
    using assms by (simp add: plain_memory_def byte_memory_def)
  have "map (\<lambda>b. load8 E b (rx_written E desc addr w)) (byte_addrs desc 8) = le_bytes 8 addr"
    "map (\<lambda>b. load8 E b (rx_written E desc addr w)) (byte_addrs (desc + 8) 8) = le_bytes 8 (0 :: u64)"
    by (simp_all add: rx_written_def store_le_def byte_addrs_def le_bytes_def upt_rec bm)
  then show ?thesis
    by (simp add: rx_posted_def read_field_def locate_rx load_le_def le_value_bytes take_bit_word_eq_self)
qed

text \<open>It is the bit the driver looks at; a posted descriptor, whose second address is 0, is not completed.\<close>

lemma rx_done_bit: "rx_done E desc w \<longleftrightarrow> bit (load_le E 8 (desc + 8) w :: u64) 0"
proof -
  have and1: "v AND 1 \<noteq> 0 \<longleftrightarrow> bit v 0" for v :: u32
    by (simp add: and_one_eq bit_0 odd_iff_mod_2_eq_one)
  have "byte_addrs a 4 = a # byte_addrs (a + 1) 3" "byte_addrs a 8 = a # byte_addrs (a + 1) 7" for a
    by (simp_all add: byte_addrs_def upt_rec)
  then show ?thesis
    by (simp add: rx_done_def read_field_def locate_rx load_le_def IGB_RXD_STAT_DD_def and1 bit_simps)
qed

lemma rx_posted_not_done: "rx_posted E desc addr w \<Longrightarrow> \<not> rx_done E desc w"
  by (simp add: rx_done_bit rx_posted_def read_field_def locate_rx)

text \<open>The device completes a descriptor by writing its status.\<close>

lemma rx_done_written:
  assumes "plain_memory E"
  shows "rx_done E desc (store_le E 4 (desc + 8) IGB_RXD_STAT_DD w)"
  by (simp add: rx_done_def read_field_def load_stored [OF assms] locate_rx IGB_RXD_STAT_DD_def)

lemma rx_written_other:
  assumes "plain_memory E" and "set (byte_addrs d 16) \<inter> set (byte_addrs desc 16) = {}"
  shows "desc_kept E d w (rx_written E desc addr w)"
proof -
  have "set (byte_addrs (desc + word_of_nat 0) 8) \<subseteq> set (byte_addrs desc 16)"
    "set (byte_addrs (desc + word_of_nat 8) 8) \<subseteq> set (byte_addrs desc 16)"
    by (rule byte_addrs_within; simp)+
  then have "set (byte_addrs desc 8) \<inter> set (byte_addrs d 16) = {}" "set (byte_addrs (desc + 8) 8) \<inter> set (byte_addrs d 16) = {}"
    using assms(2) by auto
  then show ?thesis using assms(1) unfolding rx_written_def
    by (intro desc_kept_trans [OF store_le_kept store_le_kept]) (simp_all add: plain_memory_def)
qed

section \<open>What the ring holds\<close>

definition rx_ring_holds :: "'w platform \<Rightarrow> MemPool \<Rightarrow> usize list \<Rightarrow> usize list \<Rightarrow> 'w \<Rightarrow> bool" where
  "rx_ring_holds E p ds bufs w \<longleftrightarrow> length bufs = length ds \<and>
     (\<forall>k < length ds. rx_done E (ds ! k) w \<or> rx_posted E (ds ! k) (phys_addr p ! unat (bufs ! k)) w)"

text \<open>All of them posted, as when the ring has just been filled.\<close>

definition rx_ring_posted :: "'w platform \<Rightarrow> MemPool \<Rightarrow> usize list \<Rightarrow> usize list \<Rightarrow> 'w \<Rightarrow> bool" where
  "rx_ring_posted E p ds bufs w \<longleftrightarrow> length bufs = length ds \<and>
     (\<forall>k < length ds. rx_posted E (ds ! k) (phys_addr p ! unat (bufs ! k)) w)"

lemma rx_ring_posted_holds: "rx_ring_posted E p ds bufs w \<Longrightarrow> rx_ring_holds E p ds bufs w"
  by (simp add: rx_ring_posted_def rx_ring_holds_def)

lemma rx_ring_written:
  assumes E: "plain_memory E" and apart: "descs_apart ds" and c: "c < length ds"
    and holds: "rx_ring_holds E p ds bufs w"
  shows "rx_ring_holds E p ds (bufs[c := b]) (rx_written E (ds ! c) (phys_addr p ! unat b) w)"
proof -
  have "desc_kept E (ds ! k) w (rx_written E (ds ! c) (phys_addr p ! unat b) w)" if "k < length ds" "k \<noteq> c" for k
    using apart that c by (intro rx_written_other [OF E]) (simp add: descs_apart_def)
  note other = rx_desc_cong [OF this]
  show ?thesis using holds rx_written_posted [OF E] c
    by (auto simp: rx_ring_holds_def nth_list_update other)
qed

section \<open>Filling a ring\<close>

text \<open>What filling writes to the descriptors.\<close>

definition fill_memory :: "'w platform \<Rightarrow> u64 list \<Rightarrow> usize list \<Rightarrow> usize list \<Rightarrow> 'w \<Rightarrow> 'w" where
  "fill_memory E pa ds bufs = fold (\<lambda>k w. volatile_write64 E (rx_header_buffer_address (ds ! k)) 0
     (volatile_write64 E (rx_packet_buffer_address (ds ! k)) (pa ! unat (bufs ! k)) w)) [0..<length bufs]"

lemma fill_memory_snoc:
  "fill_memory E pa ds (bufs @ [b]) w = volatile_write64 E (rx_header_buffer_address (ds ! length bufs)) 0
     (volatile_write64 E (rx_packet_buffer_address (ds ! length bufs)) (pa ! unat b) (fill_memory E pa ds bufs w))"
proof -
  have "fold (\<lambda>k w. volatile_write64 E (rx_header_buffer_address (ds ! k)) 0
        (volatile_write64 E (rx_packet_buffer_address (ds ! k)) (pa ! unat ((bufs @ [b]) ! k)) w)) [0..<length bufs] w =
      fill_memory E pa ds bufs w"
    unfolding fill_memory_def by (intro fold_cong) (auto simp: nth_append)
  then show ?thesis by (simp add: fill_memory_def)
qed

lemma fill_memory_posted:
  assumes E: "plain_memory E" and apart: "descs_apart ds"
  shows "length bufs \<le> length ds \<Longrightarrow> k < length bufs \<Longrightarrow>
    rx_posted E (ds ! k) (pa ! unat (bufs ! k)) (fill_memory E pa ds bufs w)"
proof (induction bufs rule: rev_induct)
  case (snoc b bufs)
  let ?w = "fill_memory E pa ds bufs w"
  have step: "fill_memory E pa ds (bufs @ [b]) w = rx_written E (ds ! length bufs) (pa ! unat b) ?w"
    using E by (simp add: fill_memory_snoc rx_written_def descriptor_offsets plain_memory_def)
  show ?case
  proof (cases "k = length bufs")
    case True
    then show ?thesis by (simp add: step rx_written_posted [OF E])
  next
    case False
    then have k: "k < length bufs" using snoc.prems(2) by simp
    have "desc_kept E (ds ! k) ?w (rx_written E (ds ! length bufs) (pa ! unat b) ?w)"
      using apart k snoc.prems(1) by (intro rx_written_other [OF E]) (simp add: descs_apart_def)
    then show ?thesis using snoc.IH k snoc.prems(1) by (simp add: step rx_desc_cong nth_append)
  qed
qed simp

lemma fill_memory_other:
  assumes E: "plain_memory E" and d: "\<And>d'. d' \<in> set ds \<Longrightarrow> desc_disjoint d d'"
  shows "length bufs \<le> length ds \<Longrightarrow> desc_kept E d w (fill_memory E pa ds bufs w)"
proof (induction bufs rule: rev_induct)
  case (snoc b bufs)
  let ?w = "fill_memory E pa ds bufs w" and ?d = "ds ! length bufs"
  have step: "fill_memory E pa ds (bufs @ [b]) w = rx_written E ?d (pa ! unat b) ?w"
    using E by (simp add: fill_memory_snoc rx_written_def descriptor_offsets plain_memory_def)
  have "desc_disjoint d ?d" using snoc.prems by (intro d) simp
  then have "desc_kept E d ?w (rx_written E ?d (pa ! unat b) ?w)"
    by (intro rx_written_other [OF E]) (simp add: desc_disjoint_def)
  then show ?case unfolding step using snoc.IH snoc.prems desc_kept_trans by fastforce
qed (simp add: fill_memory_def)

section \<open>All rings of the device\<close>

text \<open>
  The first \<open>k\<close> receive rings are filled, in memory: provided that memory is ordinary, that registers
  are apart from it, and that the rings do not overlap.
\<close>

definition rings_posted :: "'w platform \<Rightarrow> MemPool \<Rightarrow> nat \<Rightarrow> IgbRxQueue list \<Rightarrow> 'w \<Rightarrow> bool" where
  "rings_posted E p k qs w \<longleftrightarrow>
     (plain_memory E \<and> memory_apart E \<and> descs_apart (concat (map rx_descriptors qs)) \<longrightarrow>
      (\<forall>j < k. rx_ring_posted E p (rx_descriptors (qs ! j)) (rx_bufs_in_use (qs ! j)) w))"

lemma rx_ring_posted_kept:
  assumes "rx_ring_posted E p ds bufs w" and "\<And>d. d \<in> set ds \<Longrightarrow> desc_kept E d w w'"
  shows "rx_ring_posted E p ds bufs w'"
  using assms(1) rx_desc_cong [OF assms(2)] by (simp add: rx_ring_posted_def)

lemma rings_posted_none [simp]: "rings_posted E p 0 qs w"
  by (simp add: rings_posted_def)

lemma rings_posted_still: "rings_posted E p k qs w \<Longrightarrow> still E w w' \<Longrightarrow> rings_posted E p k qs w'"
  unfolding rings_posted_def by (blast intro: rx_ring_posted_kept still_kept)

lemma rings_posted_pool [simp]: "rings_posted E (p\<lparr>free_stack := fs\<rparr>) k qs w = rings_posted E p k qs w"
  by (simp add: rings_posted_def rx_ring_posted_def)

lemma rings_posted_fill:
  assumes k: "k < length qs" and posted: "rings_posted E p k qs w"
    and len: "length bufs = length (rx_descriptors (qs ! k))"
    and w': "still E (fill_memory E (phys_addr p) (rx_descriptors (qs ! k)) bufs w) w'"
  shows "rings_posted E p (Suc k) (qs[k := (qs ! k)\<lparr>rx_bufs_in_use := bufs\<rparr>]) w'"
proof (rule rings_posted_still [OF _ w'])
  let ?ds = "rx_descriptors (qs ! k)" and ?qs = "qs[k := (qs ! k)\<lparr>rx_bufs_in_use := bufs\<rparr>]"
  let ?w = "fill_memory E (phys_addr p) ?ds bufs w"
  have same: "map rx_descriptors ?qs = map rx_descriptors qs"
    using k by (intro nth_equalityI) (auto simp: nth_list_update)
  show "rings_posted E p (Suc k) ?qs ?w"
    unfolding rings_posted_def same
  proof (intro impI allI)
    fix j assume E: "plain_memory E \<and> memory_apart E \<and> descs_apart (concat (map rx_descriptors qs))" and j: "j < Suc k"
    show "rx_ring_posted E p (rx_descriptors (?qs ! j)) (rx_bufs_in_use (?qs ! j)) ?w"
    proof (cases "j = k")
      case True
      have "descs_apart ?ds" using rings_apart_nth [of "map rx_descriptors qs" k] E k by simp
      then show ?thesis using E k len fill_memory_posted [of E ?ds bufs] True by (simp add: rx_ring_posted_def)
    next
      case False
      have holds: "rx_ring_posted E p (rx_descriptors (qs ! j)) (rx_bufs_in_use (qs ! j)) w"
        using posted E j False by (simp add: rings_posted_def)
      have "desc_kept E d w ?w" if "d \<in> set (rx_descriptors (qs ! j))" for d
        using rings_apart_other [of "map rx_descriptors qs" j k d] E j k False that len
        by (intro fill_memory_other) auto
      with holds show ?thesis using False by (simp add: rx_ring_posted_kept)
    qed
  qed
qed

end
