(* ===== verification/Init_Spec.thy ===== *)
theory Init_Spec
  imports System Rx_Slots
begin

text \<open>
  Initialisation, specified: on a device that completes its resets and its PHY transfers,
  \<open>init\<close> returns, and what it returns depends only on the ring size and on the pool.
\<close>

section \<open>The register window\<close>

text \<open>The 128 kB window of the device, mapped below the end of the address space.\<close>

definition window_ok :: "IgbDevice \<Rightarrow> bool" where
  "window_ok d \<longleftrightarrow> 0x20000 \<le> unat (dev_len d) \<and> unat (dev_addr d) + unat (dev_len d) < 2 ^ 64"

lemma reg_ok_window: "window_ok d \<Longrightarrow> unat reg < 0x1FFFC \<Longrightarrow> reg_ok d reg"
  by (simp add: window_ok_def reg_ok_def)

lemma queue_register:
  assumes "unat (i :: u16) < 128" and "r < 0x10000"
  shows "unat (word_of_nat r + ucast i * 0x40 :: u32) = r + unat i * 64"
proof -
  have "unat (ucast i * 0x40 :: u32) = unat i * 64"
    using assms(1) by (subst unat_mult_no_wrap) simp_all
  moreover have "unat (word_of_nat r :: u32) = r"
    using assms(2) by (simp add: unat_of_nat take_bit_nat_eq_self)
  ultimately show ?thesis using assms by (subst unat_add_no_wrap) simp_all
qed

lemma window_queue_regs:
  assumes "window_ok d" and "unat (i :: u16) < 128"
  shows "reg_ok d (IGB_RDBAL (ucast i))" "reg_ok d (IGB_RDBAH (ucast i))"
    "reg_ok d (IGB_RDLEN (ucast i))" "reg_ok d (IGB_RDH (ucast i))" "reg_ok d (IGB_RDT (ucast i))"
    "reg_ok d (IGB_RXDCTL (ucast i))"
    "reg_ok d (IGB_TDBAL (ucast i))" "reg_ok d (IGB_TDBAH (ucast i))"
    "reg_ok d (IGB_TDLEN (ucast i))" "reg_ok d (IGB_TDH (ucast i))" "reg_ok d (IGB_TDT (ucast i))"
    "reg_ok d (IGB_TXDCTL (ucast i))"
  using assms queue_register [OF assms(2), where r = "0xC000"] queue_register [OF assms(2), where r = "0xC004"]
    queue_register [OF assms(2), where r = "0xC008"] queue_register [OF assms(2), where r = "0xC010"]
    queue_register [OF assms(2), where r = "0xC018"] queue_register [OF assms(2), where r = "0xC028"]
    queue_register [OF assms(2), where r = "0xE000"] queue_register [OF assms(2), where r = "0xE004"]
    queue_register [OF assms(2), where r = "0xE008"] queue_register [OF assms(2), where r = "0xE010"]
    queue_register [OF assms(2), where r = "0xE018"] queue_register [OF assms(2), where r = "0xE028"]
  by (auto intro!: reg_ok_window simp: IGB_RDBAL_def IGB_RDBAH_def IGB_RDLEN_def IGB_RDH_def IGB_RDT_def
      IGB_RXDCTL_def IGB_TDBAL_def IGB_TDBAH_def IGB_TDLEN_def IGB_TDH_def IGB_TDT_def IGB_TXDCTL_def)

lemma window_regs:
  assumes "window_ok d"
  shows "reg_ok d IGB_CTRL" "reg_ok d IGB_CTRL_EXT" "reg_ok d IGB_STATUS" "reg_ok d IGB_MDIC"
    "reg_ok d IGB_IMS" "reg_ok d IGB_IMC" "reg_ok d IGB_ICR" "reg_ok d IGB_RXCTRL"
    "reg_ok d IGB_HLREG0" "reg_ok d IGB_RDRXCTL" "reg_ok d IGB_FCTRL" "reg_ok d IGB_DMATXCTL"
    "reg_ok d IGB_GPRC" "reg_ok d IGB_GPTC" "reg_ok d IGB_GORCL" "reg_ok d IGB_GORCH"
    "reg_ok d IGB_GOTCL" "reg_ok d IGB_GOTCH" "reg_ok d (IGB_RAL 0)" "reg_ok d (IGB_RAH 0)"
    "i \<in> {0, 1, 2, 3, 4, 5, 6, 7} \<Longrightarrow> reg_ok d (IGB_RXPBSIZE i)"
  by (auto intro!: reg_ok_window [OF assms] simp: register_defs)

section \<open>Programs that change nothing but the world\<close>

text \<open>The world, that is, except for memory where registers and memory are apart.\<close>

definition only_world :: "'w platform \<Rightarrow> (('w, 'x) base_scheme, 'a) prog \<Rightarrow> ('w, 'x) base_scheme \<Rightarrow> bool" where
  "only_world E m s \<longleftrightarrow> (\<exists>v w. m s = Some (Val v, s\<lparr>world := w\<rparr>) \<and> still E (world s) w)"

lemma world_exI: "P w \<Longrightarrow> \<exists>w'. s\<lparr>world := w\<rparr> = s\<lparr>world := w'\<rparr> \<and> P w'"
  by blast

lemma only_world_wp:
  assumes "only_world E m s" and "\<And>v w. still E (world s) w \<Longrightarrow> Q (Val v) (s\<lparr>world := w\<rparr>)"
  shows "wp m Q s"
  using assms by (auto simp: only_world_def wp_def)

lemma only_worldI: "wp m (\<lambda>r s'. (\<exists>v. r = Val v) \<and> (\<exists>w. s' = s\<lparr>world := w\<rparr> \<and> still E (world s) w)) s \<Longrightarrow>
    only_world E m s"
  by (auto simp: only_world_def elim!: wpE)

lemma only_world_bind:
  assumes "only_world E m s" and "\<And>v w. only_world E (k v) (s\<lparr>world := w\<rparr>)"
  shows "only_world E (bindM m k) s"
proof -
  obtain v w where m: "m s = Some (Val v, s\<lparr>world := w\<rparr>)" "still E (world s) w"
    using assms(1) by (auto simp: only_world_def)
  obtain v' w' where "k v (s\<lparr>world := w\<rparr>) = Some (Val v', s\<lparr>world := w\<rparr>\<lparr>world := w'\<rparr>)" "still E w w'"
    using assms(2) [of v w] by (auto simp: only_world_def)
  then show ?thesis using m by (simp add: only_world_def bindM_def) (blast intro: still_trans)
qed

lemma only_world_ret: "only_world E (ret v) s"
  by (rule only_worldI) (auto simp: wp_simps intro: exI [of _ "world s"])

lemma only_world_get: "reg_ok (dev s) r \<Longrightarrow> only_world E (get_reg32 E r) s"
  by (rule only_worldI) (auto simp: wp_simps)

lemma only_world_set: "reg_ok (dev s) r \<Longrightarrow> only_world E (set_reg32 E r v) s"
  by (rule only_worldI) (auto simp: wp_simps)

lemma only_world_flags:
  "reg_ok (dev s) r \<Longrightarrow> only_world E (set_flags32 E r v) s"
  "reg_ok (dev s) r \<Longrightarrow> only_world E (clear_flags32 E r v) s"
  by (rule only_worldI; auto simp: wp_simps)+

lemma only_world_wait: "only_world E (wait_ms E n) s"
  by (rule only_worldI) (auto simp: wp_simps)

lemma only_world_if: "(b \<Longrightarrow> only_world E m s) \<Longrightarrow> (\<not> b \<Longrightarrow> only_world E n s) \<Longrightarrow> only_world E (if b then m else n) s"
  by simp

lemma only_world_forM:
  "(\<And>x w. x \<in> set xs \<Longrightarrow> only_world E (f x) (s\<lparr>world := w\<rparr>)) \<Longrightarrow> only_world E (forM xs f) s"
proof (induction xs arbitrary: s)
  case (Cons x xs)
  have "only_world E (f x) s" using Cons.prems [of x "world s"] by simp
  moreover have "only_world E (forM xs f) (s\<lparr>world := w\<rparr>)" for w
    using Cons.prems by (intro Cons.IH) simp
  ultimately show ?case by (auto intro: only_world_bind)
qed (simp add: only_world_ret)

text \<open>A poll that ends from every world.\<close>

definition poll_ends :: "'w platform \<Rightarrow> usize \<Rightarrow> (u32 \<Rightarrow> bool) \<Rightarrow> bool" where
  "poll_ends E a stop \<longleftrightarrow> (\<forall>w. \<exists>k. stop (poll_value E a k w))"

lemma still_poll: "still E w (snd (mmio_read E a (poll_world E a k w)))"
  by (induction k) simp_all

lemma only_world_poll:
  fixes s :: "('w, 'c, 'x) drv_scheme"
  assumes "reg_ok (dev s) r" and "poll_ends E (dev_addr (dev s) + ucast r) stop"
  shows "only_world E (poll_loop E r stop) s"
proof (rule only_worldI)
  let ?P = "\<lambda>k. stop (poll_value E (dev_addr (dev s) + ucast r) k (world s))"
  have "\<exists>k. ?P k" using assms(2) by (simp add: poll_ends_def)
  then show "wp (poll_loop E r stop) (\<lambda>r s'. (\<exists>v. r = Val v) \<and>
      (\<exists>w. s' = s\<lparr>world := w\<rparr> \<and> still E (world s) w)) s"
    by (intro poll_loop_ends [OF assms(1), of stop E "LEAST k. ?P k"])
      (auto intro: LeastI_ex world_exI still_poll dest: not_less_Least)
qed

text \<open>
  What the polls of \<open>init\<close> rely on: the device completes a reset and a PHY transfer, and
  reports the bits it was asked to set.
\<close>

definition device_responds :: "'w platform \<Rightarrow> IgbDevice \<Rightarrow> bool" where
  "device_responds E d \<longleftrightarrow>
     poll_ends E (dev_addr d + ucast IGB_CTRL) (\<lambda>c. c AND IGB_CTRL_GLOBAL_RST = 0) \<and>
     poll_ends E (dev_addr d + ucast IGB_CTRL_EXT) (\<lambda>c. c AND push_bit 28 1 = push_bit 28 1) \<and>
     poll_ends E (dev_addr d + ucast IGB_MDIC) (\<lambda>c. c AND READY = READY) \<and>
     (\<forall>i :: u16. unat i < unat (num_rx_queues d) \<longrightarrow>
        poll_ends E (dev_addr d + ucast (IGB_RXDCTL (ucast i))) (\<lambda>c. c AND IGB_RXDCTL_ENABLE = IGB_RXDCTL_ENABLE)) \<and>
     (\<forall>i :: u16. unat i < unat (num_tx_queues d) \<longrightarrow>
        poll_ends E (dev_addr d + ucast (IGB_TXDCTL (ucast i))) (\<lambda>c. c AND IGB_TXDCTL_ENABLE = IGB_TXDCTL_ENABLE))"

lemmas only_world_rules = only_world_bind only_world_ret only_world_get only_world_set only_world_flags
  only_world_wait only_world_if only_world_forM

lemma only_world_disable_interrupts: "window_ok (dev s) \<Longrightarrow> only_world E (disable_interrupts E) s"
  unfolding disable_interrupts_def clear_interrupts_def
  by (intro only_world_rules) (simp_all add: window_regs)

lemma only_world_clear_interrupts: "window_ok (dev s) \<Longrightarrow> only_world E (clear_interrupts E) s"
  unfolding clear_interrupts_def by (intro only_world_rules) (simp_all add: window_regs)

lemma only_world_global_reset:
  "window_ok (dev s) \<Longrightarrow> device_responds E (dev s) \<Longrightarrow> only_world E (global_reset E) s"
  unfolding global_reset_def wait_clear_poll
  by (intro only_world_rules only_world_poll) (simp_all add: window_regs device_responds_def)

lemma only_world_init_link:
  "window_ok (dev s) \<Longrightarrow> device_responds E (dev s) \<Longrightarrow> only_world E (init_link E) s"
  unfolding init_link_def wait_set_poll Let_def
  by (intro only_world_rules only_world_poll) (simp_all add: window_regs device_responds_def)

lemma only_world_reset_stats: "window_ok (dev s) \<Longrightarrow> only_world E (reset_stats E) s"
  unfolding reset_stats_def
  by (intro only_world_rules) (auto simp: window_regs)

lemma only_world_link_speed: "window_ok (dev s) \<Longrightarrow> only_world E (get_link_speed E) s"
  unfolding get_link_speed_def Let_def
  by (intro only_world_rules) (simp_all add: window_regs)

lemma only_world_mac: "window_ok (dev s) \<Longrightarrow> only_world E (get_mac_addr E) s"
  unfolding get_mac_addr_def by (intro only_world_rules) (simp_all add: window_regs)


text \<open>The wait for the link is bounded: ten passes.\<close>

lemma only_world_wait_for_link:
  fixes s :: "('w, 'c, 'x) drv_scheme"
  assumes win: "window_ok (dev s)"
  shows "only_world E (wait_for_link E) s"
  unfolding wait_for_link_def
proof (intro only_world_bind only_world_link_speed only_world_if only_world_ret)
  show "window_ok (dev s)" by (rule win)
  fix speed :: u16 and w
  let ?body = "(\<lambda>(speed, i :: 32 word). if speed = 0 \<and> i <s 10
        then seqM (wait_ms E 1000) (bindM (get_link_speed E) (\<lambda>speed'. ret (Inl (speed', i + 1))))
        else ret (Inr ())) :: u16 \<times> 32 word \<Rightarrow> (('w, 'c, 'x) drv_scheme, u16 \<times> 32 word + unit) prog"
  let ?I = "\<lambda>(x :: u16 \<times> 32 word) s'. unat (snd x) \<le> 10 \<and> (\<exists>w'. s' = s\<lparr>world := w'\<rparr> \<and> still E w w')"
  show "only_world E (loopM ?body (speed, 0)) (s\<lparr>world := w\<rparr>)"
  proof (rule only_worldI, rule wp_loopM [where I = ?I and measure_of = "\<lambda>x _. 10 - unat (snd x)"])
    show "?I (speed, 0) (s\<lparr>world := w\<rparr>)" by auto
  next
    fix x :: "u16 \<times> 32 word" and s' :: "('w, 'c, 'x) drv_scheme"
    assume I: "?I x s'"
    obtain sp i where x: "x = (sp, i)" by (cases x)
    obtain w' where s': "s' = s\<lparr>world := w'\<rparr>" and w': "still E w w'" using I by blast
    let ?Q = "\<lambda>r s''. (\<exists>v :: unit. r = Val v) \<and>
      (\<exists>w'. s'' = s\<lparr>world := w\<rparr>\<lparr>world := w'\<rparr> \<and> still E (world (s\<lparr>world := w\<rparr>)) w')"
    let ?R = "after (case_sum (\<lambda>y s''. ?I y s'' \<and> 10 - unat (snd y) < 10 - unat (snd x)) (\<lambda>a. ?Q (Val a))) ?Q"
    show "wp (?body x) ?R s'"
    proof (cases "sp = 0 \<and> i <s 10")
      case True
      have le: "unat i \<le> 10" using I by (simp add: x)
      have "i \<noteq> 10" using True by (auto simp: word_sless_alt)
      then have "unat i \<noteq> 10" by (auto simp: word_unat_eq_iff)
      then have lt: "unat i < 10" using le by simp
      then have nx: "unat (i + 1) = unat i + 1" by (subst unat_add_no_wrap) simp_all
      have link: "only_world E (get_link_speed E) (s\<lparr>world := w''\<rparr>)" for w''
        using win by (intro only_world_link_speed) simp
      show ?thesis using lt nx True
        by (simp add: x s' wp_simps) (rule only_world_wp [OF link], auto simp: wp_simps intro: world_exI still_trans [OF w'])
    next
      case False
      then show ?thesis using w' by (auto simp: x s' wp_simps)
    qed
  qed
qed (use win in simp_all)


section \<open>Rings\<close>

text \<open>A queue as \<open>init_rx\<close> and \<open>init_tx\<close> leave it. Its descriptors are next to each other in memory.\<close>

definition fresh_rx :: "usize \<Rightarrow> pool_ref \<Rightarrow> IgbRxQueue \<Rightarrow> bool" where
  "fresh_rx qs pool q \<longleftrightarrow> length (rx_descriptors q) = unat qs \<and> ring_at qs (rx_descriptors q) \<and>
     q = \<lparr>rx_descriptors = rx_descriptors q, rx_num_descriptors = qs, rx_pool = pool,
          rx_bufs_in_use = [], rx_index = 0\<rparr>"

definition fresh_tx :: "usize \<Rightarrow> IgbTxQueue \<Rightarrow> bool" where
  "fresh_tx qs q \<longleftrightarrow> length (tx_descriptors q) = unat qs \<and> ring_at qs (tx_descriptors q) \<and>
     q = \<lparr>tx_descriptors = tx_descriptors q, tx_num_descriptors = qs, tx_pool = None,
          tx_bufs_in_use = [], clean_index = 0, tx_index = 0\<rparr>"

lemma wp_map_descriptors:
  fixes s :: "('w, 'x) base_scheme"
  assumes va: "a \<noteq> 0" "unat a + unat qs * 16 < 2 ^ 64"
    and init_desc: "\<And>p s Q. (\<And>w. Q (Val ()) (s\<lparr>world := w\<rparr>)) \<Longrightarrow> wp (init_desc p) Q (s :: ('w, 'x) base_scheme)"
    and Q: "\<And>w. Q (Val (map (\<lambda>k. a + k * 16) (word_range qs))) (s\<lparr>world := w\<rparr>)"
  shows "wp (map_descriptors a 16 init_desc qs) Q s"
  unfolding map_descriptors_def
proof (rule wp_collectM [where I = "\<lambda>seen ys s'. ys = map (\<lambda>k. a + k * 16) seen \<and> (\<exists>w. s' = s\<lparr>world := w\<rparr>)"
      and Q' = "\<lambda>_ _. False"])
  fix seen x rest and ys :: "usize list" and s' :: "('w, 'x) base_scheme"
  assume xs: "word_range qs = seen @ x # rest" and I: "ys = map (\<lambda>k. a + k * 16) seen \<and> (\<exists>w. s' = s\<lparr>world := w\<rparr>)"
  have "x \<in> set (word_range qs)" unfolding xs by simp
  then have lt: "unat x < unat qs" by (simp add: set_word_range word_less_nat_alt)
  then have m: "unat (x * 16) = unat x * 16" using va(2) by (subst unat_mult_no_wrap) simp_all
  have "unat (a + x * 16) = unat a + unat x * 16"
    using lt m va(2) by (subst unat_add_no_wrap) simp_all
  then have nn: "a + x * 16 \<noteq> 0" using va(1) by (metis add_is_0 unat_0 unat_eq_0)
  show "wp (bindM (non_null (a + x * 16)) (\<lambda>p. seqM (init_desc p) (ret p)))
      (after (\<lambda>y s''. ys @ [y] = map (\<lambda>k. a + k * 16) (seen @ [x]) \<and> (\<exists>w. s'' = s\<lparr>world := w\<rparr>)) (\<lambda>_ _. False)) s'"
    using I nn by (auto simp: wp_simps non_null_def intro!: init_desc)
qed (use Q in \<open>auto intro: exI [of _ "world s"]\<close>)

lemma wp_rx_desc_init: "(\<And>w. Q (Val ()) (s\<lparr>world := w\<rparr>)) \<Longrightarrow> wp (rx_desc_init E p) Q s"
  by (simp add: rx_desc_init_def wp_simps)

lemma wp_tx_desc_init: "(\<And>w. Q (Val ()) (s\<lparr>world := w\<rparr>)) \<Longrightarrow> wp (tx_desc_init E p) Q s"
  by (simp add: tx_desc_init_def wp_simps)

text \<open>What allocating the rings relies on: \<open>dma_alloc\<close> returns valid memory for a ring.\<close>

definition rings_allocate :: "'w platform \<Rightarrow> usize \<Rightarrow> bool" where
  "rings_allocate E qs \<longleftrightarrow> (\<forall>w. dma_valid E (qs * 16) w)"

lemma wp_init_rx_queue:
  fixes s :: "('w, 'c, 'x) drv_scheme"
  assumes E: "rings_allocate E qs" and qs: "unat qs * 16 < 2 ^ 64"
    and win: "window_ok (dev s)" and i: "unat i < 128"
    and Q: "\<And>q w. fresh_rx qs pool q \<Longrightarrow>
      Q (Val ()) (s\<lparr>world := w, dev := (dev s)\<lparr>rx_queues := rx_queues (dev s) @ [q]\<rparr>\<rparr>)"
  shows "wp (init_rx_queue E qs pool i) Q s"
proof -
  have m: "unat (qs * 16) = unat qs * 16" using qs by (subst unat_mult_no_wrap) simp_all
  have va: "snd (fst (dma_alloc (hal E) (qs * 16) w)) \<noteq> 0"
    "unat (snd (fst (dma_alloc (hal E) (qs * 16) w))) + unat qs * 16 < 2 ^ 64" for w
    using E unfolding rings_allocate_def dma_valid_def m by blast+
  have ov: "\<not> 18446744073709551616 \<le> unat qs * 16" using qs by simp
  note regs = window_queue_regs [OF win i]
  show ?thesis unfolding init_rx_queue_def
    apply (simp add: wp_simps Dma_allocate_def prod.case_eq_if RX_DESC_SIZE_def TX_DESC_SIZE_def ov)
    apply (rule wp_map_descriptors)
       apply (use va in simp)
      apply (use va in simp)
     apply (rule wp_rx_desc_init, simp)
    apply (simp add: wp_simps regs update_order)
    apply (rule Q)
    apply (use va in \<open>simp add: fresh_rx_def ring_at_map\<close>)
    done
qed


lemma wp_init_tx_queue:
  fixes s :: "('w, 'c, 'x) drv_scheme"
  assumes E: "rings_allocate E qs" and qs: "unat qs * 16 < 2 ^ 64"
    and win: "window_ok (dev s)" and i: "unat i < 128"
    and Q: "\<And>q w. fresh_tx qs q \<Longrightarrow>
      Q (Val ()) (s\<lparr>world := w, dev := (dev s)\<lparr>tx_queues := tx_queues (dev s) @ [q]\<rparr>\<rparr>)"
  shows "wp (init_tx_queue E qs i) Q s"
proof -
  have m: "unat (qs * 16) = unat qs * 16" using qs by (subst unat_mult_no_wrap) simp_all
  have va: "snd (fst (dma_alloc (hal E) (qs * 16) w)) \<noteq> 0"
    "unat (snd (fst (dma_alloc (hal E) (qs * 16) w))) + unat qs * 16 < 2 ^ 64" for w
    using E unfolding rings_allocate_def dma_valid_def m by blast+
  have ov: "\<not> 18446744073709551616 \<le> unat qs * 16" using qs by simp
  note regs = window_queue_regs [OF win i]
  show ?thesis unfolding init_tx_queue_def
    apply (simp add: wp_simps Dma_allocate_def prod.case_eq_if RX_DESC_SIZE_def TX_DESC_SIZE_def ov)
    apply (rule wp_map_descriptors)
       apply (use va in simp)
      apply (use va in simp)
     apply (rule wp_tx_desc_init, simp)
    apply (simp add: wp_simps regs Let_def update_order)
    apply (rule Q)
    apply (use va in \<open>simp add: fresh_tx_def ring_at_map\<close>)
    done
qed

lemma wp_only_world_bind:
  "only_world E m s \<Longrightarrow> (\<And>v w. wp (k v) Q (s\<lparr>world := w\<rparr>)) \<Longrightarrow> wp (bindM m k) Q s"
  by (auto simp: wp_bindM intro: only_world_wp)

lemma window_ok_update [simp]:
  "window_ok (d\<lparr>rx_queues := a\<rparr>) = window_ok d" "window_ok (d\<lparr>tx_queues := b\<rparr>) = window_ok d"
  by (simp_all add: window_ok_def)

lemma wp_init_rx:
  fixes s :: "('w, 'c, 'x) drv_scheme"
  assumes E: "rings_allocate E qs" and qs: "unat qs * 16 < 2 ^ 64"
    and win: "window_ok (dev s)" and n: "unat (num_rx_queues (dev s)) \<le> 128"
    and empty: "rx_queues (dev s) = []"
    and Q: "\<And>rqs w. length rqs = unat (num_rx_queues (dev s)) \<Longrightarrow> \<forall>q \<in> set rqs. fresh_rx qs pool q \<Longrightarrow>
      Q (Val ()) (s\<lparr>world := w, dev := (dev s)\<lparr>rx_queues := rqs\<rparr>\<rparr>)"
  shows "wp (init_rx E qs pool) Q s"
proof -
  let ?I = "\<lambda>seen s'. \<exists>rqs w. length rqs = length seen \<and> (\<forall>q \<in> set rqs. fresh_rx qs pool q) \<and>
      s' = s\<lparr>world := w, dev := (dev s)\<lparr>rx_queues := rqs\<rparr>\<rparr>"
  have loop: "wp (forM (word_range (num_rx_queues (dev s))) (init_rx_queue E qs pool))
      (\<lambda>r s'. r = Val () \<and> ?I (word_range (num_rx_queues (dev s))) s') (s\<lparr>world := w\<rparr>)" for w
  proof (rule wp_forM [where I = ?I])
    have "s\<lparr>world := w\<rparr> = s\<lparr>world := w, dev := (dev s)\<lparr>rx_queues := []\<rparr>\<rparr>"
      using empty by (simp add: empty [symmetric])
    then show "?I [] (s\<lparr>world := w\<rparr>)" by (intro exI [of _ "[]"]) auto
  next
    fix seen x rest and s' :: "('w, 'c, 'x) drv_scheme"
    assume xs: "word_range (num_rx_queues (dev s)) = seen @ x # rest" and I: "?I seen s'"
    have "x \<in> set (word_range (num_rx_queues (dev s)))" unfolding xs by simp
    then have x: "unat x < 128" using n by (simp add: set_word_range word_less_nat_alt)
    obtain rqs w where s': "s' = s\<lparr>world := w, dev := (dev s)\<lparr>rx_queues := rqs\<rparr>\<rparr>"
      and l: "length rqs = length seen" and fr: "\<forall>q \<in> set rqs. fresh_rx qs pool q" using I by blast
    show "wp (init_rx_queue E qs pool x) (after (\<lambda>_. ?I (seen @ [x]))
        (\<lambda>r s'. r = Val () \<and> ?I (word_range (num_rx_queues (dev s))) s')) s'"
    proof (rule wp_init_rx_queue [OF E qs _ x])
      show "window_ok (dev s')" using win by (simp add: s')
      fix q w' assume "fresh_rx qs pool q"
      then show "after (\<lambda>_. ?I (seen @ [x])) (\<lambda>r s'. r = Val () \<and> ?I (word_range (num_rx_queues (dev s))) s')
          (Val ()) (s'\<lparr>world := w', dev := (dev s')\<lparr>rx_queues := rx_queues (dev s') @ [q]\<rparr>\<rparr>)"
        using l fr by (auto simp: s' intro!: exI [of _ "rqs @ [q]"])
    qed
  qed simp
  show ?thesis
    unfolding init_rx_def
    apply (rule wp_only_world_bind [where E = E], (intro only_world_rules; simp add: window_regs win))+
    apply (simp add: wp_bindM wp_getsM)
    apply (rule wp_mono [OF loop])
    apply (elim conjE exE)
    apply (simp add: wp_simps window_regs win update_order)
    apply (rule Q)
     apply simp_all
    done
qed

lemma wp_init_tx:
  fixes s :: "('w, 'c, 'x) drv_scheme"
  assumes E: "rings_allocate E qs" and qs: "unat qs * 16 < 2 ^ 64"
    and win: "window_ok (dev s)" and n: "unat (num_tx_queues (dev s)) \<le> 128"
    and empty: "tx_queues (dev s) = []"
    and Q: "\<And>tqs w. length tqs = unat (num_tx_queues (dev s)) \<Longrightarrow> \<forall>q \<in> set tqs. fresh_tx qs q \<Longrightarrow>
      Q (Val ()) (s\<lparr>world := w, dev := (dev s)\<lparr>tx_queues := tqs\<rparr>\<rparr>)"
  shows "wp (init_tx E qs) Q s"
proof -
  let ?I = "\<lambda>seen s'. \<exists>tqs w. length tqs = length seen \<and> (\<forall>q \<in> set tqs. fresh_tx qs q) \<and>
      s' = s\<lparr>world := w, dev := (dev s)\<lparr>tx_queues := tqs\<rparr>\<rparr>"
  have loop: "wp (forM (word_range (num_tx_queues (dev s))) (init_tx_queue E qs))
      (\<lambda>r s'. r = Val () \<and> ?I (word_range (num_tx_queues (dev s))) s') s"
  proof (rule wp_forM [where I = ?I])
    have "s = s\<lparr>world := world s, dev := (dev s)\<lparr>tx_queues := []\<rparr>\<rparr>"
      using empty by (simp add: empty [symmetric])
    then show "?I [] s" by (intro exI [of _ "[]"] exI [of _ "world s"]) simp
  next
    fix seen x rest and s' :: "('w, 'c, 'x) drv_scheme"
    assume xs: "word_range (num_tx_queues (dev s)) = seen @ x # rest" and I: "?I seen s'"
    have "x \<in> set (word_range (num_tx_queues (dev s)))" unfolding xs by simp
    then have x: "unat x < 128" using n by (simp add: set_word_range word_less_nat_alt)
    obtain tqs w where s': "s' = s\<lparr>world := w, dev := (dev s)\<lparr>tx_queues := tqs\<rparr>\<rparr>"
      and l: "length tqs = length seen" and fr: "\<forall>q \<in> set tqs. fresh_tx qs q" using I by blast
    show "wp (init_tx_queue E qs x) (after (\<lambda>_. ?I (seen @ [x]))
        (\<lambda>r s'. r = Val () \<and> ?I (word_range (num_tx_queues (dev s))) s')) s'"
    proof (rule wp_init_tx_queue [OF E qs _ x])
      show "window_ok (dev s')" using win by (simp add: s')
      fix q w' assume "fresh_tx qs q"
      then show "after (\<lambda>_. ?I (seen @ [x])) (\<lambda>r s'. r = Val () \<and> ?I (word_range (num_tx_queues (dev s))) s')
          (Val ()) (s'\<lparr>world := w', dev := (dev s')\<lparr>tx_queues := tx_queues (dev s') @ [q]\<rparr>\<rparr>)"
        using l fr by (auto simp: s' intro!: exI [of _ "tqs @ [q]"])
    qed
  qed simp
  show ?thesis
    unfolding init_tx_def
    apply (simp add: wp_bindM wp_getsM)
    apply (rule wp_mono [OF loop])
    apply (elim conjE exE)
    apply (simp add: wp_simps window_regs win update_order)
    apply (rule Q)
     apply simp_all
    done
qed

section \<open>Starting a receive queue\<close>

text \<open>
  Filling a ring: the buffers come off the pool's stack in order, so the stack and the ring
  reversed make up the stack there was before. With too few buffers in the pool, the loop
  ends in \<open>NoMemory\<close> with the stack empty.
\<close>

definition filled ::
  "u16 \<Rightarrow> usize list \<Rightarrow> usize list \<Rightarrow> 'w \<Rightarrow> ('w, 'c, 'x) drv_scheme \<Rightarrow> ('w, 'c, 'x) drv_scheme" where
  "filled i fs bufs w s =
     (let q = rx_queues (dev s) ! unat i; h = rx_pool q in
      s\<lparr>world := w, pools := (pools s)[h := (pools s ! h)\<lparr>free_stack := fs\<rparr>],
        dev := (dev s)\<lparr>rx_queues := (rx_queues (dev s))[unat i := q\<lparr>rx_bufs_in_use := bufs\<rparr>]\<rparr>\<rparr>)"

lemma wp_fill:
  fixes s :: "('w, 'c, 'x) drv_scheme"
  assumes i: "unat i < length (rx_queues (dev s))" and q: "q = rx_queues (dev s) ! unat i"
    and fr: "fresh_rx qs h q" and h: "h < length (pools s)" and wf: "pool_wf (pools s ! h)"
    and full: "\<And>fs bufs w. fs @ rev bufs = free_stack (pools s ! h) \<Longrightarrow> length bufs = unat qs \<Longrightarrow>
      w = fill_memory E (phys_addr (pools s ! h)) (rx_descriptors q) bufs (world s) \<Longrightarrow> Q (Val ()) (filled i fs bufs w s)"
    and short: "\<And>bufs w. rev bufs = free_stack (pools s ! h) \<Longrightarrow> length bufs < unat qs \<Longrightarrow>
      Q (Err NoMemory) (filled i [] bufs w s)"
  shows "wp (forM (word_range qs) (fill_rx_descriptor E i)) Q s"
proof -
  let ?fs0 = "free_stack (pools s ! h)"
  have hq: "rx_pool q = h" "rx_bufs_in_use q = []" "length (rx_descriptors q) = unat qs"
    using fr unfolding fresh_rx_def by (metis IgbRxQueue.select_convs)+
  let ?m = "\<lambda>bufs. fill_memory E (phys_addr (pools s ! h)) (rx_descriptors q) bufs (world s)"
  let ?I = "\<lambda>seen s'. \<exists>fs bufs. fs @ rev bufs = ?fs0 \<and> length bufs = length seen \<and> s' = filled i fs bufs (?m bufs) s"
  show ?thesis
  proof (rule wp_forM [where I = ?I])
    have "filled i ?fs0 [] (world s) s = s"
    proof -
      have "q\<lparr>rx_bufs_in_use := []\<rparr> = q" using hq(2) by (metis IgbRxQueue.surjective IgbRxQueue.update_convs(4) IgbRxQueue.select_convs(4))
      then show ?thesis using hq(1) by (simp add: filled_def Let_def q [symmetric]) (simp add: q)
    qed
    then show "?I [] s" by (intro exI [of _ ?fs0] exI [of _ "[]"]) (simp add: fill_memory_def)
  next
    fix seen x rest and s' :: "('w, 'c, 'x) drv_scheme"
    assume xs: "word_range qs = seen @ x # rest" and I: "?I seen s'"
    have "x \<in> set (word_range qs)" unfolding xs by simp
    then have x: "unat x < unat qs" by (simp add: set_word_range word_less_nat_alt)
    have "length seen < length (word_range qs)" unfolding xs by simp
    then have seen: "length seen < unat qs" by simp
    obtain fs bufs where fs: "fs @ rev bufs = ?fs0" and l: "length bufs = length seen"
      and s': "s' = filled i fs bufs (?m bufs) s" using I by blast
    have "word_range qs ! length seen = x" unfolding xs by simp
    then have "x = word_of_nat (length seen)" using seen by simp
    then have ux: "unat x = length bufs" using seen l by (simp add: unat_word_of_nat_lt)
    have st: "unat i < length (rx_queues (dev s'))" "rx_queues (dev s') ! unat i = q\<lparr>rx_bufs_in_use := bufs\<rparr>"
      "pools s' ! h = (pools s ! h)\<lparr>free_stack := fs\<rparr>"
      using i h hq by (simp_all add: s' filled_def Let_def q)
    show "wp (fill_rx_descriptor E i x) (after (\<lambda>_. ?I (seen @ [x])) Q) s'"
    proof (cases "fs = []")
      case True
      then show ?thesis using short [of bufs "?m bufs"] fs l seen st
        by (simp add: fill_rx_descriptor_def wp_simps hq s')
    next
      case False
      have "last fs \<in> set ?fs0" using False fs by (metis Un_iff last_in_set set_append)
      then have lt: "last fs < num_entries (pools s ! h)" using wf by (simp add: pool_wf_def)
      have wf': "pool_wf ((pools s ! h)\<lparr>free_stack := butlast fs\<rparr>)"
      proof -
        have "set (butlast fs) \<subseteq> set ?fs0" using fs in_set_butlastD by (metis Un_iff set_append subsetI)
        moreover have "distinct (butlast fs)" using wf fs distinct_butlast unfolding pool_wf_def by (metis distinct_append)
        ultimately show ?thesis using wf by (auto simp: pool_wf_def)
      qed
      have keep: "butlast fs @ last fs # rev bufs = ?fs0"
        using append_butlast_last_id [OF False] fs by (metis append.assoc append_Cons append_Nil)
      have up: "s'\<lparr>world := w', pools := (pools s')[h := (pools s ! h)\<lparr>free_stack := butlast fs\<rparr>],
            dev := (dev s')\<lparr>rx_queues := (rx_queues (dev s'))[unat i := q\<lparr>rx_bufs_in_use := bufs @ [last fs]\<rparr>]\<rparr>\<rparr> =
          filled i (butlast fs) (bufs @ [last fs]) w' s" for w'
        using hq by (simp add: s' filled_def Let_def q [symmetric])
      note up' = up [of "?m (bufs @ [last fs])", unfolded fill_memory_snoc l]
      have w: "world s' = ?m bufs" by (simp add: s' filled_def Let_def)
      have hs: "h < length (pools s')" using h by (simp add: s' filled_def Let_def)
      show ?thesis using False st x lt wf' hs hq keep l
        by (simp add: fill_rx_descriptor_def wp_simps set_packet_address_def reset_status_def update_order w ux)
          (rule exI [of _ "butlast fs"], rule exI [of _ "bufs @ [last fs]"], simp add: fill_memory_snoc up')
    qed
  next
    fix s' :: "('w, 'c, 'x) drv_scheme"
    assume "?I (word_range qs) s'"
    then show "Q (Val ()) s'" using full by auto
  qed
qed


lemma filled_dev: "dev (filled i fs bufs w s) = (dev s)\<lparr>rx_queues := (rx_queues (dev s))[unat i :=
    (rx_queues (dev s) ! unat i)\<lparr>rx_bufs_in_use := bufs\<rparr>]\<rparr>"
  by (simp add: filled_def Let_def)

lemma filled_world [simp]: "(filled i fs bufs w s)\<lparr>world := w'\<rparr> = filled i fs bufs w' s"
  by (simp add: filled_def Let_def)

lemma device_responds_update [simp]:
  "device_responds E (d\<lparr>rx_queues := a\<rparr>) = device_responds E d"
  "device_responds E (d\<lparr>tx_queues := b\<rparr>) = device_responds E d"
  by (simp_all add: device_responds_def)

definition two_power :: "usize \<Rightarrow> bool" where
  "two_power n \<longleftrightarrow> n \<noteq> 0 \<and> n AND (n - 1) = 0"

lemma two_power_iff: "n \<noteq> 0 \<Longrightarrow> two_power n \<longleftrightarrow> (\<exists>k. unat n = 2 ^ k)"
  by (simp add: two_power_def word_and_pred_power)

lemma wp_start_rx_queue:
  fixes s :: "('w, 'c, 'x) drv_scheme"
  assumes i: "unat i < length (rx_queues (dev s))" and q: "q = rx_queues (dev s) ! unat i"
    and fr: "fresh_rx qs h q" and h: "h < length (pools s)" and wf: "pool_wf (pools s ! h)"
    and win: "window_ok (dev s)" and resp: "device_responds E (dev s)"
    and n: "unat i < unat (num_rx_queues (dev s))" "unat i < 128" and qs: "qs \<noteq> 0"
    and unaligned: "\<not> two_power qs \<Longrightarrow> Q (Err QueueNotAligned) s"
    and full: "\<And>fs bufs w. two_power qs \<Longrightarrow> fs @ rev bufs = free_stack (pools s ! h) \<Longrightarrow>
      length bufs = unat qs \<Longrightarrow> still E (fill_memory E (phys_addr (pools s ! h)) (rx_descriptors q) bufs (world s)) w \<Longrightarrow>
      Q (Val ()) (filled i fs bufs w s)"
    and short: "\<And>bufs w. two_power qs \<Longrightarrow> rev bufs = free_stack (pools s ! h) \<Longrightarrow>
      length bufs < unat qs \<Longrightarrow> Q (Err NoMemory) (filled i [] bufs w s)"
  shows "wp (start_rx_queue E i) Q s"
proof -
  have nq: "rx_num_descriptors q = qs"
    using fr unfolding fresh_rx_def by (metis IgbRxQueue.select_convs)
  have pos: "\<not> qs < 1" using qs by (simp add: word_less_nat_alt unat_gt_0)
  show ?thesis
  proof (cases "two_power qs")
    case False
    then have "qs AND (qs - 1) \<noteq> 0" using qs by (simp add: two_power_def)
    then show ?thesis using unaligned [OF False] i pos
      by (simp add: start_rx_queue_def wp_simps q [symmetric] nq Let_def)
  next
    case True
    let ?tail = "seqM (set_flags32 E (IGB_RXDCTL (ucast i)) IGB_RXDCTL_ENABLE)
      (seqM (wait_set_reg32 E (IGB_RXDCTL (ucast i)) IGB_RXDCTL_ENABLE)
      (seqM (set_reg32 E (IGB_RDH (ucast i)) 0)
      (bindM (sub_ov (overflow_checks E) (rx_num_descriptors q) 1) (\<lambda>t. set_reg32 E (IGB_RDT (ucast i)) (ucast t)))))"
    have sub: "only_world E (sub_ov (overflow_checks E) (rx_num_descriptors q) 1) s'" for s' :: "('w, 'c, 'x) drv_scheme"
      using pos by (intro only_worldI) (auto simp: wp_simps nq intro: exI [of _ "world s'"])
    have fw: "world (filled i fs bufs w s) = w" for fs bufs w by (simp add: filled_def Let_def)
    have tail: "only_world E ?tail (filled i fs bufs w s)" for fs bufs w
      unfolding wait_set_poll using window_queue_regs [OF win n(2)] resp n(1) win
      by (intro only_world_rules only_world_poll sub)
        (simp_all add: filled_dev device_responds_def reg_ok_def)
    have "wp (start_rx_queue E i) Q s = wp (forM (word_range qs) (fill_rx_descriptor E i))
        (after (\<lambda>_. wp ?tail Q) Q) s"
      using True i pos
      by (simp add: start_rx_queue_def wp_simps q [symmetric] nq Let_def two_power_def)
    moreover have "wp (forM (word_range qs) (fill_rx_descriptor E i)) (after (\<lambda>_. wp ?tail Q) Q) s"
    proof (rule wp_fill [OF i q fr h wf])
      fix fs bufs w
      assume "fs @ rev bufs = free_stack (pools s ! h)" "length bufs = unat qs"
        and "w = fill_memory E (phys_addr (pools s ! h)) (rx_descriptors q) bufs (world s)"
      then have "wp ?tail Q (filled i fs bufs w s)"
        using full [OF True] by (intro only_world_wp [OF tail]) (simp add: fw)
      then show "after (\<lambda>_. wp ?tail Q) Q (Val ()) (filled i fs bufs w s)" by simp
    qed (use short [OF True] in simp)
    ultimately show ?thesis by simp
  qed
qed

lemma wp_start_tx_queue:
  fixes s :: "('w, 'c, 'x) drv_scheme"
  assumes i: "unat i < length (tx_queues (dev s))"
    and fr: "fresh_tx qs (tx_queues (dev s) ! unat i)"
    and win: "window_ok (dev s)" and resp: "device_responds E (dev s)"
    and n: "unat i < unat (num_tx_queues (dev s))" "unat i < 128" and qs: "qs \<noteq> 0"
    and unaligned: "\<not> two_power qs \<Longrightarrow> Q (Err QueueNotAligned) s"
    and started: "\<And>w. two_power qs \<Longrightarrow> still E (world s) w \<Longrightarrow> Q (Val ()) (s\<lparr>world := w\<rparr>)"
  shows "wp (start_tx_queue E i) Q s"
proof -
  have nq: "tx_num_descriptors (tx_queues (dev s) ! unat i) = qs"
    using fr unfolding fresh_tx_def by (metis IgbTxQueue.select_convs)
  have pos: "\<not> qs < 1" using qs by (simp add: word_less_nat_alt unat_gt_0)
  show ?thesis
  proof (cases "two_power qs")
    case False
    then have "qs AND (qs - 1) \<noteq> 0" using qs by (simp add: two_power_def)
    then show ?thesis using unaligned [OF False] i pos
      by (simp add: start_tx_queue_def wp_simps nq Let_def)
  next
    case True
    let ?tail = "seqM (set_reg32 E (IGB_TDH (ucast i)) 0)
      (seqM (set_reg32 E (IGB_TDT (ucast i)) 0)
      (seqM (set_flags32 E (IGB_TXDCTL (ucast i)) IGB_TXDCTL_ENABLE)
            (wait_set_reg32 E (IGB_TXDCTL (ucast i)) IGB_TXDCTL_ENABLE)))"
    have "only_world E ?tail s"
      unfolding wait_set_poll using window_queue_regs [OF win n(2)] resp n(1)
      by (intro only_world_rules only_world_poll) (simp_all add: device_responds_def)
    moreover have "wp (start_tx_queue E i) Q s = wp ?tail Q s"
      using True i pos
      by (simp add: start_tx_queue_def wp_bindM wp_tx_queue_at wp_sub_ov nq Let_def two_power_def)
    ultimately show ?thesis using started [OF True] by (auto intro: only_world_wp)
  qed
qed


section \<open>Starting all queues\<close>

definition started_rx :: "usize \<Rightarrow> pool_ref \<Rightarrow> IgbRxQueue \<Rightarrow> bool" where
  "started_rx qs h q \<longleftrightarrow> length (rx_descriptors q) = unat qs \<and> ring_at qs (rx_descriptors q) \<and> rx_num_descriptors q = qs \<and>
     rx_pool q = h \<and> length (rx_bufs_in_use q) = unat qs \<and> rx_index q = 0"

text \<open>The state after \<open>k\<close> receive queues have been started, \<open>fs\<close> being left on the stack.\<close>

definition rx_started ::
  "usize \<Rightarrow> pool_ref \<Rightarrow> nat \<Rightarrow> usize list \<Rightarrow> IgbRxQueue list \<Rightarrow> 'w \<Rightarrow>
   ('w, 'c, 'x) drv_scheme \<Rightarrow> ('w, 'c, 'x) drv_scheme" where
  "rx_started qs h k fs rqs w s =
     s\<lparr>world := w, pools := (pools s)[h := (pools s ! h)\<lparr>free_stack := fs\<rparr>],
       dev := (dev s)\<lparr>rx_queues := rqs\<rparr>\<rparr>"

definition rx_progress :: "usize \<Rightarrow> pool_ref \<Rightarrow> usize list \<Rightarrow> nat \<Rightarrow> nat \<Rightarrow> usize list \<Rightarrow> IgbRxQueue list \<Rightarrow> bool" where
  "rx_progress qs h fs0 n k fs rqs \<longleftrightarrow> length rqs = n \<and>
     (\<forall>j < n. if j < k then started_rx qs h (rqs ! j) else fresh_rx qs h (rqs ! j)) \<and>
     mset fs + sum_list (map (\<lambda>q. mset (rx_bufs_in_use q)) rqs) = mset fs0 \<and>
     (\<exists>taken. fs @ taken = fs0) \<and> length fs + k * unat qs = length fs0"

lemma rx_progress_zero: "rx_progress qs h fs0 n 0 fs rqs \<Longrightarrow> fs = fs0"
  unfolding rx_progress_def by (metis add_0_right append_Nil2 append_eq_append_conv mult_0)

lemma rx_progress_step:
  assumes pr: "rx_progress qs h fs0 n k fs rqs" and k: "k < n"
    and fs: "fs' @ rev bufs = fs" and len: "length bufs = unat qs"
  shows "rx_progress qs h fs0 n (Suc k) fs' (rqs[k := (rqs ! k)\<lparr>rx_bufs_in_use := bufs\<rparr>])"
proof -
  have kl: "k < length rqs" and fr: "fresh_rx qs h (rqs ! k)"
    using pr k by (auto simp: rx_progress_def)
  have f: "rx_num_descriptors (rqs ! k) = qs" "rx_pool (rqs ! k) = h" "rx_bufs_in_use (rqs ! k) = []"
    "rx_index (rqs ! k) = 0" "length (rx_descriptors (rqs ! k)) = unat qs"
    using fr unfolding fresh_rx_def by (metis IgbRxQueue.select_convs)+
  have st: "started_rx qs h ((rqs ! k)\<lparr>rx_bufs_in_use := bufs\<rparr>)" using f len fr
    by (simp add: started_rx_def fresh_rx_def)
  have "sum_list (map (\<lambda>q. mset (rx_bufs_in_use q)) (rqs[k := (rqs ! k)\<lparr>rx_bufs_in_use := bufs\<rparr>])) + {#} =
      sum_list (map (\<lambda>q. mset (rx_bufs_in_use q)) rqs) + mset bufs"
    by (rule sum_list_map_update_add [OF kl]) (simp add: f)
  moreover have "mset fs = mset fs' + mset bufs" unfolding fs [symmetric] by simp
  ultimately have "mset fs' + sum_list (map (\<lambda>q. mset (rx_bufs_in_use q)) (rqs[k := (rqs ! k)\<lparr>rx_bufs_in_use := bufs\<rparr>])) = mset fs0"
    using pr by (simp add: rx_progress_def add_ac)
  moreover have "length fs = length fs' + unat qs" unfolding fs [symmetric] by (simp add: len)
  moreover have "\<exists>taken. fs' @ taken = fs0" using pr unfolding rx_progress_def fs [symmetric] by auto
  ultimately show ?thesis using pr st kl
    by (auto simp: rx_progress_def nth_list_update less_Suc_eq)
qed

lemma wp_start_rx_queues:
  fixes s :: "('w, 'c, 'x) drv_scheme"
  defines "n \<equiv> unat (num_rx_queues (dev s))"
  assumes rqs: "length (rx_queues (dev s)) = n" "\<forall>q \<in> set (rx_queues (dev s)). fresh_rx qs h q"
    and h: "h < length (pools s)" and wf: "pool_wf (pools s ! h)"
    and win: "window_ok (dev s)" and resp: "device_responds E (dev s)"
    and n: "n \<le> 128" and qs: "qs \<noteq> 0"
    and unaligned: "\<And>rqs w. \<not> two_power qs \<Longrightarrow> 0 < n \<Longrightarrow>
      Q (Err QueueNotAligned) (rx_started qs h n (free_stack (pools s ! h)) rqs w s)"
    and full: "\<And>fs rqs w. two_power qs \<or> n = 0 \<Longrightarrow> rx_progress qs h (free_stack (pools s ! h)) n n fs rqs \<Longrightarrow>
      rings_posted E (pools s ! h) n rqs w \<Longrightarrow> Q (Val ()) (rx_started qs h n fs rqs w s)"
    and short: "\<And>rqs w. two_power qs \<Longrightarrow> length (free_stack (pools s ! h)) < n * unat qs \<Longrightarrow>
      Q (Err NoMemory) (rx_started qs h n [] rqs w s)"
  shows "wp (forM (word_range (num_rx_queues (dev s))) (start_rx_queue E)) Q s"
proof -
  let ?fs0 = "free_stack (pools s ! h)"
  let ?I = "\<lambda>seen s'. \<exists>fs rqs w. rx_progress qs h ?fs0 n (length seen) fs rqs \<and> (two_power qs \<or> seen = []) \<and>
      rings_posted E (pools s ! h) (length seen) rqs w \<and> s' = rx_started qs h n fs rqs w s"
  have start: "rx_started qs h n ?fs0 (rx_queues (dev s)) (world s) s = s"
    by (simp add: rx_started_def)
  have zero: "sum_list (map (\<lambda>q. mset (rx_bufs_in_use q)) rqs) = {#}" if "\<forall>q \<in> set rqs. fresh_rx qs h q" for rqs
    using that
  proof (induction rqs)
    case (Cons q rqs)
    then have "rx_bufs_in_use q = []" unfolding fresh_rx_def by (metis IgbRxQueue.select_convs list.set_intros(1))
    then show ?case using Cons by simp
  qed simp
  have begin0: "rx_progress qs h ?fs0 n 0 ?fs0 (rx_queues (dev s))"
    using rqs zero [OF rqs(2)] by (simp add: rx_progress_def)
  show ?thesis
  proof (rule wp_forM [where I = ?I])
    show "?I [] s" using begin0 start by (intro exI [of _ ?fs0] exI [of _ "rx_queues (dev s)"] exI [of _ "world s"]) simp
  next
    fix seen x rest and s' :: "('w, 'c, 'x) drv_scheme"
    assume xs: "word_range (num_rx_queues (dev s)) = seen @ x # rest" and I: "?I seen s'"
    obtain fs rqs' w where pr: "rx_progress qs h ?fs0 n (length seen) fs rqs'"
      and tp: "two_power qs \<or> seen = []" and posted: "rings_posted E (pools s ! h) (length seen) rqs' w"
      and s': "s' = rx_started qs h n fs rqs' w s" using I by blast
    have "length (word_range (num_rx_queues (dev s))) = length (seen @ x # rest)" by (simp only: xs)
    then have k: "length seen < n" by (simp add: n_def)
    have "x = word_range (num_rx_queues (dev s)) ! length seen" by (simp add: xs)
    then have x: "unat x = length seen" using k by (simp add: n_def unat_word_of_nat_lt)
    have l: "length rqs' = n" and fr: "fresh_rx qs h (rqs' ! unat x)"
      using pr k x by (auto simp: rx_progress_def)
    have st: "rx_queues (dev s') = rqs'" "pools s' ! h = (pools s ! h)\<lparr>free_stack := fs\<rparr>" "length (pools s') = length (pools s)"
      "num_rx_queues (dev s') = num_rx_queues (dev s)" "window_ok (dev s')" "device_responds E (dev s')" "world s' = w"
      using h win resp by (simp_all add: s' rx_started_def)
    have wf': "pool_wf (pools s' ! h)"
    proof -
      obtain taken where "fs @ taken = ?fs0" using pr by (auto simp: rx_progress_def)
      then have "mset fs \<subseteq># mset ?fs0" by (metis mset_append mset_subset_eq_add_left)
      also have "mset ?fs0 \<subseteq># all_bufs (pools s ! h)"
        using wf by (intro mset_subset_eqI) (simp add: pool_wf_def all_bufs_def distinct_count_atmost_1
            set_word_range distinct_word_range)
      finally show ?thesis using wf by (simp add: st pool_wf_stack)
    qed
    have fill: "filled x fs' bufs w' s' = rx_started qs h n fs' (rqs'[unat x := (rqs' ! unat x)\<lparr>rx_bufs_in_use := bufs\<rparr>]) w' s"
      for fs' bufs w'
    proof -
      have "rx_pool (rqs' ! unat x) = h" using fr unfolding fresh_rx_def by (metis IgbRxQueue.select_convs)
      then show ?thesis using h by (simp add: filled_def s' rx_started_def Let_def)
    qed
    show "wp (start_rx_queue E x) (after (\<lambda>_. ?I (seen @ [x])) Q) s'"
    proof (rule wp_start_rx_queue [of x s' "rqs' ! unat x" qs h])
      assume np: "\<not> two_power qs"
      then have "seen = []" using tp by simp
      then have "fs = ?fs0" using pr rx_progress_zero by simp
      then show "after (\<lambda>_. ?I (seen @ [x])) Q (Err QueueNotAligned) s'"
        using unaligned [OF np] k by (simp add: s')
    next
      fix fs' bufs w'
      assume a: "two_power qs" "fs' @ rev bufs = free_stack (pools s' ! h)" "length bufs = unat qs"
        and w': "still E (fill_memory E (phys_addr (pools s' ! h)) (rx_descriptors (rqs' ! unat x)) bufs (world s')) w'"
      have "length (rx_descriptors (rqs' ! unat x)) = unat qs" using fr by (simp add: fresh_rx_def)
      then have "rings_posted E (pools s ! h) (Suc (length seen)) (rqs'[length seen := (rqs' ! length seen)\<lparr>rx_bufs_in_use := bufs\<rparr>]) w'"
        using rings_posted_fill [OF _ posted, of bufs w'] k l a(3) w' by (simp add: st x)
      then show "after (\<lambda>_. ?I (seen @ [x])) Q (Val ()) (filled x fs' bufs w' s')"
        using a rx_progress_step [OF pr k, of fs' bufs] by (auto simp: st fill x)
    next
      fix bufs w'
      assume a: "two_power qs" "rev bufs = free_stack (pools s' ! h)" "length bufs < unat qs"
      have "length fs = length bufs" using arg_cong [OF a(2), of length] by (simp add: st)
      then have "length ?fs0 < Suc (length seen) * unat qs" using pr a(3) by (simp add: rx_progress_def)
      also have "\<dots> \<le> n * unat qs" using k by (intro mult_le_mono1) simp
      finally show "after (\<lambda>_. ?I (seen @ [x])) Q (Err NoMemory) (filled x [] bufs w' s')"
        using short [OF a(1)] by (simp add: fill)
    qed (use st wf' h fr k x l n qs in \<open>simp_all add: n_def\<close>)
  next
    fix s' :: "('w, 'c, 'x) drv_scheme"
    assume "?I (word_range (num_rx_queues (dev s))) s'"
    then show "Q (Val ()) s'" using full by (auto simp: n_def)
  qed
qed


lemma wp_start_tx_queues:
  fixes s :: "('w, 'c, 'x) drv_scheme"
  defines "n \<equiv> unat (num_tx_queues (dev s))"
  assumes tqs: "length (tx_queues (dev s)) = n" "\<forall>q \<in> set (tx_queues (dev s)). fresh_tx qs q"
    and win: "window_ok (dev s)" and resp: "device_responds E (dev s)"
    and n: "n \<le> 128" and qs: "qs \<noteq> 0"
    and unaligned: "\<And>w. \<not> two_power qs \<Longrightarrow> 0 < n \<Longrightarrow> Q (Err QueueNotAligned) (s\<lparr>world := w\<rparr>)"
    and started: "\<And>w. two_power qs \<or> n = 0 \<Longrightarrow> still E (world s) w \<Longrightarrow> Q (Val ()) (s\<lparr>world := w\<rparr>)"
  shows "wp (forM (word_range (num_tx_queues (dev s))) (start_tx_queue E)) Q s"
proof -
  let ?I = "\<lambda>seen s'. (two_power qs \<or> seen = []) \<and> (\<exists>w. s' = s\<lparr>world := w\<rparr> \<and> still E (world s) w)"
  show ?thesis
  proof (rule wp_forM [where I = ?I])
    show "?I [] s" by (auto intro: exI [of _ "world s"])
  next
    fix seen x rest and s' :: "('w, 'c, 'x) drv_scheme"
    assume xs: "word_range (num_tx_queues (dev s)) = seen @ x # rest" and I: "?I seen s'"
    obtain w where s': "s' = s\<lparr>world := w\<rparr>" and w: "still E (world s) w" using I by blast
    have "x \<in> set (word_range (num_tx_queues (dev s)))" unfolding xs by simp
    then have x: "unat x < n" by (simp add: set_word_range word_less_nat_alt n_def)
    show "wp (start_tx_queue E x) (after (\<lambda>_. ?I (seen @ [x])) Q) s'"
    proof (rule wp_start_tx_queue [where qs = qs])
      show "fresh_tx qs (tx_queues (dev s') ! unat x)" using x tqs by (simp add: s')
    next
      assume "\<not> two_power qs"
      then show "after (\<lambda>_. ?I (seen @ [x])) Q (Err QueueNotAligned) s'"
        using unaligned x by (simp add: s')
    next
      fix w' assume "two_power qs" "still E (world s') w'"
      then show "after (\<lambda>_. ?I (seen @ [x])) Q (Val ()) (s'\<lparr>world := w'\<rparr>)"
        using still_trans [OF w] by (auto simp: s')
    qed (use x n tqs win resp qs in \<open>auto simp: s' n_def\<close>)
  next
    fix s' :: "('w, 'c, 'x) drv_scheme"
    assume I: "?I (word_range (num_tx_queues (dev s))) s'"
    have "two_power qs \<or> n = 0"
    proof (cases "n = 0")
      case False
      then have "word_range (num_tx_queues (dev s)) \<noteq> []"
        by (metis length_word_range list.size(3) n_def)
      then show ?thesis using I by auto
    qed simp
    then show "Q (Val ()) s'" using started I by auto
  qed
qed

section \<open>The whole sequence\<close>

text \<open>
  The state a successful initialisation leaves: the receive rings are full of buffers taken from
  the pool, the transmit rings are empty.
\<close>

definition initialised ::
  "usize \<Rightarrow> pool_ref \<Rightarrow> usize list \<Rightarrow> IgbRxQueue list \<Rightarrow> IgbTxQueue list \<Rightarrow> 'w \<Rightarrow>
   ('w, 'c, 'x) drv_scheme \<Rightarrow> ('w, 'c, 'x) drv_scheme" where
  "initialised qs h fs rqs tqs w s =
     s\<lparr>world := w, pools := (pools s)[h := (pools s ! h)\<lparr>free_stack := fs\<rparr>],
       dev := (dev s)\<lparr>rx_queues := rqs, tx_queues := tqs\<rparr>\<rparr>"

text \<open>The hypotheses on the platform, the device and the arguments of \<open>init\<close>.\<close>

definition init_ok :: "'w platform \<Rightarrow> usize \<Rightarrow> pool_ref \<Rightarrow> ('w, 'c, 'x) drv_scheme \<Rightarrow> bool" where
  "init_ok E qs h s \<longleftrightarrow> rings_allocate E qs \<and> qs \<noteq> 0 \<and> unat qs * 16 < 2 ^ 64 \<and>
     window_ok (dev s) \<and> device_responds E (dev s) \<and>
     unat (num_rx_queues (dev s)) \<le> 128 \<and> unat (num_tx_queues (dev s)) \<le> 128 \<and>
     rx_queues (dev s) = [] \<and> tx_queues (dev s) = [] \<and>
     h < length (pools s) \<and> pool_wf (pools s ! h)"

lemma reset_and_init_spec:
  fixes s :: "('w, 'c, 'x) drv_scheme"
  defines "nrx \<equiv> unat (num_rx_queues (dev s))" and "ntx \<equiv> unat (num_tx_queues (dev s))"
  assumes ok: "init_ok E qs h s"
    and unaligned: "\<And>rqs tqs w. \<not> two_power qs \<Longrightarrow> 0 < nrx \<or> 0 < ntx \<Longrightarrow>
      Q (Err QueueNotAligned) (initialised qs h (free_stack (pools s ! h)) rqs tqs w s)"
    and short: "\<And>rqs tqs w. two_power qs \<Longrightarrow> length (free_stack (pools s ! h)) < nrx * unat qs \<Longrightarrow>
      Q (Err NoMemory) (initialised qs h [] rqs tqs w s)"
    and full: "\<And>fs rqs tqs w. two_power qs \<or> nrx = 0 \<and> ntx = 0 \<Longrightarrow>
      rx_progress qs h (free_stack (pools s ! h)) nrx nrx fs rqs \<Longrightarrow>
      length tqs = ntx \<Longrightarrow> \<forall>q \<in> set tqs. fresh_tx qs q \<Longrightarrow> rings_posted E (pools s ! h) nrx rqs w \<Longrightarrow>
      Q (Val ()) (initialised qs h fs rqs tqs w s)"
  shows "wp (reset_and_init E qs h) Q s"
proof -
  have E: "rings_allocate E qs" and qs: "qs \<noteq> 0" "unat qs * 16 < 2 ^ 64" and win: "window_ok (dev s)"
    and resp: "device_responds E (dev s)" and n: "nrx \<le> 128" "ntx \<le> 128"
    and empty: "rx_queues (dev s) = []" "tx_queues (dev s) = []"
    and h: "h < length (pools s)" and wf: "pool_wf (pools s ! h)"
    using ok by (simp_all add: init_ok_def nrx_def ntx_def)
  let ?tail = "seqM (clear_interrupts E)
    (seqM (set_flags32 E IGB_CTRL (push_bit 6 0x1 OR 0x00000001 OR 0x00000200 OR 0x00001000 OR 0x00000800))
    (seqM (wait_for_link E) (bindM (get_mac_addr E) (\<lambda>mac. ret ()))))"
  have tail: "only_world E ?tail s'" if "window_ok (dev s')" for s' :: "('w, 'c, 'x) drv_scheme"
    using that by (intro only_world_rules only_world_clear_interrupts only_world_wait_for_link only_world_mac)
      (simp_all add: window_regs)
  have rest: "wp (bindM (getsM (\<lambda>s. num_rx_queues (dev s))) (\<lambda>nrx.
     seqM (forM (word_range nrx) (start_rx_queue E))
    (bindM (getsM (\<lambda>s. num_tx_queues (dev s))) (\<lambda>ntx.
     seqM (forM (word_range ntx) (start_tx_queue E)) ?tail)))) Q
      (s\<lparr>world := w, dev := (dev s)\<lparr>rx_queues := rqs, tx_queues := tqs\<rparr>\<rparr>)"
    if rqs: "length rqs = nrx" "\<forall>q \<in> set rqs. fresh_rx qs h q"
      and tqs: "length tqs = ntx" "\<forall>q \<in> set tqs. fresh_tx qs q" for rqs tqs w
  proof -
    let ?s = "s\<lparr>world := w, dev := (dev s)\<lparr>rx_queues := rqs, tx_queues := tqs\<rparr>\<rparr>"
    have i: "rx_started qs h k fs rqs' w' ?s = initialised qs h fs rqs' tqs w' s" for k fs rqs' w'
      by (simp add: rx_started_def initialised_def)
    have iw: "(initialised qs h fs rqs' tqs w' s)\<lparr>world := w''\<rparr> = initialised qs h fs rqs' tqs w'' s" for fs rqs' w' w''
      by (simp add: initialised_def)
    have ww: "world (initialised qs h fs rqs' tqs w' s) = w'" for fs rqs' w'
      by (simp add: initialised_def)
    have d: "dev (initialised qs h fs rqs' tqs w' s) = (dev s)\<lparr>rx_queues := rqs', tx_queues := tqs\<rparr>" for fs rqs' w'
      by (simp add: initialised_def)
    have "wp (forM (word_range (num_rx_queues (dev ?s))) (start_rx_queue E))
        (after (\<lambda>_. wp (bindM (getsM (\<lambda>s. num_tx_queues (dev s))) (\<lambda>ntx.
          seqM (forM (word_range ntx) (start_tx_queue E)) ?tail)) Q) Q) ?s"
    proof (rule wp_start_rx_queues [where qs = qs and h = h])
      fix rqs' w' assume "\<not> two_power qs" "0 < unat (num_rx_queues (dev ?s))"
      then show "after (\<lambda>_. wp (bindM (getsM (\<lambda>s. num_tx_queues (dev s))) (\<lambda>ntx.
          seqM (forM (word_range ntx) (start_tx_queue E)) ?tail)) Q) Q (Err QueueNotAligned)
          (rx_started qs h (unat (num_rx_queues (dev ?s))) (free_stack (pools ?s ! h)) rqs' w' ?s)"
        using unaligned by (simp add: i nrx_def)
    next
      fix rqs' w' assume "two_power qs" "length (free_stack (pools ?s ! h)) < unat (num_rx_queues (dev ?s)) * unat qs"
      then show "after (\<lambda>_. wp (bindM (getsM (\<lambda>s. num_tx_queues (dev s))) (\<lambda>ntx.
          seqM (forM (word_range ntx) (start_tx_queue E)) ?tail)) Q) Q (Err NoMemory)
          (rx_started qs h (unat (num_rx_queues (dev ?s))) [] rqs' w' ?s)"
        using short by (simp add: i nrx_def)
    next
      fix fs rqs' w'
      assume tp: "two_power qs \<or> unat (num_rx_queues (dev ?s)) = 0"
        and pr: "rx_progress qs h (free_stack (pools ?s ! h)) (unat (num_rx_queues (dev ?s))) (unat (num_rx_queues (dev ?s))) fs rqs'"
        and posted: "rings_posted E (pools ?s ! h) (unat (num_rx_queues (dev ?s))) rqs' w'"
      let ?s' = "initialised qs h fs rqs' tqs w' s"
      have "wp (forM (word_range (num_tx_queues (dev ?s'))) (start_tx_queue E)) (after (\<lambda>_. wp ?tail Q) Q) ?s'"
      proof (rule wp_start_tx_queues [where qs = qs])
        fix w'' assume np: "\<not> two_power qs" and pos: "0 < unat (num_tx_queues (dev ?s'))"
        then have "nrx = 0" using tp by (simp add: nrx_def)
        then have "fs = free_stack (pools s ! h)" using pr rx_progress_zero by (simp add: nrx_def)
        then show "after (\<lambda>_. wp ?tail Q) Q (Err QueueNotAligned) (?s'\<lparr>world := w''\<rparr>)"
          using unaligned [OF np] pos by (simp add: iw d ntx_def)
      next
        fix w'' assume "two_power qs \<or> unat (num_tx_queues (dev ?s')) = 0" and still: "still E (world ?s') w''"
        then have a: "two_power qs \<or> nrx = 0 \<and> ntx = 0" using tp by (auto simp: d nrx_def ntx_def)
        have "wp ?tail Q (initialised qs h fs rqs' tqs w'' s)"
          using full [OF a, of fs rqs' tqs] pr tqs win rings_posted_still [OF rings_posted_still [OF posted]] still
          by (intro only_world_wp [OF tail]) (simp_all add: d iw ww nrx_def)
        then show "after (\<lambda>_. wp ?tail Q) Q (Val ()) (?s'\<lparr>world := w''\<rparr>)" by (simp add: iw)
      qed (use tqs win resp n qs in \<open>simp_all add: d ntx_def\<close>)
      then show "after (\<lambda>_. wp (bindM (getsM (\<lambda>s. num_tx_queues (dev s))) (\<lambda>ntx.
          seqM (forM (word_range ntx) (start_tx_queue E)) ?tail)) Q) Q (Val ())
          (rx_started qs h (unat (num_rx_queues (dev ?s))) fs rqs' w' ?s)"
        by (simp add: i wp_bindM wp_getsM)
    qed (use rqs h wf win resp n qs in \<open>simp_all add: nrx_def\<close>)
    then show ?thesis by (simp add: wp_bindM wp_getsM)
  qed
  show ?thesis
    unfolding reset_and_init_def wait_set_poll
    apply (rule wp_only_world_bind [where E = E], rule only_world_disable_interrupts, simp add: win)
    apply (rule wp_only_world_bind [where E = E], rule only_world_global_reset; simp add: win resp)
    apply (rule wp_only_world_bind [where E = E], rule only_world_wait)
    apply (rule wp_only_world_bind [where E = E], rule only_world_disable_interrupts, simp add: win)
    apply (rule wp_only_world_bind [where E = E], rule only_world_flags, simp add: win window_regs)
    apply (rule wp_only_world_bind [where E = E], rule only_world_poll; use win resp in \<open>simp add: window_regs device_responds_def\<close>)
    apply (rule wp_only_world_bind [where E = E], rule only_world_init_link; simp add: win resp)
    apply (rule wp_only_world_bind [where E = E], rule only_world_reset_stats, simp add: win)
    apply (subst wp_bindM, rule wp_init_rx [OF E qs(2)]; (simp add: win empty n [unfolded nrx_def ntx_def])?)
    apply (subst wp_bindM, rule wp_init_tx [OF E qs(2)]; (simp add: win empty n [unfolded nrx_def ntx_def])?)
    apply (rule rest; simp add: nrx_def ntx_def)
    done
qed


text \<open>
  The invariant of the running driver, established: every buffer was free or with the client
  before, and is now free, with the client or under a receive descriptor.
\<close>

definition heap_complete :: "('w, IgbNetBuf list, 'x) heap_scheme \<Rightarrow> bool" where
  "heap_complete s \<longleftrightarrow> pools s \<noteq> [] \<and> heap_wf s \<and>
     (\<forall>p < length (pools s). heap_share p s = all_bufs (pools s ! p))"

lemma fresh_tx_share: "fresh_tx qs q \<Longrightarrow> tx_share p q = {#}"
  unfolding fresh_tx_def tx_share_def by (metis IgbTxQueue.select_convs(3) option.distinct(1))

lemma fresh_tx_wf: "fresh_tx qs q \<Longrightarrow> ring_size_ok qs \<Longrightarrow> txq_wf q \<and> tx_pool q = None"
  unfolding fresh_tx_def
  by (metis (no_types, lifting) IgbTxQueue.select_convs txq_wf_def txq_in_flight_def ring_dist_self
      list.size(3) rg.size_pos unat_0)

lemma sum_list_zero: "(\<And>x. x \<in> set xs \<Longrightarrow> f x = (0 :: 'a::comm_monoid_add)) \<Longrightarrow> sum_list (map f xs) = 0"
  by (induction xs) simp_all

lemma initialised_inv:
  fixes s :: "('w, IgbNetBuf list, 'x) drv_scheme"
  assumes heap: "heap_complete s" and h: "h < length (pools s)" and qs: "ring_size_ok qs"
    and pr: "rx_progress qs h (free_stack (pools s ! h)) n n fs rqs"
    and tqs: "\<forall>q \<in> set tqs. fresh_tx qs q"
  shows "drv_inv (initialised qs h fs rqs tqs w s)"
proof -
  let ?d = "(dev s)\<lparr>rx_queues := rqs, tx_queues := tqs\<rparr>" and ?fs0 = "free_stack (pools s ! h)"
  have st: "\<forall>q \<in> set rqs. started_rx qs h q" using pr by (auto simp: rx_progress_def in_set_conv_nth)
  have tx0: "sum_list (map (tx_share p) tqs) = {#}" for p
    using tqs fresh_tx_share by (intro sum_list_zero) blast
  have rx: "sum_list (map (rx_share p) rqs) = (if p = h then sum_list (map (\<lambda>q. mset (rx_bufs_in_use q)) rqs) else {#})" for p
  proof (cases "p = h")
    case True
    have "map (rx_share p) rqs = map (\<lambda>q. mset (rx_bufs_in_use q)) rqs"
      using st True by (auto simp: rx_share_def started_rx_def)
    then show ?thesis using True by (simp only: refl if_True)
  next
    case False
    then show ?thesis using st by (auto simp: rx_share_def started_rx_def intro!: sum_list_zero)
  qed
  have sub: "mset fs \<subseteq># all_bufs (pools s ! h)"
  proof -
    have "mset fs \<subseteq># mset ?fs0" using pr unfolding rx_progress_def by (metis mset_subset_eq_add_left)
    also have "\<dots> \<subseteq># heap_share h s" by (simp add: heap_share_def)
    finally show ?thesis using heap h by (simp add: heap_complete_def)
  qed
  have wf: "pool_wf ((pools s ! h)\<lparr>free_stack := fs\<rparr>)"
    using heap h sub by (intro pool_wf_stack) (simp_all add: heap_complete_def heap_wf_def)
  have own: "heap_share p (initialised qs h fs rqs tqs w s) + dev_share p ?d = heap_share p s" if "p < length (pools s)" for p
    using pr h that by (cases "p = h")
      (auto simp: heap_share_def initialised_def dev_share_def tx0 rx rx_progress_def add_ac)
  have "rxq_wf q \<and> rx_pool q = h" if "q \<in> set rqs" for q
    using st that qs rg.size_pos [OF qs] by (simp add: started_rx_def rxq_wf_def)
  then have qwf: "queues_wf (length (pools s)) ?d"
    using fresh_tx_wf [OF _ qs] tqs h by (auto simp: queues_wf_def)
  have "pool_wf ((pools s)[h := (pools s ! h)\<lparr>free_stack := fs\<rparr>] ! p)" if "p < length (pools s)" for p
    using heap wf that by (cases "p = h") (simp_all add: heap_complete_def heap_wf_def)
  then show ?thesis
    using heap qwf own
    by (simp add: drv_inv_def heap_wf_def heap_complete_def initialised_def)
qed


section \<open>init\<close>

definition attach :: "('w, 'c) heap \<Rightarrow> IgbDevice \<Rightarrow> ('w, 'c) drv" where
  "attach h d = \<lparr>world = world h, pools = pools h, client = client h, dev = d\<rparr>"

lemma wp_IgbDevice_init:
  "wp (IgbDevice_init E qs base len nrx ntx pool) Q h =
     wp (reset_and_init E qs pool) (\<lambda>r s. Q (case r of Val _ \<Rightarrow> Val (dev s) | Err e \<Rightarrow> Err e | Panicked p \<Rightarrow> Panicked p)
         \<lparr>world = world s, pools = pools s, client = client s\<rparr>) (attach h (new_device base len nrx ntx))"
  by (auto simp: wp_def IgbDevice_init_def attach_def split: option.splits)

lemma IgbDevice_init_spec:
  fixes h0 :: "('w, IgbNetBuf list) heap"
  assumes ok: "init_ok E qs h (attach h0 (new_device base len nrx ntx))"
    and complete: "heap_complete h0" and small: "qs < 0x10000000"
  shows "wp (IgbDevice_init E qs base len nrx ntx h) (\<lambda>r h'. client h' = client h0 \<and>
     (if \<not> two_power qs \<and> (nrx \<noteq> 0 \<or> ntx \<noteq> 0)
      then r = Err QueueNotAligned \<and> pools h' = pools h0
      else if length (free_stack (pools h0 ! h)) < unat nrx * unat qs
      then r = Err NoMemory \<and> pools h' = (pools h0)[h := (pools h0 ! h)\<lparr>free_stack := []\<rparr>]
      else \<exists>d. r = Val d \<and> (two_power qs \<longrightarrow> drv_inv (attach h' d)) \<and>
        length (rx_queues d) = unat nrx \<and> length (tx_queues d) = unat ntx \<and>
        (\<forall>q \<in> set (rx_queues d). started_rx qs h q) \<and> (\<forall>q \<in> set (tx_queues d). fresh_tx qs q) \<and>
        dev_addr d = base \<and> dev_len d = len \<and> same_shape (pools h0) (pools h') \<and>
        rings_posted E (pools h' ! h) (unat nrx) (rx_queues d) (world h') \<and>
        length (free_stack (pools h' ! h)) + unat nrx * unat qs = length (free_stack (pools h0 ! h)))) h0"
proof -
  let ?s = "attach h0 (new_device base len nrx ntx)"
  have d: "num_rx_queues (dev ?s) = nrx" "num_tx_queues (dev ?s) = ntx" "pools ?s = pools h0"
    "client ?s = client h0" "dev_addr (dev ?s) = base" "dev_len (dev ?s) = len"
    by (simp_all add: attach_def new_device_def)
  have h: "h < length (pools h0)" using ok by (simp add: init_ok_def d)
  have hc: "heap_complete ?s" using complete by (simp add: heap_complete_def heap_wf_def heap_share_def attach_def)
  have drop: "\<lparr>world = world (initialised qs h fs rqs tqs w ?s), pools = pools (initialised qs h fs rqs tqs w ?s),
      client = client (initialised qs h fs rqs tqs w ?s)\<rparr> =
    \<lparr>world = w, pools = (pools h0)[h := (pools h0 ! h)\<lparr>free_stack := fs\<rparr>], client = client h0\<rparr>" for fs rqs tqs w
    by (simp add: initialised_def attach_def)
  have reattach: "attach \<lparr>world = w, pools = (pools h0)[h := (pools h0 ! h)\<lparr>free_stack := fs\<rparr>], client = client h0\<rparr>
      (dev (initialised qs h fs rqs tqs w ?s)) = initialised qs h fs rqs tqs w ?s" for fs rqs tqs w
    by (simp add: initialised_def attach_def)
  have nz: "n \<noteq> 0 \<longleftrightarrow> 0 < unat n" for n :: u16 by (simp add: unat_gt_0)
  show ?thesis unfolding wp_IgbDevice_init
  proof (rule reset_and_init_spec [OF ok, unfolded d], goal_cases)
    case (1 rqs tqs w)
    then show ?case unfolding drop by (simp add: nz)
  next
    case (2 rqs tqs w)
    then show ?case unfolding drop using h by simp
  next
    case (3 fs rqs tqs w)
    have st: "\<forall>q \<in> set rqs. started_rx qs h q" using 3(2) by (auto simp: rx_progress_def in_set_conv_nth)
    have len: "length rqs = unat nrx" "length fs + unat nrx * unat qs = length (free_stack (pools h0 ! h))"
      using 3(2) by (simp_all add: rx_progress_def)
    have inv: "two_power qs \<longrightarrow> drv_inv (initialised qs h fs rqs tqs w ?s)"
      using initialised_inv [OF hc, unfolded d, OF h _ 3(2,4)] small
      by (simp add: ring_size_ok_def two_power_def)
    show ?case using 3 st len h inv unfolding drop
      by (auto simp: reattach) (auto simp: initialised_def attach_def new_device_def unat_eq_zero)
  qed
qed

end
