(* ===== verification/Registers_Spec.thy ===== *)
theory Registers_Spec
  imports Init_Spec
begin

text \<open>
  The registers of a queue, and the device operations that compute with register values: link
  speed, station address, interrupt vectors, and the PHY power-up of \<open>init_link\<close>.
\<close>

section \<open>The registers of the queues\<close>

definition rx_queue_regs :: "u16 \<Rightarrow> u32 list" where
  "rx_queue_regs i = [IGB_RDBAL (ucast i), IGB_RDBAH (ucast i), IGB_RDLEN (ucast i),
     IGB_RDH (ucast i), IGB_RDT (ucast i), IGB_RXDCTL (ucast i)]"

definition tx_queue_regs :: "u16 \<Rightarrow> u32 list" where
  "tx_queue_regs i = [IGB_TDBAL (ucast i), IGB_TDBAH (ucast i), IGB_TDLEN (ucast i),
     IGB_TDH (ucast i), IGB_TDT (ucast i), IGB_TXDCTL (ucast i)]"

definition queue_reg_offsets :: "nat list" where
  "queue_reg_offsets = [0, 4, 8, 0x10, 0x18, 0x28]"

lemma rx_queue_regs_unat:
  assumes "unat i < 128"
  shows "map unat (rx_queue_regs i) = map (\<lambda>r. 0xC000 + unat i * 64 + r) queue_reg_offsets"
  using queue_register [OF assms, where r = "0xC000"] queue_register [OF assms, where r = "0xC004"]
    queue_register [OF assms, where r = "0xC008"] queue_register [OF assms, where r = "0xC010"]
    queue_register [OF assms, where r = "0xC018"] queue_register [OF assms, where r = "0xC028"]
  by (simp add: rx_queue_regs_def queue_reg_offsets_def IGB_RDBAL_def IGB_RDBAH_def IGB_RDLEN_def
      IGB_RDH_def IGB_RDT_def IGB_RXDCTL_def)

lemma tx_queue_regs_unat:
  assumes "unat i < 128"
  shows "map unat (tx_queue_regs i) = map (\<lambda>r. 0xE000 + unat i * 64 + r) queue_reg_offsets"
  using queue_register [OF assms, where r = "0xE000"] queue_register [OF assms, where r = "0xE004"]
    queue_register [OF assms, where r = "0xE008"] queue_register [OF assms, where r = "0xE010"]
    queue_register [OF assms, where r = "0xE018"] queue_register [OF assms, where r = "0xE028"]
  by (simp add: tx_queue_regs_def queue_reg_offsets_def IGB_TDBAL_def IGB_TDBAH_def IGB_TDLEN_def
      IGB_TDH_def IGB_TDT_def IGB_TXDCTL_def)

lemma distinct_by_unat: "distinct (map unat rs) \<Longrightarrow> distinct (rs :: u32 list)"
  by (simp add: distinct_map)

lemma distinct_blocks:
  assumes "distinct offs" and "\<And>r. r \<in> set offs \<Longrightarrow> r < (64 :: nat)"
  shows "distinct (concat (map (\<lambda>i. map (\<lambda>r. b + i * 64 + r) offs) [0..<n]))"
proof (induction n)
  case (Suc n)
  let ?prev = "concat (map (\<lambda>i. map (\<lambda>r. b + i * 64 + r) offs) [0..<n])"
  have "x < b + n * 64" if x: "x \<in> set ?prev" for x
  proof -
    obtain i r where ir: "i < n" "r \<in> set offs" "x = b + i * 64 + r" using x by auto
    have "i * 64 + 64 \<le> n * 64" using ir(1) by simp
    then show ?thesis using ir(3) assms(2) [OF ir(2)] by linarith
  qed
  then have "set ?prev \<inter> set (map (\<lambda>r. b + n * 64 + r) offs) = {}" by fastforce
  moreover have "distinct (map (\<lambda>r. b + n * 64 + r) offs)" using assms(1) by (simp add: distinct_map inj_on_def)
  ultimately have "distinct (?prev @ map (\<lambda>r. b + n * 64 + r) offs)" using Suc by (simp only: distinct_append simp_thms)
  then show ?case by (simp only: upt_Suc le0 if_True map_append concat_append list.map concat.simps append_Nil2)
qed simp

definition all_queue_regs :: "nat \<Rightarrow> u32 list" where
  "all_queue_regs n = concat (map (\<lambda>i. rx_queue_regs (word_of_nat i)) [0..<n]) @
     concat (map (\<lambda>i. tx_queue_regs (word_of_nat i)) [0..<n])"

lemma unat_word_of_nat_128: "i < 128 \<Longrightarrow> unat (word_of_nat i :: u16) = i"
  by (simp add: unat_of_nat take_bit_nat_eq_self)

lemma all_queue_regs_distinct:
  assumes "n \<le> 128"
  shows "distinct (all_queue_regs n)"
proof (rule distinct_by_unat)
  let ?blk = "\<lambda>b. concat (map (\<lambda>i. map (\<lambda>r. b + i * 64 + r) queue_reg_offsets) [0..<n])"
  have offs: "distinct queue_reg_offsets" "\<And>r. r \<in> set queue_reg_offsets \<Longrightarrow> r < 64"
    by (auto simp: queue_reg_offsets_def)
  have "map unat (all_queue_regs n) = ?blk 0xC000 @ ?blk 0xE000"
  proof -
    have "map (\<lambda>i. map unat (rx_queue_regs (word_of_nat i))) [0..<n] =
        map (\<lambda>i. map (\<lambda>r. 0xC000 + i * 64 + r) queue_reg_offsets) [0..<n]"
      by (rule map_cong [OF refl]) (use assms in \<open>simp add: rx_queue_regs_unat unat_word_of_nat_128\<close>)
    moreover have "map (\<lambda>i. map unat (tx_queue_regs (word_of_nat i))) [0..<n] =
        map (\<lambda>i. map (\<lambda>r. 0xE000 + i * 64 + r) queue_reg_offsets) [0..<n]"
      by (rule map_cong [OF refl]) (use assms in \<open>simp add: tx_queue_regs_unat unat_word_of_nat_128\<close>)
    ultimately show ?thesis
      unfolding all_queue_regs_def map_append map_concat map_map comp_def by (simp only:)
  qed
  moreover have "set (?blk 0xC000) \<inter> set (?blk 0xE000) = {}"
  proof -
    have "x < 0xE000" if "x \<in> set (?blk 0xC000)" for x
      using that assms offs(2) by fastforce
    moreover have "0xE000 \<le> x" if "x \<in> set (?blk 0xE000)" for x using that by auto
    ultimately show ?thesis by fastforce
  qed
  ultimately show "distinct (map unat (all_queue_regs n))"
    using distinct_blocks [OF offs, of "0xC000" n] distinct_blocks [OF offs, of "0xE000" n]
    by (simp only: distinct_append simp_thms)
qed

text \<open>One queue more and the receive registers run into the transmit registers.\<close>

lemma queue_regs_collide: "IGB_RDBAL (ucast (128 :: u16)) = IGB_TDBAL (ucast (0 :: u16))"
  by (simp add: IGB_RDBAL_def IGB_TDBAL_def)

section \<open>Link speed, station address\<close>

lemma wp_get_link_speed [wp_simps]:
  assumes "reg_ok (dev s) IGB_STATUS"
  shows "wp (get_link_speed E) Q s =
    (let a = dev_addr (dev s) + ucast IGB_STATUS; st = fst (mmio_read E a (world s)) in
     Q (Val (if \<not> bit st 1 then 0 else if drop_bit 6 st AND 3 = 0 then 10
             else if drop_bit 6 st AND 3 = 1 then 100 else 1000))
       (s\<lparr>world := snd (mmio_read E a (world s))\<rparr>))"
proof -
  have "st AND IGB_LINKS_UP = 0 \<longleftrightarrow> \<not> bit st 1" for st :: u32
    by (simp add: IGB_LINKS_UP_def push_bit_eq_mult and_exp_eq_0_iff_not_bit [of st 1, simplified])
  then show ?thesis using assms by (auto simp: get_link_speed_def wp_simps Let_def)
qed

lemma speed_bits:
  "drop_bit 6 (st :: u32) AND 3 = 0 \<longleftrightarrow> \<not> bit st 6 \<and> \<not> bit st 7"
  "drop_bit 6 (st :: u32) AND 3 = 1 \<longleftrightarrow> bit st 6 \<and> \<not> bit st 7"
proof -
  have "(3 :: u32) = mask 2" by (simp add: mask_eq_exp_minus_1)
  then have d: "drop_bit 6 st AND 3 = take_bit 2 (drop_bit 6 st)" by (simp add: take_bit_eq_mask)
  have b: "bit (take_bit 2 (drop_bit 6 st)) i \<longleftrightarrow> (i = 0 \<and> bit st 6 \<or> i = 1 \<and> bit st 7)" for i
    by (auto simp: bit_simps less_2_cases_iff)
  let ?y = "take_bit 2 (drop_bit 6 st)"
  show "drop_bit 6 st AND 3 = 0 \<longleftrightarrow> \<not> bit st 6 \<and> \<not> bit st 7"
  proof
    assume "drop_bit 6 st AND 3 = 0"
    then show "\<not> bit st 6 \<and> \<not> bit st 7" using b [of 0] b [of 1] unfolding d by simp
  next
    assume "\<not> bit st 6 \<and> \<not> bit st 7"
    then have "?y = 0" by (intro bit_word_eqI) (simp add: b)
    then show "drop_bit 6 st AND 3 = 0" using d by simp
  qed
  show "drop_bit 6 st AND 3 = 1 \<longleftrightarrow> bit st 6 \<and> \<not> bit st 7"
  proof
    assume "drop_bit 6 st AND 3 = 1"
    then show "bit st 6 \<and> \<not> bit st 7" using b [of 0] b [of 1] unfolding d by simp
  next
    assume "bit st 6 \<and> \<not> bit st 7"
    then have "?y = 1" by (intro bit_word_eqI) (simp add: b bit_1_iff)
    then show "drop_bit 6 st AND 3 = 1" using d by simp
  qed
qed

lemma wp_get_mac_addr [wp_simps]:
  assumes "reg_ok (dev s) (IGB_RAL 0)" "reg_ok (dev s) (IGB_RAH 0)"
  shows "wp (get_mac_addr E) Q s =
    (let al = dev_addr (dev s) + ucast (IGB_RAL 0); ah = dev_addr (dev s) + ucast (IGB_RAH 0);
         low = fst (mmio_read E al (world s)); w = snd (mmio_read E al (world s));
         high = fst (mmio_read E ah w) in
     Q (Val (le_bytes 4 low @ le_bytes 2 high)) (s\<lparr>world := snd (mmio_read E ah w)\<rparr>))"
proof -
  have *: "ucast (x AND 0xff) = (ucast x :: u8)" for x :: u32
  proof -
    have m: "(0xff :: u32) = mask 8" by (simp add: mask_eq_exp_minus_1)
    show ?thesis unfolding m take_bit_eq_mask [symmetric] by (rule bit_word_eqI) (auto simp: bit_simps)
  qed
  show ?thesis using assms by (simp add: get_mac_addr_def wp_simps Let_def * le_bytes_def upt_rec)
qed


text \<open>The six bytes of the address, read as a little-endian number.\<close>

lemma mac_value:
  "(le_value (le_bytes 4 low @ le_bytes 2 high) :: u64) = ucast (low :: u32) OR push_bit 32 (ucast (take_bit 16 (high :: u32)))"
  by (rule bit_word_eqI)
    (auto simp: le_value_append le_value_bytes bit_simps dest: bit_imp_le_length)

section \<open>Interrupts\<close>

text \<open>
  The mask register has one bit per queue: with overflow checks the shift panics for the queues
  from 32 on, which \<open>MAX_QUEUES\<close> allows.
\<close>

lemma clear_interrupt_cases:
  assumes "reg_ok (dev s) IGB_IMC" "reg_ok (dev s) IGB_ICR"
  shows "wp (clear_interrupt E i) (\<lambda>r s'.
     if overflow_checks E \<and> 32 \<le> unat i then r = Panicked ArithmeticOverflow \<and> s' = s
     else r = Val () \<and> (\<exists>w. w = mmio_write E (dev_addr (dev s) + ucast IGB_IMC) (push_bit (unat i mod 32) 1) (world s) \<and>
        s' = s\<lparr>world := snd (mmio_read E (dev_addr (dev s) + ucast IGB_ICR) w)\<rparr>)) s"
  using assms by (simp add: clear_interrupt_def wp_simps)

text \<open>\<open>set_ivar\<close> writes one byte of the vector register of a pair of queues.\<close>

definition ivar_index :: "u32 \<Rightarrow> u16 \<Rightarrow> nat" where
  "ivar_index direction queue = 16 * (unat queue mod 2) + 8 * unat direction"

definition ivar_updated :: "nat \<Rightarrow> u32 \<Rightarrow> u32 \<Rightarrow> u32" where
  "ivar_updated index vector old = (old AND NOT (push_bit index 0xFF)) OR push_bit index (vector OR 0x80)"

lemma bit_single:
  assumes "unat (c :: u32) = 2 ^ n" and "n < 32"
  shows "bit c i \<longleftrightarrow> i = n"
proof -
  have "c = word_of_nat (unat c)" by simp
  then have "c = 2 ^ n" unfolding assms(1) by simp
  then show ?thesis using assms(2) by (auto simp: bit_exp_iff)
qed

lemma ivar_bits:
  assumes "vector < 256" and "i < 32"
  shows "bit (ivar_updated index vector old) i \<longleftrightarrow>
    (if index \<le> i \<and> i < index + 8 then i = index + 7 \<or> bit vector (i - index) else bit old i)"
proof -
  have m: "(0xFF :: u32) = mask 8" by (simp add: mask_eq_exp_minus_1)
  have "unat vector < 2 ^ 8" using assms(1) by (simp add: word_less_nat_alt)
  then have "take_bit 8 vector = vector"
    by (simp add: word_unat_eq_iff unsigned_take_bit_eq take_bit_nat_eq_self)
  then have v: "\<not> bit vector k" if "8 \<le> k" for k by (metis bit_take_bit_iff not_less that)
  have h: "bit (0x80 :: u32) k \<longleftrightarrow> k = 7" for k by (rule bit_single) simp_all
  show ?thesis unfolding ivar_updated_def m
    using assms(2) v by (auto simp: bit_simps bit_mask_iff h simp del: bit_numeral_word_iff)
qed

lemma ivar_bits_all:
  assumes "vector < 128" "k + 8 \<le> 32"
  shows "bit (ivar_updated k vector old) i =
    (if k \<le> i \<and> i < k + 8 then i = k + 7 \<or> bit vector (i - k) else bit old i)"
proof (cases "i < 32")
  case True
  have "vector < 256" using assms(1) by (simp add: word_less_nat_alt)
  then show ?thesis by (rule ivar_bits [OF _ True])
next
  case False
  then show ?thesis using assms(2) bit_imp_le_length [of "ivar_updated k vector old" i] bit_imp_le_length [of old i] by auto
qed

lemma wp_set_ivar [wp_simps]:
  assumes "direction \<le> 1" and "reg_ok (dev s) (IGB_IVAR (drop_bit 1 (ucast queue)))"
  shows "wp (set_ivar E direction queue vector) Q s =
    (let a = dev_addr (dev s) + ucast (IGB_IVAR (drop_bit 1 (ucast queue)));
         old = fst (mmio_read E a (world s)); w = snd (mmio_read E a (world s)) in
     Q (Val ()) (s\<lparr>world := mmio_write E a (ivar_updated (ivar_index direction queue) vector old) w\<rparr>))"
proof -
  have d: "unat direction \<le> 1" using assms(1) by (simp add: word_le_nat_alt)
  have e: "unat (8 * direction) = 8 * unat direction"
    using d by (subst unat_mult_no_wrap) simp_all
  have q: "ucast queue AND (1 :: u32) = word_of_nat (unat queue mod 2)"
  proof -
    have "bit (ucast queue :: u32) 0 \<longleftrightarrow> bit (unat queue) 0" by (simp add: bit_simps)
    then have "odd (ucast queue :: u32) \<longleftrightarrow> odd (unat queue)" by (simp add: bit_0)
    then show ?thesis by (cases "even (unat queue)") (simp_all add: and_one_eq odd_iff_mod_2_eq_one)
  qed
  have m: "unat queue mod 2 < 2" by simp
  have f: "unat (16 * (word_of_nat (unat queue mod 2) :: u32)) = 16 * (unat queue mod 2)"
    using m by (subst unat_mult_no_wrap) (simp_all add: unat_of_nat take_bit_nat_eq_self)
  have g: "unat (16 * (word_of_nat (unat queue mod 2) :: u32) + 8 * direction) = ivar_index direction queue"
    using m d by (subst unat_add_no_wrap) (simp_all add: e f ivar_index_def)
  have "ivar_index direction queue < 32" using m d by (simp add: ivar_index_def)
  moreover have "\<not> 4294967296 \<le> 16 * (unat queue mod 2) + 8 * unat direction" using m d by linarith
  ultimately show ?thesis
    using assms(2) d
    by (simp add: set_ivar_def wp_bindM wp_mul_ov wp_add_ov q f e g wp_get_reg32 wp_set_reg32 wp_shl_ov
        ivar_updated_def Let_def IGB_IVAR_ALLOC_VAL_def)
qed

section \<open>Power-up of the PHY\<close>

text \<open>
  A device whose management register reads \<open>mdic w\<close>, ready at every read. The word that
  \<open>init_link\<close> finally writes is built on top of the word it has read: clearing the
  power-down bit, bit 11, in the copy has no effect on what is written.
\<close>

definition mdic_ready :: "'w platform \<Rightarrow> usize \<Rightarrow> ('w \<Rightarrow> u32) \<Rightarrow> bool" where
  "mdic_ready E a mdic \<longleftrightarrow> (\<forall>w. mmio_read E a w = (mdic w, w) \<and> mdic w AND READY = READY)"

definition power_up_word :: "u32 \<Rightarrow> u32" where
  "power_up_word v = v OR (push_bit 21 1 OR ucast ((ucast v :: u16) AND NOT 0x0800) OR OP_WRITE)"

lemma wp_wait_ready:
  assumes "reg_ok (dev s) IGB_MDIC" and "mdic_ready E (dev_addr (dev s) + ucast IGB_MDIC) mdic"
  shows "wp (wait_set_reg32 E IGB_MDIC READY) Q s = Q (Val ()) s"
  using assms unfolding wait_set_reg32_def mdic_ready_def
  by (subst loopM_unfold) (simp add: wp_simps)

lemma wp_init_link:
  assumes "reg_ok (dev s) IGB_MDIC" and a: "a = dev_addr (dev s) + ucast IGB_MDIC" and "mdic_ready E a mdic"
  shows "wp (init_link E) Q s =
    (let w = mmio_write E a (mdic (world s) OR READ) (world s) in
     Q (Val ()) (s\<lparr>world := mmio_write E a (power_up_word (mdic w)) w\<rparr>))"
  using assms unfolding init_link_def
  by (simp add: wp_simps wp_wait_ready [where mdic = mdic] mdic_ready_def set_flags32_def power_up_word_def Let_def)

lemma power_up_word_bits:
  "i < 32 \<Longrightarrow> bit (power_up_word v) i \<longleftrightarrow> bit v i \<or> i = 21 \<or> i = 26"
  using bit_single [of 2097152 21 i] bit_single [of 67108864 26 i]
  unfolding power_up_word_def OP_WRITE_def
  by (auto simp: bit_simps simp del: bit_numeral_word_iff)

section \<open>Bit times\<close>

lemma bt2kb_large:
  assumes "unat bt < 2 ^ 24"
  shows "1048576 * ((unat bt + 8191) div 8192) \<le> unat (IGB_BT2KB bt)"
proof -
  have a: "unat (bt + 8191) = unat bt + 8191" using assms by (subst unat_add_no_wrap) simp_all
  then have d: "unat ((bt + 8191) div 8) = (unat bt + 8191) div 8" by (simp add: unat_div)
  then have "unat (IGB_BT2KB bt) = (unat bt + 8191) div 8 * 1024"
    unfolding IGB_BT2KB_def using assms by (subst unat_mult_no_wrap) simp_all
  moreover have "(unat bt + 8191) div 8192 = (unat bt + 8191) div 8 div 1024" by (simp add: div_mult2_eq [symmetric])
  ultimately show ?thesis using div_times_less_eq_dividend [of "(unat bt + 8191) div 8" 1024] by simp
qed

end
