(* ===== verification/Rx_Batch.thy ===== *)
theory Rx_Batch
  imports Rx_Spec
begin

text \<open>
  A whole receive in ordinary memory, for a closure that keeps its packets: what
  \<open>receive_packets\<close> computes, as a recursive function without device, queue or state.
\<close>

section \<open>The reference function\<close>

text \<open>
  From ring slot \<open>c\<close> on, with the free stack \<open>fs\<close>, the buffers \<open>bufs\<close> under the descriptors and
  memory \<open>w\<close>: the packets received, and the stack, buffers and memory afterwards. \<open>None\<close> stands
  for a frame that spans descriptors.
\<close>

primrec rx_batch :: "'w platform \<Rightarrow> MemPool \<Rightarrow> IgbRxQueue \<Rightarrow> nat \<Rightarrow> usize \<Rightarrow> usize list \<Rightarrow> usize list \<Rightarrow> 'w \<Rightarrow>
    (IgbNetBuf list \<times> usize list \<times> usize list \<times> 'w) option" where
  "rx_batch E p q 0 c fs bufs w = Some ([], fs, bufs, w)"
| "rx_batch E p q (Suc n) c fs bufs w =
     (let desc = rx_descriptors q ! unat c; st = load_le E 8 (desc + 8) w :: u64 in
      if \<not> bit st 0 then Some ([], fs, bufs, w)
      else if \<not> bit st 1 then None
      else if fs = [] then Some ([], fs, bufs, w)
      else map_option (apfst (Cons (rx_packet p (rx_pool q) (take_bit 15 (drop_bit 32 st)) (bufs ! unat c))))
        (rx_batch E p q n (ring_next (rx_num_descriptors q) c) (butlast fs) (bufs[unat c := last fs])
          (store_le E 8 (desc + 8) (0 :: u64) (store_le E 8 desc (phys_addr p ! unat (last fs)) w))))"

lemma rx_batch_length: "rx_batch E p q n c fs bufs w = Some (pkts, r) \<Longrightarrow> length pkts \<le> n"
  by (induction n arbitrary: c fs bufs w pkts r) (auto simp: Let_def apfst_def split: if_splits)

section \<open>The state in the middle of a receive\<close>

definition rx_at ::
  "u16 \<Rightarrow> MemPool \<Rightarrow> IgbRxQueue \<Rightarrow> ('w, IgbNetBuf list, 'x) drv_scheme \<Rightarrow>
   IgbNetBuf list \<Rightarrow> usize list \<Rightarrow> usize list \<Rightarrow> 'w \<Rightarrow> ('w, IgbNetBuf list, 'x) drv_scheme" where
  "rx_at i p q s cl fs bufs w = s\<lparr>world := w, pools := (pools s)[rx_pool q := p\<lparr>free_stack := fs\<rparr>],
     client := cl, dev := (dev s)\<lparr>rx_queues := (rx_queues (dev s))[unat i := q\<lparr>rx_bufs_in_use := bufs\<rparr>]\<rparr>\<rparr>"

definition rx_ready :: "u16 \<Rightarrow> MemPool \<Rightarrow> IgbRxQueue \<Rightarrow> ('w, IgbNetBuf list, 'x) drv_scheme \<Rightarrow> usize list \<Rightarrow> usize list \<Rightarrow> bool" where
  "rx_ready i p q s fs bufs \<longleftrightarrow> unat i < length (rx_queues (dev s)) \<and> rx_pool q < length (pools s) \<and>
     pool_wf (p\<lparr>free_stack := fs\<rparr>) \<and> (\<forall>b \<in> set bufs. b < num_entries p) \<and> ring_size_ok (rx_num_descriptors q) \<and>
     length bufs = unat (rx_num_descriptors q) \<and> length (rx_descriptors q) = unat (rx_num_descriptors q)"

lemma rx_ready_step:
  assumes "rx_ready i p q s fs bufs" and "fs \<noteq> []"
  shows "rx_ready i p q s (butlast fs) (bufs[unat c := last fs])" and "last fs < num_entries p"
proof -
  have wf: "pool_wf (p\<lparr>free_stack := fs\<rparr>)" using assms(1) by (simp add: rx_ready_def)
  show new: "last fs < num_entries p" using wf assms(2) by (simp add: pool_wf_def)
  have "pool_wf (p\<lparr>free_stack := butlast fs\<rparr>)"
    using pool_alloc_wf [OF wf] assms(2) by (simp add: pool_alloc_buf_def)
  then show "rx_ready i p q s (butlast fs) (bufs[unat c := last fs])"
    using assms(1) new set_update_subset_insert [of bufs "unat c" "last fs"] by (auto simp: rx_ready_def)
qed

text \<open>One pass of the loop, on a descriptor that is idle, that splits a frame, or that is complete.\<close>

lemma rx_batch_pass:
  fixes s :: "('w, IgbNetBuf list, 'x) drv_scheme"
  assumes E: "plain_memory E" "bit_field_crate E" and ok: "rx_ready i p q s fs bufs"
    and c: "unat c < unat (rx_num_descriptors q)" and cnt: "unat cnt + 1 < 2 ^ 64"
    and desc: "desc = rx_descriptors q ! unat c" and st: "st = (load_le E 8 (desc + 8) w :: u64)"
  shows "wp (receive_loop E i keep_packet (Suc n) (c, l, cnt)) Q (rx_at i p q s cl fs bufs w) =
    (if \<not> bit st 0 then Q (Val (c, l, cnt)) (rx_at i p q s cl fs bufs w)
     else if \<not> bit st 1 then Q (Panicked IncreaseBufferSize) (rx_at i p q s cl fs bufs w)
     else if fs = [] then Q (Val (c, l, cnt)) (rx_at i p q s cl fs bufs w)
     else wp (receive_loop E i keep_packet n (ring_next (rx_num_descriptors q) c, c, cnt + 1)) Q
       (rx_at i p q s (cl @ [rx_packet p (rx_pool q) (take_bit 15 (drop_bit 32 st)) (bufs ! unat c)])
          (butlast fs) (bufs[unat c := last fs])
          (store_le E 8 (desc + 8) (0 :: u64) (store_le E 8 desc (phys_addr p ! unat (last fs)) w))))"
proof -
  have v: "volatile_read64 E a w = (load_le E 8 a w, w)" "volatile_write64 E a x = store_le E 8 a x" for a w x
    using E(1) by (simp_all add: plain_memory_def)
  have dd: "(ucast (get_bits E st 0 19) :: u8) AND RX_STATUS_DD = 0 \<longleftrightarrow> \<not> bit st 0"
    "(ucast (get_bits E st 0 19) :: u8) AND RX_STATUS_EOP = 0 \<longleftrightarrow> \<not> bit st 1"
    using status_bit [OF E(2), of 0 st] status_bit [OF E(2), of 1 st]
    by (simp_all add: RX_STATUS_DD_def RX_STATUS_EOP_def)
  have ln: "get_bits E st 32 47 = take_bit 15 (drop_bit 32 st)" using E(2) by (simp add: bit_field_crate_def)
  have r: "unat i < length (rx_queues (dev s))" "rx_pool q < length (pools s)" "ring_size_ok (rx_num_descriptors q)"
    "unat c < length (rx_descriptors q)" "unat c < length bufs"
    using ok c by (simp_all add: rx_ready_def)
  have old: "bufs ! unat c < num_entries p" using ok r(5) by (simp add: rx_ready_def)
  consider "\<not> bit st 0" | "bit st 0" "\<not> bit st 1" | "bit st 0" "bit st 1" "fs = []" | "bit st 0" "bit st 1" "fs \<noteq> []"
    by blast
  then show ?thesis
  proof cases
    case 4
    have wf: "pool_wf (p\<lparr>free_stack := butlast fs\<rparr>)"
      using rx_ready_step(1) [OF ok 4(3), of c] by (simp add: rx_ready_def)
    show ?thesis using 4 r c cnt old rx_ready_step(2) [OF ok 4(3)] wf
      by (simp add: rx_at_def receive_loop.simps wp_simps v desc [symmetric] st [symmetric] dd ln Let_def
          set_packet_address_def reset_status_def rx_packet_def descriptor_offsets update_order)
  qed (use r in \<open>simp_all add: rx_at_def receive_loop.simps wp_simps v desc [symmetric] st [symmetric] dd Let_def update_order\<close>)
qed

section \<open>The loop and the reference function\<close>

definition rx_batch_result ::
  "u16 \<Rightarrow> MemPool \<Rightarrow> IgbRxQueue \<Rightarrow> ('w, IgbNetBuf list, 'x) drv_scheme \<Rightarrow> IgbNetBuf list \<Rightarrow>
   usize \<times> usize \<times> usize \<Rightarrow> (IgbNetBuf list \<times> usize list \<times> usize list \<times> 'w) option \<Rightarrow>
   (usize \<times> usize \<times> usize) outcome \<Rightarrow> ('w, IgbNetBuf list, 'x) drv_scheme \<Rightarrow> bool" where
  "rx_batch_result i p q s cl vars res r s' = (case res of
      None \<Rightarrow> r = Panicked IncreaseBufferSize
    | Some (pkts, fs, bufs, w) \<Rightarrow>
        r = Val (if pkts = [] then vars else
          (rx_slot q (fst vars) (length pkts), rx_slot q (fst vars) (length pkts - 1), snd (snd vars) + word_of_nat (length pkts))) \<and>
        s' = rx_at i p q s (cl @ pkts) fs bufs w)"

lemma rx_batch_result_step:
  assumes "rx_batch_result i p q s (cl @ [pkt]) (ring_next (rx_num_descriptors q) c, c, cnt + 1) res r s'"
  shows "rx_batch_result i p q s cl (c, l, cnt) (map_option (apfst (Cons pkt)) res) r s'"
proof (cases res)
  case None
  then show ?thesis using assms by (simp add: rx_batch_result_def)
next
  case (Some x)
  obtain pkts fs bufs w where x: "x = (pkts, fs, bufs, w)" by (cases x)
  have slot: "rx_slot q (ring_next (rx_num_descriptors q) c) k = rx_slot q c (Suc k)" for k
    by (simp add: rx_slot_def funpow_swap1)
  show ?thesis using assms
    by (cases pkts) (simp_all add: rx_batch_result_def Some x slot, simp_all add: rx_slot_def)
qed

lemma rx_batch_loop:
  fixes s :: "('w, IgbNetBuf list, 'x) drv_scheme"
  assumes E: "plain_memory E" "bit_field_crate E" and "rx_ready i p q s fs bufs"
    and "unat c < unat (rx_num_descriptors q)" and "unat cnt + n < 2 ^ 64"
  shows "wp (receive_loop E i keep_packet n (c, l, cnt))
    (rx_batch_result i p q s cl (c, l, cnt) (rx_batch E p q n c fs bufs w)) (rx_at i p q s cl fs bufs w)"
  using assms(3-5)
proof (induction n arbitrary: c l cnt cl fs bufs w)
  case 0
  then show ?case by (simp add: receive_loop.simps wp_simps rx_batch_result_def)
next
  case (Suc n)
  let ?desc = "rx_descriptors q ! unat c"
  let ?st = "load_le E 8 (?desc + 8) w :: u64"
  let ?R = "rx_batch_result i p q s cl (c, l, cnt) (rx_batch E p q (Suc n) c fs bufs w)"
  have cnt: "unat cnt + 1 < 2 ^ 64" using Suc.prems(3) by simp
  let ?next = "ring_next (rx_num_descriptors q) c"
  have nx: "unat ?next < unat (rx_num_descriptors q)"
    using Suc.prems(1,2) rg.next_bound by (simp add: rx_ready_def)
  have cnt': "unat (cnt + 1) + n < 2 ^ 64" using Suc.prems(3) by (subst unat_add_no_wrap) simp_all
  have go: "wp (receive_loop E i keep_packet n (?next, c, cnt + 1)) ?R
      (rx_at i p q s (cl @ [rx_packet p (rx_pool q) (take_bit 15 (drop_bit 32 ?st)) (bufs ! unat c)])
          (butlast fs) (bufs[unat c := last fs])
          (store_le E 8 (?desc + 8) (0 :: u64) (store_le E 8 ?desc (phys_addr p ! unat (last fs)) w)))"
    if fin: "bit ?st 0" "bit ?st 1" "fs \<noteq> []"
  proof (rule wp_mono [OF Suc.IH [OF rx_ready_step(1) [OF Suc.prems(1) fin(3)] nx cnt']])
    fix r s'
    let ?pkt = "rx_packet p (rx_pool q) (take_bit 15 (drop_bit 32 ?st)) (bufs ! unat c)"
    let ?res = "rx_batch E p q n ?next (butlast fs) (bufs[unat c := last fs])
      (store_le E 8 (?desc + 8) (0 :: u64) (store_le E 8 ?desc (phys_addr p ! unat (last fs)) w))"
    assume "rx_batch_result i p q s (cl @ [?pkt]) (?next, c, cnt + 1) ?res r s'"
    then have "rx_batch_result i p q s cl (c, l, cnt) (map_option (apfst (Cons ?pkt)) ?res) r s'"
      by (rule rx_batch_result_step)
    moreover have "rx_batch E p q (Suc n) c fs bufs w = map_option (apfst (Cons ?pkt)) ?res"
      using fin by (simp add: Let_def)
    ultimately show "?R r s'" by (simp only:)
  qed
  show ?case unfolding rx_batch_pass [OF E Suc.prems(1,2) cnt refl refl]
    using go by (auto simp: rx_batch_result_def Let_def)
qed

section \<open>receive_packets\<close>

text \<open>
  What \<open>receive_packets\<close> does with the result: unless there was no packet, the tail register gets
  the last slot consumed and \<open>rx_index\<close> the one after it.
\<close>

definition rx_received ::
  "'w platform \<Rightarrow> u16 \<Rightarrow> IgbRxQueue \<Rightarrow> ('w, IgbNetBuf list, 'x) drv_scheme \<Rightarrow>
   IgbNetBuf list \<times> usize list \<times> usize list \<times> 'w \<Rightarrow> ('w, IgbNetBuf list, 'x) drv_scheme" where
  "rx_received E i q s = (\<lambda>(pkts, fs, bufs, w). s\<lparr>
     world := (if pkts = [] then w else mmio_write E (dev_addr (dev s) + ucast (IGB_RDT (ucast i)))
       (ucast (rx_slot q (rx_index q) (length pkts - 1))) w),
     pools := (pools s)[rx_pool q := (pools s ! rx_pool q)\<lparr>free_stack := fs\<rparr>],
     client := client s @ pkts,
     dev := (dev s)\<lparr>rx_queues := (rx_queues (dev s))[unat i :=
       q\<lparr>rx_bufs_in_use := bufs, rx_index := rx_slot q (rx_index q) (length pkts)\<rparr>]\<rparr>\<rparr>)"

lemma receive_batch:
  fixes s :: "('w, IgbNetBuf list, 'x) drv_scheme"
  assumes inv: "drv_inv s" and i: "unat i < length (rx_queues (dev s))"
    and q: "q = rx_queues (dev s) ! unat i" and big: "1 < unat (rx_num_descriptors q)"
    and reg: "reg_ok (dev s) (IGB_RDT (ucast i))" and E: "plain_memory E" "bit_field_crate E"
    and first: "bit (load_le E 8 (rx_descriptors q ! unat (rx_index q) + 8) (world s) :: u64) 0"
  shows "case rx_batch E (pools s ! rx_pool q) q (unat m) (rx_index q)
      (free_stack (pools s ! rx_pool q)) (rx_bufs_in_use q) (world s) of
    None \<Rightarrow> \<exists>s'. receive_packets E i m keep_packet s = Some (Panicked IncreaseBufferSize, s')
  | Some res \<Rightarrow> receive_packets E i m keep_packet s = Some (Val (word_of_nat (length (fst res))), rx_received E i q s res)"
proof -
  let ?p = "pools s ! rx_pool q" and ?c = "rx_index q" and ?n = "rx_num_descriptors q"
  let ?res = "rx_batch E ?p q (unat m) ?c (free_stack ?p) (rx_bufs_in_use q) (world s)"
  have h: "rx_pool q < length (pools s)" using drv_inv_rx(2) [OF inv i] by (simp add: q)
  have wfq: "rxq_wf q" using drv_inv_rx(1) [OF inv i] by (simp add: q)
  then have n: "ring_size_ok ?n" and c: "unat ?c < unat ?n" and len: "unat ?c < length (rx_descriptors q)"
    by (simp_all add: rxq_wf_def)
  have ready: "rx_ready i ?p q s (free_stack ?p) (rx_bufs_in_use q)"
    using i h wfq rx_bufs_member [OF inv i q] drv_inv_pool [OF inv h] by (simp add: rx_ready_def rxq_wf_def)
  have start: "rx_at i ?p q s (client s) (free_stack ?p) (rx_bufs_in_use q) (world s) = s"
    using i h by (simp add: rx_at_def q)
  have v: "volatile_read64 E a w = (load_le E 8 a w, w)" for a w
    using E(1) by (simp add: plain_memory_def)
  have dd: "(ucast (get_bits E (load_le E 8 (rx_descriptors q ! unat ?c + 8) (world s)) 0 19) :: u8) AND RX_STATUS_DD \<noteq> 0"
    using status_bit [OF E(2), of 0] first by (simp add: RX_STATUS_DD_def)
  have slot: "unat (rx_slot q ?c j) < unat ?n" for j
    using rg.iterate [OF n c] c by (simp add: rx_slot_def)
  have nx: "rx_slot q ?c (length pkts) \<noteq> rx_slot q ?c (length pkts - 1)" if "pkts \<noteq> []" for pkts :: "IgbNetBuf list"
    using that rg.next_neq [OF n big slot] by (cases pkts) (simp_all add: rx_slot_def)
  let ?Q = "\<lambda>r s'. case ?res of None \<Rightarrow> r = Panicked IncreaseBufferSize
    | Some res \<Rightarrow> r = Val (word_of_nat (length (fst res))) \<and> s' = rx_received E i q s res"
  have run: "wp (receive_packets E i m keep_packet) R s = wp (receive_loop E i keep_packet (unat m) (?c, ?c, 0))
       (after (\<lambda>x. wp (case x of (c', l', cnt) \<Rightarrow> seqM (if c' \<noteq> l' then seqM (set_reg32 E (IGB_RDT (ucast i)) (ucast l'))
             (bindM (rx_queue_at i) (\<lambda>queue. set_rx_queue i (queue\<lparr>rx_index := c'\<rparr>))) else ret ()) (ret cnt)) R) R) s" for R
    using i len dd by (simp add: receive_packets_def can_recv_def wp_simps q [symmetric] v Let_def)
  have "wp (receive_packets E i m keep_packet) ?Q s" unfolding run
  proof (rule wp_mono)
    have "unat (0 :: usize) + unat m < 2 ^ 64" using unsigned_less [of m] by simp
    from rx_batch_loop [OF E ready c this, of ?c "client s" "world s"]
    show "wp (receive_loop E i keep_packet (unat m) (?c, ?c, 0)) (rx_batch_result i ?p q s (client s) (?c, ?c, 0) ?res) s"
      unfolding start .
  next
    fix r s' assume a: "rx_batch_result i ?p q s (client s) (?c, ?c, 0) ?res r s'"
    show "after (\<lambda>x. wp (case x of (c', l', cnt) \<Rightarrow> seqM (if c' \<noteq> l' then seqM (set_reg32 E (IGB_RDT (ucast i)) (ucast l'))
             (bindM (rx_queue_at i) (\<lambda>queue. set_rx_queue i (queue\<lparr>rx_index := c'\<rparr>))) else ret ()) (ret cnt)) ?Q) ?Q r s'"
    proof (cases ?res)
      case None
      then show ?thesis using a by (simp add: rx_batch_result_def)
    next
      case (Some x)
      obtain pkts fs bufs w where x: "x = (pkts, fs, bufs, w)" by (cases x)
      have reg': "reg_ok ((dev s)\<lparr>rx_queues := qs\<rparr>) (IGB_RDT (ucast i))" for qs using reg by (simp add: reg_ok_def)
      show ?thesis using a i nx [of pkts] reg'
        by (cases "pkts = []") (simp_all add: rx_batch_result_def Some x rx_received_def rx_at_def wp_simps update_order, simp_all add: rx_slot_def)
    qed
  qed
  then show ?thesis by (cases ?res) (auto elim: wpE)
qed

section \<open>One packet\<close>

text \<open>
  One packet, in ordinary memory: the client gets the buffer that was under the descriptor, with
  the length the device has written; the descriptor gets the buffer on top of the pool's stack
  and a cleared status; the tail register gets the descriptor's slot.
\<close>

lemma receive_one:
  fixes s :: "('w, IgbNetBuf list, 'x) drv_scheme"
  assumes inv: "drv_inv s" and i: "unat i < length (rx_queues (dev s))"
    and q: "q = rx_queues (dev s) ! unat i" and big: "1 < unat (rx_num_descriptors q)"
    and reg: "reg_ok (dev s) (IGB_RDT (ucast i))"
    and E: "plain_memory E" "bit_field_crate E"
    and desc: "desc = rx_descriptors q ! unat (rx_index q)"
    and st: "st = load_le E 8 (desc + 8) (world s)" and fin: "bit st 0" "bit st 1"
    and p: "p = pools s ! rx_pool q" and ne: "free_stack p \<noteq> []"
    and old: "old = rx_bufs_in_use q ! unat (rx_index q)" and new: "new = last (free_stack p)"
  shows "receive_packets E i 1 keep_packet s = Some (Val 1,
    s\<lparr>client := client s @ [rx_packet p (rx_pool q) (take_bit 15 (drop_bit 32 st)) old],
      pools := (pools s)[rx_pool q := p\<lparr>free_stack := butlast (free_stack p)\<rparr>],
      dev := (dev s)\<lparr>rx_queues := (rx_queues (dev s))[unat i :=
        q\<lparr>rx_bufs_in_use := (rx_bufs_in_use q)[unat (rx_index q) := new],
          rx_index := ring_next (rx_num_descriptors q) (rx_index q)\<rparr>]\<rparr>,
      world := mmio_write E (dev_addr (dev s) + ucast (IGB_RDT (ucast i))) (ucast (rx_index q))
        (store_le E 8 (desc + 8) (0 :: u64)
          (store_le E 8 desc (phys_addr p ! unat new) (world s)))\<rparr>)" (is "_ = Some (Val 1, ?s')")
proof -
  let ?n = "rx_num_descriptors q" and ?c = "rx_index q"
  have "bit (load_le E 8 (rx_descriptors q ! unat ?c + 8) (world s) :: u64) 0" using fin(1) by (simp add: st desc)
  from receive_batch [OF inv i q big reg E this, of 1]
  show ?thesis using fin ne
    by (simp add: Let_def desc [symmetric] st [symmetric] p [symmetric] rx_received_def rx_slot_def old new)
qed

end
