(* ===== verification/Client_Spec.thy ===== *)
theory Client_Spec
  imports Registers_Spec Rx_Batch
begin

text \<open>
  Consequences for a client that combine the components: a freshly initialised driver satisfies
  the invariant of the running one; the batch size of the transmit clean-up; a transmit queue
  that changes its pool; packets made by hand; entries smaller than the headroom.
\<close>

section \<open>From init to the running driver\<close>

lemma window_config_ok:
  assumes "window_ok d" "length (rx_queues d) \<le> 128" "length (tx_queues d) \<le> 128"
    and "\<forall>q \<in> set (rx_queues d). 1 < unat (rx_num_descriptors q)"
  shows "config_ok d"
  using assms window_queue_regs(5,11) [OF assms(1)] by (auto simp: config_ok_def)

lemma initialised_nic_inv:
  fixes h0 :: "('w, IgbNetBuf list) heap"
  assumes ok: "init_ok E qs h (attach h0 (new_device base len nrx ntx))"
    and complete: "heap_complete h0" and qs: "two_power qs" "1 < unat qs" "qs < 0x10000000"
    and d: "IgbDevice_init E qs base len nrx ntx h h0 = Some (Val d, h')"
  shows "nic_inv (attach h' d)"
proof -
  have "drv_inv (attach h' d) \<and> length (rx_queues d) = unat nrx \<and> length (tx_queues d) = unat ntx \<and>
      (\<forall>q \<in> set (rx_queues d). started_rx qs h q) \<and> dev_addr d = base \<and> dev_len d = len"
    using wpD [OF IgbDevice_init_spec [OF ok complete qs(3)] d] qs(1) by (auto split: if_splits)
  moreover have "window_ok (new_device base len nrx ntx)" "unat nrx \<le> 128" "unat ntx \<le> 128"
    using ok by (simp_all add: init_ok_def attach_def new_device_def)
  ultimately have "drv_inv (attach h' d)" "config_ok d"
    using qs(2) by (auto intro!: window_config_ok simp: window_ok_def new_device_def started_rx_def)
  then show ?thesis by (simp add: nic_inv_def attach_def)
qed

section \<open>Batches\<close>

text \<open>With fewer than 32 buffers in flight \<open>recycle_tx_buffers\<close> does nothing at all.\<close>

lemma recycle_few:
  fixes s :: "('w, 'c, 'x) drv_scheme"
  assumes i: "unat i < length (tx_queues (dev s))" and q: "q = tx_queues (dev s) ! unat i"
    and wf: "txq_wf q" and few: "length (tx_bufs_in_use q) < 32"
    and p: "tx_bufs_in_use q \<noteq> [] \<Longrightarrow> tx_pool q = Some p" and p': "p < length (pools s)"
  shows "recycle_tx_buffers E i s = Some (Val (), s)"
proof -
  have "(0, world s) = clean_batches E q (length (tx_bufs_in_use q) div 32) 0 (world s)" using few by simp
  from recycle_tx_buffers_spec [OF i q wf p p' this] show ?thesis
    by (simp add: recycled_def Let_def pool_extend_def txq_advance_def q)
qed

text \<open>Send and recycle together: first in, first out; a full small ring stays full.\<close>

lemma send_then_recycle:
  fixes s :: "('w, IgbNetBuf list, 'x) drv_scheme"
  assumes inv: "drv_inv (s\<lparr>client := b # client s\<rparr>)" and i: "unat i < length (tx_queues (dev s))"
    and q: "q = tx_queues (dev s) ! unat i"
    and one: "one_pool q b" and reg: "reg_ok (dev s) (IGB_TDT (ucast i))"
    and sent: "send E i b s = Some (Val (), s1)" and rec: "recycle_tx_buffers E i s1 = Some (r, s2)"
  shows "\<exists>k. 32 dvd k \<and> tx_bufs_in_use (tx_queues (dev s2) ! unat i) = drop k (tx_bufs_in_use q @ [pool_entry b])"
proof -
  have wf: "txq_wf q" using drv_inv_tx(1) [OF inv] i by (simp add: q)
  have room: "length (tx_bufs_in_use q) + 1 < unat (tx_num_descriptors q)"
  proof (rule ccontr)
    assume "\<not> ?thesis"
    then show False using send_full [OF i _ _ drop_inv(1) [OF inv]] wf sent by (simp add: q)
  qed
  have s1: "s1 = sent_state E i b s" using send_room [OF i q wf room reg] sent by simp
  let ?q = "txq_push (pool_entry b) (q\<lparr>tx_pool := Some (packet_pool b)\<rparr>)"
  have i1: "unat i < length (tx_queues (dev s1))" and q1: "tx_queues (dev s1) ! unat i = ?q"
    using i by (simp_all add: s1 sent_state_def Let_def q)
  have inv1: "drv_inv s1" unfolding s1 using sent_inv [OF inv i q room one] .
  obtain p where p: "p < length (pools s1)" "tx_bufs_in_use ?q \<noteq> [] \<Longrightarrow> tx_pool ?q = Some p"
    using queue_pool [OF inv1 i1] unfolding q1 by blast
  obtain m w where mw: "(m, w) = clean_batches E ?q (length (tx_bufs_in_use ?q) div 32) 0 (world s1)"
    by (metis surj_pair)
  have "s2 = recycled i p (32 * m) w s1"
    using recycle_tx_buffers_spec [OF i1 q1 [symmetric] _ p(2,1) mw] drv_inv_tx(1) [OF inv1 i1] rec
    unfolding q1 by simp
  then have "tx_bufs_in_use (tx_queues (dev s2) ! unat i) = drop (32 * m) (tx_bufs_in_use q @ [pool_entry b])"
    using i1 q1 by (simp add: recycled_def Let_def txq_advance_def txq_push_def)
  then show ?thesis by (intro exI [of _ "32 * m"]) simp
qed

lemma small_ring_stuck:
  fixes s :: "('w, IgbNetBuf list, 'x) drv_scheme"
  assumes inv: "drv_inv (s\<lparr>client := b # client s\<rparr>)" and i: "unat i < length (tx_queues (dev s))"
    and q: "q = tx_queues (dev s) ! unat i" and small: "unat (tx_num_descriptors q) \<le> 32"
    and full: "\<not> length (tx_bufs_in_use q) + 1 < unat (tx_num_descriptors q)"
  shows "recycle_tx_buffers E i s = Some (Val (), s) \<and> (\<exists>s'. send E i b s = Some (Err QueueFull, s'))"
proof
  have wf: "txq_wf q" using drv_inv_tx(1) [OF inv] i by (simp add: q)
  show "\<exists>s'. send E i b s = Some (Err QueueFull, s')"
    using send_full [OF i _ _ drop_inv(1) [OF inv]] wf full by (simp add: q)
  obtain p where p: "p < length (pools s)" "tx_bufs_in_use q \<noteq> [] \<Longrightarrow> tx_pool q = Some p"
    using queue_pool [OF inv, of "unat i"] i q by auto
  have "length (tx_bufs_in_use q) < 32"
    using txq_in_flight_less [OF wf] wf small by (simp add: txq_wf_def)
  then show "recycle_tx_buffers E i s = Some (Val (), s)"
    using recycle_few [OF i q wf _ p(2,1)] by blast
qed

section \<open>A queue that changes its pool\<close>

lemma send_switches_pool:
  fixes s :: "('w, 'c, 'x) drv_scheme"
  assumes "unat i < length (tx_queues (dev s))" and q: "q = tx_queues (dev s) ! unat i"
    and "txq_wf q" and "length (tx_bufs_in_use q) + 1 < unat (tx_num_descriptors q)"
    and "reg_ok (dev s) (IGB_TDT (ucast i))"
  shows "\<exists>s' q'. send E i b s = Some (Val (), s') \<and> tx_queues (dev s') = (tx_queues (dev s))[unat i := q'] \<and>
    tx_pool q' = Some (packet_pool b) \<and> tx_bufs_in_use q' = tx_bufs_in_use q @ [pool_entry b]"
  using send_room [OF assms, of E b] assms(1)
  by (auto simp: sent_state_def Let_def txq_push_def q)

section \<open>Buffers and packets of a pool\<close>

lemma alloc_free_again:
  fixes s :: "('w, 'c, 'x) heap_scheme"
  assumes h: "h < length (pools s)" and wf: "pool_wf (pools s ! h)" and ne: "free_stack (pools s ! h) \<noteq> []"
  shows "\<exists>b s1 s2. alloc_buf h s = Some (Val (Some b), s1) \<and> b \<notin> set (free_stack (pools s1 ! h)) \<and>
     free_buf h b s1 = Some (Val (), s2) \<and> pool_wf (pools s2 ! h) \<and>
     mset (free_stack (pools s2 ! h)) = mset (free_stack (pools s ! h)) \<and>
     free_buf h b s2 = Some (Panicked BufferAlreadyFree, s2)"
proof -
  let ?p = "pools s ! h" and ?b = "last (free_stack (pools s ! h))"
  let ?p1 = "?p\<lparr>free_stack := butlast (free_stack ?p)\<rparr>"
  have a: "pool_alloc_buf ?p = (Some ?b, ?p1)" using ne by (simp add: pool_alloc_buf_def)
  obtain p2 where p2: "pool_free_buf ?b ?p1 = Inr p2" "mset (free_stack p2) = mset (free_stack ?p)" "pool_wf p2"
    using mp.alloc_then_free [OF wf a] by blast
  have out: "?b \<notin> set (free_stack ?p1)" using mp.alloc_not_in [OF wf a] by simp
  have "pool_free_buf ?b p2 = Inl BufferAlreadyFree"
    using p2(1) by (auto simp: pool_free_buf_def split: if_splits)
  moreover have "alloc_buf h s = Some (Val (Some ?b), s\<lparr>pools := (pools s)[h := ?p1]\<rparr>)"
    by (simp add: alloc_buf_def get_pool_def set_pool_def a bindM_def getsM_def modifyM_def ret_def)
  moreover have "free_buf h ?b (s\<lparr>pools := (pools s)[h := ?p1]\<rparr>) = Some (Val (), s\<lparr>pools := (pools s)[h := p2]\<rparr>)"
    using h p2(1) by (simp add: free_buf_def get_pool_def set_pool_def bindM_def getsM_def modifyM_def)
  ultimately show ?thesis using h out p2
    by (intro exI [of _ ?b] exI [of _ "s\<lparr>pools := (pools s)[h := ?p1]\<rparr>"] exI [of _ "s\<lparr>pools := (pools s)[h := p2]\<rparr>"])
      (simp add: free_buf_def get_pool_def bindM_def getsM_def panic_def)
qed

lemma alloc_pkt_inside:
  fixes s :: "('w, 'c, 'x) heap_scheme"
  assumes ok: "packet_pool_ok (pools s ! h)" and h: "h < length (pools s)" and p: "p = pools s ! h"
    and b: "b = last (free_stack p)" and pkt: "pkt = new_packet p h sz b"
  shows "alloc_pkt E h sz s = Some
     (if entry_size p - PACKET_HEADROOM < sz \<or> free_stack p = [] then (Val None, s)
      else (Val (Some pkt), s\<lparr>pools := (pools s)[h := p\<lparr>free_stack := butlast (free_stack p)\<rparr>]\<rparr>)) \<and>
    (entry_size p - PACKET_HEADROOM < sz \<or> free_stack p = [] \<or>
     packet_len pkt = sz \<and> slice_bytes (as_bytes pkt) \<subseteq> buffer_bytes p b \<and>
     (\<forall>k hr (s1 :: unit) s2. headroom_mut pkt k s1 = Some (Val hr, s2) \<longrightarrow> slice_bytes hr \<subseteq> buffer_bytes p b))"
proof
  let ?r = "if entry_size p - PACKET_HEADROOM < sz \<or> free_stack p = [] then (Val None, s)
      else (Val (Some pkt), s\<lparr>pools := (pools s)[h := p\<lparr>free_stack := butlast (free_stack p)\<rparr>]\<rparr>)"
  have "wp (alloc_pkt E h sz) (\<lambda>r s'. (r, s') = ?r) s"
    using ok h by (simp add: wp_alloc_pkt Let_def p b pkt)
  then show "alloc_pkt E h sz s = Some ?r" by (auto elim: wpE)
  have "b < num_entries p" if "free_stack p \<noteq> []"
    using ok that by (simp add: packet_pool_ok_def pool_wf_def p b)
  then show "entry_size p - PACKET_HEADROOM < sz \<or> free_stack p = [] \<or>
     packet_len pkt = sz \<and> slice_bytes (as_bytes pkt) \<subseteq> buffer_bytes p b \<and>
     (\<forall>k hr (s1 :: unit) s2. headroom_mut pkt k s1 = Some (Val hr, s2) \<longrightarrow> slice_bytes hr \<subseteq> buffer_bytes p b)"
    using new_packet_inside [of p b sz h] ok unfolding p [symmetric] pkt
    by (force simp: new_packet_def Packet_new_def not_less)
qed

section \<open>Entries smaller than the headroom\<close>

lemma alloc_pkt_small_entry:
  assumes small: "entry_size (pools s ! h) < PACKET_HEADROOM"
  shows "overflow_checks E \<Longrightarrow> alloc_pkt E h sz s = Some (Panicked ArithmeticOverflow, s)"
    and "\<not> overflow_checks E \<Longrightarrow> free_stack (pools s ! h) \<noteq> [] \<Longrightarrow> pool_wf (pools s ! h) \<Longrightarrow>
      h < length (pools s) \<Longrightarrow> sz \<le> - PACKET_HEADROOM \<Longrightarrow>
      \<exists>pkt s'. alloc_pkt E h sz s = Some (Val (Some pkt), s') \<and> packet_len pkt = sz"
proof -
  assume "overflow_checks E"
  then have "wp (alloc_pkt E h sz) (\<lambda>r s'. r = Panicked ArithmeticOverflow \<and> s' = s) s"
    using small by (simp add: alloc_pkt_def wp_simps)
  then show "alloc_pkt E h sz s = Some (Panicked ArithmeticOverflow, s)" by (auto elim: wpE)
next
  let ?p = "pools s ! h"
  assume ck: "\<not> overflow_checks E" and ne: "free_stack ?p \<noteq> []" and wf: "pool_wf ?p"
    and h: "h < length (pools s)" and sz: "sz \<le> - PACKET_HEADROOM"
  have "last (free_stack ?p) < num_entries ?p" using wf ne by (simp add: pool_wf_def)
  moreover have "pool_wf (?p\<lparr>free_stack := butlast (free_stack ?p)\<rparr>)"
    using pool_alloc_wf [OF wf] ne by (simp add: pool_alloc_buf_def)
  moreover have "- PACKET_HEADROOM \<le> entry_size ?p - PACKET_HEADROOM"
  proof -
    have "unat (entry_size ?p) < 32" using small by (simp add: word_less_nat_alt PACKET_HEADROOM_def)
    moreover have u: "unat (- PACKET_HEADROOM) = 18446744073709551584" by (simp add: PACKET_HEADROOM_def)
    ultimately have "unat (entry_size ?p + - PACKET_HEADROOM) = unat (entry_size ?p) + unat (- PACKET_HEADROOM)"
      by (intro unat_add_no_wrap) simp
    then show ?thesis by (simp add: word_le_nat_alt)
  qed
  then have "\<not> entry_size ?p - PACKET_HEADROOM < sz" using sz by simp
  ultimately have "wp (alloc_pkt E h sz) (\<lambda>r s'. \<exists>pkt. r = Val (Some pkt) \<and> packet_len pkt = sz) s"
    using ck ne h by (simp add: alloc_pkt_def wp_simps Packet_new_def)
  then show "\<exists>pkt s'. alloc_pkt E h sz s = Some (Val (Some pkt), s') \<and> packet_len pkt = sz"
    by (auto elim!: wpE)
qed

section \<open>Packets made by hand\<close>

text \<open>
  \<open>IgbNetBuf::construct\<close> makes a packet of any entry, also of one that has an owner: when both
  packets are dropped the second drop panics.
\<close>

lemma construct_forges:
  assumes "packet_pool_ok (pools s ! h)" and "e < num_entries (pools s ! h)"
  shows "IgbNetBuf_construct E e h len s = Some (Val (new_packet (pools s ! h) h len e), s)"
proof -
  have wf: "pool_wf (pools s ! h)" using assms(1) by (simp add: packet_pool_ok_def)
  have "unat (phys_addr (pools s ! h) ! unat e) + 32 < 2 ^ 64"
    using assms wf by (simp add: packet_pool_ok_def pool_wf_def word_less_nat_alt)
  then have ph: "\<not> 18446744073709551616 \<le> unat (phys_addr (pools s ! h) ! unat e) + 32" by simp
  have "wp (IgbNetBuf_construct E e h len) (\<lambda>r s'. r = Val (new_packet (pools s ! h) h len e) \<and> s' = s) s"
    using wf assms(2) ph by (simp add: IgbNetBuf_construct_def wp_simps new_packet_def)
  then show ?thesis by (auto elim: wpE)
qed

lemma drop_twice:
  assumes "packet_pool a = packet_pool b" "pool_entry a = pool_entry b" "packet_pool a < length (pools s)"
    and "Packet_drop a s = Some (Val (), s')"
  shows "Packet_drop b s' = Some (Panicked BufferAlreadyFree, s')"
proof -
  let ?p = "pools s ! packet_pool a"
  have f: "wp (Packet_drop a) (\<lambda>r s'. r = Val () \<longrightarrow> (\<exists>p. pool_free_buf (pool_entry a) ?p = Inr p \<and>
      s' = s\<lparr>pools := (pools s)[packet_pool a := p]\<rparr>)) s"
    by (simp add: Packet_drop_def wp_simps split: sum.splits)
  obtain p where p: "pool_free_buf (pool_entry a) ?p = Inr p" and s': "s' = s\<lparr>pools := (pools s)[packet_pool a := p]\<rparr>"
    using wpD [OF f assms(4)] by blast
  then have "pool_free_buf (pool_entry b) p = Inl BufferAlreadyFree"
    using assms(2) by (auto simp: pool_free_buf_def split: if_splits)
  then have "wp (Packet_drop b) (\<lambda>r s''. r = Panicked BufferAlreadyFree \<and> s'' = s') s'"
    using assms(1,3) by (simp add: Packet_drop_def wp_simps s')
  then show ?thesis by (auto elim: wpE)
qed

text \<open>A queue number out of range is refused, and nothing changes.\<close>

lemma unknown_queue:
  fixes s :: "('w, IgbNetBuf list, 'x) drv_scheme"
  shows "\<not> unat i < length (tx_queues (dev s)) \<Longrightarrow> recycle_tx_buffers E i s = Some (Err InvalidQueue, s)"
    and "\<not> unat i < length (tx_queues (dev s)) \<Longrightarrow> can_send E i s = Some (Err InvalidQueue, s)"
    and "\<not> unat i < length (rx_queues (dev s)) \<Longrightarrow> receive_packets E i m f s = Some (Err InvalidQueue, s)"
    and "\<not> unat i < length (rx_queues (dev s)) \<Longrightarrow> can_receive E i s = Some (Err InvalidQueue, s)"
  by (simp_all add: recycle_tx_buffers_def can_send_def receive_packets_def can_receive_def bindM_def getsM_def throw_def)

end
