(* ===== verification/Tx_Ring.thy ===== *)
theory Tx_Ring
  imports Client_Spec
begin

text \<open>
  The transmit ring as the device reads it. Between \<open>clean_index\<close> and \<open>tx_index\<close> the descriptors in
  memory belong to the packets in flight, in order: first those the device has completed, then those
  it still has to read, each with address and length of its packet in the format of
  \<open>IGB_adv_tx_desc\<close>. \<open>send\<close> adds one at the end and disturbs none of the others, for which the
  descriptors must not overlap; \<open>recycle_tx_buffers\<close> removes completed ones from the front.
\<close>

section \<open>What a descriptor holds\<close>

lemma tx_desc_written_other:
  assumes "plain_memory E" and "a \<notin> set (byte_addrs desc 16)"
  shows "load8 E a (tx_desc_written E desc addr len w) = load8 E a w"
proof -
  have bm: "load8 E a (store8 E b v w) = (if a = b then v else load8 E a w)" for a b v w
    using assms by (simp add: plain_memory_def byte_memory_def)
  have w: "tx_desc_written E desc addr len w =
     store8 E (desc + 11) 0x2B (store_le E 4 (desc + 12) (push_bit 14 (ucast len) :: u32)
       (store8 E (desc + 10) 0x30 (store_le E 2 (desc + 8) len (store_le E 8 desc addr w))))"
    using assms(1) [unfolded plain_memory_def] by (simp add: tx_desc_written_def)
  show ?thesis using assms(2)
    unfolding w by (auto simp: store_le_def byte_addrs_def le_bytes_def upt_rec bm add.commute [of _ desc])
qed

definition tx_cmd_word :: "u16 \<Rightarrow> u32" where
  "tx_cmd_word len = ucast len OR IGB_ADVTXD_DTYP_DATA OR IGB_ADVTXD_DCMD_DEXT OR
     IGB_ADVTXD_DCMD_RS OR IGB_ADVTXD_DCMD_IFCS OR IGB_ADVTXD_DCMD_EOP"

definition tx_holds :: "'w platform \<Rightarrow> usize \<Rightarrow> IgbNetBuf \<Rightarrow> 'w \<Rightarrow> bool" where
  "tx_holds E desc pkt w \<longleftrightarrow>
     read_field E desc IGB_adv_tx_desc [''read'', ''buffer_addr''] w = Some (addr_phys pkt) \<and>
     read_field E desc IGB_adv_tx_desc [''read'', ''cmd_type_len''] w =
       Some (tx_cmd_word (ucast (packet_len pkt))) \<and>
     read_field E desc IGB_adv_tx_desc [''read'', ''olinfo_status''] w =
       Some (push_bit (unat IGB_ADVTXD_PAYLEN_SHIFT) (ucast (ucast (packet_len pkt) :: u16)) :: u32)"

text \<open>The device marks a descriptor as completed in the status word of its write-back format.\<close>

definition tx_done :: "'w platform \<Rightarrow> usize \<Rightarrow> 'w \<Rightarrow> bool" where
  "tx_done E desc w \<longleftrightarrow> (case read_field E desc IGB_adv_tx_desc [''wb'', ''status''] w of
     None \<Rightarrow> False | Some st \<Rightarrow> (st :: u32) AND IGB_ADVTXD_STAT_DD \<noteq> 0)"

lemma tx_desc_cong:
  assumes "desc_kept E desc w w'"
  shows "tx_holds E desc pkt w' \<longleftrightarrow> tx_holds E desc pkt w" and "tx_done E desc w' \<longleftrightarrow> tx_done E desc w"
proof -
  have eq: "load8 E a w' = load8 E a w" if "a \<in> set (byte_addrs desc (size_of IGB_adv_tx_desc))" for a
    using assms that by (simp add: desc_kept_def descriptor_sizes)
  note cong = read_field_cong [where base = desc and t = IGB_adv_tx_desc and E = E and w' = w' and w = w, OF eq]
  show "tx_holds E desc pkt w' \<longleftrightarrow> tx_holds E desc pkt w" "tx_done E desc w' \<longleftrightarrow> tx_done E desc w"
    unfolding tx_holds_def tx_done_def by (simp_all add: cong)
qed

lemma tx_holds_written:
  assumes "plain_memory E"
  shows "tx_holds E desc pkt (tx_desc_written E desc (addr_phys pkt) (ucast (packet_len pkt)) w)"
  using tx_desc_fields [OF assms refl] by (simp add: tx_holds_def tx_cmd_word_def)

text \<open>A descriptor that holds a packet is not completed: the length is above the status bits.\<close>

lemma tx_holds_not_done:
  assumes "tx_holds E desc pkt w"
  shows "\<not> tx_done E desc w"
proof -
  have "push_bit 14 v AND 1 = (0 :: u32)" for v by (rule bit_word_eqI) (auto simp: bit_simps)
  then show ?thesis using assms
    by (auto simp: tx_holds_def tx_done_def read_field_def locate_tx IGB_ADVTXD_STAT_DD_def
        IGB_TXD_STAT_DD_def IGB_ADVTXD_PAYLEN_SHIFT_def)
qed

lemma tx_done_written:
  assumes "plain_memory E"
  shows "tx_done E desc (store_le E 4 (desc + 12) IGB_ADVTXD_STAT_DD w)"
  by (simp add: tx_done_def read_field_def load_stored [OF assms] locate_tx IGB_ADVTXD_STAT_DD_def IGB_TXD_STAT_DD_def)

text \<open>It is the word that \<open>recycle_tx_buffers\<close> looks at.\<close>

lemma tx_done_status:
  assumes "plain_memory E"
  shows "fst (volatile_read32 E (desc + 12) w) AND IGB_ADVTXD_STAT_DD \<noteq> 0 \<longleftrightarrow> tx_done E desc w"
  using assms by (simp add: plain_memory_def tx_done_def read_field_def locate_tx)

section \<open>What the ring holds\<close>

definition tx_slot :: "IgbTxQueue \<Rightarrow> nat \<Rightarrow> usize" where
  "tx_slot q k = tx_descriptors q ! ((unat (clean_index q) + k) mod unat (tx_num_descriptors q))"

text \<open>The ring holds \<open>pkts\<close>, of which the device has completed the first \<open>d\<close>.\<close>

definition tx_ring_holds :: "'w platform \<Rightarrow> IgbTxQueue \<Rightarrow> nat \<Rightarrow> IgbNetBuf list \<Rightarrow> 'w \<Rightarrow> bool" where
  "tx_ring_holds E q d pkts w \<longleftrightarrow> map pool_entry pkts = tx_bufs_in_use q \<and> d \<le> length pkts \<and>
     (\<forall>k < d. tx_done E (tx_slot q k) w) \<and>
     (\<forall>k < length pkts. d \<le> k \<longrightarrow> tx_holds E (tx_slot q k) (pkts ! k) w)"

lemma tx_ring_holds_length: "tx_ring_holds E q d pkts w \<Longrightarrow> length (tx_bufs_in_use q) = length pkts"
  by (metis tx_ring_holds_def length_map)

lemma tx_index_slot:
  assumes "txq_wf q"
  shows "unat (tx_index q) = (unat (clean_index q) + length (tx_bufs_in_use q)) mod unat (tx_num_descriptors q)"
  using assms by (auto simp: txq_wf_def txq_in_flight_def ring_dist_def)

lemma slot_mod_inj:
  fixes a n :: nat
  assumes "j < n" "k < n" "(a + j) mod n = (a + k) mod n"
  shows "j = k"
proof -
  have "(a mod n + j) mod n = (a mod n + k) mod n" using assms(3) by (simp add: mod_add_left_eq)
  moreover have "(a mod n + i) mod n = (if a mod n + i < n then a mod n + i else a mod n + i - n)" if "i < n" for i
  proof (cases "a mod n + i < n")
    case False
    moreover have "a mod n + i - n < n" using that mod_less_divisor [of n a] by linarith
    ultimately show ?thesis by (simp add: le_mod_geq)
  qed simp
  moreover have "a mod n < n" using assms(1) by simp
  ultimately show ?thesis using assms(1,2) by (auto split: if_splits)
qed

section \<open>One operation\<close>

text \<open>\<open>send\<close> appends the packet to what the ring holds.\<close>

lemma sent_ring_holds:
  fixes s :: "('w, 'c, 'x) drv_scheme"
  assumes E: "plain_memory E" "registers_apart E"
    and i: "unat i < length (tx_queues (dev s))" and q: "q = tx_queues (dev s) ! unat i"
    and wf: "txq_wf q" and room: "length (tx_bufs_in_use q) + 1 < unat (tx_num_descriptors q)"
    and apart: "descs_apart (tx_descriptors q)" and holds: "tx_ring_holds E q d pkts (world s)"
  shows "tx_ring_holds E (tx_queues (dev (sent_state E i b s)) ! unat i) d (pkts @ [b]) (world (sent_state E i b s))"
proof -
  let ?n = "unat (tx_num_descriptors q)" and ?L = "length (tx_bufs_in_use q)"
  let ?q = "txq_push (pool_entry b) (q\<lparr>tx_pool := Some (packet_pool b)\<rparr>)"
  let ?desc = "tx_descriptors q ! unat (tx_index q)" and ?w' = "world (sent_state E i b s)"
  let ?w = "tx_desc_written E ?desc (addr_phys b) (ucast (packet_len b)) (world s)"
  have L: "length pkts = ?L" by (rule tx_ring_holds_length [OF holds, symmetric])
  have len: "length (tx_descriptors q) = ?n" "0 < ?n" using wf room by (simp_all add: txq_wf_def)
  have desc: "?desc = tx_slot q ?L" by (simp add: tx_slot_def tx_index_slot [OF wf])
  have slot: "tx_slot ?q k = tx_slot q k" for k by (simp add: tx_slot_def txq_push_def)
  have mem: "load8 E a ?w' = load8 E a ?w" for a
    using E(2) by (simp add: sent_state_def Let_def registers_apart_def q)
  have "desc_kept E (tx_slot q k) (world s) ?w'" if k: "k < ?L" for k
  proof -
    have "(unat (clean_index q) + k) mod ?n \<noteq> (unat (clean_index q) + ?L) mod ?n"
      using slot_mod_inj [of k ?n ?L "unat (clean_index q)"] k room by auto
    then have "a \<notin> set (byte_addrs ?desc 16)" if "a \<in> set (byte_addrs (tx_slot q k) 16)" for a
      using that apart len unfolding desc tx_slot_def descs_apart_def by (metis disjoint_iff mod_less_divisor)
    then show ?thesis by (simp add: desc_kept_def mem tx_desc_written_other [OF E(1)])
  qed
  note old = tx_desc_cong [OF this]
  have kept: "desc_kept E (tx_slot q ?L) ?w ?w'" by (simp add: desc_kept_def mem)
  have new: "tx_holds E (tx_slot q ?L) b ?w'"
    using tx_desc_cong(1) [OF kept, of b] tx_holds_written [OF E(1), of ?desc b "world s"] by (simp add: desc)
  have "tx_ring_holds E ?q d (pkts @ [b]) ?w'"
    using holds new L old unfolding tx_ring_holds_def slot
    by (auto simp: txq_push_def nth_append less_Suc_eq)
  moreover have "tx_queues (dev (sent_state E i b s)) ! unat i = ?q"
    using i by (simp add: sent_state_def Let_def q)
  ultimately show ?thesis by simp
qed

text \<open>\<open>recycle_tx_buffers\<close> only reads, and drops what it frees from the front: completed packets.\<close>

lemma clean_batches_done:
  assumes "plain_memory E" and "(m', w') = clean_batches E q n m w"
  shows "w' = w \<and> (\<forall>j. m \<le> j \<and> j < m' \<longrightarrow> tx_done E (tx_slot q (32 * j + 31)) w)"
  using assms(2)
proof (induction n arbitrary: m)
  case (Suc n)
  have "snd (volatile_read32 E a w) = w" for a using assms(1) by (simp add: plain_memory_def)
  moreover have "batch_done E q (32 * m) w \<longleftrightarrow> tx_done E (tx_slot q (32 * m + 31)) w"
    unfolding batch_done_def batch_status_def tx_slot_def tx_done_status [OF assms(1)] by (simp only: add.assoc)
  ultimately have step: "clean_batches E q (Suc n) m w =
      (if tx_done E (tx_slot q (32 * m + 31)) w then clean_batches E q n (Suc m) w else (m, w))"
    by (simp add: Let_def)
  show ?case
  proof (cases "tx_done E (tx_slot q (32 * m + 31)) w")
    case True
    then have "(m', w') = clean_batches E q n (Suc m) w" using Suc.prems unfolding step by simp
    from Suc.IH [OF this] show ?thesis using True by (metis Suc_leI le_neq_implies_less)
  next
    case False
    then show ?thesis using Suc.prems unfolding step by auto
  qed
qed auto

lemma recycle_ring_holds:
  fixes s :: "('w, 'c, 'x) drv_scheme"
  assumes E: "plain_memory E"
    and i: "unat i < length (tx_queues (dev s))" and q: "q = tx_queues (dev s) ! unat i"
    and wf: "txq_wf q" and pool: "tx_bufs_in_use q \<noteq> [] \<Longrightarrow> tx_pool q = Some p" "p < length (pools s)"
    and holds: "tx_ring_holds E q d pkts (world s)"
  shows "\<exists>k \<le> d. recycle_tx_buffers E i s = Some (Val (), recycled i p k (world s) s) \<and>
    k \<le> length (tx_bufs_in_use q) \<and> tx_ring_holds E (txq_advance k q) (d - k) (drop k pkts) (world s)"
proof -
  let ?n = "unat (tx_num_descriptors q)"
  obtain m w where mw: "(m, w) = clean_batches E q (length (tx_bufs_in_use q) div 32) 0 (world s)"
    by (metis surj_pair)
  have w: "w = world s" and fin: "\<And>j. j < m \<Longrightarrow> tx_done E (tx_slot q (32 * j + 31)) (world s)"
    using clean_batches_done [OF E mw] by simp_all
  have L: "length (tx_bufs_in_use q) = length pkts" by (rule tx_ring_holds_length [OF holds])
  have len: "32 * m \<le> length pkts" using clean_batches_length [OF mw] L by simp
  have k: "32 * m \<le> d"
  proof (rule ccontr)
    assume "\<not> 32 * m \<le> d"
    moreover obtain j where j: "m = Suc j" using calculation by (cases m) auto
    ultimately have h: "tx_holds E (tx_slot q (32 * j + 31)) (pkts ! (32 * j + 31)) (world s)"
      using holds len unfolding tx_ring_holds_def by simp
    show False using fin [of j] tx_holds_not_done [OF h] by (simp add: j)
  qed
  have c: "unat (clean_index q) < ?n" and n: "ring_size_ok (tx_num_descriptors q)" using wf by (simp_all add: txq_wf_def)
  have "((unat (clean_index q) + 32 * m) mod ?n + j) mod ?n = (unat (clean_index q) + (32 * m + j)) mod ?n" for j
    by (simp add: mod_add_left_eq add.assoc)
  then have slot: "tx_slot (txq_advance (32 * m) q) j = tx_slot q (32 * m + j)" for j
    by (simp add: tx_slot_def txq_advance_def rg.iterate [OF n c])
  have "tx_ring_holds E (txq_advance (32 * m) q) (d - 32 * m) (drop (32 * m) pkts) (world s)"
    using holds k len unfolding tx_ring_holds_def slot by (auto simp: txq_advance_def drop_map [symmetric])
  then show ?thesis using recycle_tx_buffers_spec [OF i q wf pool mw] k len L unfolding w by auto
qed

text \<open>A full ring refuses.\<close>

lemma send_needs_room:
  assumes "send E i b s = Some (Val (), s')" and "unat i < length (tx_queues (dev s))"
    and "txq_wf (tx_queues (dev s) ! unat i)"
  shows "length (tx_bufs_in_use (tx_queues (dev s) ! unat i)) + 1 < unat (tx_num_descriptors (tx_queues (dev s) ! unat i))"
proof (rule ccontr)
  assume full: "\<not> ?thesis"
  have "wp (send E i b) (\<lambda>r _. r \<noteq> Val ()) s"
    using assms(2,3) full by (simp add: send_def wp_simps Packet_drop_def Let_def split: sum.split)
  then show False using assms(1) by (simp add: wp_def)
qed

section \<open>Runs\<close>

text \<open>
  What becomes of transmit queue \<open>i\<close> from a state \<open>s0\<close> on: \<open>tx_run E i s0 sent c s\<close> says that \<open>sent\<close>
  are the packets sent so far, of which the device has completed the first \<open>c\<close>, and \<open>s\<close> is the state
  reached. Between two calls on the queue the device completes descriptors in the order of the ring,
  and anything else may happen, calls on other queues too, that leaves the queue and the descriptors
  the device has not completed alone.
\<close>

definition device_completes :: "'w platform \<Rightarrow> IgbTxQueue \<Rightarrow> nat \<Rightarrow> 'w \<Rightarrow> 'w \<Rightarrow> bool" where
  "device_completes E q d w w' \<longleftrightarrow> (\<forall>k < d. tx_done E (tx_slot q k) w') \<and>
     (\<forall>k < length (tx_bufs_in_use q). d \<le> k \<longrightarrow> desc_kept E (tx_slot q k) w w')"

inductive tx_run :: "'w platform \<Rightarrow> u16 \<Rightarrow> ('w, 'c, 'x) drv_scheme \<Rightarrow> IgbNetBuf list \<Rightarrow> nat \<Rightarrow>
    ('w, 'c, 'x) drv_scheme \<Rightarrow> bool" for E i s0 where
  run_start: "tx_run E i s0 [] 0 s0"
| run_send: "tx_run E i s0 sent c s \<Longrightarrow> packet_pool b < length (pools s) \<Longrightarrow>
    send E i b s = Some (Val (), s') \<Longrightarrow> tx_run E i s0 (sent @ [b]) c s'"
| run_recycle: "tx_run E i s0 sent c s \<Longrightarrow> recycle_tx_buffers E i s = Some (r, s') \<Longrightarrow>
    tx_run E i s0 sent c s'"
| run_other: "tx_run E i s0 sent c s \<Longrightarrow> c \<le> c' \<Longrightarrow> c' \<le> length sent \<Longrightarrow>
    freed + length (tx_bufs_in_use (tx_queues (dev s) ! unat i)) = length sent \<Longrightarrow>
    device_completes E (tx_queues (dev s) ! unat i) (c' - freed) (world s) (world s') \<Longrightarrow>
    length (tx_queues (dev s')) = length (tx_queues (dev s)) \<Longrightarrow>
    tx_queues (dev s') ! unat i = tx_queues (dev s) ! unat i \<Longrightarrow>
    dev_addr (dev s') = dev_addr (dev s) \<Longrightarrow> dev_len (dev s') = dev_len (dev s) \<Longrightarrow>
    length (pools s') = length (pools s) \<Longrightarrow> tx_run E i s0 sent c' s'"

text \<open>What holds all along a run.\<close>

definition tx_run_ok :: "'w platform \<Rightarrow> u16 \<Rightarrow> IgbNetBuf list \<Rightarrow> nat \<Rightarrow> ('w, 'c, 'x) drv_scheme \<Rightarrow> bool" where
  "tx_run_ok E i sent c s \<longleftrightarrow> (let q = tx_queues (dev s) ! unat i in
     unat i < length (tx_queues (dev s)) \<and> txq_wf q \<and> descs_apart (tx_descriptors q) \<and> reg_ok (dev s) (IGB_TDT (ucast i)) \<and>
     pools s \<noteq> [] \<and> (tx_bufs_in_use q \<noteq> [] \<longrightarrow> (\<exists>p < length (pools s). tx_pool q = Some p)) \<and>
     (\<exists>k \<le> c. k + length (tx_bufs_in_use q) = length sent \<and> tx_ring_holds E q (c - k) (drop k sent) (world s)))"

lemma tx_run_step_send:
  assumes E: "plain_memory E" "registers_apart E" and ok: "tx_run_ok E i sent c s"
    and b: "packet_pool b < length (pools s)" and s': "send E i b s = Some (Val (), s')"
  shows "tx_run_ok E i (sent @ [b]) c s'"
proof -
  let ?q = "tx_queues (dev s) ! unat i"
  have q: "unat i < length (tx_queues (dev s))" "txq_wf ?q" "descs_apart (tx_descriptors ?q)" "reg_ok (dev s) (IGB_TDT (ucast i))"
    using ok by (simp_all add: tx_run_ok_def Let_def)
  have room: "length (tx_bufs_in_use ?q) + 1 < unat (tx_num_descriptors ?q)" by (rule send_needs_room [OF s' q(1,2)])
  have st: "s' = sent_state E i b s" using send_room [OF q(1) refl q(2) room q(4)] s' by simp
  obtain k where k: "k \<le> c" "k + length (tx_bufs_in_use ?q) = length sent"
      "tx_ring_holds E ?q (c - k) (drop k sent) (world s)"
    using ok by (auto simp: tx_run_ok_def Let_def)
  have "tx_ring_holds E (tx_queues (dev s') ! unat i) (c - k) (drop k sent @ [b]) (world s')"
    unfolding st by (rule sent_ring_holds [OF E q(1) refl q(2) room q(3) k(3)])
  moreover have q': "tx_queues (dev s') ! unat i = txq_push (pool_entry b) (?q\<lparr>tx_pool := Some (packet_pool b)\<rparr>)"
    using q(1) by (simp add: st sent_state_def Let_def)
  moreover have "drop k (sent @ [b]) = drop k sent @ [b]" using k(2) by simp
  moreover have "reg_ok (dev s') (IGB_TDT (ucast i))" "pools s' = pools s"
    "length (tx_queues (dev s')) = length (tx_queues (dev s))"
    using q(4) by (simp_all add: st sent_state_def Let_def reg_ok_def)
  moreover have "txq_wf (tx_queues (dev s') ! unat i)" "descs_apart (tx_descriptors (tx_queues (dev s') ! unat i))"
    "tx_pool (tx_queues (dev s') ! unat i) = Some (packet_pool b)"
    "k + length (tx_bufs_in_use (tx_queues (dev s') ! unat i)) = length (sent @ [b])"
    using q(3) k(2) txq_push_wf [of "?q\<lparr>tx_pool := Some (packet_pool b)\<rparr>" "pool_entry b"] q(2) room
    by (simp_all add: q' txq_push_def txq_wf_def txq_in_flight_def)
  ultimately show ?thesis using q(1) k(1) b unfolding tx_run_ok_def Let_def by auto
qed

lemma tx_run_step_recycle:
  assumes E: "plain_memory E" and ok: "tx_run_ok E i sent c s"
    and s': "recycle_tx_buffers E i s = Some (r, s')"
  shows "tx_run_ok E i sent c s'"
proof -
  let ?q = "tx_queues (dev s) ! unat i"
  have q: "unat i < length (tx_queues (dev s))" "txq_wf ?q" "descs_apart (tx_descriptors ?q)" "reg_ok (dev s) (IGB_TDT (ucast i))"
    using ok by (simp_all add: tx_run_ok_def Let_def)
  obtain p where p: "tx_bufs_in_use ?q \<noteq> [] \<Longrightarrow> tx_pool ?q = Some p" "p < length (pools s)"
    using ok by (auto simp: tx_run_ok_def Let_def)
  obtain k where k: "k \<le> c" "k + length (tx_bufs_in_use ?q) = length sent"
      "tx_ring_holds E ?q (c - k) (drop k sent) (world s)"
    using ok by (auto simp: tx_run_ok_def Let_def)
  obtain f where f: "f \<le> c - k" "recycle_tx_buffers E i s = Some (Val (), recycled i p f (world s) s)"
      "f \<le> length (tx_bufs_in_use ?q)" "tx_ring_holds E (txq_advance f ?q) (c - k - f) (drop f (drop k sent)) (world s)"
    using recycle_ring_holds [OF E q(1) refl q(2) p k(3)] by blast
  have s'': "s' = recycled i p f (world s) s" using f(2) s' by simp
  have q': "tx_queues (dev s') ! unat i = txq_advance f ?q" using q(1) by (simp add: s'' recycled_def Let_def)
  have "descs_apart (tx_descriptors (txq_advance f ?q))" using q(3) by (simp add: txq_advance_def)
  moreover have "txq_wf (txq_advance f ?q)" by (rule txq_advance_wf [OF q(2) f(3)])
  moreover have "reg_ok (dev s') (IGB_TDT (ucast i))" using q(4) by (simp add: s'' recycled_def Let_def reg_ok_def)
  moreover have "tx_bufs_in_use (txq_advance f ?q) \<noteq> [] \<longrightarrow> tx_pool (txq_advance f ?q) = Some p"
    using p(1) by (cases "tx_bufs_in_use ?q = []") (simp_all add: txq_advance_def)
  moreover have "k + f + length (tx_bufs_in_use (txq_advance f ?q)) = length sent"
    using k(2) f(3) by (simp add: txq_advance_def)
  moreover have "tx_ring_holds E (txq_advance f ?q) (c - (k + f)) (drop (k + f) sent) (world s')"
    using f(4) by (simp add: s'' recycled_def Let_def add.commute)
  moreover have "pools s' \<noteq> []" "length (pools s') = length (pools s)" "length (tx_queues (dev s')) = length (tx_queues (dev s))"
    using p(2) by (auto simp: s'' recycled_def Let_def)
  moreover have "k + f \<le> c" using f(1) k(1) by simp
  ultimately show ?thesis using q(1) p(2) unfolding tx_run_ok_def Let_def q' by auto
qed

lemma tx_run_step_other:
  assumes ok: "tx_run_ok E i sent c s" and c: "c \<le> c'" "c' \<le> length sent"
    and q: "q = tx_queues (dev s) ! unat i" and freed: "freed + length (tx_bufs_in_use q) = length sent"
    and completes: "device_completes E q (c' - freed) (world s) (world s')"
    and same: "length (tx_queues (dev s')) = length (tx_queues (dev s))" "tx_queues (dev s') ! unat i = q"
      "dev_addr (dev s') = dev_addr (dev s)" "dev_len (dev s') = dev_len (dev s)" "length (pools s') = length (pools s)"
  shows "tx_run_ok E i sent c' s'"
proof -
  obtain k where k: "k \<le> c" "k + length (tx_bufs_in_use q) = length sent"
      "tx_ring_holds E q (c - k) (drop k sent) (world s)"
    using ok by (auto simp: tx_run_ok_def Let_def q)
  have kf: "k = freed" using k(2) freed by simp
  have hold: "tx_holds E (tx_slot q j) (drop k sent ! j) (world s')" if "j < length (drop k sent)" "c' - k \<le> j" for j
  proof -
    have "desc_kept E (tx_slot q j) (world s) (world s')"
      using that completes freed unfolding device_completes_def kf by simp
    moreover have "tx_holds E (tx_slot q j) (drop k sent ! j) (world s)"
      using k(3) that c(1) unfolding tx_ring_holds_def by simp
    ultimately show ?thesis using tx_desc_cong(1) by fast
  qed
  have "tx_ring_holds E q (c' - k) (drop k sent) (world s')"
    using k(3) hold completes c(2) unfolding tx_ring_holds_def device_completes_def kf by simp
  then show ?thesis using ok k(1,2) c(1) same
    by (auto simp: tx_run_ok_def Let_def q reg_ok_def intro!: exI [of _ k])
qed

lemma tx_run_invariant:
  assumes "tx_run E i s0 sent c s" and "plain_memory E" "registers_apart E" and "tx_run_ok E i [] 0 s0"
  shows "tx_run_ok E i sent c s"
  using assms(1)
proof induction
  case (run_other sent c s c' freed s')
  show ?case by (rule tx_run_step_other [OF run_other.IH run_other.hyps(2,3) refl run_other.hyps(4-)])
qed (use assms in \<open>blast intro: tx_run_step_send tx_run_step_recycle\<close>)+

text \<open>A queue that \<open>init\<close> has made.\<close>

lemma fresh_run_ok:
  assumes "unat i < length (tx_queues (dev s0))" "fresh_tx qs (tx_queues (dev s0) ! unat i)" "ring_size_ok qs"
    and "reg_ok (dev s0) (IGB_TDT (ucast i))" "pools s0 \<noteq> []"
  shows "tx_run_ok E i [] 0 s0"
proof -
  have "tx_bufs_in_use (tx_queues (dev s0) ! unat i) = []" "ring_at qs (tx_descriptors (tx_queues (dev s0) ! unat i))"
    using assms(2) unfolding fresh_tx_def by (metis IgbTxQueue.select_convs(4), blast)
  then show ?thesis using assms fresh_tx_wf [OF assms(2,3)] ring_at_apart
    by (simp add: tx_run_ok_def Let_def tx_ring_holds_def)
qed

lemma init_tx_run_ok:
  fixes h0 :: "('w, IgbNetBuf list) heap" and i :: u16
  assumes ok: "init_ok E qs h (attach h0 (new_device base len nrx ntx))"
    and complete: "heap_complete h0" and qs: "two_power qs" "qs < 0x10000000"
    and d: "IgbDevice_init E qs base len nrx ntx h h0 = Some (Val d, h')" and i: "i < ntx"
  shows "tx_run_ok E i [] 0 (attach h' d)" and "fresh_tx qs (tx_queues d ! unat i)" and "unat i < length (tx_queues d)"
    and "reg_ok d (IGB_TDT (ucast i))"
proof -
  have r: "length (tx_queues d) = unat ntx" "\<forall>q \<in> set (tx_queues d). fresh_tx qs q"
      "dev_addr d = base" "dev_len d = len" "same_shape (pools h0) (pools h')"
    using wpD [OF IgbDevice_init_spec [OF ok complete qs(2)] d] qs(1) by (auto split: if_splits)
  have w: "window_ok d" "unat ntx \<le> 128" "h < length (pools h0)"
    using ok r by (simp_all add: init_ok_def attach_def new_device_def window_ok_def)
  show i': "unat i < length (tx_queues d)" using i by (simp add: r word_less_nat_alt)
  then show fr: "fresh_tx qs (tx_queues d ! unat i)" using r(2) by simp
  show reg: "reg_ok d (IGB_TDT (ucast i))" using window_queue_regs(11) [OF w(1)] i' w(2) by (simp add: r)
  have "pools h' \<noteq> []" using w(3) same_shape_length [OF r(5)] by auto
  moreover have "ring_size_ok qs" using qs by (simp add: ring_size_ok_def two_power_def)
  ultimately show "tx_run_ok E i [] 0 (attach h' d)"
    using fr reg i' by (intro fresh_run_ok) (simp_all add: attach_def)
qed

end
