(* ===== verification/Rx_Ring.thy ===== *)
theory Rx_Ring
  imports Client_Spec
begin

text \<open>
  The receive ring as the device reads it: each descriptor is either completed, and waits for the
  driver, or posted: it gives the device the address of the buffer that the queue has recorded for
  it. \<open>receive_packets\<close> keeps this, and nothing else touches it; so the device is never given the
  address of a buffer that anyone else owns.
\<close>

section \<open>A whole receive\<close>

lemma rx_batch_holds:
  assumes E: "plain_memory E" and apart: "descs_apart (rx_descriptors q)"
    and n: "ring_size_ok (rx_num_descriptors q)" "length (rx_descriptors q) = unat (rx_num_descriptors q)"
  shows "unat c < unat (rx_num_descriptors q) \<Longrightarrow> rx_ring_holds E p (rx_descriptors q) bufs w \<Longrightarrow>
    rx_batch E p q m c fs bufs w = Some (pkts, fs', bufs', w') \<Longrightarrow> rx_ring_holds E p (rx_descriptors q) bufs' w'"
proof (induction m arbitrary: c fs bufs w pkts)
  case (Suc m)
  let ?d = "rx_descriptors q ! unat c" and ?b = "last fs"
  let ?w = "rx_written E ?d (phys_addr p ! unat ?b) w"
  let ?st = "load_le E 8 (?d + 8) w :: u64"
  show ?case
  proof (cases "bit ?st 0 \<and> bit ?st 1 \<and> fs \<noteq> []")
    case True
    then obtain pkts' where "rx_batch E p q m (ring_next (rx_num_descriptors q) c) (butlast fs) (bufs[unat c := ?b]) ?w =
        Some (pkts', fs', bufs', w')"
      using Suc.prems(3) by (auto simp: Let_def rx_written_def apfst_def)
    then show ?thesis
      by (rule Suc.IH [rotated 2])
        (use Suc.prems(1,2) n rg.next_bound rx_ring_written [OF E apart] in simp_all)
  next
    case False
    then show ?thesis using Suc.prems(2,3) by (auto simp: Let_def split: if_splits)
  qed
qed simp

section \<open>receive_packets\<close>

lemma receive_ring_holds:
  fixes s :: "('w, IgbNetBuf list, 'x) drv_scheme"
  assumes E: "plain_memory E" "bit_field_crate E" "registers_apart E" and inv: "drv_inv s"
    and i: "unat i < length (rx_queues (dev s))" and q: "q = rx_queues (dev s) ! unat i"
    and big: "1 < unat (rx_num_descriptors q)" and reg: "reg_ok (dev s) (IGB_RDT (ucast i))"
    and apart: "descs_apart (rx_descriptors q)"
    and holds: "rx_ring_holds E (pools s ! rx_pool q) (rx_descriptors q) (rx_bufs_in_use q) (world s)"
    and run: "receive_packets E i m keep_packet s = Some (Val n, s')"
  shows "rx_queues (dev s') ! unat i = q\<lparr>rx_bufs_in_use := rx_bufs_in_use (rx_queues (dev s') ! unat i),
      rx_index := rx_index (rx_queues (dev s') ! unat i)\<rparr> \<and>
    rx_ring_holds E (pools s' ! rx_pool q) (rx_descriptors q) (rx_bufs_in_use (rx_queues (dev s') ! unat i)) (world s')"
proof -
  let ?p = "pools s ! rx_pool q" and ?c = "rx_index q"
  let ?res = "rx_batch E ?p q (unat m) ?c (free_stack ?p) (rx_bufs_in_use q) (world s)"
  have wf: "rxq_wf q" and h: "rx_pool q < length (pools s)" using drv_inv_rx(1,2) [OF inv i] by (simp_all add: q)
  have first: "bit (load_le E 8 (rx_descriptors q ! unat ?c + 8) (world s) :: u64) 0"
  proof (rule ccontr)
    assume no: "\<not> ?thesis"
    have "wp (receive_packets E i m keep_packet) (\<lambda>r _. r = Err NotReady) s"
      using no i wf status_bit [OF E(2), of 0] E(1)
      by (simp add: receive_packets_def can_recv_def wp_simps q [symmetric] rxq_wf_def RX_STATUS_DD_def plain_memory_def)
    then show False using run by (simp add: wp_def)
  qed
  have batch: "case ?res of None \<Rightarrow> \<exists>s'. receive_packets E i m keep_packet s = Some (Panicked IncreaseBufferSize, s')
     | Some res \<Rightarrow> receive_packets E i m keep_packet s = Some (Val (word_of_nat (length (fst res))), rx_received E i q s res)"
    by (rule receive_batch [OF inv i q big reg E(1,2) first])
  obtain pkts fs bufs w where res: "?res = Some (pkts, fs, bufs, w)"
    using batch run by (cases ?res) auto
  have s': "s' = rx_received E i q s (pkts, fs, bufs, w)" using batch run by (simp add: res)
  have "rx_ring_holds E ?p (rx_descriptors q) bufs w"
    by (rule rx_batch_holds [OF E(1) apart _ _ _ holds res]) (use wf in \<open>simp_all add: rxq_wf_def\<close>)
  moreover have "desc_kept E d w (world s')" for d
    using E(3) by (simp add: desc_kept_def s' rx_received_def registers_apart_def)
  note kept = rx_desc_cong [OF this]
  have "rx_ring_holds E (pools s' ! rx_pool q) (rx_descriptors q) bufs (world s')"
    using calculation h unfolding rx_ring_holds_def kept by (simp add: s' rx_received_def)
  moreover have "rx_queues (dev s') ! unat i = q\<lparr>rx_bufs_in_use := bufs, rx_index := rx_slot q ?c (length pkts)\<rparr>"
    using i by (simp add: s' rx_received_def)
  ultimately show ?thesis by simp
qed

section \<open>Runs\<close>

text \<open>
  What becomes of receive queue \<open>i\<close>: it is read by a client that keeps what it receives; between
  two calls, any other step of the system may happen, of the device too, that leaves the queue as it
  is and each of its descriptors either as it was or completed.
\<close>

definition rx_ring_kept :: "'w platform \<Rightarrow> IgbRxQueue \<Rightarrow> 'w \<Rightarrow> 'w \<Rightarrow> bool" where
  "rx_ring_kept E q w w' \<longleftrightarrow> (\<forall>d \<in> set (rx_descriptors q). rx_done E d w' \<or> desc_kept E d w w')"

inductive rx_run :: "'w platform \<Rightarrow> u16 \<Rightarrow> 'w nic \<Rightarrow> 'w nic \<Rightarrow> bool" for E i s0 where
  rx_run_start: "rx_run E i s0 s0"
| rx_run_receive: "rx_run E i s0 s \<Longrightarrow> receive_packets E i m keep_packet s = Some (Val n, s') \<Longrightarrow> rx_run E i s0 s'"
| rx_run_other: "rx_run E i s0 s \<Longrightarrow> nic_step E s s' \<Longrightarrow>
    rx_queues (dev s') ! unat i = rx_queues (dev s) ! unat i \<Longrightarrow> same_shape (pools s) (pools s') \<Longrightarrow>
    rx_ring_kept E (rx_queues (dev s) ! unat i) (world s) (world s') \<Longrightarrow> rx_run E i s0 s'"

definition rx_run_ok :: "'w platform \<Rightarrow> u16 \<Rightarrow> 'w nic \<Rightarrow> bool" where
  "rx_run_ok E i s \<longleftrightarrow> (let q = rx_queues (dev s) ! unat i in
     nic_inv s \<and> unat i < length (rx_queues (dev s)) \<and> descs_apart (rx_descriptors q) \<and>
     rx_ring_holds E (pools s ! rx_pool q) (rx_descriptors q) (rx_bufs_in_use q) (world s))"

lemma same_shape_phys: "same_shape ps ps' \<Longrightarrow> p < length ps \<Longrightarrow> phys_addr (ps' ! p) = phys_addr (ps ! p)"
  using same_shape_nth [of ps ps' p] by (metis MemPool.select_convs MemPool.surjective MemPool.update_convs)

lemma nic_inv_rx:
  fixes i :: u16
  assumes "nic_inv s" and "unat i < length (rx_queues (dev s))"
  shows "rx_pool (rx_queues (dev s) ! unat i) < length (pools s)"
    and "reg_ok (dev s) (IGB_RDT (ucast i))" and "1 < unat (rx_num_descriptors (rx_queues (dev s) ! unat i))"
  using assms drv_inv_rx(2) [of s "unat i"] by (auto simp: nic_inv_def config_ok_def)

lemma rx_run_step_receive:
  assumes E: "plain_memory E" "bit_field_crate E" "registers_apart E" and ok: "rx_run_ok E i s"
    and run: "receive_packets E i m keep_packet s = Some (Val n, s')"
  shows "rx_run_ok E i s'"
proof -
  let ?q = "rx_queues (dev s) ! unat i" and ?q' = "rx_queues (dev s') ! unat i"
  have inv: "nic_inv s" and i: "unat i < length (rx_queues (dev s))" and apart: "descs_apart (rx_descriptors ?q)"
    and holds: "rx_ring_holds E (pools s ! rx_pool ?q) (rx_descriptors ?q) (rx_bufs_in_use ?q) (world s)"
    using ok by (simp_all add: rx_run_ok_def Let_def)
  have "nic_step E s s'" by (rule step_receive [OF keep_packet_ok run]) simp
  then have "nic_inv s'" "same_config (dev s) (dev s')" using nic_step_keeps [OF _ inv] by blast+
  moreover have "length (rx_queues (dev s')) = length (rx_queues (dev s))"
    using calculation(2) unfolding same_config_def by (metis length_map)
  moreover have q': "?q' = ?q\<lparr>rx_bufs_in_use := rx_bufs_in_use ?q', rx_index := rx_index ?q'\<rparr>"
    and "rx_ring_holds E (pools s' ! rx_pool ?q) (rx_descriptors ?q) (rx_bufs_in_use ?q') (world s')"
    using receive_ring_holds [OF E _ i refl nic_inv_rx(3,2) [OF inv i] apart holds run] inv
    by (simp_all add: nic_inv_def)
  moreover have "rx_descriptors ?q' = rx_descriptors ?q" "rx_pool ?q' = rx_pool ?q" by (subst q', simp)+
  ultimately show ?thesis using i apart by (simp add: rx_run_ok_def Let_def)
qed

lemma rx_run_step_other:
  assumes ok: "rx_run_ok E i s" and step: "nic_step E s s'"
    and q: "rx_queues (dev s') ! unat i = rx_queues (dev s) ! unat i" and shape: "same_shape (pools s) (pools s')"
    and kept: "rx_ring_kept E (rx_queues (dev s) ! unat i) (world s) (world s')"
  shows "rx_run_ok E i s'"
proof -
  let ?q = "rx_queues (dev s) ! unat i"
  have inv: "nic_inv s" and i: "unat i < length (rx_queues (dev s))" and apart: "descs_apart (rx_descriptors ?q)"
    and holds: "rx_ring_holds E (pools s ! rx_pool ?q) (rx_descriptors ?q) (rx_bufs_in_use ?q) (world s)"
    using ok by (simp_all add: rx_run_ok_def Let_def)
  let ?posted = "\<lambda>p k w. rx_done E (rx_descriptors ?q ! k) w \<or>
    rx_posted E (rx_descriptors ?q ! k) (phys_addr p ! unat (rx_bufs_in_use ?q ! k)) w"
  have phys: "phys_addr (pools s' ! rx_pool ?q) = phys_addr (pools s ! rx_pool ?q)"
    by (rule same_shape_phys [OF shape nic_inv_rx(1) [OF inv i]])
  have "?posted (pools s' ! rx_pool ?q) k (world s')" if k: "k < length (rx_descriptors ?q)" for k
  proof -
    have "rx_done E (rx_descriptors ?q ! k) (world s') \<or> desc_kept E (rx_descriptors ?q ! k) (world s) (world s')"
      using kept nth_mem [OF k] by (simp add: rx_ring_kept_def)
    moreover have "?posted (pools s ! rx_pool ?q) k (world s)" using holds k by (simp add: rx_ring_holds_def)
    ultimately show ?thesis
      using rx_desc_cong [of E "rx_descriptors ?q ! k" "world s" "world s'"] by (auto simp: phys)
  qed
  then have "rx_ring_holds E (pools s' ! rx_pool ?q) (rx_descriptors ?q) (rx_bufs_in_use ?q) (world s')"
    using holds by (simp add: rx_ring_holds_def)
  moreover have "nic_inv s'" "same_config (dev s) (dev s')" using nic_step_keeps [OF step inv] by blast+
  moreover have "length (rx_queues (dev s')) = length (rx_queues (dev s))"
    using calculation(3) unfolding same_config_def by (metis length_map)
  ultimately show ?thesis using i apart by (simp add: rx_run_ok_def Let_def q)
qed

lemma rx_run_invariant:
  assumes "rx_run E i s0 s" and "plain_memory E" "bit_field_crate E" "registers_apart E" and "rx_run_ok E i s0"
  shows "rx_run_ok E i s"
  using assms(1)
  by induction (use assms(2-) in \<open>blast intro: rx_run_step_receive rx_run_step_other\<close>)+

section \<open>Who owns a posted buffer\<close>

lemma nic_inv_posted:
  fixes i :: u16
  assumes inv: "nic_inv s" and i: "unat i < length (rx_queues (dev s))" and q: "q = rx_queues (dev s) ! unat i"
    and b: "b \<in> set (rx_bufs_in_use q)"
  shows "b < num_entries (pools s ! rx_pool q)" and "b \<notin> set (free_stack (pools s ! rx_pool q))"
    and "\<forall>c \<in> set (client s). packet_pool c = rx_pool q \<longrightarrow> pool_entry c \<noteq> b"
    and "\<forall>t \<in> set (tx_queues (dev s)). tx_pool t = Some (rx_pool q) \<longrightarrow> b \<notin> set (tx_bufs_in_use t)"
proof -
  let ?p = "rx_pool q"
  have p: "?p < length (pools s)" using nic_inv_rx(1) [OF inv i] by (simp add: q)
  show lt: "b < num_entries (pools s ! ?p)"
    using rx_bufs_member [OF _ i q] inv b by (simp add: nic_inv_def)
  have one: "count (heap_share ?p s + dev_share ?p (dev s)) b = 1" by (rule nic_inv_count [OF inv p lt])
  have "rx_share ?p q \<subseteq># sum_list (map (rx_share ?p) (rx_queues (dev s)))"
    by (rule member_sum_list_map) (use i in \<open>simp add: q\<close>)
  moreover have "b \<in># rx_share ?p q" using b by (simp add: rx_share_def)
  ultimately have mine: "0 < count (sum_list (map (rx_share ?p) (rx_queues (dev s)))) b"
    by (metis count_greater_zero_iff mset_subset_eqD)
  then have rest: "count (mset (free_stack (pools s ! ?p))) b = 0" "count (sum_list (map (pkt_share ?p) (client s))) b = 0"
    "count (sum_list (map (tx_share ?p) (tx_queues (dev s)))) b = 0"
    using one mine unfolding heap_share_def dev_share_def count_union by linarith+
  show "b \<notin> set (free_stack (pools s ! ?p))" using rest(1) by (simp add: count_eq_zero_iff)
  have none: "x \<notin># M" if "x \<notin># N" "M \<subseteq># N" for x :: usize and M N using that by (metis mset_subset_eqD)
  show "\<forall>c \<in> set (client s). packet_pool c = ?p \<longrightarrow> pool_entry c \<noteq> b"
    using none [OF _ member_sum_list_map, of b "pkt_share ?p"] rest(2)
    by (fastforce simp: count_eq_zero_iff pkt_share_def)
  show "\<forall>t \<in> set (tx_queues (dev s)). tx_pool t = Some ?p \<longrightarrow> b \<notin> set (tx_bufs_in_use t)"
    using none [OF _ member_sum_list_map, of b "tx_share ?p"] rest(3)
    by (fastforce simp: count_eq_zero_iff tx_share_def)
qed

section \<open>From init on\<close>

lemma init_rx_run_ok:
  fixes h0 :: "('w, IgbNetBuf list) heap" and i :: u16
  assumes E: "plain_memory E" "memory_apart E"
    and ok: "init_ok E qs h (attach h0 (new_device base len nrx ntx))"
    and complete: "heap_complete h0" and qs: "two_power qs" "1 < unat qs" "qs < 0x10000000"
    and d: "IgbDevice_init E qs base len nrx ntx h h0 = Some (Val d, h')"
    and apart: "descs_apart (concat (map rx_descriptors (rx_queues d)))" and i: "i < nrx"
  shows "rx_run_ok E i (attach h' d)"
    and "rx_ring_posted E (pools h' ! h) (rx_descriptors (rx_queues d ! unat i)) (rx_bufs_in_use (rx_queues d ! unat i)) (world h')"
    and "started_rx qs h (rx_queues d ! unat i)"
proof -
  have r: "length (rx_queues d) = unat nrx" "\<forall>q \<in> set (rx_queues d). started_rx qs h q"
      "rings_posted E (pools h' ! h) (unat nrx) (rx_queues d) (world h')"
    using wpD [OF IgbDevice_init_spec [OF ok complete qs(3)] d] qs(1) by (auto split: if_splits)
  have i': "unat i < length (rx_queues d)" using i by (simp add: r word_less_nat_alt)
  show st: "started_rx qs h (rx_queues d ! unat i)" using r(2) i' by simp
  show posted: "rx_ring_posted E (pools h' ! h) (rx_descriptors (rx_queues d ! unat i)) (rx_bufs_in_use (rx_queues d ! unat i)) (world h')"
    using r(1,3) E apart i' by (simp add: rings_posted_def)
  have "descs_apart (rx_descriptors (rx_queues d ! unat i))"
    using st ring_at_apart unfolding started_rx_def by blast
  then show "rx_run_ok E i (attach h' d)"
    using initialised_nic_inv [OF ok complete qs d] i' rx_ring_posted_holds [OF posted] st
    by (simp add: rx_run_ok_def Let_def attach_def started_rx_def)
qed

lemma posted_buffer_owned:
  fixes i :: u16
  assumes ok: "rx_run_ok E i s" and q: "q = rx_queues (dev s) ! unat i" "p = pools s ! rx_pool q"
    and k: "k < length (rx_descriptors q)" "\<not> rx_done E (rx_descriptors q ! k) (world s)"
  shows "\<exists>b. rx_posted E (rx_descriptors q ! k) (phys_addr p ! unat b) (world s) \<and> b < num_entries p \<and>
    b \<notin> set (free_stack p) \<and> (\<forall>c \<in> set (client s). packet_pool c = rx_pool q \<longrightarrow> pool_entry c \<noteq> b) \<and>
    (\<forall>t \<in> set (tx_queues (dev s)). tx_pool t = Some (rx_pool q) \<longrightarrow> b \<notin> set (tx_bufs_in_use t))"
proof -
  have i: "nic_inv s" "unat i < length (rx_queues (dev s))"
    and holds: "rx_ring_holds E p (rx_descriptors q) (rx_bufs_in_use q) (world s)"
    using ok q by (simp_all add: rx_run_ok_def Let_def)
  have "rx_bufs_in_use q ! k \<in> set (rx_bufs_in_use q)" using holds k by (simp add: rx_ring_holds_def)
  note owned = nic_inv_posted [OF i q(1) this, folded q(2)]
  have "rx_posted E (rx_descriptors q ! k) (phys_addr p ! unat (rx_bufs_in_use q ! k)) (world s)"
    using holds k unfolding rx_ring_holds_def by blast
  then show ?thesis using owned by blast
qed

end
