(* ===== verification/Sim.thy ===== *)
theory Sim
  imports Client_Spec Tx_Ring Rx_Ring
begin

text \<open>
  A simulated platform and a running driver on it, on which the results are tried out: byte
  memory, an identity mapping of addresses as in \<open>tests/test.rs\<close>, a bump allocator, and a device
  whose registers read as all ones, except the control register, which reads as zero.
\<close>

section \<open>The platform\<close>

record sim =
  ram :: "usize \<Rightarrow> u8"
  brk :: usize
  writes :: "(usize \<times> u32) list"

definition sim_window :: usize where "sim_window = 0x10000"

definition sim_load :: "usize \<Rightarrow> sim \<Rightarrow> u8" where
  "sim_load a w = ram w a"

definition sim_store :: "usize \<Rightarrow> u8 \<Rightarrow> sim \<Rightarrow> sim" where
  "sim_store a v w = w\<lparr>ram := (ram w)(a := v)\<rparr>"

fun sim_stores :: "(usize \<times> u8) list \<Rightarrow> sim \<Rightarrow> sim" where
  "sim_stores [] w = w"
| "sim_stores ((a, b) # rest) w = sim_stores rest (sim_store a b w)"

definition sim_read :: "nat \<Rightarrow> usize \<Rightarrow> sim \<Rightarrow> 'n::len word \<times> sim" where
  "sim_read k a w = (le_value (map (\<lambda>b. sim_load b w) (byte_addrs a k)), w)"

definition sim_write :: "nat \<Rightarrow> usize \<Rightarrow> 'n::len word \<Rightarrow> sim \<Rightarrow> sim" where
  "sim_write k a v = sim_stores (zip (byte_addrs a k) (le_bytes k v))"

definition sim_mmio_read :: "usize \<Rightarrow> sim \<Rightarrow> u32 \<times> sim" where
  "sim_mmio_read a w = (if a = sim_window + ucast IGB_CTRL then 0 else - 1, w)"

definition sim_mmio_write :: "usize \<Rightarrow> u32 \<Rightarrow> sim \<Rightarrow> sim" where
  "sim_mmio_write a v w = w\<lparr>writes := writes w @ [(a, v)]\<rparr>"

definition sim_alloc :: "usize \<Rightarrow> sim \<Rightarrow> (PhysAddr \<times> VirtAddr) \<times> sim" where
  "sim_alloc sz w = (let a = 0x100000 + take_bit 32 (brk w) in ((a, a), w\<lparr>brk := brk w + sz\<rparr>))"

definition sim_hal :: "sim IgbHal" where
  "sim_hal = \<lparr>dma_alloc = sim_alloc, dma_dealloc = (\<lambda>_ _ _ w. (0, w)),
     mmio_phys_to_virt = (\<lambda>p _ w. (p, w)), mmio_virt_to_phys = (\<lambda>v _ w. (v, w)),
     wait_until = (\<lambda>_ w. (True, w))\<rparr>"

definition sim_platform :: "bool \<Rightarrow> sim platform" where
  "sim_platform ck = \<lparr>overflow_checks = ck, info_enabled = True, hal = sim_hal,
     mmio_read = sim_mmio_read, mmio_write = sim_mmio_write,
     volatile_read64 = sim_read 8, volatile_read32 = sim_read 4,
     volatile_write64 = sim_write 8, volatile_write32 = sim_write 4,
     volatile_write16 = sim_write 2, volatile_write8 = sim_store,
     load8 = sim_load, store8 = sim_store,
     get_bits = (\<lambda>x lo hi. take_bit (hi - lo) (drop_bit lo x))\<rparr>"

abbreviation "sim_debug \<equiv> sim_platform True"
abbreviation "sim_release \<equiv> sim_platform False"

text \<open>It behaves as documented.\<close>

lemma sim_hal_simps [simp]:
  "hal (sim_platform ck) = sim_hal" "overflow_checks (sim_platform ck) = ck"
  "mmio_read (sim_platform ck) = sim_mmio_read" "mmio_write (sim_platform ck) = sim_mmio_write"
  "wait_until sim_hal ms w = (True, w)" "dma_alloc sim_hal = sim_alloc"
  by (simp_all add: sim_platform_def sim_hal_def)

lemma sim_bit_field: "bit_field_crate (sim_platform ck)"
  by (simp add: bit_field_crate_def sim_platform_def)

lemma sim_byte_memory: "byte_memory (sim_platform ck)"
  by (simp add: byte_memory_def sim_platform_def sim_load_def sim_store_def)

lemma sim_stores_eq: "store_bytes (sim_platform ck) ps w = sim_stores ps w"
  by (induction ps arbitrary: w) (auto simp: sim_platform_def)

lemma sim_plain_memory: "plain_memory (sim_platform ck)"
proof -
  have l: "load8 (sim_platform ck) = sim_load" "store8 (sim_platform ck) = sim_store"
    by (simp_all add: sim_platform_def)
  have "store_bytes (sim_platform ck) ps = sim_stores ps" for ps by (rule ext) (rule sim_stores_eq)
  then show ?thesis using sim_byte_memory
    by (simp add: plain_memory_def load_le_def store_le_def l sim_platform_def sim_read_def sim_write_def fun_eq_iff)
qed

lemma sim_alloc_valid:
  assumes "unat sz < 2 ^ 63"
  shows "dma_valid (sim_platform ck) sz w"
proof -
  have b: "unat (take_bit 32 (brk w)) < 2 ^ 32" using take_bit_nat_less_exp [of 32 "unat (brk w)"] by (simp add: unsigned_take_bit_eq)
  then have "unat (0x100000 + take_bit 32 (brk w)) = 0x100000 + unat (take_bit 32 (brk w))"
    by (subst unat_add_no_wrap) simp_all
  then show ?thesis using assms b
    by (auto simp: dma_valid_def sim_alloc_def Let_def)
qed

lemma sim_poll_world [simp]: "poll_world (sim_platform ck) a k w = w"
  by (induction k) (simp_all add: sim_mmio_read_def)

lemma sim_poll_value: "poll_value (sim_platform ck) a k w = (if a = sim_window + ucast IGB_CTRL then 0 else - 1)"
  by (simp add: poll_value_def sim_mmio_read_def)

lemma sim_poll_ends:
  "poll_ends (sim_platform ck) a stop \<longleftrightarrow> stop (if a = sim_window + ucast IGB_CTRL then 0 else - 1)"
  by (simp add: poll_ends_def sim_poll_value)


section \<open>A running driver\<close>

text \<open>
  One pool of 64 buffers of 2048 bytes. Four of them lie under the descriptors of a receive
  ring, forty are in flight in a transmit ring of 64 descriptors, two are in packets of the
  client, the rest is free. All memory reads as ones: every descriptor is done.
\<close>

definition sim_world :: sim where
  "sim_world = \<lparr>ram = (\<lambda>_. - 1), brk = 0, writes = []\<rparr>"

definition sim_pool :: "usize list \<Rightarrow> MemPool" where
  "sim_pool fs = \<lparr>base_addr = 0x800000, num_entries = 64, entry_size = 2048,
     phys_addr = map (\<lambda>i. 0x800000 + i * 2048) (word_range 64), free_stack = fs\<rparr>"

definition sim_bufs :: "nat \<Rightarrow> nat \<Rightarrow> usize list" where
  "sim_bufs from len = take len (drop from (word_range 64))"

definition sim_descriptors :: "usize \<Rightarrow> usize \<Rightarrow> usize list" where
  "sim_descriptors a n = map (\<lambda>i. a + i * 16) (word_range n)"

definition sim_rxq :: IgbRxQueue where
  "sim_rxq = \<lparr>rx_descriptors = sim_descriptors 0x200000 4, rx_num_descriptors = 4, rx_pool = 0,
     rx_bufs_in_use = sim_bufs 0 4, rx_index = 0\<rparr>"

text \<open>A transmit ring of \<open>n\<close> descriptors with \<open>k\<close> buffers in flight, from buffer 4 on.\<close>

definition sim_ring :: "usize \<Rightarrow> nat \<Rightarrow> IgbTxQueue" where
  "sim_ring n k = \<lparr>tx_descriptors = sim_descriptors 0x300000 n, tx_num_descriptors = n,
     tx_pool = Some 0, tx_bufs_in_use = sim_bufs 4 k, clean_index = 0, tx_index = word_of_nat k\<rparr>"

abbreviation sim_txq :: IgbTxQueue where "sim_txq \<equiv> sim_ring 64 40"

definition sim_device :: "IgbTxQueue \<Rightarrow> IgbDevice" where
  "sim_device q = \<lparr>dev_addr = sim_window, dev_len = 0x20000, num_rx_queues = 1, num_tx_queues = 1,
     rx_queues = [sim_rxq], tx_queues = [q], interrupts = Interrupts_default\<rparr>"

definition sim_packet :: "usize \<Rightarrow> IgbNetBuf" where
  "sim_packet e = new_packet (sim_pool []) 0 100 e"

definition sim_nic :: "IgbTxQueue \<Rightarrow> usize list \<Rightarrow> usize list \<Rightarrow> sim nic" where
  "sim_nic q held free = \<lparr>world = sim_world, pools = [sim_pool free],
     client = map sim_packet held, dev = sim_device q\<rparr>"

text \<open>The state most results are tried on, and one with a full ring of 16 descriptors.\<close>

definition sim_state :: "usize list \<Rightarrow> sim nic" where
  "sim_state held = sim_nic sim_txq held (sim_bufs 46 18)"

definition sim_jammed :: "usize list \<Rightarrow> sim nic" where
  "sim_jammed held = sim_nic (sim_ring 16 15) held (sim_bufs 20 44)"

text \<open>A heap before \<open>init\<close>: one pool, all of it free.\<close>

definition sim_heap :: "(sim, IgbNetBuf list) heap" where
  "sim_heap = \<lparr>world = sim_world, pools = [sim_pool (word_range 64)], client = []\<rparr>"

lemma le_value_ones: "LENGTH('n) = 8 * k \<Longrightarrow> le_value (replicate k (- 1)) = (- 1 :: 'n::len word)"
  by (rule bit_word_eqI) (auto simp: bit_le_value less_mult_imp_div_less mult.commute)

lemma sim_world_bytes: "map (\<lambda>b. sim_load b sim_world) as = replicate (length as) (- 1)"
  by (induction as) (simp_all add: sim_load_def sim_world_def)

lemma sim_reads:
  "volatile_read32 (sim_platform ck) a sim_world = (- 1, sim_world)"
  "volatile_read64 (sim_platform ck) a sim_world = (- 1, sim_world)"
  by (simp_all add: sim_platform_def sim_read_def sim_world_bytes byte_addrs_def le_value_ones)

lemma sim_load_ones: "load_le (sim_platform ck) 8 a sim_world = (- 1 :: u64)"
  using sim_reads(2) [of ck a] sim_plain_memory [of ck] by (simp add: plain_memory_def)

lemma sim_bufs_split: "mset (sim_bufs a n) + mset (drop (a + n) (word_range 64)) = mset (drop a (word_range 64))"
proof -
  have "mset (take n xs) + mset (drop n xs) = mset xs" for xs :: "usize list"
    by (simp flip: mset_append)
  from this [of "drop a (word_range 64)"] show ?thesis by (simp add: sim_bufs_def add.commute)
qed

lemma sim_bufs_length [simp]: "length (sim_bufs a n) = min n (64 - a)"
  by (simp add: sim_bufs_def min.commute)

lemma sim_bufs_nth: "i < n \<Longrightarrow> a + i < 64 \<Longrightarrow> sim_bufs a n ! i = word_of_nat (a + i)"
  by (simp add: sim_bufs_def)

lemma sim_bufs_upt: "a + n \<le> 64 \<Longrightarrow> sim_bufs a n = map word_of_nat [a..<a + n]"
  by (rule nth_equalityI) (simp_all add: sim_bufs_nth)

lemma sim_pool_wf: "distinct fs \<Longrightarrow> set fs \<subseteq> set (word_range 64) \<Longrightarrow> pool_wf (sim_pool fs)"
  by (auto simp: pool_wf_def sim_pool_def set_word_range)

lemma sim_bufs_set: "set (sim_bufs a n) \<subseteq> set (word_range 64)"
  unfolding sim_bufs_def by (meson set_drop_subset set_take_subset subset_trans)

lemma sim_pool_ok: "packet_pool_ok (sim_pool (sim_bufs a n))"
proof -
  have a: "unat (0x800000 + i * 2048 :: usize) < 0xFFFFFFFFFFFFFFE0" if "i < 64" for i :: usize
  proof -
    have i: "unat i < 64" using that by (simp add: word_less_nat_alt)
    then have "unat (i * 2048) = unat i * 2048" by (subst unat_mult_no_wrap) simp_all
    then show ?thesis using i by (subst unat_add_no_wrap) simp_all
  qed
  then show ?thesis
    using sim_pool_wf [OF _ sim_bufs_set, of a n]
    by (auto simp: packet_pool_ok_def sim_pool_def sim_bufs_def distinct_word_range PACKET_HEADROOM_def
        set_word_range a)
qed

lemma sim_ring_sizes [simp]: "ring_size_ok 4" "ring_size_ok 16" "ring_size_ok 64"
  by (simp_all add: ring_size_ok_def)

lemma sim_rxq_wf: "rxq_wf sim_rxq"
  by (simp add: rxq_wf_def sim_rxq_def sim_descriptors_def)

lemma sim_ring_wf:
  assumes "ring_size_ok n" "k < unat n" "unat n \<le> 64" "k \<le> 60"
  shows "txq_wf (sim_ring n k)"
  using assms by (simp add: txq_wf_def sim_ring_def sim_descriptors_def txq_in_flight_def ring_dist_def
      unat_of_nat take_bit_nat_eq_self)

lemma sim_config: "config_ok (sim_device q)"
  by (auto simp: config_ok_def sim_device_def sim_rxq_def sim_window_def reg_ok_def unat_eq_zero
      IGB_RDT_def IGB_TDT_def)

lemma sim_packets_share:
  "sum_list (map (pkt_share 0) (map sim_packet held)) = mset held"
  by (induction held) (simp_all add: pkt_share_def sim_packet_def new_packet_def Packet_new_def)

lemma sim_nic_inv:
  assumes q: "txq_wf q" "tx_pool q = Some 0"
    and all: "mset (sim_bufs 0 4) + mset (tx_bufs_in_use q) + mset held + mset free = mset (word_range 64)"
  shows "nic_inv (sim_nic q held free)"
proof -
  have "mset free \<subseteq># all_bufs (sim_pool [])"
    unfolding all_bufs_def by (simp add: sim_pool_def flip: all)
  then have "pool_wf ((sim_pool [])\<lparr>free_stack := free\<rparr>)"
    by (intro pool_wf_stack sim_pool_wf) simp_all
  moreover have "(sim_pool [])\<lparr>free_stack := free\<rparr> = sim_pool free" "free_stack (sim_pool free) = free"
    by (simp_all add: sim_pool_def)
  moreover have "all_bufs (sim_pool free) = mset (word_range 64)" by (simp add: all_bufs_def sim_pool_def)
  moreover have "\<forall>b \<in> set (map sim_packet held). packet_pool b = 0"
    by (auto simp: sim_packet_def new_packet_def Packet_new_def)
  ultimately have "drv_inv (sim_nic q held free)"
    using q all sim_rxq_wf sim_packets_share [of held]
    by (simp add: drv_inv_def sim_nic_def heap_wf_def queues_wf_def sim_device_def heap_share_def
        dev_share_def rx_share_def tx_share_def sim_rxq_def add_ac)
  then show ?thesis using sim_config by (simp add: nic_inv_def sim_nic_def)
qed

lemma sim_bufs_cover:
  "mset (sim_bufs 0 4) + mset (sim_bufs 4 40) + mset (sim_bufs 44 2) + mset (sim_bufs 46 18) = mset (word_range 64)"
  "mset (sim_bufs 0 4) + mset (sim_bufs 4 15) + mset (sim_bufs 19 (Suc 0)) + mset (sim_bufs 20 44) = mset (word_range 64)"
  using sim_bufs_split [of 0 4] sim_bufs_split [of 4 40] sim_bufs_split [of 44 2] sim_bufs_split [of 46 18]
    sim_bufs_split [of 4 15] sim_bufs_split [of 19 1] sim_bufs_split [of 20 44]
  by (simp_all add: add.assoc)

lemma sim_held: "sim_bufs 44 2 = [44, 45]" "sim_bufs 19 (Suc 0) = [19]"
   apply (rule nth_equalityI; auto dest: less_2_cases simp: sim_bufs_nth)
  apply (rule nth_equalityI; auto simp: sim_bufs_nth)
  done

lemma sim_inv: "nic_inv (sim_state [44, 45])"
  unfolding sim_state_def
  by (rule sim_nic_inv) (use sim_bufs_cover(1) sim_ring_wf [of 64 40] in \<open>simp_all add: sim_ring_def sim_held\<close>)

lemma sim_jammed_inv: "nic_inv (sim_jammed [19])"
  unfolding sim_jammed_def
  by (rule sim_nic_inv) (use sim_bufs_cover(2) sim_ring_wf [of 16 15] in \<open>simp_all add: sim_ring_def sim_held\<close>)

text \<open>A packet of the client, moved out of its list.\<close>

lemma sim_moved:
  "(sim_state held)\<lparr>client := sim_packet e # client (sim_state held)\<rparr> = sim_state (e # held)"
  "(sim_jammed held)\<lparr>client := sim_packet e # client (sim_jammed held)\<rparr> = sim_jammed (e # held)"
  by (simp_all add: sim_state_def sim_jammed_def sim_nic_def)

lemma sim_state_simps [simp]:
  "dev (sim_state held) = sim_device sim_txq" "pools (sim_state held) = [sim_pool (sim_bufs 46 18)]"
  "world (sim_state held) = sim_world" "client (sim_state held) = map sim_packet held"
  "dev (sim_jammed held) = sim_device (sim_ring 16 15)" "tx_queues (sim_device q) = [q]"
  "rx_queues (sim_device q) = [sim_rxq]" "dev_addr (sim_device q) = sim_window"
  by (simp_all add: sim_state_def sim_jammed_def sim_nic_def sim_device_def)

lemma sim_state_world [simp]: "(sim_state held)\<lparr>world := sim_world\<rparr> = sim_state held"
  by (simp add: sim_state_def sim_nic_def)

lemma sim_window_regs: "window_ok (sim_device q)"
  by (simp add: window_ok_def sim_device_def sim_window_def)

text \<open>The hypotheses of \<open>init\<close>.\<close>

lemma sim_heap_complete: "heap_complete sim_heap"
proof -
  have "pool_wf (sim_pool (word_range 64))" by (rule sim_pool_wf) (simp_all add: distinct_word_range)
  then show ?thesis by (simp add: heap_complete_def sim_heap_def heap_wf_def heap_share_def all_bufs_def sim_pool_def)
qed

lemma sim_not_ctrl: "unat r \<noteq> 0 \<Longrightarrow> (ucast (r :: u32) :: usize) \<noteq> ucast IGB_CTRL"
  by (simp add: IGB_CTRL_def word_unat_eq_iff)

lemma sim_queue_enable:
  assumes "unat (i :: u16) < 128"
  shows "(ucast (IGB_RXDCTL (ucast i)) :: usize) \<noteq> ucast IGB_CTRL"
    and "(ucast (IGB_TXDCTL (ucast i)) :: usize) \<noteq> ucast IGB_CTRL"
  using queue_register [OF assms, where r = "0xC028"] queue_register [OF assms, where r = "0xE028"]
  by (intro sim_not_ctrl; simp add: IGB_RXDCTL_def IGB_TXDCTL_def)+

lemma sim_responds:
  assumes "dev_addr d = sim_window" "unat (num_rx_queues d) \<le> 128" "unat (num_tx_queues d) \<le> 128"
  shows "device_responds (sim_platform ck) d"
proof -
  have "(ucast IGB_CTRL_EXT :: usize) \<noteq> ucast IGB_CTRL" "(ucast IGB_MDIC :: usize) \<noteq> ucast IGB_CTRL"
    by (intro sim_not_ctrl; simp add: IGB_CTRL_EXT_def IGB_MDIC_def)+
  moreover have "unat i < 128" if "unat i < unat (num_rx_queues d) \<or> unat i < unat (num_tx_queues d)" for i :: u16
    using that assms(2,3) by linarith
  ultimately show ?thesis using assms(1) sim_queue_enable
    by (auto simp: device_responds_def sim_poll_ends)
qed

lemma sim_init_ok:
  assumes "unat qs < 2 ^ 32" "qs \<noteq> 0" "unat nrx \<le> 128" "unat ntx \<le> 128"
  shows "init_ok (sim_platform ck) qs 0 (attach sim_heap (new_device sim_window 0x20000 nrx ntx))"
proof -
  have "unat (qs * 16) < 2 ^ 63" using assms(1) by (subst unat_mult_no_wrap) simp_all
  moreover have "pool_wf (sim_pool (word_range 64))" by (rule sim_pool_wf) (simp_all add: distinct_word_range)
  ultimately show ?thesis using assms sim_alloc_valid sim_responds
    by (simp add: init_ok_def rings_allocate_def attach_def new_device_def sim_heap_def window_ok_def sim_window_def)
qed

section \<open>A driver from init on\<close>

text \<open>One receive queue of four descriptors and one transmit queue; a packet is then sent.\<close>

lemma sim_memory_apart: "memory_apart (sim_platform ck)"
  by (simp add: memory_apart_def registers_apart_def sim_mmio_read_def)
    (simp add: sim_platform_def sim_mmio_write_def sim_load_def)

lemma sim_registers_apart: "registers_apart (sim_platform ck)"
  using sim_memory_apart [of ck] by (simp add: memory_apart_def)

lemma sim_small_init: "init_ok sim_debug 4 0 (attach sim_heap (new_device sim_window 0x20000 1 1))"
  by (rule sim_init_ok) simp_all

lemma sim_small_size: "two_power 4" "1 < unat (4 :: usize)" "(4 :: usize) < 0x10000000"
  by (simp_all add: two_power_def)

definition sim_driver :: "IgbDevice \<Rightarrow> (sim, IgbNetBuf list) heap \<Rightarrow> bool" where
  "sim_driver d h' \<longleftrightarrow> IgbDevice_init sim_debug 4 sim_window 0x20000 1 1 0 sim_heap = Some (Val d, h')"

lemma sim_init:
  obtains d h' where "sim_driver d h'" and "length (rx_queues d) = 1" "length (pools h') = 1"
proof -
  obtain d h' where "sim_driver d h'" and "length (rx_queues d) = 1" and "same_shape (pools sim_heap) (pools h')"
    using wp_returns [OF IgbDevice_init_spec [OF sim_small_init sim_heap_complete sim_small_size(3)]] sim_small_size(1)
    by (auto simp: sim_driver_def sim_heap_def sim_pool_def split: if_splits)
  then show ?thesis using that same_shape_length [of "pools sim_heap" "pools h'"] by (simp add: sim_heap_def)
qed

text \<open>The packet is sent, and the device writes its completion back.\<close>

lemma sim_send_run:
  assumes d: "sim_driver d h'"
  obtains s desc where "send sim_debug 0 (sim_packet 44) (attach h' d) = Some (Val (), s)"
    and "tx_bufs_in_use (tx_queues (dev s) ! 0) = [44]"
    and "tx_run sim_debug 0 (attach h' d) [sim_packet 44] 1 (s\<lparr>world := store_le sim_debug 4 (desc + 12) IGB_ADVTXD_STAT_DD (world s)\<rparr>)"
proof -
  let ?start = "attach h' d" and ?b = "sim_packet 44"
  let ?q = "tx_queues d ! 0" and ?s = "sent_state sim_debug 0 ?b (attach h' d)"
  let ?slot = "tx_slot (tx_queues (dev ?s) ! 0) 0"
  let ?s' = "?s\<lparr>world := store_le sim_debug 4 (?slot + 12) IGB_ADVTXD_STAT_DD (world ?s)\<rparr>"
  note ok = init_tx_run_ok [OF sim_small_init sim_heap_complete sim_small_size(1,3) d [unfolded sim_driver_def], of 0, simplified]
  have q: "fresh_tx 4 ?q" "0 < length (tx_queues d)" "reg_ok d (IGB_TDT 0)" "dev ?start = d" "pools ?start \<noteq> []"
    using ok by (simp_all add: attach_def tx_run_ok_def Let_def)
  have used: "tx_bufs_in_use ?q = []" "tx_num_descriptors ?q = 4"
    using q(1) unfolding fresh_tx_def by (metis IgbTxQueue.select_convs)+
  have b: "packet_pool ?b = 0" "pool_entry ?b = 44" by (simp_all add: sim_packet_def new_packet_def Packet_new_def)
  have send: "send sim_debug 0 ?b ?start = Some (Val (), ?s)"
    by (rule send_room [where q = ?q]) (use q used fresh_tx_wf [OF q(1)] in simp_all)
  have bufs: "tx_bufs_in_use (tx_queues (dev ?s) ! 0) = [44]"
    using q used by (simp add: sent_state_def Let_def txq_push_def b)
  have "tx_run sim_debug 0 ?start ([] @ [?b]) 0 ?s"
    by (rule run_send [OF run_start _ send]) (use q(5) b in simp)
  moreover have "device_completes sim_debug (tx_queues (dev ?s) ! 0) 1 (world ?s) (world ?s')"
    using tx_done_written [OF sim_plain_memory, of True ?slot] by (simp add: device_completes_def bufs)
  ultimately have "tx_run sim_debug 0 ?start [?b] 1 ?s'"
    using run_other [of sim_debug 0 ?start "[?b]" 0 ?s 1 0 ?s'] by (simp add: bufs)
  then show ?thesis using that send bufs by blast
qed

text \<open>The device completes the first receive descriptor; the second stays posted.\<close>

lemma sim_receive_run:
  assumes d: "sim_driver d h'" and n: "length (rx_queues d) = 1"
  obtains s where "rx_run sim_debug 0 (attach h' d) s" and "dev s = d" "pools s = pools h'"
    and "descs_apart (concat (map rx_descriptors (rx_queues d)))"
    and "rx_done sim_debug (rx_descriptors (rx_queues d ! 0) ! 0) (world s)"
    and "\<not> rx_done sim_debug (rx_descriptors (rx_queues d ! 0) ! 1) (world s)"
    and "length (rx_descriptors (rx_queues d ! 0)) = 4" "rx_pool (rx_queues d ! 0) = 0"
proof -
  let ?q = "rx_queues d ! 0" and ?start = "attach h' d"
  let ?ds = "rx_descriptors ?q"
  let ?s = "?start\<lparr>world := store_le sim_debug 4 (?ds ! 0 + 8) IGB_RXD_STAT_DD (world h')\<rparr>"
  have one: "rx_queues d = [?q]" using n by (cases "rx_queues d") simp_all
  have st: "started_rx 4 0 ?q"
    using wpD [OF IgbDevice_init_spec [OF sim_small_init sim_heap_complete sim_small_size(3)] d [unfolded sim_driver_def]]
      sim_small_size(1) one by (auto split: if_splits)
  then have ds: "descs_apart ?ds" and len: "length ?ds = 4" "rx_pool ?q = 0"
    using ring_at_apart unfolding started_rx_def by (blast, simp, simp)
  have apart: "descs_apart (concat (map rx_descriptors (rx_queues d)))" by (subst one) (simp add: ds)
  have posted: "rx_ring_posted sim_debug (pools h' ! 0) ?ds (rx_bufs_in_use ?q) (world h')"
    using init_rx_run_ok(2) [OF sim_plain_memory sim_memory_apart sim_small_init sim_heap_complete sim_small_size
      d [unfolded sim_driver_def] apart, of 0] by simp
  have kept: "desc_kept sim_debug (?ds ! k) (world h') (world ?s)" if "0 < k" "k < 4" for k
  proof -
    have "set (byte_addrs (?ds ! 0 + 8) 4) \<subseteq> set (byte_addrs (?ds ! 0) 16)"
      using byte_addrs_within [of 8 4 16 "?ds ! 0"] by simp
    moreover have "set (byte_addrs (?ds ! 0) 16) \<inter> set (byte_addrs (?ds ! k) 16) = {}"
      using ds that unfolding descs_apart_def by (simp add: len)
    ultimately show ?thesis using store_le_kept [OF sim_byte_memory [of True]] by fastforce
  qed
  have done0: "rx_done sim_debug (?ds ! 0) (world ?s)" using rx_done_written [OF sim_plain_memory [of True]] by simp
  have "rx_ring_kept sim_debug ?q (world h') (world ?s)"
    using kept done0 len unfolding rx_ring_kept_def by (metis in_set_conv_nth neq0_conv)
  then have "rx_run sim_debug 0 ?start ?s"
    by (intro rx_run_other [OF rx_run_start step_device]) (simp_all add: attach_def)
  moreover have "rx_posted sim_debug (?ds ! 1) (phys_addr (pools h' ! 0) ! unat (rx_bufs_in_use ?q ! 1)) (world h')"
    using posted len by (simp add: rx_ring_posted_def)
  then have "\<not> rx_done sim_debug (?ds ! 1) (world ?s)"
    using rx_desc_cong(1) [OF kept [of 1]] rx_posted_not_done by simp
  ultimately show ?thesis using that done0 apart len by (simp add: attach_def)
qed

end
