(* ===== verification/Draft_Regs.thy ===== *)
theory Draft_Regs
  imports Platform
begin

text \<open>
  Registers of the earlier driver that the repository keeps under \<open>doc/main\<close> (\<open>regs.rs\<close>): the
  flag structures with their values, and register access. It is a crate of its own with its own
  error type; of the crates it uses, \<open>bitflags\<close> and \<open>dma_api\<close>, and of the kernel's \<open>sleep\<close>, the
  model has a parameter each. A flag structure is the \<open>u32\<close> it wraps: \<open>bits\<close> and
  \<open>from_bits_retain\<close> do nothing. The arithmetic of the indexed registers wraps, as in a release
  build; the code only uses index 0.
\<close>

section \<open>Flags\<close>

definition CTRL_FD :: u32 where "CTRL_FD = 0x00000001"
definition CTRL_PRIOR :: u32 where "CTRL_PRIOR = 0x00000004"
definition CTRL_GIO_PRIMARY_DISABLE :: u32 where "CTRL_GIO_PRIMARY_DISABLE = 0x00000004"
definition CTRL_LRST :: u32 where "CTRL_LRST = 0x00000008"
definition CTRL_ASDE :: u32 where "CTRL_ASDE = 0x00000020"
definition CTRL_SLU :: u32 where "CTRL_SLU = 0x00000040"
definition CTRL_ILOS :: u32 where "CTRL_ILOS = 0x00000080"
definition CTRL_SPD_SEL :: u32 where "CTRL_SPD_SEL = 0x00000300"
definition CTRL_SPD_10 :: u32 where "CTRL_SPD_10 = 0x00000000"
definition CTRL_SPD_100 :: u32 where "CTRL_SPD_100 = 0x00000100"
definition CTRL_SPD_1000 :: u32 where "CTRL_SPD_1000 = 0x00000200"
definition CTRL_FRCSPD :: u32 where "CTRL_FRCSPD = 0x00000800"
definition CTRL_FRCDPX :: u32 where "CTRL_FRCDPX = 0x00001000"
definition CTRL_SWDPIN0 :: u32 where "CTRL_SWDPIN0 = 0x00040000"
definition CTRL_SWDPIN1 :: u32 where "CTRL_SWDPIN1 = 0x00080000"
definition CTRL_SWDPIN2 :: u32 where "CTRL_SWDPIN2 = 0x00100000"
definition CTRL_ADVD3WUC :: u32 where "CTRL_ADVD3WUC = 0x00100000"
definition CTRL_SWDPIN3 :: u32 where "CTRL_SWDPIN3 = 0x00200000"
definition CTRL_SWDPIN0_IO :: u32 where "CTRL_SWDPIN0_IO = 0x00400000"
definition CTRL_DEV_RST :: u32 where "CTRL_DEV_RST = 0x20000000"
definition CTRL_RST :: u32 where "CTRL_RST = 0x04000000"
definition CTRL_RFCE :: u32 where "CTRL_RFCE = 0x08000000"
definition CTRL_TFCE :: u32 where "CTRL_TFCE = 0x10000000"
definition CTRL_VME :: u32 where "CTRL_VME = 0x40000000"
definition CTRL_PHY_RST :: u32 where "CTRL_PHY_RST = 0x80000000"
definition CTRL_I2C_ENA :: u32 where "CTRL_I2C_ENA = 0x02000000"
definition CTRL_REG :: u32 where "CTRL_REG = 0x00000"

definition STATUS_FD :: u32 where "STATUS_FD = 0x00000001"
definition STATUS_LU :: u32 where "STATUS_LU = push_bit 1 1"
definition STATUS_LAN_ID :: u32 where "STATUS_LAN_ID = push_bit 2 1"
definition STATUS_TXOFF :: u32 where "STATUS_TXOFF = push_bit 4 1"
definition STATUS_SPEED :: u32 where "STATUS_SPEED = push_bit 6 1"
definition STATUS_PHYRA :: u32 where "STATUS_PHYRA = push_bit 10 1"
definition STATUS_REG :: u32 where "STATUS_REG = 0x00008"

definition CTRL_EXT_EE_RST :: u32 where "CTRL_EXT_EE_RST = push_bit 13 1"
definition CTRL_EXT_DRV_LOAD :: u32 where "CTRL_EXT_DRV_LOAD = push_bit 28 1"
definition CTRL_EXT_REG :: u32 where "CTRL_EXT_REG = 0x18"

definition RCTL_RST :: u32 where "RCTL_RST = 0x00000001"
definition RCTL_RXEN :: u32 where "RCTL_RXEN = 0x00000002"
definition RCTL_SBP :: u32 where "RCTL_SBP = 0x00000004"
definition RCTL_UPE :: u32 where "RCTL_UPE = 0x00000008"
definition RCTL_MPE :: u32 where "RCTL_MPE = 0x00000010"
definition RCTL_LPE :: u32 where "RCTL_LPE = 0x00000020"
definition RCTL_LBM_NO :: u32 where "RCTL_LBM_NO = 0"
definition RCTL_LBM_MAC :: u32 where "RCTL_LBM_MAC = 0x00000040"
definition RCTL_LBM_TCVR :: u32 where "RCTL_LBM_TCVR = 0x000000C0"
definition RCTL_MO_3 :: u32 where "RCTL_MO_3 = 0x00003000"
definition RCTL_BAM :: u32 where "RCTL_BAM = 0x00008000"
definition RCTL_SZ_2048 :: u32 where "RCTL_SZ_2048 = 0x00000000"
definition RCTL_SZ_1024 :: u32 where "RCTL_SZ_1024 = 0x00010000"
definition RCTL_SZ_512 :: u32 where "RCTL_SZ_512 = 0x00020000"
definition RCTL_SZ_256 :: u32 where "RCTL_SZ_256 = 0x00030000"
definition RCTL_SZ_16384 :: u32 where "RCTL_SZ_16384 = 0x00010000"
definition RCTL_SZ_8192 :: u32 where "RCTL_SZ_8192 = 0x00020000"
definition RCTL_SZ_4096 :: u32 where "RCTL_SZ_4096 = 0x00030000"
definition RCTL_VFE :: u32 where "RCTL_VFE = 0x00040000"
definition RCTL_CFIEN :: u32 where "RCTL_CFIEN = 0x00080000"
definition RCTL_CFI :: u32 where "RCTL_CFI = 0x00100000"
definition RCTL_PSP :: u32 where "RCTL_PSP = 0x00200000"
definition RCTL_DPF :: u32 where "RCTL_DPF = 0x00400000"
definition RCTL_PMCF :: u32 where "RCTL_PMCF = 0x00800000"
definition RCTL_BSEX :: u32 where "RCTL_BSEX = 0x02000000"
definition RCTL_SECRC :: u32 where "RCTL_SECRC = 0x04000000"
definition RCTL_REG :: u32 where "RCTL_REG = 0x00100"

definition TCTL_EN :: u32 where "TCTL_EN = 0x00000002"
definition TCTL_REG :: u32 where "TCTL_REG = 0x00400"

definition MDIC_DATA :: u32 where "MDIC_DATA = 0xFFFF"
definition MDIC_REGADD :: u32 where "MDIC_REGADD = push_bit 16 0b11111"
definition MDIC_PHYADD :: u32 where "MDIC_PHYADD = push_bit 21 0b11111"
definition MDIC_OP_WRITE :: u32 where "MDIC_OP_WRITE = 0x04000000"
definition MDIC_OP_READ :: u32 where "MDIC_OP_READ = 0x08000000"
definition MDIC_READY :: u32 where "MDIC_READY = push_bit 28 1"
definition MDIC_I :: u32 where "MDIC_I = push_bit 29 1"
definition MDIC_E :: u32 where "MDIC_E = push_bit 30 1"
definition MDIC_Destination :: u32 where "MDIC_Destination = push_bit 31 1"
definition MDIC_REG :: u32 where "MDIC_REG = 0x00020"

definition SWSM_SMBI :: u32 where "SWSM_SMBI = 1"
definition SWSM_SWESMBI :: u32 where "SWSM_SWESMBI = push_bit 1 1"
definition SWSM_WMNG :: u32 where "SWSM_WMNG = push_bit 2 1"
definition SWSM_EEUR :: u32 where "SWSM_EEUR = push_bit 3 1"
definition SWSM_REG :: u32 where "SWSM_REG = 0x05B50"

definition SwFwSync_SW_EEP_SM :: u32 where "SwFwSync_SW_EEP_SM = 1"
definition SwFwSync_SW_PHY_SM0 :: u32 where "SwFwSync_SW_PHY_SM0 = push_bit 1 1"
definition SwFwSync_SW_PHY_SM1 :: u32 where "SwFwSync_SW_PHY_SM1 = push_bit 2 1"
definition SwFwSync_REG :: u32 where "SwFwSync_REG = 0x05B5C"


definition EIMS :: u32 where "EIMS = 0x01524"
definition EIMC :: u32 where "EIMC = 0x01528"
definition EICR :: u32 where "EICR = 0x01580"

definition mta :: "u32 \<Rightarrow> u32" where
  "mta i = 0x05200 + i * 4"

definition ral :: "u32 \<Rightarrow> u32" where
  "ral i = (if i \<le> 15 then 0x05400 + i * 8 else 0x0A200 + i * 8)"

definition rah :: "u32 \<Rightarrow> u32" where
  "rah i = (if i \<le> 15 then 0x05404 + i * 8 else 0x0A204 + i * 8)"

section \<open>The platform\<close>

text \<open>
  \<open>fl_union\<close>, \<open>fl_contains\<close> and \<open>fl_remove\<close> are the operator \<open>|\<close> and the methods \<open>contains\<close> and
  \<open>remove\<close> of \<open>bitflags\<close>; \<open>dvec_zeros\<close> and \<open>dvec_drop\<close> are \<open>DVec::zeros\<close> and its \<open>Drop\<close>;
  \<open>kernel_sleep\<close> takes milliseconds.
\<close>

record ('w, 'v) draft_platform = "'w platform" +
  fl_union :: "u32 \<Rightarrow> u32 \<Rightarrow> u32"
  fl_contains :: "u32 \<Rightarrow> u32 \<Rightarrow> bool"
  fl_remove :: "u32 \<Rightarrow> u32 \<Rightarrow> u32"
  kernel_sleep :: "nat \<Rightarrow> 'w \<Rightarrow> 'w"
  dvec_zeros :: "usize \<Rightarrow> usize \<Rightarrow> 'w \<Rightarrow> 'v option \<times> 'w"
  dvec_drop :: "'v \<Rightarrow> 'w \<Rightarrow> 'w"

definition bitflags_crate :: "('w, 'v) draft_platform \<Rightarrow> bool" where
  "bitflags_crate E \<longleftrightarrow> (\<forall>a b. fl_union E a b = a OR b \<and> (fl_contains E a b \<longleftrightarrow> a AND b = b) \<and>
     fl_remove E a b = a AND NOT b)"

section \<open>Errors\<close>

datatype draft_error = NoMemory_Draft | NotImplemented_Draft | Unknown_Draft | Timeout_Draft

text \<open>A \<open>Result\<close> is a sum; \<open>tryM m k\<close> is \<open>let x = m?; k\<close>.\<close>

definition tryM :: "('s, 'e + 'a) prog \<Rightarrow> ('a \<Rightarrow> ('s, 'e + 'b) prog) \<Rightarrow> ('s, 'e + 'b) prog" where
  "tryM m k = bindM m (\<lambda>r. case r of Inl e \<Rightarrow> ret (Inl e) | Inr x \<Rightarrow> k x)"

section \<open>Register access\<close>

record Reg =
  reg_addr :: usize

definition Reg_new :: "usize \<Rightarrow> Reg" where
  "Reg_new addr = \<lparr>reg_addr = addr\<rparr>"

definition read_32 :: "('w, 'v) draft_platform \<Rightarrow> Reg \<Rightarrow> u32 \<Rightarrow> (('w, 'x) base_scheme, u32) prog" where
  "read_32 E r reg = worldM (mmio_read E (reg_addr r + ucast reg))"

definition write_32 :: "('w, 'v) draft_platform \<Rightarrow> Reg \<Rightarrow> u32 \<Rightarrow> u32 \<Rightarrow> (('w, 'x) base_scheme, unit) prog" where
  "write_32 E r reg val = world_doM (mmio_write E (reg_addr r + ucast reg) val)"

text \<open>The type parameter of \<open>read_reg\<close>, \<open>write_reg\<close> and \<open>modify_reg\<close> is passed as its constant \<open>REG\<close>.\<close>

definition read_reg :: "('w, 'v) draft_platform \<Rightarrow> Reg \<Rightarrow> u32 \<Rightarrow> (('w, 'x) base_scheme, u32) prog" where
  "read_reg E r REG = read_32 E r REG"

definition write_reg :: "('w, 'v) draft_platform \<Rightarrow> Reg \<Rightarrow> u32 \<Rightarrow> u32 \<Rightarrow> (('w, 'x) base_scheme, unit) prog" where
  "write_reg E r REG val = write_32 E r REG val"

definition modify_reg ::
  "('w, 'v) draft_platform \<Rightarrow> Reg \<Rightarrow> u32 \<Rightarrow> (u32 \<Rightarrow> u32) \<Rightarrow> (('w, 'x) base_scheme, unit) prog" where
  "modify_reg E r REG f = bindM (read_reg E r REG) (\<lambda>old. write_reg E r REG (f old))"

fun wait_for_tries ::
  "('w, 'v) draft_platform \<Rightarrow> Reg \<Rightarrow> u32 \<Rightarrow> (u32 \<Rightarrow> bool) \<Rightarrow> nat \<Rightarrow> nat \<Rightarrow> (('w, 'x) base_scheme, draft_error + unit) prog" where
  "wait_for_tries E r REG f interval 0 = ret (Inl Timeout_Draft)"
| "wait_for_tries E r REG f interval (Suc n) =
     bindM (read_reg E r REG) (\<lambda>v.
     if f v then ret (Inr ())
     else seqM (world_doM (kernel_sleep E interval)) (wait_for_tries E r REG f interval n))"

definition wait_for ::
  "('w, 'v) draft_platform \<Rightarrow> Reg \<Rightarrow> u32 \<Rightarrow> (u32 \<Rightarrow> bool) \<Rightarrow> nat \<Rightarrow> usize option \<Rightarrow> (('w, 'x) base_scheme, draft_error + unit) prog" where
  "wait_for E r REG f interval try_count =
     wait_for_tries E r REG f interval (unat (case try_count of None \<Rightarrow> - 1 | Some n \<Rightarrow> n))"

definition Reg_clear_interrupts :: "('w, 'v) draft_platform \<Rightarrow> Reg \<Rightarrow> (('w, 'x) base_scheme, unit) prog" where
  "Reg_clear_interrupts E r = seqM (write_32 E r EIMC (- 1)) (bindM (read_32 E r EICR) (\<lambda>_. ret ()))"

definition Reg_disable_interrupts :: "('w, 'v) draft_platform \<Rightarrow> Reg \<Rightarrow> (('w, 'x) base_scheme, unit) prog" where
  "Reg_disable_interrupts E r = seqM (write_32 E r EIMS 0) (Reg_clear_interrupts E r)"

definition read_mac :: "('w, 'v) draft_platform \<Rightarrow> Reg \<Rightarrow> (('w, 'x) base_scheme, u8 list) prog" where
  "read_mac E r =
     bindM (read_32 E r (ral 0)) (\<lambda>low.
     bindM (read_32 E r (rah 0)) (\<lambda>high.
     ret [ucast (low AND 0xff), ucast (drop_bit 8 low AND 0xff), ucast (drop_bit 16 low AND 0xff),
          ucast (drop_bit 24 low), ucast (high AND 0xff), ucast (drop_bit 8 high AND 0xff)]))"

declare read_32_def [prog_defs] write_32_def [prog_defs] read_reg_def [prog_defs] write_reg_def [prog_defs]
  modify_reg_def [prog_defs] Reg_clear_interrupts_def [prog_defs] Reg_disable_interrupts_def [prog_defs]

end
