(* ===== verification/Draft.thy ===== *)
theory Draft
  imports Draft_Regs
begin

text \<open>
  The earlier driver under \<open>doc/main\<close>: access to the PHY through the management register and
  the semaphores that driver and firmware share (\<open>phy.rs\<close>), the rings (\<open>ring.rs\<close>) and the
  device (\<open>igb.rs\<close>). Log output is left out.
\<close>

section \<open>PHY\<close>

definition PHY_CONTROL :: u32 where "PHY_CONTROL = 0"
definition MII_CR_POWER_DOWN :: u16 where "MII_CR_POWER_DOWN = 0x0800"

record Phy =
  phy_reg :: Reg
  phy_port :: u32

definition Phy_new :: "Reg \<Rightarrow> Phy" where
  "Phy_new r = \<lparr>phy_reg = r, phy_port = 1\<rparr>"

text \<open>The loop of \<open>read_mdic\<close> and \<open>write_mdic\<close>: until the register is ready or reports an error.\<close>

definition mdic_loop ::
  "('w, 'v) draft_platform \<Rightarrow> Reg \<Rightarrow> (('w, 'x) base_scheme, draft_error + u32) prog" where
  "mdic_loop E r = loopM (\<lambda>_ :: unit.
     bindM (read_reg E r MDIC_REG) (\<lambda>mdic.
     if fl_contains E mdic MDIC_READY then ret (Inr (Inr mdic))
     else if fl_contains E mdic MDIC_E then ret (Inr (Inl Unknown_Draft))
     else ret (Inl ()))) ()"

definition read_mdic ::
  "('w, 'v) draft_platform \<Rightarrow> Phy \<Rightarrow> u32 \<Rightarrow> (('w, 'x) base_scheme, draft_error + u16) prog" where
  "read_mdic E p offset =
     seqM (write_reg E (phy_reg p) MDIC_REG
             (fl_union E (push_bit 16 offset OR push_bit 21 (phy_port p)) MDIC_OP_READ))
          (tryM (mdic_loop E (phy_reg p)) (\<lambda>mdic. ret (Inr (ucast mdic))))"

definition write_mdic ::
  "('w, 'v) draft_platform \<Rightarrow> Phy \<Rightarrow> u32 \<Rightarrow> u16 \<Rightarrow> (('w, 'x) base_scheme, draft_error + unit) prog" where
  "write_mdic E p offset data =
     seqM (write_reg E (phy_reg p) MDIC_REG
             (fl_union E (push_bit 16 offset OR push_bit 21 (phy_port p) OR ucast data) MDIC_OP_WRITE))
          (tryM (mdic_loop E (phy_reg p)) (\<lambda>_. ret (Inr ())))"

definition power_up ::
  "('w, 'v) draft_platform \<Rightarrow> Phy \<Rightarrow> (('w, 'x) base_scheme, draft_error + unit) prog" where
  "power_up E p = tryM (read_mdic E p PHY_CONTROL) (\<lambda>mii_reg.
     write_mdic E p PHY_CONTROL (mii_reg AND NOT MII_CR_POWER_DOWN))"

section \<open>Semaphores\<close>

record Semaphore =
  sem_reg :: Reg

definition Semaphore_new ::
  "('w, 'v) draft_platform \<Rightarrow> Reg \<Rightarrow> (('w, 'x) base_scheme, draft_error + Semaphore) prog" where
  "Semaphore_new E r = bindM (loopM (\<lambda>_ :: unit.
     bindM (read_reg E r SWSM_REG) (\<lambda>swsm.
     seqM (write_reg E r SWSM_REG (fl_union E swsm SWSM_SWESMBI))
    (bindM (read_reg E r SWSM_REG) (\<lambda>v.
     ret (if fl_contains E v SWSM_SWESMBI then Inr () else Inl ()))))) ())
     (\<lambda>_. ret (Inr \<lparr>sem_reg = r\<rparr>))"

definition Semaphore_drop ::
  "('w, 'v) draft_platform \<Rightarrow> Semaphore \<Rightarrow> (('w, 'x) base_scheme, unit) prog" where
  "Semaphore_drop E sem =
     modify_reg E (sem_reg sem) SWSM_REG (\<lambda>v. fl_remove E (fl_remove E v SWSM_SMBI) SWSM_SWESMBI)"

record Synced =
  synced_reg :: Reg
  synced_mask :: u16

text \<open>The firmware's bit for a resource is 16 above the software's.\<close>

definition Synced_new ::
  "('w, 'v) draft_platform \<Rightarrow> Reg \<Rightarrow> u16 \<Rightarrow> (('w, 'x) base_scheme, draft_error + Synced) prog" where
  "Synced_new E r resource =
     tryM (Semaphore_new E r) (\<lambda>semaphore.
     let swmask = ucast resource :: u32; fwmask = push_bit 16 (ucast resource) :: u32 in
     bindM (loopM (\<lambda>_ :: unit. bindM (read_reg E r SwFwSync_REG) (\<lambda>swfw_sync.
              ret (if swfw_sync AND (swmask OR fwmask) = 0 then Inr swfw_sync else Inl ()))) ()) (\<lambda>swfw_sync.
     seqM (write_reg E r SwFwSync_REG (fl_union E swfw_sync swmask))
    (seqM (Semaphore_drop E semaphore)
          (ret (Inr \<lparr>synced_reg = r, synced_mask = resource\<rparr>)))))"

definition Synced_drop ::
  "('w, 'v) draft_platform \<Rightarrow> Synced \<Rightarrow> (('w, 'x) base_scheme, unit) prog" where
  "Synced_drop E sy =
     bindM (Semaphore_new E (synced_reg sy)) (\<lambda>r. case r of
       Inl e \<Rightarrow> panic UnwrapOnNone
     | Inr semaphore \<Rightarrow>
         seqM (modify_reg E (synced_reg sy) SwFwSync_REG (\<lambda>v. fl_remove E v (ucast (synced_mask sy))))
              (Semaphore_drop E semaphore))"

definition aquire_sync ::
  "('w, 'v) draft_platform \<Rightarrow> Phy \<Rightarrow> u16 \<Rightarrow> (('w, 'x) base_scheme, draft_error + Synced) prog" where
  "aquire_sync E p resource = Synced_new E (phy_reg p) resource"

section \<open>Rings\<close>

definition DEFAULT_RING_SIZE :: usize where "DEFAULT_RING_SIZE = 256"

record 'v Ring =
  ring_descriptors :: 'v
  ring_reg :: Reg

definition Ring_new ::
  "('w, 'v) draft_platform \<Rightarrow> Reg \<Rightarrow> usize \<Rightarrow> (('w, 'x) base_scheme, draft_error + 'v Ring) prog" where
  "Ring_new E r sz = bindM (worldM (dvec_zeros E sz 4096)) (\<lambda>v. case v of
       None \<Rightarrow> ret (Inl NoMemory_Draft)
     | Some d \<Rightarrow> ret (Inr \<lparr>ring_descriptors = d, ring_reg = r\<rparr>))"

definition Ring_init :: "'v Ring \<Rightarrow> ('s, unit) prog" where
  "Ring_init ring = ret ()"

section \<open>Device\<close>

record 'v Igb =
  igb_reg :: Reg
  igb_tx_ring :: "'v Ring"
  igb_rx_ring :: "'v Ring"
  igb_phy :: Phy

text \<open>When the second ring cannot be allocated the first one is dropped.\<close>

definition Igb_new ::
  "('w, 'v) draft_platform \<Rightarrow> usize \<Rightarrow> (('w, 'x) base_scheme, draft_error + 'v Igb) prog" where
  "Igb_new E bar0 =
     (let r = Reg_new bar0 in
      tryM (Ring_new E r DEFAULT_RING_SIZE) (\<lambda>tx.
      bindM (Ring_new E r DEFAULT_RING_SIZE) (\<lambda>res. case res of
        Inl e \<Rightarrow> seqM (world_doM (dvec_drop E (ring_descriptors tx))) (ret (Inl e))
      | Inr rx \<Rightarrow> ret (Inr \<lparr>igb_reg = r, igb_tx_ring = tx, igb_rx_ring = rx, igb_phy = Phy_new r\<rparr>))))"

definition Igb_init_rx :: "('w, 'v) draft_platform \<Rightarrow> 'v Igb \<Rightarrow> (('w, 'x) base_scheme, unit) prog" where
  "Igb_init_rx E g =
     seqM (write_reg E (igb_reg g) RCTL_REG 0)
    (seqM (Ring_init (igb_rx_ring g))
          (write_reg E (igb_reg g) RCTL_REG (fl_union E RCTL_RXEN RCTL_SZ_4096)))"

definition Igb_init_tx :: "('w, 'v) draft_platform \<Rightarrow> 'v Igb \<Rightarrow> (('w, 'x) base_scheme, unit) prog" where
  "Igb_init_tx E g =
     seqM (write_reg E (igb_reg g) TCTL_REG 0)
    (seqM (Ring_init (igb_tx_ring g))
          (write_reg E (igb_reg g) TCTL_REG TCTL_EN))"

definition setup_phy_and_the_link ::
  "('w, 'v) draft_platform \<Rightarrow> 'v Igb \<Rightarrow> (('w, 'x) base_scheme, draft_error + unit) prog" where
  "setup_phy_and_the_link E g = tryM (power_up E (igb_phy g)) (\<lambda>_. ret (Inr ()))"

text \<open>Not yet written in the source.\<close>

definition Igb_init_stat :: "('s, unit) prog" where
  "Igb_init_stat = ret ()"

definition Igb_enable_interrupts :: "('s, unit) prog" where
  "Igb_enable_interrupts = ret ()"

definition Igb_open ::
  "('w, 'v) draft_platform \<Rightarrow> 'v Igb \<Rightarrow> (('w, 'x) base_scheme, draft_error + unit) prog" where
  "Igb_open E g =
     seqM (Reg_disable_interrupts E (igb_reg g))
    (seqM (write_reg E (igb_reg g) CTRL_REG CTRL_RST)
    (tryM (wait_for E (igb_reg g) CTRL_REG (\<lambda>v. \<not> fl_contains E v CTRL_RST) 1 (Some 1000)) (\<lambda>_.
     seqM (Reg_disable_interrupts E (igb_reg g))
    (seqM (modify_reg E (igb_reg g) CTRL_EXT_REG (\<lambda>v. fl_union E CTRL_EXT_DRV_LOAD v))
    (tryM (setup_phy_and_the_link E g) (\<lambda>_.
     seqM Igb_init_stat
    (seqM (Igb_init_rx E g)
    (seqM (Igb_init_tx E g)
    (seqM Igb_enable_interrupts
    (seqM (write_reg E (igb_reg g) CTRL_REG
             (fl_union E (fl_union E (fl_union E (fl_union E CTRL_SLU CTRL_FD) CTRL_SPD_1000) CTRL_FRCDPX) CTRL_FRCSPD))
          (ret (Inr ()))))))))))))"

definition Igb_mac :: "('w, 'v) draft_platform \<Rightarrow> 'v Igb \<Rightarrow> (('w, 'x) base_scheme, u8 list) prog" where
  "Igb_mac E g = read_mac E (igb_reg g)"

datatype Speed = Mb10 | Mb100 | Mb1000

record IgbStatus =
  full_duplex :: bool
  link_up :: bool
  link_speed :: Speed
  phy_reset_asserted :: bool

definition Igb_status :: "('w, 'v) draft_platform \<Rightarrow> 'v Igb \<Rightarrow> (('w, 'x) base_scheme, IgbStatus) prog" where
  "Igb_status E g = bindM (read_reg E (igb_reg g) STATUS_REG) (\<lambda>raw.
     let speed_raw = drop_bit 6 raw AND 0b11 in
     ret \<lparr>full_duplex = fl_contains E raw STATUS_FD, link_up = fl_contains E raw STATUS_LU,
          link_speed = (if speed_raw = 0 then Mb10 else if speed_raw = 1 then Mb100
                        else if speed_raw = 0b10 then Mb1000 else Mb1000),
          phy_reset_asserted = fl_contains E raw STATUS_PHYRA\<rparr>)"

end
