(* ===== verification/Draft_Spec.thy ===== *)
theory Draft_Spec
  imports Draft
begin

text \<open>
  The earlier driver, specified: the bounded wait, the management register as a port to the
  PHY's registers, the protocol of the shared semaphore.
\<close>

section \<open>The bounded wait\<close>

text \<open>The world before the \<open>k\<close>-th read of a wait, and what that read returns.\<close>

primrec try_world :: "('w, 'v) draft_platform \<Rightarrow> usize \<Rightarrow> nat \<Rightarrow> nat \<Rightarrow> 'w \<Rightarrow> 'w" where
  "try_world E a ms 0 w = w"
| "try_world E a ms (Suc k) w = kernel_sleep E ms (snd (mmio_read E a (try_world E a ms k w)))"

definition try_value :: "('w, 'v) draft_platform \<Rightarrow> usize \<Rightarrow> nat \<Rightarrow> nat \<Rightarrow> 'w \<Rightarrow> u32" where
  "try_value E a ms k w = fst (mmio_read E a (try_world E a ms k w))"

lemma wp_wait_for_step:
  fixes s :: "('w, 'x) base_scheme"
  assumes "a = reg_addr r + ucast REG"
  shows "wp (wait_for_tries E r REG f ms (Suc n)) Q (s\<lparr>world := try_world E a ms j w\<rparr>) =
    (if f (try_value E a ms j w) then Q (Val (Inr ())) (s\<lparr>world := snd (mmio_read E a (try_world E a ms j w))\<rparr>)
     else wp (wait_for_tries E r REG f ms n) Q (s\<lparr>world := try_world E a ms (Suc j) w\<rparr>))"
  by (simp add: wp_simps read_reg_def read_32_def assms try_value_def)

lemma wait_for_finds:
  fixes s :: "('w, 'x) base_scheme"
  assumes a: "a = reg_addr r + ucast REG"
    and "i < n" "f (try_value E a ms (j + i) w)" "\<And>l. l < i \<Longrightarrow> \<not> f (try_value E a ms (j + l) w)"
    and "Q (Val (Inr ())) (s\<lparr>world := snd (mmio_read E a (try_world E a ms (j + i) w))\<rparr>)"
  shows "wp (wait_for_tries E r REG f ms n) Q (s\<lparr>world := try_world E a ms j w\<rparr>)"
  using assms(2-5)
proof (induction n arbitrary: i j)
  case (Suc n)
  show ?case
  proof (cases i)
    case 0
    then show ?thesis using Suc.prems by (simp only: wp_wait_for_step [OF a]) simp
  next
    case (Suc i')
    have "\<not> f (try_value E a ms j w)" using Suc.prems(3) [of 0] Suc by simp
    moreover have "wp (wait_for_tries E r REG f ms n) Q (s\<lparr>world := try_world E a ms (Suc j) w\<rparr>)"
    proof (rule Suc.IH [of i'])
      show "\<And>l. l < i' \<Longrightarrow> \<not> f (try_value E a ms (Suc j + l) w)" using Suc.prems(3) [of "Suc l" for l] Suc by simp
    qed (use Suc.prems Suc in simp_all)
    ultimately show ?thesis by (simp only: wp_wait_for_step [OF a]) simp
  qed
qed simp

lemma wait_for_times_out:
  fixes s :: "('w, 'x) base_scheme"
  assumes a: "a = reg_addr r + ucast REG"
    and "\<And>l. l < n \<Longrightarrow> \<not> f (try_value E a ms (j + l) w)"
    and "Q (Val (Inl Timeout_Draft)) (s\<lparr>world := try_world E a ms (j + n) w\<rparr>)"
  shows "wp (wait_for_tries E r REG f ms n) Q (s\<lparr>world := try_world E a ms j w\<rparr>)"
  using assms(2,3)
proof (induction n arbitrary: j)
  case 0
  then show ?case by (simp add: wp_simps)
next
  case (Suc n)
  have "\<not> f (try_value E a ms j w)" using Suc.prems(1) [of 0] by simp
  moreover have "wp (wait_for_tries E r REG f ms n) Q (s\<lparr>world := try_world E a ms (Suc j) w\<rparr>)"
  proof (rule Suc.IH)
    show "\<And>l. l < n \<Longrightarrow> \<not> f (try_value E a ms (Suc j + l) w)" using Suc.prems(1) [of "Suc l" for l] by simp
  qed (use Suc.prems in simp)
  ultimately show ?case by (simp only: wp_wait_for_step [OF a]) simp
qed

text \<open>Both together: the wait is a search among the first \<open>n\<close> reads.\<close>

lemma wait_for_exact:
  fixes s :: "('w, 'x) base_scheme"
  assumes a: "a = reg_addr r + ucast REG"
    and hit: "hit = (\<lambda>k. f (try_value E a ms k (world s)))"
  shows "wait_for_tries E r REG f ms n s =
    (if \<exists>k < n. hit k
     then Some (Val (Inr ()), s\<lparr>world := snd (mmio_read E a (try_world E a ms (LEAST k. hit k) (world s)))\<rparr>)
     else Some (Val (Inl Timeout_Draft), s\<lparr>world := try_world E a ms n (world s)\<rparr>))"
proof (cases "\<exists>k < n. hit k")
  case True
  let ?k = "LEAST k. hit k"
  obtain i where i: "i < n" "hit i" using True by blast
  have "?k \<le> i" using i(2) by (rule Least_le)
  then have k: "?k < n" using i(1) by (rule order.strict_trans1)
  have h: "hit ?k" using i(2) by (rule LeastI)
  have "wp (wait_for_tries E r REG f ms n) (\<lambda>v s'. v = Val (Inr ()) \<and>
      s' = s\<lparr>world := snd (mmio_read E a (try_world E a ms (0 + ?k) (world s)))\<rparr>) (s\<lparr>world := try_world E a ms 0 (world s)\<rparr>)"
  proof (rule wait_for_finds [OF a, of ?k])
    fix l assume "l < ?k"
    then have "\<not> hit l" by (rule not_less_Least)
    then show "\<not> f (try_value E a ms (0 + l) (world s))" unfolding hit by simp
  next
    show "f (try_value E a ms (0 + ?k) (world s))" using h hit by (metis add_0)
  qed (use k in simp_all)
  then show ?thesis using True by (auto elim!: wpE)
next
  case False
  have "wp (wait_for_tries E r REG f ms n) (\<lambda>v s'. v = Val (Inl Timeout_Draft) \<and>
      s' = s\<lparr>world := try_world E a ms (0 + n) (world s)\<rparr>) (s\<lparr>world := try_world E a ms 0 (world s)\<rparr>)"
    by (rule wait_for_times_out [OF a]) (use False in \<open>simp_all add: hit\<close>)
  then show ?thesis using False by (auto elim!: wpE)
qed

section \<open>The management port\<close>

text \<open>
  \<open>mdic_answers E a w v w'\<close>: the reads that follow are neither ready nor in error until one is
  ready, which returns \<open>v\<close> and leaves the world \<open>w'\<close>. \<open>mdic_polled\<close> is the world before each of them.
\<close>

definition mdic_polled :: "('w, 'v) draft_platform \<Rightarrow> usize \<Rightarrow> nat \<Rightarrow> 'w \<Rightarrow> 'w" where
  "mdic_polled E a k w = ((\<lambda>w. snd (mmio_read E a w)) ^^ k) w"

definition mdic_answers :: "('w, 'v) draft_platform \<Rightarrow> usize \<Rightarrow> 'w \<Rightarrow> u32 \<Rightarrow> 'w \<Rightarrow> bool" where
  "mdic_answers E a w v w' \<longleftrightarrow> (\<exists>k. mmio_read E a (mdic_polled E a k w) = (v, w') \<and> v AND MDIC_READY = MDIC_READY \<and>
     (\<forall>j < k. fst (mmio_read E a (mdic_polled E a j w)) AND MDIC_READY \<noteq> MDIC_READY \<and>
              fst (mmio_read E a (mdic_polled E a j w)) AND MDIC_E \<noteq> MDIC_E))"

lemma mdic_loop_answers:
  fixes s :: "('w, 'x) base_scheme"
  assumes B: "bitflags_crate E" and a: "a = reg_addr r + ucast MDIC_REG" and "mdic_answers E a w v w'"
    and Q: "Q (Val (Inr v)) (s\<lparr>world := w'\<rparr>)"
  shows "wp (mdic_loop E r) Q (s\<lparr>world := w\<rparr>)"
proof -
  obtain k where k: "mmio_read E a (mdic_polled E a k w) = (v, w')" "v AND MDIC_READY = MDIC_READY"
    "\<And>j. j < k \<Longrightarrow> fst (mmio_read E a (mdic_polled E a j w)) AND MDIC_READY \<noteq> MDIC_READY \<and>
       fst (mmio_read E a (mdic_polled E a j w)) AND MDIC_E \<noteq> MDIC_E"
    using assms(3) unfolding mdic_answers_def by blast
  let ?st = "\<lambda>j. s\<lparr>world := mdic_polled E a j w\<rparr>"
  have "wp (mdic_loop E r) Q (?st 0)"
    unfolding mdic_loop_def
  proof (rule wp_loopM_search [where k = k and st = ?st])
    fix j assume "j < k"
    then show "wp (bindM (read_reg E r MDIC_REG) (\<lambda>mdic. if fl_contains E mdic MDIC_READY then ret (Inr (Inr mdic))
        else if fl_contains E mdic MDIC_E then ret (Inr (Inl Unknown_Draft)) else ret (Inl ())))
        (\<lambda>r s'. r = Val (Inl ()) \<and> s' = ?st (Suc j)) (?st j)"
      using k(3) [of j] B
      by (simp add: wp_simps prog_defs bitflags_crate_def a [symmetric] mdic_polled_def)
  next
    show "wp (bindM (read_reg E r MDIC_REG) (\<lambda>mdic. if fl_contains E mdic MDIC_READY then ret (Inr (Inr mdic))
        else if fl_contains E mdic MDIC_E then ret (Inr (Inl Unknown_Draft)) else ret (Inl ())))
        (after (case_sum (\<lambda>_ _. False) (\<lambda>a. Q (Val a))) Q) (?st k)"
      using k(1,2) B Q by (simp add: wp_simps prog_defs bitflags_crate_def a [symmetric])
  qed
  then show ?thesis by (simp add: mdic_polled_def)
qed

text \<open>
  What the data sheet says of the port, for PHY number 1 and its registers \<open>phy\<close>: a read command is
  answered with the register's value, a write command is answered and sets the register.
\<close>

definition mdio_port :: "('w, 'v) draft_platform \<Rightarrow> usize \<Rightarrow> ('w \<Rightarrow> u32 \<Rightarrow> u16) \<Rightarrow> bool" where
  "mdio_port E a phy \<longleftrightarrow> (\<forall>w off. off < 32 \<longrightarrow>
     (\<exists>v w'. mdic_answers E a (mmio_write E a (push_bit 16 off OR push_bit 21 1 OR MDIC_OP_READ) w) v w' \<and>
        ucast v = phy w off \<and> phy w' = phy w) \<and>
     (\<forall>data :: u16. \<exists>v w'. mdic_answers E a (mmio_write E a (push_bit 16 off OR push_bit 21 1 OR ucast data OR MDIC_OP_WRITE) w) v w' \<and>
        phy w' = (phy w)(off := data)))"

lemma read_mdic_port:
  fixes s :: "('w, 'x) base_scheme"
  assumes B: "bitflags_crate E" and a: "a = reg_addr r + ucast MDIC_REG" and port: "mdio_port E a phy" and "off < 32"
    and Q: "\<And>w. phy w = phy (world s) \<Longrightarrow> Q (Val (Inr (phy (world s) off))) (s\<lparr>world := w\<rparr>)"
  shows "wp (read_mdic E (Phy_new r) off) Q s"
proof -
  let ?w = "mmio_write E a (push_bit 16 off OR push_bit 21 1 OR MDIC_OP_READ) (world s)"
  obtain v w' where v: "mdic_answers E a ?w v w'" "ucast v = phy (world s) off" "phy w' = phy (world s)"
    using port \<open>off < 32\<close> unfolding mdio_port_def by blast
  have "wp (mdic_loop E r) (after (\<lambda>x. wp (case x of Inl e \<Rightarrow> ret (Inl e) | Inr mdic \<Rightarrow> ret (Inr (ucast mdic))) Q) Q) (s\<lparr>world := ?w\<rparr>)"
    by (rule mdic_loop_answers [OF B a v(1)]) (use Q [OF v(3)] v(2) in \<open>simp add: wp_simps\<close>)
  then show ?thesis using B
    by (simp add: read_mdic_def Phy_new_def tryM_def wp_simps prog_defs bitflags_crate_def a [symmetric] or.assoc)
qed

lemma write_mdic_port:
  fixes s :: "('w, 'x) base_scheme"
  assumes B: "bitflags_crate E" and a: "a = reg_addr r + ucast MDIC_REG" and port: "mdio_port E a phy" and "off < 32"
    and Q: "\<And>w. phy w = (phy (world s))(off := data) \<Longrightarrow> Q (Val (Inr ())) (s\<lparr>world := w\<rparr>)"
  shows "wp (write_mdic E (Phy_new r) off data) Q s"
proof -
  let ?w = "mmio_write E a (push_bit 16 off OR push_bit 21 1 OR ucast data OR MDIC_OP_WRITE) (world s)"
  obtain v w' where v: "mdic_answers E a ?w v w'" "phy w' = (phy (world s))(off := data)"
    using port \<open>off < 32\<close> unfolding mdio_port_def by blast
  have "wp (mdic_loop E r) (after (\<lambda>x. wp (case x of Inl e \<Rightarrow> ret (Inl e) | Inr mdic \<Rightarrow> ret (Inr ())) Q) Q) (s\<lparr>world := ?w\<rparr>)"
    by (rule mdic_loop_answers [OF B a v(1)]) (use Q [OF v(2)] in \<open>simp add: wp_simps\<close>)
  then show ?thesis using B
    by (simp add: write_mdic_def Phy_new_def tryM_def wp_simps prog_defs bitflags_crate_def a [symmetric] or.assoc)
qed

lemma power_up_port:
  fixes s :: "('w, 'x) base_scheme"
  assumes B: "bitflags_crate E" and a: "a = reg_addr r + ucast MDIC_REG" and port: "mdio_port E a phy"
  shows "\<exists>w. power_up E (Phy_new r) s = Some (Val (Inr ()), s\<lparr>world := w\<rparr>) \<and>
    phy w = (phy (world s))(0 := phy (world s) 0 AND NOT MII_CR_POWER_DOWN)"
proof -
  have "wp (power_up E (Phy_new r)) (\<lambda>v s'. v = Val (Inr ()) \<and> (\<exists>w. s' = s\<lparr>world := w\<rparr> \<and>
      phy w = (phy (world s))(0 := phy (world s) 0 AND NOT MII_CR_POWER_DOWN))) s"
    unfolding power_up_def tryM_def PHY_CONTROL_def wp_bindM
  proof (rule read_mdic_port [OF B a port])
    fix w assume w: "phy w = phy (world s)"
    have "wp (write_mdic E (Phy_new r) 0 (phy (world s) 0 AND NOT MII_CR_POWER_DOWN)) (\<lambda>v s'. v = Val (Inr ()) \<and> (\<exists>w. s' = s\<lparr>world := w\<rparr> \<and>
      phy w = (phy (world s))(0 := phy (world s) 0 AND NOT MII_CR_POWER_DOWN))) (s\<lparr>world := w\<rparr>)"
      by (rule write_mdic_port [OF B a port]) (use w in auto)
    then show "after (\<lambda>x. wp (case x of Inl e \<Rightarrow> ret (Inl e) | Inr mii_reg \<Rightarrow>
        write_mdic E (Phy_new r) 0 (mii_reg AND NOT MII_CR_POWER_DOWN)) (\<lambda>v s'. v = Val (Inr ()) \<and> (\<exists>w. s' = s\<lparr>world := w\<rparr> \<and>
      phy w = (phy (world s))(0 := phy (world s) 0 AND NOT MII_CR_POWER_DOWN))))
       (\<lambda>v s'. v = Val (Inr ()) \<and> (\<exists>w. s' = s\<lparr>world := w\<rparr> \<and>
      phy w = (phy (world s))(0 := phy (world s) 0 AND NOT MII_CR_POWER_DOWN)))
       (Val (Inr (phy (world s) 0))) (s\<lparr>world := w\<rparr>)" by simp
  qed simp
  then show ?thesis by (auto elim!: wpE)
qed

section \<open>The shared semaphore\<close>

text \<open>
  A register that is a plain cell: reads return what it holds and change nothing, a write sets
  this cell and no other.
\<close>

definition plain_register :: "('w, 'v) draft_platform \<Rightarrow> ('w \<Rightarrow> usize \<Rightarrow> u32) \<Rightarrow> usize \<Rightarrow> bool" where
  "plain_register E cells a \<longleftrightarrow> (\<forall>w. mmio_read E a w = (cells w a, w) \<and>
     (\<forall>v. cells (mmio_write E a v w) = (cells w)(a := v)))"

definition swsm_at :: "Reg \<Rightarrow> usize" where "swsm_at r = reg_addr r + ucast SWSM_REG"
definition sync_at :: "Reg \<Rightarrow> usize" where "sync_at r = reg_addr r + ucast SwFwSync_REG"

lemma sync_regs_distinct [simp]: "swsm_at r \<noteq> sync_at r" "sync_at r \<noteq> swsm_at r"
  by (simp_all add: swsm_at_def sync_at_def SWSM_REG_def SwFwSync_REG_def)

lemma wp_Semaphore_new:
  fixes s :: "('w, 'x) base_scheme"
  assumes B: "bitflags_crate E" and P: "plain_register E cells (swsm_at r)"
  shows "wp (Semaphore_new E r) Q s = Q (Val (Inr \<lparr>sem_reg = r\<rparr>))
    (s\<lparr>world := mmio_write E (swsm_at r) (cells (world s) (swsm_at r) OR SWSM_SWESMBI) (world s)\<rparr>)"
  unfolding Semaphore_new_def
  by (subst loopM_unfold)
    (use assms in \<open>simp add: wp_simps prog_defs bitflags_crate_def plain_register_def swsm_at_def [symmetric] and.commute\<close>)

lemma wp_Semaphore_drop:
  fixes s :: "('w, 'x) base_scheme"
  assumes "bitflags_crate E" and "plain_register E cells (swsm_at r)"
  shows "wp (Semaphore_drop E \<lparr>sem_reg = r\<rparr>) Q s = Q (Val ())
    (s\<lparr>world := mmio_write E (swsm_at r)
       (cells (world s) (swsm_at r) AND NOT SWSM_SMBI AND NOT SWSM_SWESMBI) (world s)\<rparr>)"
  using assms by (simp add: Semaphore_drop_def wp_simps prog_defs bitflags_crate_def plain_register_def swsm_at_def and.assoc)

text \<open>Acquiring and releasing a resource.\<close>

lemma sync_free:
  fixes s :: "('w, 'x) base_scheme"
  assumes B: "bitflags_crate E" and P: "plain_register E cells (swsm_at r)" "plain_register E cells (sync_at r)"
    and free: "cells (world s) (sync_at r) AND (ucast m OR push_bit 16 (ucast m)) = 0"
  shows "wp (Synced_new E r m) (\<lambda>v s'. v = Val (Inr \<lparr>synced_reg = r, synced_mask = m\<rparr>) \<and>
     (\<exists>w. s' = s\<lparr>world := w\<rparr> \<and> cells w = (cells (world s))
       (sync_at r := cells (world s) (sync_at r) OR ucast m,
        swsm_at r := (cells (world s) (swsm_at r) OR SWSM_SWESMBI) AND NOT SWSM_SMBI AND NOT SWSM_SWESMBI))) s"
  unfolding Synced_new_def tryM_def Let_def
  apply (simp add: wp_bindM wp_Semaphore_new [OF B P(1)])
  apply (subst loopM_unfold)
  apply (use assms in \<open>simp add: wp_simps prog_defs wp_Semaphore_drop [OF B P(1)] plain_register_def bitflags_crate_def sync_at_def [symmetric]\<close>)
  apply (rule exI, rule conjI, rule refl)
  apply (use P in \<open>auto simp: plain_register_def fun_eq_iff\<close>)
  done

lemma sync_taken:
  fixes s :: "('w, 'x) base_scheme"
  assumes B: "bitflags_crate E" and P: "plain_register E cells (swsm_at r)" "plain_register E cells (sync_at r)"
    and taken: "cells (world s) (sync_at r) AND (ucast m OR push_bit 16 (ucast m)) \<noteq> 0"
  shows "Synced_new E r m s = None"
proof -
  let ?s = "s\<lparr>world := mmio_write E (swsm_at r) (cells (world s) (swsm_at r) OR SWSM_SWESMBI) (world s)\<rparr>"
  let ?body = "\<lambda>_ :: unit. bindM (read_reg E r SwFwSync_REG) (\<lambda>swfw_sync.
    ret (if swfw_sync AND (ucast m OR push_bit 16 (ucast m)) = 0 then Inr swfw_sync else Inl ())) ::
    (('w, 'x) base_scheme, unit + u32) prog"
  have "wp (Semaphore_new E r) (\<lambda>v s'. v = Val (Inr \<lparr>sem_reg = r\<rparr>) \<and> s' = ?s) s"
    by (simp add: wp_Semaphore_new [OF B P(1)])
  then have "Semaphore_new E r s = Some (Val (Inr \<lparr>sem_reg = r\<rparr>), ?s)" by (auto elim: wpE)
  moreover have "loopM ?body () ?s = None"
  proof (rule loopM_never [where st = "\<lambda>_. ?s"])
    show "wp (?body ()) (\<lambda>v s'. v = Val (Inl ()) \<and> s' = ?s) ?s"
      using P taken by (simp add: wp_simps prog_defs sync_at_def [symmetric] plain_register_def)
  qed
  ultimately show ?thesis by (simp add: Synced_new_def tryM_def bindM_def Let_def)
qed

lemma sync_release:
  fixes s :: "('w, 'x) base_scheme"
  assumes B: "bitflags_crate E" and P: "plain_register E cells (swsm_at r)" "plain_register E cells (sync_at r)"
  shows "wp (Synced_drop E \<lparr>synced_reg = r, synced_mask = m\<rparr>) (\<lambda>v s'. v = Val () \<and>
     (\<exists>w. s' = s\<lparr>world := w\<rparr> \<and> cells w = (cells (world s))
       (sync_at r := cells (world s) (sync_at r) AND NOT (ucast m),
        swsm_at r := (cells (world s) (swsm_at r) OR SWSM_SWESMBI) AND NOT SWSM_SMBI AND NOT SWSM_SWESMBI))) s"
  unfolding Synced_drop_def
  apply (use assms in \<open>simp add: wp_simps prog_defs wp_Semaphore_new [OF B P(1)] wp_Semaphore_drop [OF B P(1)]
      plain_register_def bitflags_crate_def sync_at_def [symmetric]\<close>)
  apply (rule exI, rule conjI, rule refl)
  apply (use P in \<open>auto simp: plain_register_def fun_eq_iff\<close>)
  done

lemma sync_bits:
  fixes old :: u32
  assumes "old AND (x OR y) = 0"
  shows "(old OR x) AND NOT x = old" "((v OR SWSM_SWESMBI) AND NOT SWSM_SMBI) AND NOT SWSM_SWESMBI = v AND NOT 3"
proof -
  have d: "\<not> (bit old i \<and> bit x i)" for i
    using assms by (metis bit_0_eq bit_and_iff bit_or_iff bot_apply bot_bool_def)
  show "(old OR x) AND NOT x = old" by (rule bit_word_eqI) (use d in \<open>auto simp: bit_simps\<close>)
  have three: "(3 :: u32) = SWSM_SMBI OR SWSM_SWESMBI" by (simp add: SWSM_SMBI_def SWSM_SWESMBI_def)
  show "((v OR SWSM_SWESMBI) AND NOT SWSM_SMBI) AND NOT SWSM_SWESMBI = v AND NOT 3"
    unfolding three by (intro bit_word_eqI) (auto simp: bit_and_iff bit_or_iff bit_not_iff)
qed

text \<open>Acquire and release together: the resource's bit comes and goes, the semaphore is free again.\<close>

lemma sync_round_trip:
  fixes s :: "('w, 'x) base_scheme"
  assumes B: "bitflags_crate E" and P: "plain_register E cells (swsm_at r)" "plain_register E cells (sync_at r)"
    and free: "cells (world s) (sync_at r) AND (ucast m OR push_bit 16 (ucast m)) = 0"
    and c: "c = (cells (world s))(swsm_at r := cells (world s) (swsm_at r) AND NOT 3)"
  shows "\<exists>sy w1 w2. Synced_new E r m s = Some (Val (Inr sy), s\<lparr>world := w1\<rparr>) \<and>
    cells w1 = c(sync_at r := cells (world s) (sync_at r) OR ucast m) \<and>
    Synced_drop E sy (s\<lparr>world := w1\<rparr>) = Some (Val (), s\<lparr>world := w2\<rparr>) \<and> cells w2 = c"
proof -
  note bits = sync_bits [OF free]
  obtain w1 where 1: "Synced_new E r m s = Some (Val (Inr \<lparr>synced_reg = r, synced_mask = m\<rparr>), s\<lparr>world := w1\<rparr>)"
    and w1: "cells w1 = c(sync_at r := cells (world s) (sync_at r) OR ucast m)"
    using wp_returns [OF sync_free [OF B P free]] bits(2) [of "cells (world s) (swsm_at r)"]
    by (auto simp: c and.assoc fun_upd_twist)
  have v: "(((v AND NOT 3) OR SWSM_SWESMBI) AND NOT SWSM_SMBI) AND NOT SWSM_SWESMBI = v AND NOT 3" for v :: u32
    unfolding bits(2) by (simp add: and.assoc)
  obtain w2 where "Synced_drop E \<lparr>synced_reg = r, synced_mask = m\<rparr> (s\<lparr>world := w1\<rparr>) = Some (Val (), s\<lparr>world := w2\<rparr>)"
    and "cells w2 = c"
    using wp_returns [OF sync_release [OF B P, of m "s\<lparr>world := w1\<rparr>"]] bits(1) v
    by (auto simp: w1 c and.assoc fun_eq_iff)
  then show ?thesis using 1 w1 by blast
qed

end
