(* ===== verification/Draft_Sim.thy ===== *)
theory Draft_Sim
  imports Draft_Spec
begin

text \<open>
  A simulated device for the earlier driver: register cells, and behind the management register
  a PHY that executes each command at once.
\<close>

record port =
  port_cells :: "usize \<Rightarrow> u32"
  port_phy :: "u32 \<Rightarrow> u16"

definition port_base :: Reg where "port_base = Reg_new 0x10000"

definition port_write :: "usize \<Rightarrow> u32 \<Rightarrow> port \<Rightarrow> port" where
  "port_write a v w =
     (if a = 0x10020
      then (let off = take_bit 5 (drop_bit 16 v) in
        if bit v 26
        then w\<lparr>port_cells := (port_cells w)(a := MDIC_READY), port_phy := (port_phy w)(off := ucast v)\<rparr>
        else w\<lparr>port_cells := (port_cells w)(a := MDIC_READY OR ucast (port_phy w off))\<rparr>)
      else w\<lparr>port_cells := (port_cells w)(a := v)\<rparr>)"

definition port_platform :: "(port, unit) draft_platform" where
  "port_platform = \<lparr>overflow_checks = True, info_enabled = False,
     hal = \<lparr>dma_alloc = (\<lambda>_ w. ((0, 0), w)), dma_dealloc = (\<lambda>_ _ _ w. (0, w)),
       mmio_phys_to_virt = (\<lambda>p _ w. (p, w)), mmio_virt_to_phys = (\<lambda>v _ w. (v, w)),
       wait_until = (\<lambda>_ w. (True, w))\<rparr>,
     mmio_read = (\<lambda>a w. (port_cells w a, w)), mmio_write = port_write,
     volatile_read64 = (\<lambda>_ w. (0, w)), volatile_read32 = (\<lambda>_ w. (0, w)),
     volatile_write64 = (\<lambda>_ _ w. w), volatile_write32 = (\<lambda>_ _ w. w),
     volatile_write16 = (\<lambda>_ _ w. w), volatile_write8 = (\<lambda>_ _ w. w),
     load8 = (\<lambda>_ _. 0), store8 = (\<lambda>_ _ w. w), get_bits = (\<lambda>x lo hi. take_bit (hi - lo) (drop_bit lo x)),
     fl_union = (OR), fl_contains = (\<lambda>a b. a AND b = b), fl_remove = (\<lambda>a b. a AND NOT b),
     kernel_sleep = (\<lambda>_ w. w), dvec_zeros = (\<lambda>_ _ w. (Some (), w)), dvec_drop = (\<lambda>_ w. w)\<rparr>"

definition port_world :: port where
  "port_world = \<lparr>port_cells = (\<lambda>_. 0), port_phy = (\<lambda>_. 0x1940)\<rparr>"

definition port_state :: "(port, unit) base_scheme" where
  "port_state = \<lparr>world = port_world, \<dots> = ()\<rparr>"

lemma port_bitflags: "bitflags_crate port_platform"
  by (simp add: bitflags_crate_def port_platform_def)

lemma port_plain: "plain_register port_platform port_cells (swsm_at port_base)" "plain_register port_platform port_cells (sync_at port_base)"
  by (simp_all add: plain_register_def port_platform_def port_write_def swsm_at_def sync_at_def port_base_def Reg_new_def
      SWSM_REG_def SwFwSync_REG_def)

lemma mdic_command:
  fixes off :: u32 and data :: u16
  assumes "off < 32"
  shows "take_bit 5 (drop_bit 16 (push_bit 16 off OR push_bit 21 1 OR MDIC_OP_READ)) = off"
    and "\<not> bit (push_bit 16 off OR push_bit 21 1 OR MDIC_OP_READ) 26"
    and "take_bit 5 (drop_bit 16 (push_bit 16 off OR push_bit 21 1 OR ucast data OR MDIC_OP_WRITE)) = off"
    and "bit (push_bit 16 off OR push_bit 21 1 OR ucast data OR MDIC_OP_WRITE) 26"
    and "ucast (push_bit 16 off OR push_bit 21 1 OR ucast data OR MDIC_OP_WRITE) = data"
proof -
  have c: "MDIC_OP_READ = push_bit 27 1" "MDIC_OP_WRITE = push_bit 26 1"
    by (simp_all add: MDIC_OP_READ_def MDIC_OP_WRITE_def)
  have "unat off < 2 ^ 5" using assms by (simp add: word_less_nat_alt)
  then have "take_bit 5 off = off" by (simp add: word_unat_eq_iff unsigned_take_bit_eq take_bit_nat_eq_self)
  then have o: "\<not> bit off k" if "5 \<le> k" for k by (metis bit_take_bit_iff not_less that)
  have d: "\<not> bit data k" if "16 \<le> k" for k using that bit_imp_le_length [of data k] by auto
  show "take_bit 5 (drop_bit 16 (push_bit 16 off OR push_bit 21 1 OR MDIC_OP_READ)) = off"
    and "take_bit 5 (drop_bit 16 (push_bit 16 off OR push_bit 21 1 OR ucast data OR MDIC_OP_WRITE)) = off"
    unfolding c by (rule bit_word_eqI; auto simp: bit_simps bit_1_iff o d not_less simp del: push_bit_of_1 push_bit_numeral)+
  show "\<not> bit (push_bit 16 off OR push_bit 21 1 OR MDIC_OP_READ) 26"
    and "bit (push_bit 16 off OR push_bit 21 1 OR ucast data OR MDIC_OP_WRITE) 26"
    unfolding c by (auto simp: bit_simps bit_1_iff o d simp del: push_bit_of_1)
  show "ucast (push_bit 16 off OR push_bit 21 1 OR ucast data OR MDIC_OP_WRITE) = data"
    unfolding c by (rule bit_word_eqI) (auto simp: bit_simps bit_1_iff o d simp del: push_bit_of_1)
qed

lemma port_command:
  "take_bit 5 (drop_bit 16 v) = off \<Longrightarrow> \<not> bit v 26 \<Longrightarrow> mmio_write port_platform 0x10020 v w =
     w\<lparr>port_cells := (port_cells w)(0x10020 := MDIC_READY OR ucast (port_phy w off))\<rparr>"
  "take_bit 5 (drop_bit 16 v) = off \<Longrightarrow> bit v 26 \<Longrightarrow> ucast v = data \<Longrightarrow> mmio_write port_platform 0x10020 v w =
     w\<lparr>port_cells := (port_cells w)(0x10020 := MDIC_READY), port_phy := (port_phy w)(off := data)\<rparr>"
  by (simp_all add: port_platform_def port_write_def Let_def)

lemma port_mdio: "mdio_port port_platform 0x10020 port_phy"
  unfolding mdio_port_def
proof (intro allI impI conjI)
  fix w and off :: u32 assume off: "off < 32"
  let ?w = "mmio_write port_platform 0x10020 (push_bit 16 off OR push_bit 21 1 OR MDIC_OP_READ) w"
  let ?v = "MDIC_READY OR ucast (port_phy w off)"
  have w: "?w = w\<lparr>port_cells := (port_cells w)(0x10020 := ?v)\<rparr>"
    by (rule port_command(1) [OF mdic_command(1,2) [OF off]])
  have phy: "port_phy ?w = port_phy w" unfolding w by simp
  have "ucast ?v = port_phy w off"
    by (rule bit_word_eqI) (auto simp: MDIC_READY_def bit_simps bit_1_iff simp del: push_bit_of_1)
  moreover have "mdic_answers port_platform 0x10020 ?w ?v ?w"
    unfolding w by (simp add: mdic_answers_def mdic_polled_def port_platform_def exI [of _ 0] and.commute)
  ultimately show "\<exists>v w'. mdic_answers port_platform 0x10020 ?w v w' \<and> ucast v = port_phy w off \<and> port_phy w' = port_phy w"
    using phy by blast
next
  fix w and off :: u32 and data :: u16 assume off: "off < 32"
  let ?w = "mmio_write port_platform 0x10020 (push_bit 16 off OR push_bit 21 1 OR ucast data OR MDIC_OP_WRITE) w"
  have w: "?w = w\<lparr>port_cells := (port_cells w)(0x10020 := MDIC_READY), port_phy := (port_phy w)(off := data)\<rparr>"
    by (rule port_command(2) [OF mdic_command(3,4,5) [OF off]])
  have phy: "port_phy ?w = (port_phy w)(off := data)" unfolding w by simp
  have "mdic_answers port_platform 0x10020 ?w MDIC_READY ?w"
    unfolding w by (simp add: mdic_answers_def mdic_polled_def port_platform_def exI [of _ 0])
  then show "\<exists>v w'. mdic_answers port_platform 0x10020 ?w v w' \<and> port_phy w' = (port_phy w)(off := data)"
    using phy by blast
qed

end
