(* ===== verification/Irq.thy ===== *)
theory Irq
  imports Registers_Spec
begin

text \<open>
  The part of \<open>src/igb.rs\<close> under the feature \<open>irq\<close>: enabling of an interrupt for a queue, and \<open>init\<close>
  with it. It names two registers, \<open>IGB_EIAC\<close> and \<open>IGB_EIMS\<close>, that \<open>src/constants.rs\<close> has commented out;
  they are arguments here. A register file, where a read returns what was written last, is the
  device on which the effect is stated.
\<close>

section \<open>The operations\<close>

definition enable_msi_interrupt ::
  "'w platform \<Rightarrow> u32 \<Rightarrow> u32 \<Rightarrow> u16 \<Rightarrow> (('w, 'c, 'x) drv_scheme, unit) prog" where
  "enable_msi_interrupt E IGB_EIAC IGB_EIMS queue_id =
     seqM (set_ivar E 0 queue_id 0)
    (seqM (set_reg32 E IGB_EIAC 0x00000000)
    (bindM (getsM (\<lambda>s. itr_rate (interrupts (dev s)))) (\<lambda>rate.
     seqM (set_reg32 E (IGB_EITR (ucast queue_id)) rate)
    (seqM (clear_interrupts E)
    (bindM (get_reg32 E IGB_EIMS) (\<lambda>mask.
     bindM (shl_ov (overflow_checks E) 1 (unat queue_id)) (\<lambda>b.
     set_reg32 E IGB_EIMS (mask OR b))))))))"

definition enable_msix_interrupt ::
  "'w platform \<Rightarrow> u32 \<Rightarrow> u32 \<Rightarrow> u16 \<Rightarrow> (('w, 'c, 'x) drv_scheme, unit) prog" where
  "enable_msix_interrupt E IGB_EIAC IGB_EIMS queue_id =
     bindM (get_reg32 E IGB_GPIE) (\<lambda>gpie.
     seqM (set_reg32 E IGB_GPIE (gpie OR (IGB_GPIE_MSIX_MODE OR IGB_GPIE_PBA_SUPPORT OR IGB_GPIE_EIAME)))
    (seqM (set_ivar E 0 queue_id (ucast queue_id))
    (seqM (set_reg32 E IGB_EIAC IGB_EIMS_RTX_QUEUE)
    (bindM (getsM (\<lambda>s. itr_rate (interrupts (dev s)))) (\<lambda>rate.
     seqM (set_reg32 E (IGB_EITR (ucast queue_id)) rate)
    (bindM (get_reg32 E IGB_EIMS) (\<lambda>mask.
     bindM (shl_ov (overflow_checks E) 1 (unat queue_id)) (\<lambda>b.
     set_reg32 E IGB_EIMS (mask OR b)))))))))"

definition Interrupts_irq :: Interrupts where
  "Interrupts_irq = Interrupts_default\<lparr>interrupts_enabled := True, itr_rate := 0x028\<rparr>"

text \<open>\<open>init\<close> with the feature: the interrupts of all receive queues are enabled before the reset.\<close>

definition IgbDevice_init_irq ::
  "'w platform \<Rightarrow> u32 \<Rightarrow> u32 \<Rightarrow> usize \<Rightarrow> usize \<Rightarrow> usize \<Rightarrow> u16 \<Rightarrow> u16 \<Rightarrow> pool_ref \<Rightarrow>
   (('w, 'c) heap, IgbDevice) prog" where
  "IgbDevice_init_irq E IGB_EIAC IGB_EIMS qs base_address len nrx ntx pool = (\<lambda>h.
     case seqM (forM (word_range nrx) (enable_msix_interrupt E IGB_EIAC IGB_EIMS)) (reset_and_init E qs pool)
            \<lparr>world = world h, pools = pools h, client = client h,
             dev = (new_device base_address len nrx ntx)\<lparr>interrupts := Interrupts_irq\<rparr>\<rparr> of
       None \<Rightarrow> None
     | Some (r, s) \<Rightarrow>
         Some (case r of Val _ \<Rightarrow> Val (dev s) | Err e \<Rightarrow> Err e | Panicked p \<Rightarrow> Panicked p,
               \<lparr>world = world s, pools = pools s, client = client s\<rparr>))"

section \<open>Their effect on a register file\<close>

definition register_file :: "'w platform \<Rightarrow> ('w \<Rightarrow> usize \<Rightarrow> u32) \<Rightarrow> bool" where
  "register_file E rf \<longleftrightarrow>
     (\<forall>a w. mmio_read E a w = (rf w a, w)) \<and> (\<forall>a v w. rf (mmio_write E a v w) = (rf w)(a := v))"

lemma register_fileD:
  assumes "register_file E rf"
  shows "mmio_read E a w = (rf w a, w)" "rf (mmio_write E a v w) = (rf w)(a := v)"
  using assms by (simp_all add: register_file_def)

lemma reg_address_inj: "(ucast (r :: u32) :: usize) = ucast r' \<longleftrightarrow> r = r'"
  using unat_ucast_32_64 [of r] unat_ucast_32_64 [of r'] by (metis word_unat_eq_iff)

lemma world_update_inj:
  fixes s :: "('w, 'x) base_scheme"
  shows "s\<lparr>world := v\<rparr> = s\<lparr>world := w\<rparr> \<longleftrightarrow> v = w"
  by (auto dest: arg_cong [where f = world])

text \<open>The writes of \<open>enable_msix_interrupt\<close>, in order, up to the mask.\<close>

lemma wp_enable_msix_interrupt:
  fixes s :: "('a, 'b, 'c) drv_scheme"
  assumes "register_file E rf" and "IGB_IVAR (drop_bit 1 (ucast q)) = r" and "IGB_EITR (ucast q) = t"
    and "list_all (reg_ok (dev s)) [IGB_GPIE, r, EIAC, t, EIMS]"
    and "w1 = mmio_write E (dev_addr (dev s) + ucast IGB_GPIE) (rf (world s) (dev_addr (dev s) + ucast IGB_GPIE) OR
          (IGB_GPIE_MSIX_MODE OR IGB_GPIE_PBA_SUPPORT OR IGB_GPIE_EIAME)) (world s)"
    and "w2 = mmio_write E (dev_addr (dev s) + ucast r)
          (ivar_updated (ivar_index 0 q) (ucast q) (rf w1 (dev_addr (dev s) + ucast r))) w1"
    and "w3 = mmio_write E (dev_addr (dev s) + ucast EIAC) IGB_EIMS_RTX_QUEUE w2"
    and "w4 = mmio_write E (dev_addr (dev s) + ucast t) (itr_rate (interrupts (dev s))) w3"
  shows "wp (enable_msix_interrupt E EIAC EIMS q) Q s =
    (if overflow_checks E \<and> 32 \<le> unat q then Q (Panicked ArithmeticOverflow) (s\<lparr>world := w4\<rparr>)
     else Q (Val ()) (s\<lparr>world := mmio_write E (dev_addr (dev s) + ucast EIMS)
       (rf w4 (dev_addr (dev s) + ucast EIMS) OR push_bit (unat q mod 32) 1) w4\<rparr>))"
proof -
  have read: "mmio_read E a w = (rf w a, w)" for a w using assms(1) by (simp add: register_file_def)
  have vector: "wp (set_ivar E 0 q v) Q' s' = Q' (Val ()) (s'\<lparr>world :=
      mmio_write E (dev_addr (dev s') + ucast r)
        (ivar_updated (ivar_index 0 q) v (rf (world s') (dev_addr (dev s') + ucast r))) (world s')\<rparr>)"
    if "reg_ok (dev s') r" for v Q' and s' :: "('a, 'b, 'c) drv_scheme"
    using wp_set_ivar [of 0 s' q E v Q', unfolded assms(2)] that by (simp add: read Let_def)
  show ?thesis
    using assms(4) unfolding enable_msix_interrupt_def assms(3,5-8)
    by (simp add: wp_simps read vector del: wp_set_ivar)
qed

lemma enable_msix_registers:
  assumes "register_file E rf" and "IGB_IVAR (drop_bit 1 (ucast q)) = r" and "IGB_EITR (ucast q) = t"
    and "list_all (reg_ok (dev s)) [IGB_GPIE, r, EIAC, t, EIMS]"
    and "distinct [IGB_GPIE, r, EIAC, t, EIMS]"
    and "at = (\<lambda>reg. dev_addr (dev s) + ucast reg)" and "regs = rf (world s)"
    and "before = regs(at IGB_GPIE := regs (at IGB_GPIE) OR (IGB_GPIE_MSIX_MODE OR IGB_GPIE_PBA_SUPPORT OR IGB_GPIE_EIAME),
         at r := ivar_updated (ivar_index 0 q) (ucast q) (regs (at r)),
         at EIAC := IGB_EIMS_RTX_QUEUE, at t := itr_rate (interrupts (dev s)))"
  shows "wp (enable_msix_interrupt E EIAC EIMS q) (\<lambda>v s'. \<exists>w. s' = s\<lparr>world := w\<rparr> \<and>
       (if overflow_checks E \<and> 32 \<le> unat q then v = Panicked ArithmeticOverflow \<and> rf w = before
        else v = Val () \<and> rf w = before(at EIMS := regs (at EIMS) OR push_bit (unat q mod 32) 1))) s"
proof -
  note rw = register_fileD [OF assms(1)]
  have di: "r \<noteq> IGB_GPIE" "EIMS \<noteq> IGB_GPIE" "EIMS \<noteq> r" "EIMS \<noteq> EIAC" "EIMS \<noteq> t"
    using assms(5) by auto
  show ?thesis
    unfolding wp_enable_msix_interrupt [OF assms(1-4) refl refl refl refl]
    using di by (simp add: rw(2) assms(6-8) reg_address_inj world_update_inj)
qed

text \<open>So with \<open>init\<close>, whose next step disables them: all mask bits are written to the clear register.\<close>

lemma disable_after_enable:
  assumes "register_file E rf" and "list_all (reg_ok (dev s)) [IGB_IMS, IGB_IMC, IGB_ICR]"
    and "at = (\<lambda>reg. dev_addr (dev s) + ucast reg)"
  shows "wp (disable_interrupts E) (\<lambda>v s'. \<exists>w. v = Val () \<and> s' = s\<lparr>world := w\<rparr> \<and>
      rf w = (rf (world s))(at IGB_IMS := 0, at IGB_IMC := IGB_IRQ_CLEAR_MASK)) s"
  using assms(2) register_fileD [OF assms(1)]
  by (simp add: disable_interrupts_def clear_interrupts_def wp_simps assms(3) world_update_inj)

section \<open>A machine with registers only\<close>

definition cells_platform :: "(usize \<Rightarrow> u32) platform" where
  "cells_platform = \<lparr>overflow_checks = True, info_enabled = False,
     hal = \<lparr>dma_alloc = (\<lambda>_ w. ((0, 0), w)), dma_dealloc = (\<lambda>_ _ _ w. (0, w)),
       mmio_phys_to_virt = (\<lambda>p _ w. (p, w)), mmio_virt_to_phys = (\<lambda>v _ w. (v, w)),
       wait_until = (\<lambda>_ w. (True, w))\<rparr>,
     mmio_read = (\<lambda>a w. (w a, w)), mmio_write = (\<lambda>a v w. w(a := v)),
     volatile_read64 = (\<lambda>_ w. (0, w)), volatile_read32 = (\<lambda>_ w. (0, w)),
     volatile_write64 = (\<lambda>_ _ w. w), volatile_write32 = (\<lambda>_ _ w. w),
     volatile_write16 = (\<lambda>_ _ w. w), volatile_write8 = (\<lambda>_ _ w. w),
     load8 = (\<lambda>_ _. 0), store8 = (\<lambda>_ _ w. w), get_bits = (\<lambda>x lo hi. take_bit (hi - lo) (drop_bit lo x))\<rparr>"

definition cells_state :: "(usize \<Rightarrow> u32, unit) drv" where
  "cells_state = \<lparr>world = (\<lambda>_. 0), pools = [], client = (),
     dev = (new_device 0x10000 0x20000 1 1)\<lparr>interrupts := Interrupts_irq\<rparr>\<rparr>"

lemma cells_register_file: "register_file cells_platform (\<lambda>w. w)"
  by (simp add: register_file_def cells_platform_def)

end
