(* ===== verification/Igb_Bak.thy ===== *)
theory Igb_Bak
  imports Device_Spec
begin

text \<open>
  The first sketch of the driver, \<open>src/doc/igb_bak.rs\<close>: a reset through raw pointers, without bounds
  and without a pause between the reads. \<open>debug!\<close> prints local variables and is left out.
\<close>

definition bak_wait_reset :: "'w platform \<Rightarrow> usize \<Rightarrow> (('w, 'x) base_scheme, unit) prog" where
  "bak_wait_reset E bar0 = loopM (\<lambda>_ :: unit.
     bindM (worldM (mmio_read E bar0)) (\<lambda>ctrl.
       ret (if ctrl AND push_bit 26 1 = 0 then Inr () else Inl ()))) ()"

definition bak_new :: "'w platform \<Rightarrow> usize \<Rightarrow> (('w, 'x) base_scheme, unit) prog" where
  "bak_new E bar0 =
     bindM (worldM (mmio_read E bar0)) (\<lambda>ctrl.
     seqM (world_doM (mmio_write E bar0 (ctrl OR push_bit 26 1)))
    (seqM (bak_wait_reset E bar0)
    (bindM (worldM (mmio_read E (bar0 + 8))) (\<lambda>status. ret ()))))"

primrec bak_world :: "'w platform \<Rightarrow> usize \<Rightarrow> nat \<Rightarrow> 'w \<Rightarrow> 'w" where
  "bak_world E a 0 w = w"
| "bak_world E a (Suc k) w = snd (mmio_read E a (bak_world E a k w))"

definition bak_reset_done :: "'w platform \<Rightarrow> usize \<Rightarrow> nat \<Rightarrow> 'w \<Rightarrow> bool" where
  "bak_reset_done E a k w \<longleftrightarrow> \<not> bit (fst (mmio_read E a (bak_world E a k w))) 26"

lemma bak_pass:
  fixes s :: "('w, 'x) base_scheme"
  shows "wp (bindM (worldM (mmio_read E a)) (\<lambda>ctrl.
       ret (if ctrl AND push_bit 26 1 = 0 then Inr () else Inl ()))) Q (s\<lparr>world := bak_world E a k w\<rparr>) =
    Q (Val (if bak_reset_done E a k w then Inr () else Inl ())) (s\<lparr>world := bak_world E a (Suc k) w\<rparr>)"
proof -
  have "v AND push_bit 26 1 = 0 \<longleftrightarrow> \<not> bit v 26" for v :: u32
    using and_exp_eq_0_iff_not_bit [of v 26] by (simp add: push_bit_eq_mult)
  then show ?thesis by (simp add: wp_simps bak_reset_done_def)
qed

text \<open>It returns exactly if some read finds the reset bit clear.\<close>

lemma bak_wait_reset_iff:
  fixes s :: "('w, 'x) base_scheme"
  shows "(\<exists>w. bak_wait_reset E a s = Some (Val (), s\<lparr>world := w\<rparr>)) \<longleftrightarrow> (\<exists>k. bak_reset_done E a k (world s))"
proof (cases "\<exists>k. bak_reset_done E a k (world s)")
  case True
  let ?k = "LEAST k. bak_reset_done E a k (world s)"
  let ?st = "\<lambda>j. s\<lparr>world := bak_world E a j (world s)\<rparr>"
  have "wp (bak_wait_reset E a) (\<lambda>r s'. r = Val () \<and> s' = ?st (Suc ?k)) (?st 0)"
    unfolding bak_wait_reset_def
    by (rule wp_loopM_search [where k = ?k and st = ?st])
      (use LeastI_ex [OF True] in \<open>auto simp only: bak_pass dest: not_less_Least, auto dest: not_less_Least\<close>)
  then show ?thesis using True by (auto elim!: wpE)
next
  case False
  let ?st = "\<lambda>j. s\<lparr>world := bak_world E a j (world s)\<rparr>"
  have "bak_wait_reset E a (?st 0) = None"
    unfolding bak_wait_reset_def
    by (rule loopM_never [where st = ?st]) (use False in \<open>simp only: bak_pass, simp\<close>)
  then show ?thesis using False by simp
qed

end
