(* ===== verification/Hw_Enums.thy ===== *)
theory Hw_Enums
  imports Prelude
begin

text \<open>
  The enumerations of \<open>src/constants.rs\<close>: flow types, EEPROM, MAC, PHY, SFP and media types, flow
  control, bus properties, mailbox versions. Each is a datatype with the source's constructors; the
  function \<open>.._repr\<close> gives a constructor the discriminant the source gives it, or one more than its
  predecessor's, and no two constructors share one, so a stored value has at most one meaning.
\<close>

datatype IGB_fdir_pballoc_type =
    IGB_FDIR_PBALLOC_NONE
  | IGB_FDIR_PBALLOC_64K
  | IGB_FDIR_PBALLOC_128K
  | IGB_FDIR_PBALLOC_256K

fun IGB_fdir_pballoc_type_repr :: "IGB_fdir_pballoc_type \<Rightarrow> int" where
  "IGB_fdir_pballoc_type_repr IGB_FDIR_PBALLOC_NONE = 0"
| "IGB_fdir_pballoc_type_repr IGB_FDIR_PBALLOC_64K = 1"
| "IGB_fdir_pballoc_type_repr IGB_FDIR_PBALLOC_128K = 2"
| "IGB_fdir_pballoc_type_repr IGB_FDIR_PBALLOC_256K = 3"

lemma IGB_fdir_pballoc_type_repr_inj: "inj IGB_fdir_pballoc_type_repr"
  by (rule injI) (case_tac x; case_tac y; simp)

datatype IGB_atr_flow_type =
    IGB_ATR_FLOW_TYPE_IPV4
  | IGB_ATR_FLOW_TYPE_UDPV4
  | IGB_ATR_FLOW_TYPE_TCPV4
  | IGB_ATR_FLOW_TYPE_SCTPV4
  | IGB_ATR_FLOW_TYPE_IPV6
  | IGB_ATR_FLOW_TYPE_UDPV6
  | IGB_ATR_FLOW_TYPE_TCPV6
  | IGB_ATR_FLOW_TYPE_SCTPV6
  | IGB_ATR_FLOW_TYPE_TUNNELED_IPV4
  | IGB_ATR_FLOW_TYPE_TUNNELED_UDPV4
  | IGB_ATR_FLOW_TYPE_TUNNELED_TCPV4
  | IGB_ATR_FLOW_TYPE_TUNNELED_SCTPV4
  | IGB_ATR_FLOW_TYPE_TUNNELED_IPV6
  | IGB_ATR_FLOW_TYPE_TUNNELED_UDPV6
  | IGB_ATR_FLOW_TYPE_TUNNELED_TCPV6
  | IGB_ATR_FLOW_TYPE_TUNNELED_SCTPV6

fun IGB_atr_flow_type_repr :: "IGB_atr_flow_type \<Rightarrow> int" where
  "IGB_atr_flow_type_repr IGB_ATR_FLOW_TYPE_IPV4 = 0x0"
| "IGB_atr_flow_type_repr IGB_ATR_FLOW_TYPE_UDPV4 = 0x1"
| "IGB_atr_flow_type_repr IGB_ATR_FLOW_TYPE_TCPV4 = 0x2"
| "IGB_atr_flow_type_repr IGB_ATR_FLOW_TYPE_SCTPV4 = 0x3"
| "IGB_atr_flow_type_repr IGB_ATR_FLOW_TYPE_IPV6 = 0x4"
| "IGB_atr_flow_type_repr IGB_ATR_FLOW_TYPE_UDPV6 = 0x5"
| "IGB_atr_flow_type_repr IGB_ATR_FLOW_TYPE_TCPV6 = 0x6"
| "IGB_atr_flow_type_repr IGB_ATR_FLOW_TYPE_SCTPV6 = 0x7"
| "IGB_atr_flow_type_repr IGB_ATR_FLOW_TYPE_TUNNELED_IPV4 = 0x10"
| "IGB_atr_flow_type_repr IGB_ATR_FLOW_TYPE_TUNNELED_UDPV4 = 0x11"
| "IGB_atr_flow_type_repr IGB_ATR_FLOW_TYPE_TUNNELED_TCPV4 = 0x12"
| "IGB_atr_flow_type_repr IGB_ATR_FLOW_TYPE_TUNNELED_SCTPV4 = 0x13"
| "IGB_atr_flow_type_repr IGB_ATR_FLOW_TYPE_TUNNELED_IPV6 = 0x14"
| "IGB_atr_flow_type_repr IGB_ATR_FLOW_TYPE_TUNNELED_UDPV6 = 0x15"
| "IGB_atr_flow_type_repr IGB_ATR_FLOW_TYPE_TUNNELED_TCPV6 = 0x16"
| "IGB_atr_flow_type_repr IGB_ATR_FLOW_TYPE_TUNNELED_SCTPV6 = 0x17"

lemma IGB_atr_flow_type_repr_inj: "inj IGB_atr_flow_type_repr"
  by (rule injI) (case_tac x; case_tac y; simp)

datatype IGB_fcoe_boot_status =
    IGB_fcoe_bootstatus_disabled
  | IGB_fcoe_bootstatus_enabled
  | IGB_fcoe_bootstatus_unavailable

fun IGB_fcoe_boot_status_repr :: "IGB_fcoe_boot_status \<Rightarrow> int" where
  "IGB_fcoe_boot_status_repr IGB_fcoe_bootstatus_disabled = 0"
| "IGB_fcoe_boot_status_repr IGB_fcoe_bootstatus_enabled = 1"
| "IGB_fcoe_boot_status_repr IGB_fcoe_bootstatus_unavailable = 0xFFFF"

lemma IGB_fcoe_boot_status_repr_inj: "inj IGB_fcoe_boot_status_repr"
  by (rule injI) (case_tac x; case_tac y; simp)

datatype IGB_eeprom_type =
    IGB_eeprom_uninitialized
  | IGB_eeprom_spi
  | IGB_flash
  | IGB_eeprom_none

fun IGB_eeprom_type_repr :: "IGB_eeprom_type \<Rightarrow> int" where
  "IGB_eeprom_type_repr IGB_eeprom_uninitialized = 0"
| "IGB_eeprom_type_repr IGB_eeprom_spi = 1"
| "IGB_eeprom_type_repr IGB_flash = 2"
| "IGB_eeprom_type_repr IGB_eeprom_none = 3"

lemma IGB_eeprom_type_repr_inj: "inj IGB_eeprom_type_repr"
  by (rule injI) (case_tac x; case_tac y; simp)

datatype IGB_mac_type =
    IGB_mac_unknown
  | IGB_mac_82598EB
  | IGB_mac_82599EB
  | IGB_mac_82599_vf
  | IGB_mac_X540
  | IGB_mac_X540_vf
  | IGB_mac_X550
  | IGB_mac_X550EM_x
  | IGB_mac_X550EM_a
  | IGB_mac_X550_vf
  | IGB_mac_X550EM_x_vf
  | IGB_mac_X550EM_a_vf
  | IGB_num_macs

fun IGB_mac_type_repr :: "IGB_mac_type \<Rightarrow> int" where
  "IGB_mac_type_repr IGB_mac_unknown = 0"
| "IGB_mac_type_repr IGB_mac_82598EB = 1"
| "IGB_mac_type_repr IGB_mac_82599EB = 2"
| "IGB_mac_type_repr IGB_mac_82599_vf = 3"
| "IGB_mac_type_repr IGB_mac_X540 = 4"
| "IGB_mac_type_repr IGB_mac_X540_vf = 5"
| "IGB_mac_type_repr IGB_mac_X550 = 6"
| "IGB_mac_type_repr IGB_mac_X550EM_x = 7"
| "IGB_mac_type_repr IGB_mac_X550EM_a = 8"
| "IGB_mac_type_repr IGB_mac_X550_vf = 9"
| "IGB_mac_type_repr IGB_mac_X550EM_x_vf = 10"
| "IGB_mac_type_repr IGB_mac_X550EM_a_vf = 11"
| "IGB_mac_type_repr IGB_num_macs = 12"

lemma IGB_mac_type_repr_inj: "inj IGB_mac_type_repr"
  by (rule injI) (case_tac x; case_tac y; simp)

datatype IGB_phy_type =
    IGB_phy_unknown
  | IGB_phy_none
  | IGB_phy_tn
  | IGB_phy_aq
  | IGB_phy_x550em_kr
  | IGB_phy_x550em_kx4
  | IGB_phy_x550em_xfi
  | IGB_phy_x550em_ext_t
  | IGB_phy_ext_1g_t
  | IGB_phy_cu_unknown
  | IGB_phy_qt
  | IGB_phy_xaui
  | IGB_phy_nl
  | IGB_phy_sfp_passive_tyco
  | IGB_phy_sfp_passive_unknown
  | IGB_phy_sfp_active_unknown
  | IGB_phy_sfp_avago
  | IGB_phy_sfp_ftl
  | IGB_phy_sfp_ftl_active
  | IGB_phy_sfp_unknown
  | IGB_phy_sfp_intel
  | IGB_phy_qsfp_passive_unknown
  | IGB_phy_qsfp_active_unknown
  | IGB_phy_qsfp_intel
  | IGB_phy_qsfp_unknown
  | IGB_phy_sfp_unsupported
  | IGB_phy_sgmii
  | IGB_phy_fw
  | IGB_phy_generic

fun IGB_phy_type_repr :: "IGB_phy_type \<Rightarrow> int" where
  "IGB_phy_type_repr IGB_phy_unknown = 0"
| "IGB_phy_type_repr IGB_phy_none = 1"
| "IGB_phy_type_repr IGB_phy_tn = 2"
| "IGB_phy_type_repr IGB_phy_aq = 3"
| "IGB_phy_type_repr IGB_phy_x550em_kr = 4"
| "IGB_phy_type_repr IGB_phy_x550em_kx4 = 5"
| "IGB_phy_type_repr IGB_phy_x550em_xfi = 6"
| "IGB_phy_type_repr IGB_phy_x550em_ext_t = 7"
| "IGB_phy_type_repr IGB_phy_ext_1g_t = 8"
| "IGB_phy_type_repr IGB_phy_cu_unknown = 9"
| "IGB_phy_type_repr IGB_phy_qt = 10"
| "IGB_phy_type_repr IGB_phy_xaui = 11"
| "IGB_phy_type_repr IGB_phy_nl = 12"
| "IGB_phy_type_repr IGB_phy_sfp_passive_tyco = 13"
| "IGB_phy_type_repr IGB_phy_sfp_passive_unknown = 14"
| "IGB_phy_type_repr IGB_phy_sfp_active_unknown = 15"
| "IGB_phy_type_repr IGB_phy_sfp_avago = 16"
| "IGB_phy_type_repr IGB_phy_sfp_ftl = 17"
| "IGB_phy_type_repr IGB_phy_sfp_ftl_active = 18"
| "IGB_phy_type_repr IGB_phy_sfp_unknown = 19"
| "IGB_phy_type_repr IGB_phy_sfp_intel = 20"
| "IGB_phy_type_repr IGB_phy_qsfp_passive_unknown = 21"
| "IGB_phy_type_repr IGB_phy_qsfp_active_unknown = 22"
| "IGB_phy_type_repr IGB_phy_qsfp_intel = 23"
| "IGB_phy_type_repr IGB_phy_qsfp_unknown = 24"
| "IGB_phy_type_repr IGB_phy_sfp_unsupported = 25"
| "IGB_phy_type_repr IGB_phy_sgmii = 26"
| "IGB_phy_type_repr IGB_phy_fw = 27"
| "IGB_phy_type_repr IGB_phy_generic = 28"

lemma IGB_phy_type_repr_inj: "inj IGB_phy_type_repr"
  by (rule injI) (case_tac x; case_tac y; simp)

datatype IGB_sfp_type =
    IGB_sfp_type_da_cu
  | IGB_sfp_type_sr
  | IGB_sfp_type_lr
  | IGB_sfp_type_da_cu_core0
  | IGB_sfp_type_da_cu_core1
  | IGB_sfp_type_srlr_core0
  | IGB_sfp_type_srlr_core1
  | IGB_sfp_type_da_act_lmt_core0
  | IGB_sfp_type_da_act_lmt_core1
  | IGB_sfp_type_1g_cu_core0
  | IGB_sfp_type_1g_cu_core1
  | IGB_sfp_type_1g_sx_core0
  | IGB_sfp_type_1g_sx_core1
  | IGB_sfp_type_1g_lx_core0
  | IGB_sfp_type_1g_lx_core1
  | IGB_sfp_type_not_present
  | IGB_sfp_type_unknown

fun IGB_sfp_type_repr :: "IGB_sfp_type \<Rightarrow> int" where
  "IGB_sfp_type_repr IGB_sfp_type_da_cu = 0"
| "IGB_sfp_type_repr IGB_sfp_type_sr = 1"
| "IGB_sfp_type_repr IGB_sfp_type_lr = 2"
| "IGB_sfp_type_repr IGB_sfp_type_da_cu_core0 = 3"
| "IGB_sfp_type_repr IGB_sfp_type_da_cu_core1 = 4"
| "IGB_sfp_type_repr IGB_sfp_type_srlr_core0 = 5"
| "IGB_sfp_type_repr IGB_sfp_type_srlr_core1 = 6"
| "IGB_sfp_type_repr IGB_sfp_type_da_act_lmt_core0 = 7"
| "IGB_sfp_type_repr IGB_sfp_type_da_act_lmt_core1 = 8"
| "IGB_sfp_type_repr IGB_sfp_type_1g_cu_core0 = 9"
| "IGB_sfp_type_repr IGB_sfp_type_1g_cu_core1 = 10"
| "IGB_sfp_type_repr IGB_sfp_type_1g_sx_core0 = 11"
| "IGB_sfp_type_repr IGB_sfp_type_1g_sx_core1 = 12"
| "IGB_sfp_type_repr IGB_sfp_type_1g_lx_core0 = 13"
| "IGB_sfp_type_repr IGB_sfp_type_1g_lx_core1 = 14"
| "IGB_sfp_type_repr IGB_sfp_type_not_present = 0xFFFE"
| "IGB_sfp_type_repr IGB_sfp_type_unknown = 0xFFFF"

lemma IGB_sfp_type_repr_inj: "inj IGB_sfp_type_repr"
  by (rule injI) (case_tac x; case_tac y; simp)

datatype IGB_media_type =
    IGB_media_type_unknown
  | IGB_media_type_fiber
  | IGB_media_type_fiber_qsfp
  | IGB_media_type_fiber_lco
  | IGB_media_type_copper
  | IGB_media_type_backplane
  | IGB_media_type_cx4
  | IGB_media_type_virtual

fun IGB_media_type_repr :: "IGB_media_type \<Rightarrow> int" where
  "IGB_media_type_repr IGB_media_type_unknown = 0"
| "IGB_media_type_repr IGB_media_type_fiber = 1"
| "IGB_media_type_repr IGB_media_type_fiber_qsfp = 2"
| "IGB_media_type_repr IGB_media_type_fiber_lco = 3"
| "IGB_media_type_repr IGB_media_type_copper = 4"
| "IGB_media_type_repr IGB_media_type_backplane = 5"
| "IGB_media_type_repr IGB_media_type_cx4 = 6"
| "IGB_media_type_repr IGB_media_type_virtual = 7"

lemma IGB_media_type_repr_inj: "inj IGB_media_type_repr"
  by (rule injI) (case_tac x; case_tac y; simp)

datatype IGB_fc_mode =
    IGB_fc_none
  | IGB_fc_rx_pause
  | IGB_fc_tx_pause
  | IGB_fc_full
  | IGB_fc_default

fun IGB_fc_mode_repr :: "IGB_fc_mode \<Rightarrow> int" where
  "IGB_fc_mode_repr IGB_fc_none = 0"
| "IGB_fc_mode_repr IGB_fc_rx_pause = 1"
| "IGB_fc_mode_repr IGB_fc_tx_pause = 2"
| "IGB_fc_mode_repr IGB_fc_full = 3"
| "IGB_fc_mode_repr IGB_fc_default = 4"

lemma IGB_fc_mode_repr_inj: "inj IGB_fc_mode_repr"
  by (rule injI) (case_tac x; case_tac y; simp)

datatype IGB_smart_speed =
    IGB_smart_speed_auto
  | IGB_smart_speed_on
  | IGB_smart_speed_off

fun IGB_smart_speed_repr :: "IGB_smart_speed \<Rightarrow> int" where
  "IGB_smart_speed_repr IGB_smart_speed_auto = 0"
| "IGB_smart_speed_repr IGB_smart_speed_on = 1"
| "IGB_smart_speed_repr IGB_smart_speed_off = 2"

lemma IGB_smart_speed_repr_inj: "inj IGB_smart_speed_repr"
  by (rule injI) (case_tac x; case_tac y; simp)

datatype IGB_bus_type =
    IGB_bus_type_unknown
  | IGB_bus_type_pci
  | IGB_bus_type_pcix
  | IGB_bus_type_pci_express
  | IGB_bus_type_internal
  | IGB_bus_type_reserved

fun IGB_bus_type_repr :: "IGB_bus_type \<Rightarrow> int" where
  "IGB_bus_type_repr IGB_bus_type_unknown = 0"
| "IGB_bus_type_repr IGB_bus_type_pci = 1"
| "IGB_bus_type_repr IGB_bus_type_pcix = 2"
| "IGB_bus_type_repr IGB_bus_type_pci_express = 3"
| "IGB_bus_type_repr IGB_bus_type_internal = 4"
| "IGB_bus_type_repr IGB_bus_type_reserved = 5"

lemma IGB_bus_type_repr_inj: "inj IGB_bus_type_repr"
  by (rule injI) (case_tac x; case_tac y; simp)

datatype IGB_bus_speed =
    IGB_bus_speed_unknown
  | IGB_bus_speed_33
  | IGB_bus_speed_66
  | IGB_bus_speed_100
  | IGB_bus_speed_120
  | IGB_bus_speed_133
  | IGB_bus_speed_2500
  | IGB_bus_speed_5000
  | IGB_bus_speed_8000
  | IGB_bus_speed_reserved

fun IGB_bus_speed_repr :: "IGB_bus_speed \<Rightarrow> int" where
  "IGB_bus_speed_repr IGB_bus_speed_unknown = 0"
| "IGB_bus_speed_repr IGB_bus_speed_33 = 33"
| "IGB_bus_speed_repr IGB_bus_speed_66 = 66"
| "IGB_bus_speed_repr IGB_bus_speed_100 = 100"
| "IGB_bus_speed_repr IGB_bus_speed_120 = 120"
| "IGB_bus_speed_repr IGB_bus_speed_133 = 133"
| "IGB_bus_speed_repr IGB_bus_speed_2500 = 2500"
| "IGB_bus_speed_repr IGB_bus_speed_5000 = 5000"
| "IGB_bus_speed_repr IGB_bus_speed_8000 = 8000"
| "IGB_bus_speed_repr IGB_bus_speed_reserved = 8001"

lemma IGB_bus_speed_repr_inj: "inj IGB_bus_speed_repr"
  by (rule injI) (case_tac x; case_tac y; simp)

datatype IGB_bus_width =
    IGB_bus_width_unknown
  | IGB_bus_width_pcie_x1
  | IGB_bus_width_pcie_x2
  | IGB_bus_width_pcie_x4
  | IGB_bus_width_pcie_x8
  | IGB_bus_width_32
  | IGB_bus_width_64
  | IGB_bus_width_reserved

fun IGB_bus_width_repr :: "IGB_bus_width \<Rightarrow> int" where
  "IGB_bus_width_repr IGB_bus_width_unknown = 0"
| "IGB_bus_width_repr IGB_bus_width_pcie_x1 = 1"
| "IGB_bus_width_repr IGB_bus_width_pcie_x2 = 2"
| "IGB_bus_width_repr IGB_bus_width_pcie_x4 = 4"
| "IGB_bus_width_repr IGB_bus_width_pcie_x8 = 8"
| "IGB_bus_width_repr IGB_bus_width_32 = 32"
| "IGB_bus_width_repr IGB_bus_width_64 = 64"
| "IGB_bus_width_repr IGB_bus_width_reserved = 65"

lemma IGB_bus_width_repr_inj: "inj IGB_bus_width_repr"
  by (rule injI) (case_tac x; case_tac y; simp)

datatype IGB_pfvf_api_rev =
    IGB_mbox_api_10
  | IGB_mbox_api_20
  | IGB_mbox_api_11
  | IGB_mbox_api_12
  | IGB_mbox_api_13
  | IGB_mbox_api_unknown

fun IGB_pfvf_api_rev_repr :: "IGB_pfvf_api_rev \<Rightarrow> int" where
  "IGB_pfvf_api_rev_repr IGB_mbox_api_10 = 0"
| "IGB_pfvf_api_rev_repr IGB_mbox_api_20 = 1"
| "IGB_pfvf_api_rev_repr IGB_mbox_api_11 = 2"
| "IGB_pfvf_api_rev_repr IGB_mbox_api_12 = 3"
| "IGB_pfvf_api_rev_repr IGB_mbox_api_13 = 4"
| "IGB_pfvf_api_rev_repr IGB_mbox_api_unknown = 5"

lemma IGB_pfvf_api_rev_repr_inj: "inj IGB_pfvf_api_rev_repr"
  by (rule injI) (case_tac x; case_tac y; simp)

datatype ixgbevf_xcast_modes =
    IXGBEVF_XCAST_MODE_NONE
  | IXGBEVF_XCAST_MODE_MULTI
  | IXGBEVF_XCAST_MODE_ALLMULTI
  | IXGBEVF_XCAST_MODE_PROMISC

fun ixgbevf_xcast_modes_repr :: "ixgbevf_xcast_modes \<Rightarrow> int" where
  "ixgbevf_xcast_modes_repr IXGBEVF_XCAST_MODE_NONE = 0"
| "ixgbevf_xcast_modes_repr IXGBEVF_XCAST_MODE_MULTI = 1"
| "ixgbevf_xcast_modes_repr IXGBEVF_XCAST_MODE_ALLMULTI = 2"
| "ixgbevf_xcast_modes_repr IXGBEVF_XCAST_MODE_PROMISC = 3"

lemma ixgbevf_xcast_modes_repr_inj: "inj ixgbevf_xcast_modes_repr"
  by (rule injI) (case_tac x; case_tac y; simp)

end
