(* ===== verification/Masks_Tables.thy ===== *)
theory Masks_Tables
  imports Masks_Tx
begin

text \<open>
  The last constants of \<open>src/constants.rs\<close>, for hardware that this driver does not drive: as tables
  from their names to their values, all of type \<open>u32\<close>.
\<close>

unbundle bit_operations_syntax

text \<open>The PHYs of the X550 family behind the management interface: their control words and the registers through which they are reached.\<close>

definition kr_phy_constants :: "(string \<times> u32) list" where
  "kr_phy_constants = [
    (''IGB_KRM_PMD_FLX_MASK_ST20_SFI_10G_DA'', push_bit 20 (NOT 0x3)),
    (''IGB_KRM_PMD_FLX_MASK_ST20_SFI_10G_SR'', push_bit 20 1),
    (''IGB_KRM_PMD_FLX_MASK_ST20_SFI_10G_LR'', push_bit 20 0x2),
    (''IGB_KRM_PMD_FLX_MASK_ST20_SGMII_EN'', push_bit 25 1),
    (''IGB_KRM_PMD_FLX_MASK_ST20_AN37_EN'', push_bit 26 1),
    (''IGB_KRM_PMD_FLX_MASK_ST20_AN_EN'', push_bit 27 1),
    (''IGB_KRM_PMD_FLX_MASK_ST20_SPEED_10M'', push_bit 28 (NOT 0x7)),
    (''IGB_KRM_PMD_FLX_MASK_ST20_SPEED_100M'', push_bit 28 1),
    (''IGB_KRM_PMD_FLX_MASK_ST20_SPEED_1G'', push_bit 28 0x2),
    (''IGB_KRM_PMD_FLX_MASK_ST20_SPEED_10G'', push_bit 28 0x3),
    (''IGB_KRM_PMD_FLX_MASK_ST20_SPEED_AN'', push_bit 28 0x4),
    (''IGB_KRM_PMD_FLX_MASK_ST20_SPEED_2_5G'', push_bit 28 0x7),
    (''IGB_KRM_PMD_FLX_MASK_ST20_SPEED_MASK'', push_bit 28 0x7),
    (''IGB_KRM_PMD_FLX_MASK_ST20_FW_AN_RESTART'', push_bit 31 1),
    (''IGB_KRM_PORT_CAR_GEN_CTRL_NELB_32B'', push_bit 9 1),
    (''IGB_KRM_PORT_CAR_GEN_CTRL_NELB_KRPCS'', push_bit 11 1),
    (''IGB_KRM_LINK_CTRL_1_TETH_FORCE_SPEED_MASK'', push_bit 8 0x7),
    (''IGB_KRM_LINK_CTRL_1_TETH_FORCE_SPEED_1G'', push_bit 8 2),
    (''IGB_KRM_LINK_CTRL_1_TETH_FORCE_SPEED_10G'', push_bit 8 4),
    (''IGB_KRM_LINK_CTRL_1_TETH_AN_SGMII_EN'', push_bit 12 1),
    (''IGB_KRM_LINK_CTRL_1_TETH_AN_CLAUSE_37_EN'', push_bit 13 1),
    (''IGB_KRM_LINK_CTRL_1_TETH_AN_FEC_REQ'', push_bit 14 1),
    (''IGB_KRM_LINK_CTRL_1_TETH_AN_CAP_FEC'', push_bit 15 1),
    (''IGB_KRM_LINK_CTRL_1_TETH_AN_CAP_KX'', push_bit 16 1),
    (''IGB_KRM_LINK_CTRL_1_TETH_AN_CAP_KR'', push_bit 18 1),
    (''IGB_KRM_LINK_CTRL_1_TETH_EEE_CAP_KX'', push_bit 24 1),
    (''IGB_KRM_LINK_CTRL_1_TETH_EEE_CAP_KR'', push_bit 26 1),
    (''IGB_KRM_LINK_S1_MAC_AN_COMPLETE'', push_bit 28 1),
    (''IGB_KRM_LINK_CTRL_1_TETH_AN_ENABLE'', push_bit 29 1),
    (''IGB_KRM_LINK_CTRL_1_TETH_AN_RESTART'', push_bit 31 1),
    (''IGB_KRM_AN_CNTL_1_SYM_PAUSE'', push_bit 28 1),
    (''IGB_KRM_AN_CNTL_1_ASM_PAUSE'', push_bit 29 1),
    (''IGB_KRM_PCS_KX_AN_SYM_PAUSE'', push_bit 1 1),
    (''IGB_KRM_PCS_KX_AN_ASM_PAUSE'', push_bit 2 1),
    (''IGB_KRM_PCS_KX_AN_LP_SYM_PAUSE'', push_bit 2 1),
    (''IGB_KRM_PCS_KX_AN_LP_ASM_PAUSE'', push_bit 3 1),
    (''IGB_KRM_AN_CNTL_4_ECSR_AN37_OVER_73'', push_bit 29 1),
    (''IGB_KRM_AN_CNTL_8_LINEAR'', push_bit 0 1),
    (''IGB_KRM_AN_CNTL_8_LIMITING'', push_bit 1 1),
    (''IGB_KRM_LP_BASE_PAGE_HIGH_SYM_PAUSE'', push_bit 10 1),
    (''IGB_KRM_LP_BASE_PAGE_HIGH_ASM_PAUSE'', push_bit 11 1),
    (''IGB_KRM_SGMII_CTRL_MAC_TAR_FORCE_100_D'', push_bit 12 1),
    (''IGB_KRM_SGMII_CTRL_MAC_TAR_FORCE_10_D'', push_bit 19 1),
    (''IGB_KRM_DSP_TXFFE_STATE_C0_EN'', push_bit 6 1),
    (''IGB_KRM_DSP_TXFFE_STATE_CP1_CN1_EN'', push_bit 15 1),
    (''IGB_KRM_DSP_TXFFE_STATE_CO_ADAPT_EN'', push_bit 16 1),
    (''IGB_KRM_RX_TRN_LINKUP_CTRL_CONV_WO_PROTOCOL'', push_bit 4 1),
    (''IGB_KRM_RX_TRN_LINKUP_CTRL_PROTOCOL_BYPASS'', push_bit 2 1),
    (''IGB_KRM_PMD_DFX_BURNIN_TX_RX_KR_LB_MASK'', push_bit 16 0x3),
    (''IGB_KRM_TX_COEFF_CTRL_1_CMINUS1_OVRRD_EN'', push_bit 1 1),
    (''IGB_KRM_TX_COEFF_CTRL_1_CPLUS1_OVRRD_EN'', push_bit 2 1),
    (''IGB_KRM_TX_COEFF_CTRL_1_CZERO_EN'', push_bit 3 1),
    (''IGB_KRM_TX_COEFF_CTRL_1_OVRRD_EN'', push_bit 31 1),
    (''IGB_SB_IOSF_INDIRECT_CTRL'', 0x11144),
    (''IGB_SB_IOSF_INDIRECT_DATA'', 0x11148),
    (''IGB_SB_IOSF_CTRL_ADDR_SHIFT'', 0),
    (''IGB_SB_IOSF_CTRL_ADDR_MASK'', 0xFF),
    (''IGB_SB_IOSF_CTRL_RESP_STAT_SHIFT'', 18),
    (''IGB_SB_IOSF_CTRL_RESP_STAT_MASK'', push_bit 18 0x3),
    (''IGB_SB_IOSF_CTRL_CMPL_ERR_SHIFT'', 20),
    (''IGB_SB_IOSF_CTRL_CMPL_ERR_MASK'', push_bit 20 0xFF),
    (''IGB_SB_IOSF_CTRL_TARGET_SELECT_SHIFT'', 28),
    (''IGB_SB_IOSF_CTRL_TARGET_SELECT_MASK'', 0x7),
    (''IGB_SB_IOSF_CTRL_BUSY_SHIFT'', 31),
    (''IGB_SB_IOSF_CTRL_BUSY'', push_bit 31 1),
    (''IGB_SB_IOSF_TARGET_KR_PHY'', 0),
    (''IGB_NW_MNG_IF_SEL'', 0x11178),
    (''IGB_NW_MNG_IF_SEL_MDIO_ACT'', push_bit 1 1),
    (''IGB_NW_MNG_IF_SEL_MDIO_IF_MODE'', push_bit 2 1),
    (''IGB_NW_MNG_IF_SEL_EN_SHARED_MDIO'', push_bit 13 1),
    (''IGB_NW_MNG_IF_SEL_PHY_SPEED_10M'', push_bit 17 1),
    (''IGB_NW_MNG_IF_SEL_PHY_SPEED_100M'', push_bit 18 1),
    (''IGB_NW_MNG_IF_SEL_PHY_SPEED_1G'', push_bit 19 1),
    (''IGB_NW_MNG_IF_SEL_PHY_SPEED_2_5G'', push_bit 20 1),
    (''IGB_NW_MNG_IF_SEL_PHY_SPEED_10G'', push_bit 21 1),
    (''IGB_NW_MNG_IF_SEL_SGMII_ENABLE'', push_bit 25 1),
    (''IGB_NW_MNG_IF_SEL_INT_PHY_MODE'', push_bit 24 1),
    (''IGB_NW_MNG_IF_SEL_MDIO_PHY_ADD_SHIFT'', 3),
    (''IGB_NW_MNG_IF_SEL_MDIO_PHY_ADD'', push_bit 3 0x1F),
    (''IGB_VF_IRQ_CLEAR_MASK'', 7),
    (''IGB_VF_MAX_TX_QUEUES'', 8),
    (''IGB_VF_MAX_RX_QUEUES'', 8),
    (''IGB_VF_MAX_TRAFFIC_CLASS'', 8),
    (''IGB_VFCTRL'', 0),
    (''IGB_VFSTATUS'', 0x8),
    (''IGB_VFLINKS'', 0x10),
    (''IGB_VFFRTIMER'', 0x48),
    (''IGB_VFRXMEMWRAP'', 0x3190),
    (''IGB_VTEICR'', 0x100),
    (''IGB_VTEICS'', 0x104),
    (''IGB_VTEIMS'', 0x108),
    (''IGB_VTEIMC'', 0x10C),
    (''IGB_VTEIAC'', 0x110),
    (''IGB_VTEIAM'', 0x114),
    (''IGB_VTIVAR_MISC'', 0x140)]"

text \<open>The bits of the mailbox registers and of the type of a message.\<close>

definition mailbox_bits :: "(string \<times> u32) list" where
  "mailbox_bits = [
    (''IGB_VFMAILBOX'', 0x2FC),
    (''IGB_VFMBMEM'', 0x200),
    (''IGB_VFMAILBOX_REQ'', 0x1),
    (''IGB_VFMAILBOX_ACK'', 0x2),
    (''IGB_VFMAILBOX_VFU'', 0x4),
    (''IGB_VFMAILBOX_PFU'', 0x8),
    (''IGB_VFMAILBOX_PFSTS'', 0x10),
    (''IGB_VFMAILBOX_PFACK'', 0x20),
    (''IGB_VFMAILBOX_RSTI'', 0x40),
    (''IGB_VFMAILBOX_RSTD'', 0x80),
    (''IGB_VFMAILBOX_R2C_BITS'', 0xB0),
    (''IGB_PFMAILBOX_STS'', 0x1),
    (''IGB_PFMAILBOX_ACK'', 0x2),
    (''IGB_PFMAILBOX_VFU'', 0x4),
    (''IGB_PFMAILBOX_PFU'', 0x8),
    (''IGB_PFMAILBOX_RVFU'', 0x10),
    (''IGB_MBVFICR_VFREQ_MASK'', 0xFFFF),
    (''IGB_MBVFICR_VFREQ_VF1'', 0x1),
    (''IGB_MBVFICR_VFACK_MASK'', 0xFFFF0000),
    (''IGB_MBVFICR_VFACK_VF1'', 0x10000),
    (''IGB_VT_MSGTYPE_ACK'', 0x80000000),
    (''IGB_VT_MSGTYPE_NACK'', 0x40000000),
    (''IGB_VT_MSGTYPE_CTS'', 0x20000000),
    (''IGB_VT_MSGINFO_SHIFT'', 16),
    (''IGB_VT_MSGINFO_MASK'', push_bit 16 0xFF)]"

text \<open>The messages themselves, and the words of their answers.\<close>

definition mailbox_messages :: "(string \<times> u32) list" where
  "mailbox_messages = [
    (''IGB_VF_RESET'', 0x1),
    (''IGB_VF_SET_MAC_ADDR'', 0x2),
    (''IGB_VF_SET_MULTICAST'', 0x3),
    (''IGB_VF_SET_VLAN'', 0x4),
    (''IGB_VF_SET_LPE'', 0x5),
    (''IGB_VF_SET_MACVLAN'', 0x6),
    (''IGB_VF_API_NEGOTIATE'', 0x8),
    (''IGB_VF_GET_QUEUES'', 0x9),
    (''IGB_VF_GET_RETA'', 0xA),
    (''IGB_VF_GET_RSS_KEY'', 0xB),
    (''IGB_VF_UPDATE_XCAST_MODE'', 0xC),
    (''IGB_VF_TX_QUEUES'', 1),
    (''IGB_VF_RX_QUEUES'', 2),
    (''IGB_VF_TRANS_VLAN'', 3),
    (''IGB_VF_DEF_QUEUE'', 4),
    (''IGB_VF_PERMADDR_MSG_LEN'', 4),
    (''IGB_VF_MC_TYPE_WORD'', 3),
    (''IGB_PF_CONTROL_MSG'', 0x100),
    (''IGB_VF_ENABLE_MACADDR'', 0xA),
    (''IGB_VF_DISABLE_MACADDR'', 0xB),
    (''IGB_VF_GET_MACADDRS'', 0xC),
    (''IGB_VF_SET_MCAST_PROMISC'', 0xD),
    (''IGB_VF_GET_MTU'', 0xE),
    (''IGB_VF_SET_MTU'', 0xF),
    (''IGB_PF_TRANSPARENT_VLAN'', 0x101),
    (''IGB_VF_MBX_INIT_TIMEOUT'', 2000),
    (''IGB_VF_MBX_INIT_DELAY'', 500)]"

section \<open>What they say\<close>

text \<open>
  The complements bind before the shifts: the value for 10 Mbit/s is outside the mask of the speeds and is
  the bit that restarts the negotiation.
\<close>

lemma speed_10m_restarts:
  "map_of kr_phy_constants ''IGB_KRM_PMD_FLX_MASK_ST20_SPEED_10M'' =
     map_of kr_phy_constants ''IGB_KRM_PMD_FLX_MASK_ST20_FW_AN_RESTART''"
  by code_simp

text \<open>Reading clears the bits of a message, of an acknowledgement and of a finished reset.\<close>

lemma mailbox_read_clear:
  "map_of mailbox_bits ''IGB_VFMAILBOX_R2C_BITS'' =
     Some (fold (OR) (map (\<lambda>n. the (map_of mailbox_bits n))
       [''IGB_VFMAILBOX_PFSTS'', ''IGB_VFMAILBOX_PFACK'', ''IGB_VFMAILBOX_RSTD'']) 0)"
  by code_simp

text \<open>A message is acknowledged by its type with one more bit, which no type has.\<close>

lemma mailbox_acknowledge:
  "list_all (\<lambda>(_, v). v AND the (map_of mailbox_bits ''IGB_VT_MSGTYPE_ACK'') = 0) mailbox_messages"
  by code_simp

end
