(* ===== verification/Stats_Display.thy ===== *)
theory Stats_Display
  imports Igb_Lib
begin

text \<open>
  The text of the statistics record (\<open>Display\<close> in \<open>src/lib.rs\<close>), and that it determines the record.
\<close>

section \<open>Decimal numbers\<close>

text \<open>The standard library's \<open>Display\<close> of an unsigned integer.\<close>

fun decimal :: "nat \<Rightarrow> string" where
  "decimal n = (if n < 10 then [char_of (48 + n)] else decimal (n div 10) @ [char_of (48 + n mod 10)])"

declare decimal.simps [simp del]

definition digit_char :: "char \<Rightarrow> bool" where
  "digit_char c \<longleftrightarrow> 48 \<le> (of_char c :: nat) \<and> (of_char c :: nat) < 58"

definition decimal_value :: "string \<Rightarrow> nat" where
  "decimal_value s = foldl (\<lambda>v c. 10 * v + (of_char c - 48)) 0 s"

lemma digit_of: "d < 10 \<Longrightarrow> of_char (char_of (48 + d) :: char) = (48 + d :: nat)"
  by simp

lemma decimal_digits: "c \<in> set (decimal n) \<Longrightarrow> digit_char c"
  by (induction n rule: decimal.induct)
    (subst (asm) (2) decimal.simps, auto simp: digit_char_def digit_of split: if_splits)

lemma decimal_round_trip: "decimal_value (decimal n) = n"
proof (induction n rule: decimal.induct)
  case (1 n)
  show ?case
  proof (cases "n < 10")
    case True
    then show ?thesis by (subst decimal.simps) (simp add: decimal_value_def digit_of)
  next
    case False
    have "n mod 10 < 10" by simp
    then show ?thesis using False 1 by (subst decimal.simps) (simp add: decimal_value_def digit_of)
  qed
qed

lemma decimal_inj: "decimal m = decimal n \<longleftrightarrow> m = n"
  using decimal_round_trip by metis

text \<open>A number ends where the next text begins.\<close>

lemma decimal_separated:
  assumes "\<not> digit_char c"
  shows "decimal m @ c # u = decimal n @ c # v \<longleftrightarrow> m = n \<and> u = v"
proof -
  have t: "takeWhile digit_char (decimal k @ c # w) = decimal k" for k w
    using assms by (subst takeWhile_append2) (auto dest: decimal_digits)
  show ?thesis using t [of m u] t [of n v] decimal_inj by (metis append_same_eq list.inject same_append_eq)
qed

section \<open>The text\<close>

definition DeviceStats_fmt :: "DeviceStats \<Rightarrow> string" where
  "DeviceStats_fmt d =
     ''rx_pkts: '' @ decimal (unat (rx_pkts d)) @ '', tx_pkts: '' @ decimal (unat (tx_pkts d)) @
     '', rx_bytes: '' @ decimal (unat (rx_bytes d)) @ '', tx_bytes: '' @ decimal (unat (tx_bytes d))"

lemma DeviceStats_fmt_inj: "DeviceStats_fmt d = DeviceStats_fmt d' \<longleftrightarrow> d = d'"
proof -
  have "\<not> digit_char (CHR '','')" by (simp add: digit_char_def)
  then show ?thesis
    by (cases d; cases d') (auto simp: DeviceStats_fmt_def decimal_separated decimal_inj word_unat_eq_iff)
qed

lemma DeviceStats_default_fmt:
  "DeviceStats_fmt DeviceStats_default = ''rx_pkts: 0, tx_pkts: 0, rx_bytes: 0, tx_bytes: 0''"
  by (simp add: DeviceStats_fmt_def DeviceStats_default_def decimal.simps char_of_def bit_0)

end
