(* ===== verification/Spec2Isabelle.thy ===== *)
theory Spec2Isabelle
  imports Sim Draft_Sim Layout_Spec Irq Igb_Bak Hw_Enums Masks_Tables Stats_Display
begin

text \<open>
  A model of the \<open>igb-driver\<close> crate, a polling driver for Intel's 82576 Ethernet controller, and
  what is proved about it.

  The program. \<open>src/memory.rs\<close> manages packet buffers: a \<open>MemPool\<close> is a region of DMA memory cut
  into entries of one size, with a stack of the free ones; a \<open>Packet\<close> is a piece of one entry
  that goes back to the stack when it is dropped. \<open>src/descriptor.rs\<close> has the 16-byte
  descriptors that driver and device exchange through memory. \<open>src/igb.rs\<close> has the device: its
  registers, the transmit and receive rings, \<open>init\<close>, \<open>send\<close>, \<open>recycle_tx_buffers\<close> and
  \<open>receive_packets\<close>. \<open>src/constants.rs\<close> has the register map, \<open>src/hal.rs\<close> the trait by which the
  system provides memory and time, \<open>src/interrupts.rs\<close> and \<open>src/lib.rs\<close> a few types.

  The model, theory by theory.
  \<^item> \<open>Igb_Lib\<close>, \<open>Platform\<close>: the types of \<open>lib.rs\<close>; the trait \<open>IgbHal\<close> as a record of functions, in a
    record \<open>platform\<close> with what else is outside the crate: volatile access to registers and memory,
    the crate \<open>bit_field\<close>, whether integer overflow is checked, whether \<open>info!\<close> evaluates its
    arguments. The outside world is a type variable \<open>'w\<close>; every one of these functions may change it.
  \<^item> \<open>Effects\<close>: a Rust function that has effects is a function from states to an optional outcome and
    state: \<open>None\<close> if it never returns, otherwise a value, an early return with an error, or a panic.
    Loops are \<open>loopM\<close>, on \<open>while_option\<close>, so a loop that does not end has no value; there is no fuel
    anywhere. \<open>wp\<close> is weakest precondition for total correctness: that a program returns is part of
    each triple.
  \<^item> \<open>Memory\<close>, \<open>Descriptor\<close>, \<open>Interrupts\<close>, \<open>Device\<close>, \<open>Queues\<close>, \<open>Nic\<close>, \<open>Init\<close>: the operations, in the order
    of the code and with its names. The state is a record that grows along them: the world; then the
    heap of pools, with \<open>client\<close>, what the caller's closure captures; then the device. An \<open>Arc\<close> is an
    index into the list of pools, a pointer to a descriptor its address, \<open>usize\<close> a 64-bit word.
  \<^item> \<open>Regs_General\<close> to \<open>Regs_Virtual\<close>: the register addresses and functions of \<open>constants.rs\<close>; \<open>Masks_Phy\<close> to
    \<open>Masks_Tx\<close>: its bit masks, shifts and command words. Their arithmetic wraps, as in a release build;
    for the queues that exist it does not overflow.
    \<open>Masks_Tables\<close>: the constants for PHYs and a mailbox that the driver does not use.
  \<^item> \<open>Hw_Enums\<close>, \<open>Hw_Layouts\<close>: its enumerations, with their discriminants, and its \<open>repr(C)\<close> structures and
    unions, as descriptions from which \<open>Layout\<close> computes sizes and offsets the way Rust does.
  \<^item> \<open>Irq\<close>: the blocks of \<open>igb.rs\<close> under feature \<open>irq\<close>; \<open>Igb_Bak\<close>: the sketch \<open>doc/igb_bak.rs\<close>.

  The results, component by component; the properties C1 to C40 below rest on them.
  \<^item> \<open>Prelude\<close>, \<open>Platform\<close>: facts on words and lists; what is assumed of memory, where anything is:
    \<open>byte_memory\<close>, \<open>plain_memory\<close> (little-endian, not written by the device meanwhile),
    \<open>bit_field_crate\<close> (bit ranges are half open), \<open>dma_valid\<close> (allocation returns a region that is
    neither null nor reaches the end of the address space).
  \<^item> \<open>Memory\<close>, \<open>Memory_Spec\<close>: the pool as a stack of distinct entries (locale \<open>buffer_pool\<close>); packets
    stay in their entries; allocation, clone.
  \<^item> \<open>Device_Spec\<close>, \<open>Registers_Spec\<close>: bounds of register access, polling loops as searches, what the
    operations on link, address, vectors and PHY compute, that the queues' registers are distinct.
  \<^item> \<open>Queues\<close>, \<open>Tx_Spec\<close>: ring arithmetic (locale \<open>ring\<close>); the transmit queue as a bounded FIFO
    (locale \<open>bounded_fifo\<close>); \<open>send\<close> exactly; \<open>recycle_tx_buffers\<close> as the function \<open>clean_batches\<close>.
  \<^item> \<open>Descriptor_Spec\<close>: the bytes of a descriptor, the getters, the busy wait.
  \<^item> \<open>Ownership\<close>: the invariant \<open>drv_inv\<close>: queues and pools are well formed, and for each pool the
    free stack, the client's packets and the device's queues together hold every entry exactly once.
    \<open>Rx_Spec\<close> adds the receive loop, \<open>Rx_Batch\<close> its exact result in ordinary memory; \<open>Init_Spec\<close> that
    \<open>init\<close> establishes it; \<open>System\<close> that each step of a running driver keeps it, as a step relation with
    the device and the caller in between; \<open>Client_Spec\<close> what follows for callers.
  \<^item> \<open>Ring_Memory\<close>, \<open>Rx_Slots\<close>, \<open>Tx_Ring\<close>, \<open>Rx_Ring\<close>: the rings as the device reads them, in memory and in
    the format of \<open>constants.rs\<close>. \<open>init\<close> leaves every receive descriptor posted, with the address of its
    buffer (C15), as no access after the filling of a ring reaches its memory (\<open>still\<close>, \<open>desc_kept\<close>).
    From there on, along runs in which the device completes descriptors, the transmit ring holds the
    packets in flight (C31), the receive ring only buffers that the driver owns (C14). Assumed are ordinary
    memory, apart from the registers (\<open>memory_apart\<close>), and an allocator whose rings do not overlap.
  \<^item> \<open>Layout\<close>: that fields lie in their type, are aligned and do not overlap. \<open>Layout_Spec\<close>: the driver's
    descriptors through those layouts and masks (C11, C13), the firmware's commands (C36).
  \<^item> \<open>Stats_Display\<close>: the text of the statistics record determines the record.
  \<^item> \<open>Irq\<close>: what enabling an interrupt does to a register file (C29); \<open>Igb_Bak\<close>: when the wait returns.
  \<^item> \<open>Sim\<close>: a simulated machine, on which each property with hypotheses is applied once.
  \<^item> \<open>Draft_Regs\<close>, \<open>Draft\<close>, \<open>Draft_Spec\<close>, \<open>Draft_Sim\<close>: the earlier driver that the repository keeps under
    \<open>doc/main\<close>, a crate of its own with its own errors: registers (\<open>regs.rs\<close>), PHY access and the
    semaphores shared with the firmware (\<open>phy.rs\<close>), device and rings (\<open>igb.rs\<close>, \<open>ring.rs\<close>); \<open>Draft_Layouts\<close> its descriptors. Its bounded
    wait is the one loop with a count, which is the source's; C38 to C40.

  Not modelled. Log output and \<open>Debug\<close> texts have no effect on the state. \<open>prefrtch\<close> is a
  cache hint, and calls a crate that is not a dependency. The two registers that the blocks under
  feature \<open>irq\<close> name but no file defines are arguments of the model. Two threads on one pool are outside
  the model: an operation is one step. \<open>tests/test.rs\<close> and \<open>build.rs\<close> are a test bench and glue,
  \<open>doc/main/lib.rs\<close> declares a function of the kernel.
\<close>

section \<open>Ownership\<close>







section \<open>Transmit\<close>

text \<open>
  C4. \<open>send\<close> on every branch. A queue with a free slot takes the packet: descriptor written,
  buffer queued, tail register moved. A full queue and an unknown queue refuse it with
  \<open>QueueFull\<close> and \<open>InvalidQueue\<close>, and the packet's buffer goes back to its pool.
\<close>

theorem send_branches:
  fixes s :: "('w, IgbNetBuf list, 'x) drv_scheme"
  assumes "drv_inv (s\<lparr>client := b # client s\<rparr>)"
    and "unat i < length (tx_queues (dev s)) \<longrightarrow> reg_ok (dev s) (IGB_TDT (ucast i))"
  shows "send E i b s = Some
    (let h = packet_pool b; p = pools s ! h;
         refused = s\<lparr>pools := (pools s)[h := p\<lparr>free_stack := free_stack p @ [pool_entry b]\<rparr>]\<rparr>;
         q = tx_queues (dev s) ! unat i in
     if \<not> unat i < length (tx_queues (dev s)) then (Err InvalidQueue, refused)
     else if length (tx_bufs_in_use q) + 1 < unat (tx_num_descriptors q) then (Val (), sent_state E i b s)
     else (Err QueueFull, refused))"
  using send_invalid_queue [OF _ drop_inv(1) [OF assms(1)], of i E]
    send_full [OF _ _ _ drop_inv(1) [OF assms(1)], of i E] send_room [OF _ refl, of i s E b]
    drv_inv_tx(1) [OF assms(1), of "unat i"] assms(2)
  by (simp add: Let_def)

theorem send_branches_witness:
  "send sim_debug 0 (sim_packet 44) (sim_state [45]) = Some (Val (), sent_state sim_debug 0 (sim_packet 44) (sim_state [45]))"
proof -
  have 1: "drv_inv ((sim_state [45])\<lparr>client := sim_packet 44 # client (sim_state [45])\<rparr>)"
    unfolding sim_moved using sim_inv by (simp add: nic_inv_def)
  have 2: "unat (0 :: u16) < length (tx_queues (dev (sim_state [45]))) \<longrightarrow>
      reg_ok (dev (sim_state [45])) (IGB_TDT (ucast (0 :: u16)))"
    using window_queue_regs(11) [OF sim_window_regs, of 0] by simp
  show ?thesis using send_branches [OF 1 2, of sim_debug] by (simp add: Let_def sim_ring_def)
qed

text \<open>
  C5. In a consistent driver \<open>send\<close> never panics: it returns \<open>Ok\<close>, \<open>QueueFull\<close> or
  \<open>InvalidQueue\<close>, keeps every buffer accounted for, and leaves register window and ring sizes
  alone, as long as packets of one pool are sent on a busy queue.
\<close>

theorem send_safe:
  fixes s :: "('w, IgbNetBuf list, 'x) drv_scheme"
  assumes "drv_inv (s\<lparr>client := b # client s\<rparr>)"
    and "unat i < length (tx_queues (dev s)) \<longrightarrow>
      one_pool (tx_queues (dev s) ! unat i) b \<and> reg_ok (dev s) (IGB_TDT (ucast i))"
  shows "\<exists>r s'. send E i b s = Some (r, s') \<and> r \<in> {Val (), Err QueueFull, Err InvalidQueue} \<and>
    drv_inv s' \<and> same_config (dev s) (dev s')"
  by (rule send_total [OF assms(1)]) (use assms(2) in simp_all)

theorem send_safe_witness:
  "\<exists>r s'. send sim_debug 0 (sim_packet 44) (sim_state [45]) = Some (r, s') \<and>
     r \<in> {Val (), Err QueueFull, Err InvalidQueue} \<and> drv_inv s' \<and> same_config (sim_device sim_txq) (dev s')"
proof -
  have 1: "drv_inv ((sim_state [45])\<lparr>client := sim_packet 44 # client (sim_state [45])\<rparr>)"
    unfolding sim_moved using sim_inv by (simp add: nic_inv_def)
  have 2: "unat (0 :: u16) < length (tx_queues (dev (sim_state [45]))) \<longrightarrow>
      one_pool (tx_queues (dev (sim_state [45])) ! unat (0 :: u16)) (sim_packet 44) \<and>
      reg_ok (dev (sim_state [45])) (IGB_TDT (ucast (0 :: u16)))"
    using window_queue_regs(11) [OF sim_window_regs, of 0]
    by (simp add: one_pool_def sim_ring_def sim_packet_def new_packet_def Packet_new_def)
  show ?thesis using send_safe [OF 1 2, of sim_debug] by simp
qed

text \<open>
  C6. \<open>recycle_tx_buffers\<close> is its reference \<open>clean_batches\<close>: it looks at the batches of 32 buffers
  oldest first, frees those whose last descriptor the device reports done up to the first that
  is not, and leaves the rest; it always returns. The index arithmetic on \<open>i32\<close> and \<open>usize\<close>, with
  or without overflow checks, computes just this.
\<close>

theorem recycle_equals_reference:
  fixes s :: "('w, 'c, 'x) drv_scheme"
  assumes "unat i < length (tx_queues (dev s))" and "q = tx_queues (dev s) ! unat i" and "txq_wf q"
    and "tx_bufs_in_use q = [] \<or> tx_pool q = Some p" and "p < length (pools s)"
    and "(m, w) = clean_batches E q (length (tx_bufs_in_use q) div 32) 0 (world s)"
  shows "recycle_tx_buffers E i s = Some (Val (), recycled i p (32 * m) w s) \<and> 32 * m \<le> length (tx_bufs_in_use q)"
  using recycle_tx_buffers_spec [OF assms(1-3) _ assms(5,6)] clean_batches_length [OF assms(6)] assms(4) by blast

theorem recycle_equals_reference_witness:
  "recycle_tx_buffers sim_debug 0 (sim_state [44, 45]) = Some (Val (), recycled 0 0 32 sim_world (sim_state [44, 45]))"
proof -
  have wf: "txq_wf sim_txq" by (rule sim_ring_wf) simp_all
  have 1: "(1, sim_world) = clean_batches sim_debug sim_txq (length (tx_bufs_in_use sim_txq) div 32) 0 (world (sim_state [44, 45]))"
    by (simp add: sim_ring_def batch_done_def sim_reads IGB_ADVTXD_STAT_DD_def IGB_TXD_STAT_DD_def)
  show ?thesis
    using recycle_equals_reference [OF _ _ wf _ _ 1, of 0 0] by (simp add: sim_ring_def)
qed

text \<open>
  C7. What a client can rely on across both operations: a packet that was sent stays in the queue
  behind all earlier ones, and recycling removes a prefix. Buffers leave in the order they came.
\<close>

theorem transmit_fifo:
  fixes s :: "('w, IgbNetBuf list, 'x) drv_scheme"
  assumes "drv_inv (s\<lparr>client := b # client s\<rparr>)" and "unat i < length (tx_queues (dev s))"
    and "one_pool (tx_queues (dev s) ! unat i) b" and "reg_ok (dev s) (IGB_TDT (ucast i))"
    and "send E i b s = Some (Val (), s1)" and "recycle_tx_buffers E i s1 = Some (r, s2)"
  shows "\<exists>k. 32 dvd k \<and> tx_bufs_in_use (tx_queues (dev s2) ! unat i) =
    drop k (tx_bufs_in_use (tx_queues (dev s) ! unat i) @ [pool_entry b])"
  by (rule send_then_recycle [OF assms(1,2) refl assms(3-6)])

theorem transmit_fifo_witness:
  "\<exists>s1 r s2 k. send sim_debug 0 (sim_packet 44) (sim_state [45]) = Some (Val (), s1) \<and>
     recycle_tx_buffers sim_debug 0 s1 = Some (r, s2) \<and> 32 dvd k \<and>
     tx_bufs_in_use (tx_queues (dev s2) ! 0) = drop k (sim_bufs 4 40 @ [44])"
proof -
  have 1: "drv_inv ((sim_state [45])\<lparr>client := sim_packet 44 # client (sim_state [45])\<rparr>)"
    unfolding sim_moved using sim_inv by (simp add: nic_inv_def)
  have 2: "unat (0 :: u16) < length (tx_queues (dev (sim_state [45])))" by simp
  have 3: "one_pool (tx_queues (dev (sim_state [45])) ! unat (0 :: u16)) (sim_packet 44)"
    by (simp add: one_pool_def sim_ring_def sim_packet_def new_packet_def Packet_new_def)
  have 4: "reg_ok (dev (sim_state [45])) (IGB_TDT (ucast (0 :: u16)))"
    using window_queue_regs(11) [OF sim_window_regs, of 0] by simp
  have wf: "txq_wf sim_txq" by (rule sim_ring_wf) simp_all
  have 5: "send sim_debug 0 (sim_packet 44) (sim_state [45]) = Some (Val (), sent_state sim_debug 0 (sim_packet 44) (sim_state [45]))"
    by (rule send_room [OF 2 refl _ _ 4]) (use wf in \<open>simp_all add: sim_ring_def\<close>)
  have "drv_inv (sent_state sim_debug 0 (sim_packet 44) (sim_state [45]))"
    by (rule sent_inv [OF 1 2 refl _ 3]) (simp add: sim_ring_def)
  then obtain r s2 where 6: "recycle_tx_buffers sim_debug 0 (sent_state sim_debug 0 (sim_packet 44) (sim_state [45])) = Some (r, s2)"
    using recycle_total by blast
  show ?thesis using transmit_fifo [OF 1 2 3 4 5 6] 5 6
    by (auto simp: sim_ring_def sim_packet_def new_packet_def Packet_new_def)
qed

text \<open>
  C8. A batch is 32: with fewer buffers in flight \<open>recycle_tx_buffers\<close> does nothing, however
  long ago the device has finished with them. So a full ring of at most 32 descriptors stays
  full: nothing is recycled and the next packet is refused.
\<close>

theorem small_ring_stays_full:
  fixes s :: "('w, IgbNetBuf list, 'x) drv_scheme"
  assumes "drv_inv (s\<lparr>client := b # client s\<rparr>)" and "unat i < length (tx_queues (dev s))"
    and "q = tx_queues (dev s) ! unat i" and "unat (tx_num_descriptors q) \<le> 32"
    and "\<not> length (tx_bufs_in_use q) + 1 < unat (tx_num_descriptors q)"
  shows "recycle_tx_buffers E i s = Some (Val (), s) \<and> (\<exists>s'. send E i b s = Some (Err QueueFull, s'))"
  by (rule small_ring_stuck [OF assms])

theorem small_ring_stays_full_witness:
  "recycle_tx_buffers sim_debug 0 (sim_jammed []) = Some (Val (), sim_jammed []) \<and>
   (\<exists>s'. send sim_debug 0 (sim_packet 19) (sim_jammed []) = Some (Err QueueFull, s'))"
proof -
  have "drv_inv ((sim_jammed [])\<lparr>client := sim_packet 19 # client (sim_jammed [])\<rparr>)"
    unfolding sim_moved using sim_jammed_inv by (simp add: nic_inv_def)
  from small_ring_stays_full [OF this _ refl, of 0 sim_debug] show ?thesis by (simp add: sim_ring_def)
qed

text \<open>
  C9. \<open>can_send\<close> tells whether the queue has room, that is, whether fewer than \<open>n - 1\<close> of its
  \<open>n\<close> slots are in flight; it changes nothing.
\<close>

theorem can_send_iff_room:
  fixes s :: "('w, IgbNetBuf list, 'x) drv_scheme"
  assumes "drv_inv s" and "unat i < length (tx_queues (dev s))" and "q = tx_queues (dev s) ! unat i"
  shows "can_send E i s = Some (Val (length (tx_bufs_in_use q) + 1 < unat (tx_num_descriptors q)), s)"
proof -
  have "wp (can_send E i) (\<lambda>r s'. r = Val (length (tx_bufs_in_use q) + 1 < unat (tx_num_descriptors q)) \<and> s' = s) s"
    using assms drv_inv_tx(1) [OF assms(1,2)] by (simp add: can_send_def wp_simps)
  then show ?thesis by (auto elim: wpE)
qed

theorem can_send_iff_room_witness:
  "can_send sim_debug 0 (sim_state [44, 45]) = Some (Val True, sim_state [44, 45]) \<and>
   can_send sim_debug 0 (sim_jammed [19]) = Some (Val False, sim_jammed [19])"
  using can_send_iff_room [OF _ _ refl, of "sim_state [44, 45]" 0 sim_debug] sim_inv
    can_send_iff_room [OF _ _ refl, of "sim_jammed [19]" 0 sim_debug] sim_jammed_inv
  by (simp add: nic_inv_def sim_ring_def)

text \<open>
  C10. The assertion of \<open>send\<close> against distinct pools in one queue cannot fail: a packet of
  another pool is taken while buffers of the first are in flight, and the queue forgets the
  first pool. \<open>recycle_tx_buffers\<close> will return all of them to the second.
\<close>

theorem send_switches_pool_silently:
  fixes s :: "('w, 'c, 'x) drv_scheme"
  assumes "unat i < length (tx_queues (dev s))" and "q = tx_queues (dev s) ! unat i"
    and "txq_wf q" and "length (tx_bufs_in_use q) + 1 < unat (tx_num_descriptors q)"
    and "reg_ok (dev s) (IGB_TDT (ucast i))"
    and "tx_bufs_in_use q \<noteq> []" "tx_pool q = Some p" "packet_pool b \<noteq> p"
  shows "\<exists>s' q'. send E i b s = Some (Val (), s') \<and> tx_queues (dev s') = (tx_queues (dev s))[unat i := q'] \<and>
    tx_pool q' = Some (packet_pool b) \<and> tx_bufs_in_use q' = tx_bufs_in_use q @ [pool_entry b]"
  by (rule send_switches_pool [OF assms(1-5)])

theorem send_switches_pool_silently_witness:
  "\<exists>s' q'. send sim_debug 0 (new_packet (sim_pool []) 1 100 7) (sim_state []) = Some (Val (), s') \<and>
     tx_queues (dev s') = [q'] \<and> tx_pool q' = Some 1 \<and> tx_bufs_in_use q' = sim_bufs 4 40 @ [7]"
proof -
  have wf: "txq_wf sim_txq" by (rule sim_ring_wf) simp_all
  have "\<exists>s' q'. send sim_debug 0 (new_packet (sim_pool []) 1 100 7) (sim_state []) = Some (Val (), s') \<and>
     tx_queues (dev s') = (tx_queues (dev (sim_state [])))[unat (0 :: u16) := q'] \<and>
     tx_pool q' = Some (packet_pool (new_packet (sim_pool []) 1 100 7)) \<and>
     tx_bufs_in_use q' = tx_bufs_in_use sim_txq @ [pool_entry (new_packet (sim_pool []) 1 100 7)]"
  proof (rule send_switches_pool_silently [OF _ _ wf, where p = 0])
    have "length (tx_bufs_in_use sim_txq) = 40" by (simp add: sim_ring_def)
    then show "tx_bufs_in_use sim_txq \<noteq> []" by force
  qed (use window_queue_regs(11) [OF sim_window_regs, of 0] in
       \<open>simp_all add: sim_ring_def new_packet_def Packet_new_def\<close>)
  then show ?thesis by (simp add: sim_ring_def new_packet_def Packet_new_def)
qed

text \<open>
  C11. A transmit descriptor after \<open>send\<close>, in ordinary little-endian memory, read back through the
  layout and in the masks of \<open>src/constants.rs\<close>: \<open>buffer_addr\<close> is the buffer's address,
  \<open>cmd_type_len\<close> has the length, the type of an advanced data descriptor and the commands DEXT, RS,
  IFCS and EOP, \<open>olinfo_status\<close> has the length again, as payload length.
\<close>

theorem transmit_descriptor_fields:
  assumes "plain_memory E"
  shows "\<exists>s'. tx_desc_send E desc addr len s = Some (Val (), s') \<and>
    read_field E desc IGB_adv_tx_desc [''read'', ''buffer_addr''] (world s') = Some addr \<and>
    read_field E desc IGB_adv_tx_desc [''read'', ''cmd_type_len''] (world s') =
      Some (ucast len OR IGB_ADVTXD_DTYP_DATA OR IGB_ADVTXD_DCMD_DEXT OR IGB_ADVTXD_DCMD_RS OR
        IGB_ADVTXD_DCMD_IFCS OR IGB_ADVTXD_DCMD_EOP :: u32) \<and>
    read_field E desc IGB_adv_tx_desc [''read'', ''olinfo_status''] (world s') =
      Some (push_bit (unat IGB_ADVTXD_PAYLEN_SHIFT) (ucast len) :: u32)"
proof -
  have "wp (tx_desc_send E desc addr len) (\<lambda>r s'. r = Val () \<and> s' = s\<lparr>world := tx_desc_written E desc addr len (world s)\<rparr>) s"
    by (simp add: wp_simps)
  then show ?thesis using tx_desc_fields [OF assms refl, of desc addr len "world s"] by (auto elim!: wpE)
qed

theorem transmit_descriptor_fields_witness:
  "\<exists>s'. tx_desc_send sim_debug 0x300000 0x800020 100 (sim_state []) = Some (Val (), s') \<and>
    read_field sim_debug 0x300000 IGB_adv_tx_desc [''read'', ''cmd_type_len''] (world s') = Some (0x2B300064 :: u32)"
  using transmit_descriptor_fields [OF sim_plain_memory, where desc = "0x300000" and addr = "0x800020" and len = 100 and s = "sim_state []"]
  by (simp add: IGB_ADVTXD_DTYP_DATA_def IGB_ADVTXD_DCMD_DEXT_def IGB_ADVTXD_DCMD_RS_def IGB_ADVTXD_DCMD_IFCS_def
      IGB_ADVTXD_DCMD_EOP_def IGB_TXD_CMD_DEXT_def IGB_TXD_CMD_RS_def IGB_TXD_CMD_IFCS_def IGB_TXD_CMD_EOP_def) blast

section \<open>Receive\<close>



text \<open>
  C13. The getters of a receive descriptor against the masks that \<open>src/constants.rs\<close> defines for its
  fields. \<open>get_packet_type\<close> returns exactly the field of its mask. The other five lose the top bit of
  theirs: so the RSS type of an IPv6/UDP packet, 8, reads as none, and the error bit of a bad
  IP checksum, the top bit of the error mask, is never reported.
\<close>

theorem getters_match_masks:
  fixes s :: "('w, 'x) base_scheme"
  assumes "bit_field_crate E"
    and "volatile_read64 E desc (world s) = (lo, w1)" and "volatile_read64 E (desc + 8) (world s) = (hi, w2)"
  shows "get_packet_type E desc s = Some (Val (masked lo (ucast IGB_RXDADV_PKTTYPE_MASK) 4), s\<lparr>world := w1\<rparr>) \<and>
    get_rss_type E desc s = Some (Val (take_bit 3 (masked lo (ucast IGB_RXDADV_RSSTYPE_MASK) 0)), s\<lparr>world := w1\<rparr>) \<and>
    get_rsccnt E desc s =
      Some (Val (take_bit 3 (masked lo (ucast IGB_RXDADV_RSCCNT_MASK) (unat IGB_RXDADV_RSCCNT_SHIFT))), s\<lparr>world := w1\<rparr>) \<and>
    get_hdr_len E desc s = Some (Val (take_bit 9
      (masked lo (push_bit 16 (ucast IGB_RXDADV_HDRBUFLEN_MASK)) (16 + unat IGB_RXDADV_HDRBUFLEN_SHIFT))), s\<lparr>world := w1\<rparr>) \<and>
    get_ext_status E desc s = Some (Val (take_bit 19 (masked hi (ucast IGB_RXDADV_STAT_MASK) 0)), s\<lparr>world := w2\<rparr>) \<and>
    get_ext_error E desc s =
      Some (Val (take_bit 11 (masked hi (ucast IGB_RXDADV_ERR_MASK) (unat IGB_RXDADV_ERR_SHIFT))), s\<lparr>world := w2\<rparr>)"
  using getters_masked [OF assms] by blast

theorem getters_match_masks_witness:
  "get_rss_type sim_debug 0x200000 (sim_state []) = Some (Val 7, sim_state []) \<and>
   masked (- 1) (ucast IGB_RXDADV_RSSTYPE_MASK) 0 = 15 \<and>
   get_ext_error sim_debug 0x200000 (sim_state []) = Some (Val 0x7FF, sim_state []) \<and>
   masked (- 1) (ucast IGB_RXDADV_ERR_MASK) 20 = 0xFFF"
proof -
  have 1: "volatile_read64 sim_debug 0x200000 (world (sim_state [])) = (- 1, sim_world)"
    "volatile_read64 sim_debug (0x200000 + 8) (world (sim_state [])) = (- 1, sim_world)"
    by (simp_all add: sim_reads)
  from getters_match_masks [OF sim_bit_field 1] show ?thesis
    by (simp add: masked_def IGB_RXDADV_RSSTYPE_MASK_def IGB_RXDADV_ERR_MASK_def IGB_RXDADV_ERR_SHIFT_def)
qed

text \<open>
  C14. From \<open>init\<close> on, the device is given only buffers that the receive queue owns. \<open>init\<close> posts
  the rings; then, through any steps of the system in which queue \<open>i\<close> is read by a client that keeps
  its packets and the device completes descriptors, every descriptor that is not completed holds the
  address of a buffer of the pool that is not free, not in a packet of the client and not being sent.
\<close>

theorem device_fills_own_buffers:
  fixes h0 :: "('w, IgbNetBuf list) heap" and i :: u16
  assumes "plain_memory E" "bit_field_crate E" "memory_apart E"
    and "init_ok E qs h (attach h0 (new_device base len nrx ntx))"
    and "heap_complete h0" and "two_power qs" "1 < unat qs" "qs < 0x10000000"
    and "IgbDevice_init E qs base len nrx ntx h h0 = Some (Val d, h')"
    and "descs_apart (concat (map rx_descriptors (rx_queues d)))" and "i < nrx"
    and "rx_run E i (attach h' d) s" and "q = rx_queues (dev s) ! unat i" "p = pools s ! rx_pool q"
    and "k < length (rx_descriptors q)" "\<not> rx_done E (rx_descriptors q ! k) (world s)"
  shows "\<exists>b. rx_posted E (rx_descriptors q ! k) (phys_addr p ! unat b) (world s) \<and> b < num_entries p \<and>
    b \<notin> set (free_stack p) \<and> (\<forall>c \<in> set (client s). packet_pool c = rx_pool q \<longrightarrow> pool_entry c \<noteq> b) \<and>
    (\<forall>t \<in> set (tx_queues (dev s)). tx_pool t = Some (rx_pool q) \<longrightarrow> b \<notin> set (tx_bufs_in_use t))"
proof -
  have "registers_apart E" using assms(3) by (simp add: memory_apart_def)
  then have "rx_run_ok E i s"
    using rx_run_invariant [OF assms(12,1,2)] init_rx_run_ok(1) [OF assms(1,3-11)] by blast
  then show ?thesis by (rule posted_buffer_owned [OF _ assms(13-16)])
qed

theorem device_fills_own_buffers_witness:
  "\<exists>d h' s b. sim_driver d h' \<and> rx_run sim_debug 0 (attach h' d) s \<and>
    rx_done sim_debug (rx_descriptors (rx_queues d ! 0) ! 0) (world s) \<and>
    rx_posted sim_debug (rx_descriptors (rx_queues d ! 0) ! 1) (phys_addr (pools s ! 0) ! unat b) (world s) \<and>
    b \<notin> set (free_stack (pools s ! 0))"
proof -
  obtain d h' where d: "sim_driver d h'" "length (rx_queues d) = 1" by (rule sim_init)
  obtain s where run: "rx_run sim_debug 0 (attach h' d) s"
    and s: "dev s = d" "pools s = pools h'" "descs_apart (concat (map rx_descriptors (rx_queues d)))"
      "rx_done sim_debug (rx_descriptors (rx_queues d ! 0) ! 0) (world s)"
      "\<not> rx_done sim_debug (rx_descriptors (rx_queues d ! 0) ! 1) (world s)"
      "length (rx_descriptors (rx_queues d ! 0)) = 4" "rx_pool (rx_queues d ! 0) = 0"
    by (rule sim_receive_run [OF d])
  obtain b where "rx_posted sim_debug (rx_descriptors (rx_queues d ! 0) ! 1) (phys_addr (pools s ! 0) ! unat b) (world s)"
      "b \<notin> set (free_stack (pools s ! 0))"
    using device_fills_own_buffers [OF sim_plain_memory [of True] sim_bit_field sim_memory_apart sim_small_init sim_heap_complete
      sim_small_size d(1) [unfolded sim_driver_def] s(3) _ run refl refl, of 1] s by auto
  with d(1) run s(4) show ?thesis by blast
qed

section \<open>Initialisation\<close>

text \<open>
  C15. \<open>init\<close> on a device that completes its resets always returns, and what it returns depends
  only on ring size and pool. A ring size that is no power of two gives \<open>QueueNotAligned\<close>. Too
  small a pool gives \<open>NoMemory\<close>, and the pool has lost every buffer it had. Otherwise the device
  has the queues asked for, its receive rings full of buffers of the pool, whose addresses the
  descriptors in memory hold, its transmit rings empty, and satisfies the invariant of the running
  driver.
\<close>

theorem init_outcomes:
  fixes h0 :: "('w, IgbNetBuf list) heap"
  assumes "init_ok E qs h (attach h0 (new_device base len nrx ntx))"
    and "heap_complete h0" and "qs < 0x10000000"
  shows "\<exists>r h'. IgbDevice_init E qs base len nrx ntx h h0 = Some (r, h') \<and> client h' = client h0 \<and>
     (if \<not> two_power qs \<and> (nrx \<noteq> 0 \<or> ntx \<noteq> 0)
      then r = Err QueueNotAligned \<and> pools h' = pools h0
      else if length (free_stack (pools h0 ! h)) < unat nrx * unat qs
      then r = Err NoMemory \<and> pools h' = (pools h0)[h := (pools h0 ! h)\<lparr>free_stack := []\<rparr>]
      else \<exists>d. r = Val d \<and> (two_power qs \<longrightarrow> drv_inv (attach h' d)) \<and>
        length (rx_queues d) = unat nrx \<and> length (tx_queues d) = unat ntx \<and>
        (\<forall>q \<in> set (rx_queues d). started_rx qs h q) \<and> (\<forall>q \<in> set (tx_queues d). fresh_tx qs q) \<and>
        dev_addr d = base \<and> dev_len d = len \<and> same_shape (pools h0) (pools h') \<and>
        rings_posted E (pools h' ! h) (unat nrx) (rx_queues d) (world h') \<and>
        length (free_stack (pools h' ! h)) + unat nrx * unat qs = length (free_stack (pools h0 ! h)))"
  using wp_returns [OF IgbDevice_init_spec [OF assms]] .

theorem init_outcomes_witness:
  "(\<exists>h'. IgbDevice_init sim_debug 32 sim_window 0x20000 4 1 0 sim_heap = Some (Err NoMemory, h') \<and>
      free_stack (pools h' ! 0) = []) \<and>
   (\<exists>h'. IgbDevice_init sim_debug 24 sim_window 0x20000 1 1 0 sim_heap = Some (Err QueueNotAligned, h'))"
proof
  have 1: "init_ok sim_debug 32 0 (attach sim_heap (new_device sim_window 0x20000 4 1))"
    and 2: "init_ok sim_debug 24 0 (attach sim_heap (new_device sim_window 0x20000 1 1))"
    by (rule sim_init_ok; simp)+
  show "\<exists>h'. IgbDevice_init sim_debug 32 sim_window 0x20000 4 1 0 sim_heap = Some (Err NoMemory, h') \<and>
      free_stack (pools h' ! 0) = []"
    using init_outcomes [OF 1 sim_heap_complete]
    by (auto simp: two_power_def sim_heap_def sim_pool_def)
  show "\<exists>h'. IgbDevice_init sim_debug 24 sim_window 0x20000 1 1 0 sim_heap = Some (Err QueueNotAligned, h')"
    using init_outcomes [OF 2 sim_heap_complete]
    by (auto simp: two_power_def)
qed

section \<open>The buffer pool\<close>

text \<open>
  C16. \<open>MemPool::allocate\<close> takes exactly the powers of two up to two megabytes as entry sizes, 0
  standing for 2048; any other gives the error \<open>PageNotAligned\<close>.
\<close>

theorem allocate_entry_sizes:
  "(\<exists>k \<le> 21. unat (effective_size sz) = 2 ^ k) \<or> MemPool_allocate E entries sz s = Some (Err PageNotAligned, s)"
  using huge_page_divisor [of "effective_size sz"]
  by (auto simp: MemPool_allocate_def effective_size_def throw_def Let_def)

text \<open>
  C17. With a valid size and an allocation that fits, \<open>allocate\<close> returns a new pool that is well
  formed, has the entries asked for, and has all of them free, each once.
\<close>

theorem allocate_gives_full_pool:
  fixes s :: "('w, 'c, 'x) heap_scheme"
  assumes "es = effective_size sz" and "dma_valid E (entries * es) (world s)"
    and "\<exists>k \<le> 21. unat es = 2 ^ k" and "unat entries * unat es < 2 ^ 64"
  shows "\<exists>w p. MemPool_allocate E entries sz s =
      Some (Val (length (pools s)), s\<lparr>world := w, pools := pools s @ [p]\<rparr>) \<and>
     pool_wf p \<and> num_entries p = entries \<and> entry_size p = es \<and> mset (free_stack p) = all_bufs p"
proof -
  obtain w p where 1: "MemPool_allocate E entries sz s =
      Some (Val (length (pools s)), s\<lparr>world := w, pools := pools s @ [p]\<rparr>)"
    and 2: "pool_wf p" "num_entries p = entries" "entry_size p = es" "free_stack p = word_range entries"
    using MemPool_allocate_spec [OF assms] by blast
  show ?thesis by (rule exI [of _ w], rule exI [of _ p]) (simp add: 1 2 all_bufs_def)
qed

theorem allocate_gives_full_pool_witness:
  "\<exists>w p. MemPool_allocate sim_debug 16 0 sim_heap = Some (Val 1, sim_heap\<lparr>world := w, pools := pools sim_heap @ [p]\<rparr>) \<and>
     pool_wf p \<and> num_entries p = 16 \<and> entry_size p = 2048 \<and> mset (free_stack p) = all_bufs p"
proof -
  have es: "2048 = effective_size 0" by (simp add: effective_size_def)
  have "dma_valid sim_debug (16 * 2048) (world sim_heap)" by (rule sim_alloc_valid) simp
  moreover have "\<exists>k \<le> 21. unat (2048 :: usize) = 2 ^ k" by (rule exI [of _ 11]) simp
  moreover have "unat (16 :: usize) * unat (2048 :: usize) < 2 ^ 64" by simp
  ultimately show ?thesis using allocate_gives_full_pool [OF es, of sim_debug 16 sim_heap]
    by (simp add: sim_heap_def)
qed

text \<open>
  C18. A buffer taken from a pool can be given back, which restores the pool's contents; giving it
  back a second time panics.
\<close>

theorem alloc_free_round_trip:
  fixes s :: "('w, 'c, 'x) heap_scheme"
  assumes "h < length (pools s)" and "pool_wf (pools s ! h)" and "free_stack (pools s ! h) \<noteq> []"
  shows "\<exists>b s1 s2. alloc_buf h s = Some (Val (Some b), s1) \<and> b \<notin> set (free_stack (pools s1 ! h)) \<and>
     free_buf h b s1 = Some (Val (), s2) \<and> pool_wf (pools s2 ! h) \<and>
     mset (free_stack (pools s2 ! h)) = mset (free_stack (pools s ! h)) \<and>
     free_buf h b s2 = Some (Panicked BufferAlreadyFree, s2)"
  by (rule alloc_free_again [OF assms])

theorem alloc_free_round_trip_witness:
  "\<exists>b s1 s2. alloc_buf 0 sim_heap = Some (Val (Some b), s1) \<and> free_buf 0 b s1 = Some (Val (), s2) \<and>
     free_buf 0 b s2 = Some (Panicked BufferAlreadyFree, s2)"
proof -
  have "heap_complete sim_heap" by (rule sim_heap_complete)
  then have "pool_wf (pools sim_heap ! 0)" "0 < length (pools sim_heap)"
    by (simp_all add: heap_complete_def heap_wf_def)
  moreover have "free_stack (pools sim_heap ! 0) \<noteq> []" by (simp add: sim_heap_def sim_pool_def)
  ultimately show ?thesis using alloc_free_round_trip [of 0 sim_heap] by blast
qed

section \<open>Packets\<close>

text \<open>
  C19. \<open>alloc_pkt\<close> refuses a packet that does not fit an entry after the headroom, and an empty
  pool; otherwise the packet has the length asked for, and neither its data nor any headroom it
  hands out leaves the buffer that it took off the free stack.
\<close>

theorem packet_stays_in_buffer:
  fixes s :: "('w, 'c, 'x) heap_scheme"
  assumes "packet_pool_ok (pools s ! h)" and "h < length (pools s)" and "p = pools s ! h"
    and "b = last (free_stack p)" and "pkt = new_packet p h sz b"
  shows "alloc_pkt E h sz s = Some
     (if entry_size p - PACKET_HEADROOM < sz \<or> free_stack p = [] then (Val None, s)
      else (Val (Some pkt), s\<lparr>pools := (pools s)[h := p\<lparr>free_stack := butlast (free_stack p)\<rparr>]\<rparr>)) \<and>
    (entry_size p - PACKET_HEADROOM < sz \<or> free_stack p = [] \<or>
     packet_len pkt = sz \<and> slice_bytes (as_bytes pkt) \<subseteq> buffer_bytes p b \<and>
     (\<forall>k hr (s1 :: unit) s2. headroom_mut pkt k s1 = Some (Val hr, s2) \<longrightarrow> slice_bytes hr \<subseteq> buffer_bytes p b))"
  by (rule alloc_pkt_inside [OF assms])

theorem packet_stays_in_buffer_witness:
  "\<exists>s'. alloc_pkt sim_debug 0 1500 (sim_state []) = Some (Val (Some (new_packet (sim_pool (sim_bufs 46 18)) 0 1500 63)), s') \<and>
     slice_bytes (as_bytes (new_packet (sim_pool (sim_bufs 46 18)) 0 1500 63)) \<subseteq> buffer_bytes (sim_pool (sim_bufs 46 18)) 63"
proof -
  have "length (sim_bufs 46 18) = 18" by simp
  then have ne: "sim_bufs 46 18 \<noteq> []" by (auto simp del: sim_bufs_length)
  then have last: "last (sim_bufs 46 18) = 63" by (simp add: last_conv_nth sim_bufs_nth)
  show ?thesis
    using packet_stays_in_buffer [of "sim_state []" 0 _ _ _ 1500 sim_debug, OF _ _ refl refl refl] sim_pool_ok [of 46 18] ne
    by (simp add: sim_pool_def last PACKET_HEADROOM_def)
qed



text \<open>
  C21. A pool whose entries are smaller than the headroom is accepted, but packets cannot be taken
  from it: \<open>alloc_pkt\<close> panics in a build with overflow checks, and in one without them grants
  almost any length, far beyond the entry.
\<close>

theorem small_entries_break_alloc_pkt:
  assumes "entry_size (pools s ! h) < PACKET_HEADROOM" and "pool_wf (pools s ! h)" "h < length (pools s)"
    and "free_stack (pools s ! h) \<noteq> []" "sz \<le> - PACKET_HEADROOM"
  shows "if overflow_checks E then alloc_pkt E h sz s = Some (Panicked ArithmeticOverflow, s)
    else \<exists>pkt s'. alloc_pkt E h sz s = Some (Val (Some pkt), s') \<and> packet_len pkt = sz"
  using alloc_pkt_small_entry [OF assms(1)] assms by (cases "overflow_checks E") simp_all

theorem small_entries_break_alloc_pkt_witness:
  "\<exists>pkt s'. alloc_pkt sim_release 0 1500 (sim_heap\<lparr>pools := [(sim_pool (word_range 64))\<lparr>entry_size := 16\<rparr>]\<rparr>) = Some (Val (Some pkt), s') \<and>
     packet_len pkt = 1500"
proof -
  let ?p = "(sim_pool (word_range 64))\<lparr>entry_size := 16\<rparr>"
  have "pool_wf ?p" by (simp add: pool_wf_def sim_pool_def distinct_word_range set_word_range)
  then show ?thesis
    using small_entries_break_alloc_pkt [of "sim_heap\<lparr>pools := [?p]\<rparr>" 0 1500 sim_release]
    by (simp add: sim_pool_def PACKET_HEADROOM_def sim_heap_def word_le_nat_alt)
qed

text \<open>
  C22. A clone is a packet of a fresh buffer with the same bytes, and cloning changes no byte of
  the original; with an empty pool it panics.
\<close>

theorem clone_copies:
  fixes s :: "('w, 'c, 'x) heap_scheme"
  assumes "byte_memory E" and "packet_pool pkt < length (pools s)"
    and "p = pools s ! packet_pool pkt" and "packet_pool_ok p"
    and "packet_len pkt \<le> entry_size p - PACKET_HEADROOM"
    and "pool_entry pkt < num_entries p" "pool_entry pkt \<notin> set (free_stack p)"
    and "slice_bytes (as_bytes pkt) \<subseteq> buffer_bytes p (pool_entry pkt)"
      "unat (addr_virt pkt) + unat (packet_len pkt) < 2 ^ 64"
  shows "\<exists>r s'. Packet_clone E pkt s = Some (r, s') \<and>
    (if free_stack p = [] then r = Panicked NoBufferAvailable \<and> s' = s
     else \<exists>q. r = Val q \<and> pool_entry q = last (free_stack p) \<and> packet_len q = packet_len pkt \<and>
       read_slice E (as_bytes q) (world s') = read_slice E (as_bytes pkt) (world s) \<and>
       read_slice E (as_bytes pkt) (world s') = read_slice E (as_bytes pkt) (world s) \<and>
       pools s' = (pools s)[packet_pool pkt := p\<lparr>free_stack := butlast (free_stack p)\<rparr>])"
proof (cases "free_stack p = []")
  case True
  then show ?thesis using wp_returns [OF Packet_clone_spec [OF assms]] by simp
next
  case False
  have "packet_len (new_packet p h n b) = n" "pool_entry (new_packet p h n b) = b" for h n b
    by (simp_all add: new_packet_def Packet_new_def)
  with False show ?thesis using wp_returns [OF Packet_clone_spec [OF assms]] by (auto 0 0)
qed

theorem clone_copies_witness:
  "\<exists>q s'. Packet_clone sim_debug (sim_packet 44) (sim_state [44, 45]) = Some (Val q, s') \<and>
     read_slice sim_debug (as_bytes q) (world s') = read_slice sim_debug (as_bytes (sim_packet 44)) sim_world"
proof -
  let ?p = "sim_pool (sim_bufs 46 18)" and ?k = "sim_packet 44"
  have k: "packet_pool ?k = 0" "packet_len ?k = 100" "pool_entry ?k = 44" "unat (addr_virt ?k) = 8478752"
    by (simp_all add: sim_packet_def new_packet_def Packet_new_def sim_pool_def PACKET_HEADROOM_def)
  have "?k = new_packet ?p 0 100 44" by (simp add: sim_packet_def new_packet_def sim_pool_def)
  then have inside: "slice_bytes (as_bytes ?k) \<subseteq> buffer_bytes ?p (pool_entry ?k)"
    using new_packet_inside(1) [OF sim_pool_ok, of 44 46 18 100 0] k(3)
    by (simp add: sim_pool_def PACKET_HEADROOM_def)
  have out: "pool_entry ?k \<notin> set (free_stack ?p)" "free_stack ?p \<noteq> []"
    by (simp_all add: k sim_pool_def sim_bufs_upt)
  show ?thesis
    using clone_copies [where s = "sim_state [44, 45]" and pkt = ?k and p = ?p, OF sim_byte_memory [of True] _ _ sim_pool_ok _ _ out(1) inside]
      k out(2)
    by (force simp: sim_pool_def PACKET_HEADROOM_def)
qed

text \<open>
  C23. \<open>IgbNetBuf::construct\<close> is safe to call and gives a packet of any buffer, also of one that
  already has an owner: when both packets are dropped, the second drop panics.
\<close>

theorem forged_packet_double_free:
  fixes s :: "('w, 'c, 'x) heap_scheme"
  assumes "packet_pool_ok (pools s ! packet_pool b)" "packet_pool b < length (pools s)"
    and "pool_entry b < num_entries (pools s ! packet_pool b)"
    and "Packet_drop b s = Some (Val (), s')"
  shows "\<exists>q. IgbNetBuf_construct E (pool_entry b) (packet_pool b) len s = Some (Val q, s) \<and>
    packet_len q = len \<and> Packet_drop q s' = Some (Panicked BufferAlreadyFree, s')"
proof -
  let ?q = "new_packet (pools s ! packet_pool b) (packet_pool b) len (pool_entry b)"
  have "packet_pool ?q = packet_pool b" "pool_entry ?q = pool_entry b" "packet_len ?q = len"
    by (simp_all add: new_packet_def Packet_new_def)
  then show ?thesis using construct_forges [OF assms(1,3)] drop_twice [OF _ _ assms(2,4), of ?q] by metis
qed

theorem forged_packet_double_free_witness:
  "\<exists>q s'. IgbNetBuf_construct sim_debug 44 0 60 (sim_state [44, 45]) = Some (Val q, sim_state [44, 45]) \<and>
     Packet_drop (sim_packet 44) (sim_state [44, 45]) = Some (Val (), s') \<and>
     Packet_drop q s' = Some (Panicked BufferAlreadyFree, s')"
proof -
  have k: "packet_pool (sim_packet 44) = 0" "pool_entry (sim_packet 44) = 44"
    by (simp_all add: sim_packet_def new_packet_def Packet_new_def)
  have out: "(44 :: usize) \<notin> set (free_stack (sim_pool (sim_bufs 46 18)))" by (simp add: sim_pool_def sim_bufs_upt)
  have "wp (Packet_drop (sim_packet 44)) (\<lambda>r s'. r = Val ()) (sim_state [44, 45])"
    using out by (simp add: Packet_drop_def wp_simps k pool_free_buf_def) (simp add: sim_pool_def)
  then obtain s' where s': "Packet_drop (sim_packet 44) (sim_state [44, 45]) = Some (Val (), s')"
    by (auto elim: wpE)
  have "44 < num_entries (sim_pool (sim_bufs 46 18))" by (simp add: sim_pool_def)
  then have "\<exists>q. IgbNetBuf_construct sim_debug 44 0 60 (sim_state [44, 45]) = Some (Val q, sim_state [44, 45]) \<and>
      packet_len q = 60 \<and> Packet_drop q s' = Some (Panicked BufferAlreadyFree, s')"
    using forged_packet_double_free [OF _ _ _ s', of sim_debug 60] sim_pool_ok [of 46 18] by (simp add: k)
  then show ?thesis using s' by blast
qed

section \<open>Descriptors and rings\<close>

text \<open>
  C24. What the getters of a receive descriptor return when the device has written it back with
  the given status, error, length and VLAN tag. Bit ranges exclude their end, so the getters
  lose the top bit of each field: 15 bits of the length and of the VLAN tag remain.
\<close>

theorem rx_fields_decoded:
  fixes s :: "('w, 'x) base_scheme"
  assumes "bit_field_crate E"
    and "volatile_read64 E (desc + 8) (world s) = (rx_writeback status err len vlan, w)"
  shows "get_ext_status E desc s = Some (Val (take_bit 19 status), s\<lparr>world := w\<rparr>) \<and>
    get_ext_error E desc s = Some (Val (take_bit 11 err), s\<lparr>world := w\<rparr>) \<and>
    rx_desc_length E desc s = Some (Val (ucast (take_bit 15 len)), s\<lparr>world := w\<rparr>) \<and>
    get_vlan_tag E desc s = Some (Val (ucast (take_bit 15 vlan)), s\<lparr>world := w\<rparr>) \<and>
    descriptor_done E desc s = Some (Val (bit status 0), s\<lparr>world := w\<rparr>) \<and>
    end_of_packet E desc s = Some (Val (bit status 1), s\<lparr>world := w\<rparr>)"
  using rx_getters_decode [OF assms] by blast

theorem rx_fields_decoded_witness:
  "rx_desc_length sim_debug 0x200000 (sim_state []) = Some (Val 0x7FFF, sim_state []) \<and>
   end_of_packet sim_debug 0x200000 (sim_state []) = Some (Val True, sim_state [])"
proof -
  have "volatile_read64 sim_debug (0x200000 + 8) (world (sim_state [])) = (rx_writeback (- 1) (- 1) (- 1) (- 1), sim_world)"
    by (simp add: sim_reads rx_writeback_ones)
  from rx_fields_decoded [OF sim_bit_field this] show ?thesis
    by (simp add: take_bit_minus_one_eq_mask mask_eq_exp_minus_1)
qed

text \<open>
  C25. The ring arithmetic: for a size that passes the test of \<open>start_rx_queue\<close>, \<open>wrap_ring\<close>
  computes the successor modulo the size without overflow, every slot is reached from every
  other one, and the ring closes after one round.
\<close>

theorem ring_arithmetic:
  assumes "ring_size_ok n" "unat i < unat n" "unat j < unat n"
  shows "wrap_ring E i n s = Some (Val (ring_next n i), s) \<and>
    unat (ring_next n i) = (unat i + 1) mod unat n \<and>
    (\<exists>k < unat n. (ring_next n ^^ k) i = j) \<and> (ring_next n ^^ unat n) i = i"
proof -
  have "wp (wrap_ring E i n) (\<lambda>r s'. r = Val (ring_next n i) \<and> s' = s) s"
    using assms by (simp add: wp_simps)
  then have "wrap_ring E i n s = Some (Val (ring_next n i), s)" by (auto elim: wpE)
  then show ?thesis
    using rg.next_mod [OF assms(1,2)] rg.visits_all [OF assms] rg.closes [OF assms(1,2)] by blast
qed

theorem ring_arithmetic_witness:
  "wrap_ring sim_debug 63 64 () = Some (Val 0, ()) \<and> (ring_next 64 ^^ 64) 63 = 63"
  using ring_arithmetic [of 64 63 63 sim_debug "()"] by (simp add: ring_next_def)

text \<open>
  C26. Register access is confined to the mapped region: within it a read or write is one volatile
  access at the register's address, beyond it both panic and the device sees nothing. (Without
  overflow checks the region must have at least four bytes.)
\<close>

theorem register_access_bounds:
  fixes s :: "('w, 'c, 'x) drv_scheme"
  assumes "overflow_checks E \<or> 4 \<le> unat (dev_len (dev s))"
    and "unat (dev_addr (dev s)) + unat (dev_len (dev s)) < 2 ^ 64"
    and "a = dev_addr (dev s) + ucast reg"
  shows "if unat reg + 4 \<le> unat (dev_len (dev s))
    then get_reg32 E reg s = Some (Val (fst (mmio_read E a (world s))), s\<lparr>world := snd (mmio_read E a (world s))\<rparr>) \<and>
      set_reg32 E reg v s = Some (Val (), s\<lparr>world := mmio_write E a v (world s)\<rparr>)
    else (\<exists>p. get_reg32 E reg s = Some (Panicked p, s)) \<and> (\<exists>p. set_reg32 E reg v s = Some (Panicked p, s))"
proof (cases "unat reg + 4 \<le> unat (dev_len (dev s))")
  case True
  then have "reg_ok (dev s) reg" using assms(2) by (simp add: reg_ok_def)
  then have "wp (get_reg32 E reg) (\<lambda>r s'. r = Val (fst (mmio_read E a (world s))) \<and> s' = s\<lparr>world := snd (mmio_read E a (world s))\<rparr>) s"
    and "wp (set_reg32 E reg v) (\<lambda>r s'. r = Val () \<and> s' = s\<lparr>world := mmio_write E a v (world s)\<rparr>) s"
    by (simp_all add: wp_simps assms(3))
  then show ?thesis using True by (auto elim!: wpE)
next
  case False
  then show ?thesis using register_out_of_bounds [OF _ assms(1)] by simp
qed

theorem register_access_bounds_witness:
  "get_reg32 sim_debug IGB_STATUS (sim_state []) = Some (Val (- 1), sim_state []) \<and>
   (\<exists>p. set_reg32 sim_debug 0x1FFFE 7 (sim_state []) = Some (Panicked p, sim_state []))"
proof -
  have "dev_len (sim_device q) = 0x20000" for q by (simp add: sim_device_def)
  then show ?thesis
    using register_access_bounds [of sim_debug "sim_state []" _ IGB_STATUS]
      register_access_bounds [of sim_debug "sim_state []" _ "0x1FFFE" 7]
    by (simp add: sim_window_def IGB_STATUS_def sim_mmio_read_def IGB_CTRL_def)
qed

text \<open>
  C27. The two polling loops read the register every 100 ms until the bits are all set, or all
  clear: they return after the first read where that is so, and never when there is none.
\<close>

theorem polling_decides:
  fixes s :: "('w, 'c, 'x) drv_scheme"
  assumes "reg_ok (dev s) reg" and "a = dev_addr (dev s) + ucast reg"
    and "up = (\<lambda>k. poll_value E a k (world s) AND v = v)" and "clear = (\<lambda>k. poll_value E a k (world s) AND v = 0)"
    and "polled = (\<lambda>k. s\<lparr>world := snd (mmio_read E a (poll_world E a k (world s)))\<rparr>)"
  shows "wait_set_reg32 E reg v s = (if \<exists>k. up k then Some (Val (), polled (LEAST k. up k)) else None) \<and>
    wait_clear_reg32 E reg v s = (if \<exists>k. clear k then Some (Val (), polled (LEAST k. clear k)) else None)"
  using poll_loop_iff [OF assms(1), of "\<lambda>c. c AND v = v" E] poll_loop_iff [OF assms(1), of "\<lambda>c. c AND v = 0" E]
  unfolding assms(2-5) wait_set_poll wait_clear_poll by (auto split: if_splits)

theorem polling_decides_witness:
  "wait_set_reg32 sim_debug IGB_STATUS 2 (sim_state []) = Some (Val (), sim_state []) \<and>
   wait_clear_reg32 sim_debug IGB_STATUS 2 (sim_state []) = None"
proof -
  have ok: "reg_ok (dev (sim_state [])) IGB_STATUS" using window_regs(3) [OF sim_window_regs] by simp
  have v: "poll_value sim_debug (sim_window + ucast IGB_STATUS) k sim_world = - 1" for k
    by (simp add: sim_poll_value sim_window_def IGB_STATUS_def IGB_CTRL_def)
  show ?thesis using polling_decides [OF ok refl refl refl refl, of sim_debug 2]
    by (simp add: v sim_mmio_read_def)
qed

text \<open>
  C28. \<open>wait_for_packet_tx\<close> is such a loop too, without a pause: it returns after the first read
  of the descriptor's status word that has the done bit, and never when there is none.
\<close>

theorem wait_for_packet_tx_decides:
  fixes s :: "('w, 'x) base_scheme"
  shows "wait_for_packet_tx E desc s =
    (if \<exists>k. tx_poll_done E desc k (world s)
     then Some (Val (), s\<lparr>world := tx_poll_world E desc (Suc (LEAST k. tx_poll_done E desc k (world s))) (world s)\<rparr>)
     else None)"
proof (cases "\<exists>k. tx_poll_done E desc k (world s)")
  case True
  let ?k = "LEAST k. tx_poll_done E desc k (world s)"
  have "wp (wait_for_packet_tx E desc) (\<lambda>r s'. r = Val () \<and> s' = s\<lparr>world := tx_poll_world E desc (Suc ?k) (world s)\<rparr>) s"
  proof (rule wait_for_packet_tx_ends)
    show "tx_poll_done E desc ?k (world s)" using True by (rule LeastI_ex)
  qed (auto dest: not_less_Least)
  then show ?thesis using True by (auto elim: wpE)
next
  case False
  then show ?thesis using wait_for_packet_tx_diverges [of E desc s] by simp
qed

text \<open>
  C29. Enabling of the MSI-X interrupt of a queue, on a device whose registers hold what was written:
  three bits are added to GPIE, the queue's byte of the vector table gets its number, EIAC gets all
  queues, the throttle register the rate, and EIMS the queue's bit in addition to those it had.
  Nothing else changes. For the queues from 32 on it panics before the last step when overflow is
  checked, and enables the queue 32 below when not.
\<close>

theorem msix_interrupt_enabled:
  fixes s :: "('w, 'c, 'x) drv_scheme"
  assumes "register_file E rf" and "IGB_IVAR (drop_bit 1 (ucast q)) = r" and "IGB_EITR (ucast q) = t"
    and "list_all (reg_ok (dev s)) [IGB_GPIE, r, eiac, t, eims]"
    and "distinct [IGB_GPIE, r, eiac, t, eims]"
    and "at = (\<lambda>reg. dev_addr (dev s) + ucast reg)" and "regs = rf (world s)"
    and "before = regs(at IGB_GPIE := regs (at IGB_GPIE) OR (IGB_GPIE_MSIX_MODE OR IGB_GPIE_PBA_SUPPORT OR IGB_GPIE_EIAME),
         at r := ivar_updated (16 * (unat q mod 2)) (ucast q) (regs (at r)),
         at eiac := IGB_EIMS_RTX_QUEUE, at t := itr_rate (interrupts (dev s)))"
  shows "\<exists>v w. enable_msix_interrupt E eiac eims q s = Some (v, s\<lparr>world := w\<rparr>) \<and>
       (if overflow_checks E \<and> 32 \<le> unat q then v = Panicked ArithmeticOverflow \<and> rf w = before
        else v = Val () \<and> rf w = before(at eims := regs (at eims) OR push_bit (unat q mod 32) 1))"
proof -
  have i: "16 * (unat q mod 2) = ivar_index 0 q" by (simp add: ivar_index_def)
  from enable_msix_registers [OF assms(1-7) assms(8) [unfolded i]] show ?thesis by (auto elim!: wpE split: if_splits)
qed

theorem msix_interrupt_enabled_witness:
  "\<exists>w. enable_msix_interrupt cells_platform 0x810 0x880 3 cells_state = Some (Val (), cells_state\<lparr>world := w\<rparr>) \<and>
     w 0x10880 = 8 \<and> w 0x10898 = 0xC0000010 \<and> w 0x1082C = 0x028"
proof -
  have r: "IGB_IVAR (drop_bit 1 (ucast (3 :: u16))) = 0x904" "IGB_EITR (ucast (3 :: u16)) = 0x82C"
    by (simp_all add: IGB_IVAR_def IGB_EITR_def)
  have ok: "list_all (reg_ok (dev cells_state)) [IGB_GPIE, 0x904, 0x810, 0x82C, 0x880]"
    by (simp add: reg_ok_def cells_state_def new_device_def IGB_GPIE_def)
  have di: "distinct [IGB_GPIE, 0x904, 0x810, 0x82C, 0x880]" by (simp add: IGB_GPIE_def)
  from msix_interrupt_enabled [OF cells_register_file r ok di refl refl refl] show ?thesis
    by (simp add: cells_state_def new_device_def Interrupts_irq_def IGB_GPIE_def
        IGB_GPIE_MSIX_MODE_def IGB_GPIE_PBA_SUPPORT_def IGB_GPIE_EIAME_def)
qed

section \<open>Registers\<close>

text \<open>
  C30. The twelve registers of each queue are at distinct addresses for any number of queues that
  \<open>MAX_QUEUES\<close> allows, and up to 128; from there on receive registers are transmit registers.
\<close>

theorem queue_registers_distinct:
  "(128 < n \<or> distinct (all_queue_regs n)) \<and> unat MAX_QUEUES \<le> 128 \<and>
   IGB_RDBAL (ucast (128 :: u16)) = IGB_TDBAL (ucast (0 :: u16))"
  using all_queue_regs_distinct [of n] queue_regs_collide by (cases "n \<le> 128") (simp_all add: MAX_QUEUES_def)

text \<open>
  C31. The transmit ring in memory is a queue of packets. From \<open>init\<close> on, through any run of \<open>send\<close>
  and \<open>recycle_tx_buffers\<close> while the device completes descriptors in order, the descriptors from
  \<open>clean_index\<close> on are those of a suffix of the packets sent: first the completed ones, then, as the
  device still has to read them, address, length and command of each packet. A packet whose
  descriptor is not completed is never recycled.
\<close>

theorem transmit_ring_refines:
  fixes h0 :: "('w, IgbNetBuf list) heap" and i :: u16
  assumes "plain_memory E" "registers_apart E" and "init_ok E qs h (attach h0 (new_device base len nrx ntx))"
    and "heap_complete h0" and "two_power qs" "qs < 0x10000000"
    and "IgbDevice_init E qs base len nrx ntx h h0 = Some (Val d, h')" and "i < ntx"
    and "tx_run E i (attach h' d) sent c s"
  shows "\<exists>k \<le> c. tx_ring_holds E (tx_queues (dev s) ! unat i) (c - k) (drop k sent) (world s)"
  using tx_run_invariant [OF assms(9,1,2) init_tx_run_ok(1) [OF assms(3-8)]] by (auto simp: tx_run_ok_def Let_def)

theorem transmit_ring_refines_witness:
  "\<exists>d h' s desc. sim_driver d h' \<and> send sim_debug 0 (sim_packet 44) (attach h' d) = Some (Val (), s) \<and>
    tx_ring_holds sim_debug (tx_queues (dev s) ! 0) 1 [sim_packet 44] (store_le sim_debug 4 (desc + 12) IGB_ADVTXD_STAT_DD (world s))"
proof -
  obtain d h' where d: "sim_driver d h'" by (rule sim_init)
  obtain s desc where s: "send sim_debug 0 (sim_packet 44) (attach h' d) = Some (Val (), s)"
      "tx_bufs_in_use (tx_queues (dev s) ! 0) = [44]"
    and run: "tx_run sim_debug 0 (attach h' d) [sim_packet 44] 1
      (s\<lparr>world := store_le sim_debug 4 (desc + 12) IGB_ADVTXD_STAT_DD (world s)\<rparr>)"
    by (rule sim_send_run [OF d])
  obtain k where "k \<le> 1" and holds: "tx_ring_holds sim_debug (tx_queues (dev s) ! 0) (1 - k) (drop k [sim_packet 44])
      (store_le sim_debug 4 (desc + 12) IGB_ADVTXD_STAT_DD (world s))"
    using transmit_ring_refines [OF sim_plain_memory sim_registers_apart sim_small_init sim_heap_complete sim_small_size(1,3)
      d [unfolded sim_driver_def] _ run] by auto
  moreover have "k = 0" using tx_ring_holds_length [OF holds] s(2) by simp
  ultimately show ?thesis using d s(1) by auto
qed

text \<open>
  C32. \<open>get_mac_addr\<close> gives the six bytes of the first receive address register, lowest first:
  as a little-endian number they are its low word and the low half of its high word.
\<close>

theorem mac_address_decoded:
  fixes s :: "('w, 'c, 'x) drv_scheme"
  assumes "reg_ok (dev s) (IGB_RAL 0)" "reg_ok (dev s) (IGB_RAH 0)"
    and "(low, w1) = mmio_read E (dev_addr (dev s) + ucast (IGB_RAL 0)) (world s)"
    and "(high, w2) = mmio_read E (dev_addr (dev s) + ucast (IGB_RAH 0)) w1"
  shows "\<exists>mac. get_mac_addr E s = Some (Val mac, s\<lparr>world := w2\<rparr>) \<and> length mac = 6 \<and>
    (le_value mac :: u64) = ucast low OR push_bit 32 (ucast (take_bit 16 high))"
proof -
  have "wp (get_mac_addr E) (\<lambda>r s'. r = Val (le_bytes 4 low @ le_bytes 2 high) \<and> s' = s\<lparr>world := w2\<rparr>) s"
    using assms(1,2) by (simp add: wp_get_mac_addr Let_def flip: assms(3,4))
  then have "get_mac_addr E s = Some (Val (le_bytes 4 low @ le_bytes 2 high), s\<lparr>world := w2\<rparr>)" by (auto elim: wpE)
  then show ?thesis using mac_value [of low high] by simp
qed

theorem mac_address_decoded_witness:
  "\<exists>mac. get_mac_addr sim_debug (sim_state []) = Some (Val mac, sim_state []) \<and> (le_value mac :: u64) = 0xFFFFFFFFFFFF"
proof -
  have 1: "reg_ok (dev (sim_state [])) (IGB_RAL 0)" "reg_ok (dev (sim_state [])) (IGB_RAH 0)"
    using window_regs(19,20) [OF sim_window_regs] by simp_all
  have 2: "(- 1, sim_world) = mmio_read sim_debug (dev_addr (dev (sim_state [])) + ucast (IGB_RAL 0)) (world (sim_state []))"
    "(- 1, sim_world) = mmio_read sim_debug (dev_addr (dev (sim_state [])) + ucast (IGB_RAH 0)) sim_world"
    by (simp_all add: sim_mmio_read_def sim_window_def IGB_RAL_def IGB_RAH_def IGB_CTRL_def)
  have "take_bit 16 (- 1) = (0xFFFF :: u32)" by (simp add: take_bit_minus_one_eq_mask mask_eq_exp_minus_1)
  moreover have "ucast (- 1 :: u32) = (0xFFFFFFFF :: u64)" by (simp add: unsigned_minus_1_eq_mask mask_eq_exp_minus_1)
  ultimately show ?thesis using mac_address_decoded [OF 1 2] by (auto simp: take_bit_minus_one_eq_mask)
qed

text \<open>
  C33. \<open>set_ivar\<close> changes one byte of the vector register of a queue pair: bits 0 to 6 get the
  vector, bit 7 is set, and the other three bytes keep their value.
\<close>

theorem ivar_byte_set:
  fixes s :: "('w, 'c, 'x) drv_scheme"
  assumes "direction \<le> 1" "vector < 128" and "r = IGB_IVAR (drop_bit 1 (ucast queue))" "reg_ok (dev s) r"
    and "k = 16 * (unat queue mod 2) + 8 * unat direction"
    and "(old, w) = mmio_read E (dev_addr (dev s) + ucast r) (world s)"
  shows "\<exists>new. set_ivar E direction queue vector s = Some (Val (), s\<lparr>world := mmio_write E (dev_addr (dev s) + ucast r) new w\<rparr>) \<and>
    (\<forall>i. bit new i = (if k \<le> i \<and> i < k + 8 then i = k + 7 \<or> bit vector (i - k) else bit old i))"
proof -
  have k: "k = ivar_index direction queue" by (simp add: ivar_index_def assms(5))
  have "wp (set_ivar E direction queue vector)
      (\<lambda>v s'. v = Val () \<and> s' = s\<lparr>world := mmio_write E (dev_addr (dev s) + ucast r) (ivar_updated k vector old) w\<rparr>) s"
    using assms(6) [symmetric] by (simp only: assms(3) k Let_def fst_conv snd_conv simp_thms
        wp_set_ivar [OF assms(1) assms(4) [unfolded assms(3)]])
  then have "set_ivar E direction queue vector s =
      Some (Val (), s\<lparr>world := mmio_write E (dev_addr (dev s) + ucast r) (ivar_updated k vector old) w\<rparr>)"
    by (auto elim: wpE)
  moreover have "k + 8 \<le> 32" using assms(1) by (simp add: assms(5) word_le_nat_alt)
  ultimately show ?thesis using ivar_bits_all [OF assms(2)] by blast
qed

theorem ivar_byte_set_witness:
  "\<exists>new. set_ivar sim_debug 1 3 5 (sim_state []) =
      Some (Val (), (sim_state [])\<lparr>world := mmio_write sim_debug (sim_window + ucast (IGB_IVAR 1)) new sim_world\<rparr>) \<and>
    \<not> bit new 25 \<and> bit new 26 \<and> bit new 31 \<and> bit new 23"
proof -
  have r: "IGB_IVAR 1 = IGB_IVAR (drop_bit 1 (ucast (3 :: u16)))" by simp
  have 1: "reg_ok (dev (sim_state [])) (IGB_IVAR 1)"
    by (rule reg_ok_window) (simp_all add: sim_window_regs IGB_IVAR_def)
  have 2: "(- 1, sim_world) = mmio_read sim_debug (dev_addr (dev (sim_state [])) + ucast (IGB_IVAR 1)) (world (sim_state []))"
    by (simp add: sim_mmio_read_def sim_window_def IGB_IVAR_def IGB_CTRL_def)
  obtain new where "set_ivar sim_debug 1 3 5 (sim_state []) =
      Some (Val (), (sim_state [])\<lparr>world := mmio_write sim_debug (sim_window + ucast (IGB_IVAR 1)) new sim_world\<rparr>)"
    and new: "\<And>i. bit new i = (if 24 \<le> i \<and> i < 32 then i = 31 \<or> bit (5 :: u32) (i - 24) else bit (- 1 :: u32) i)"
    using ivar_byte_set [OF _ _ r 1 refl 2, where direction = 1 and vector = 5] by auto
  then show ?thesis using new [of 25] new [of 26] new [of 31] new [of 23] by auto
qed

text \<open>
  C34. \<open>clear_interrupt\<close> shifts 1 by the queue number: for the queues from 32 on, which
  \<open>MAX_QUEUES\<close> allows, it panics when overflow is checked, and masks the queue 32 below when not.
\<close>

theorem clear_interrupt_limit:
  fixes s :: "('w, 'c, 'x) drv_scheme"
  assumes "reg_ok (dev s) IGB_IMC" "reg_ok (dev s) IGB_ICR"
    and "w = mmio_write E (dev_addr (dev s) + ucast IGB_IMC) (push_bit (unat i mod 32) 1) (world s)"
  shows "clear_interrupt E i s = (if overflow_checks E \<and> 32 \<le> unat i then Some (Panicked ArithmeticOverflow, s)
     else Some (Val (), s\<lparr>world := snd (mmio_read E (dev_addr (dev s) + ucast IGB_ICR) w)\<rparr>))"
  using clear_interrupt_cases [OF assms(1,2), of E i] by (auto simp: assms(3) split: if_splits elim!: wpE)

theorem clear_interrupt_limit_witness:
  "clear_interrupt sim_debug 40 (sim_state []) = Some (Panicked ArithmeticOverflow, sim_state []) \<and>
   clear_interrupt sim_release 40 (sim_state []) =
     Some (Val (), (sim_state [])\<lparr>world := sim_mmio_write (sim_window + ucast IGB_IMC) 256 sim_world\<rparr>)"
proof -
  have "reg_ok (dev (sim_state [])) IGB_IMC" "reg_ok (dev (sim_state [])) IGB_ICR"
    using window_regs(6,7) [OF sim_window_regs] by simp_all
  from clear_interrupt_limit [OF this refl, of sim_debug 40] clear_interrupt_limit [OF this refl, of sim_release 40]
  show ?thesis by (simp add: sim_mmio_read_def)
qed

text \<open>
  C35. \<open>init_link\<close> means to clear the power-down bit of the PHY, bit 11. On a device whose MDIC
  register is ready at every read it writes back the word it read with bits added: a set
  power-down bit stays set.
\<close>

theorem init_link_keeps_power_down:
  fixes s :: "('w, 'c, 'x) drv_scheme"
  assumes "reg_ok (dev s) IGB_MDIC" and "a = dev_addr (dev s) + ucast IGB_MDIC" and "mdic_ready E a mdic"
    and "w = mmio_write E a (mdic (world s) OR READ) (world s)"
  shows "\<exists>new. init_link E s = Some (Val (), s\<lparr>world := mmio_write E a new w\<rparr>) \<and>
    (\<forall>i. bit new i = (bit (mdic w) i \<or> i = 21 \<or> i = 26))"
proof -
  have "wp (init_link E) (\<lambda>r s'. r = Val () \<and> s' = s\<lparr>world := mmio_write E a (power_up_word (mdic w)) w\<rparr>) s"
    using wp_init_link [OF assms(1-3)] by (simp add: Let_def assms(4))
  then have "init_link E s = Some (Val (), s\<lparr>world := mmio_write E a (power_up_word (mdic w)) w\<rparr>)" by (auto elim: wpE)
  moreover have "bit (power_up_word (mdic w)) i = (bit (mdic w) i \<or> i = 21 \<or> i = 26)" for i
    using power_up_word_bits [of i "mdic w"] bit_imp_le_length [of "power_up_word (mdic w)" i] bit_imp_le_length [of "mdic w" i]
    by (cases "i < 32") auto
  ultimately show ?thesis by blast
qed

theorem init_link_keeps_power_down_witness:
  "\<exists>new. init_link sim_debug (sim_state []) = Some (Val (),
     (sim_state [])\<lparr>world := sim_mmio_write (sim_window + ucast IGB_MDIC) new
       (sim_mmio_write (sim_window + ucast IGB_MDIC) (- 1) sim_world)\<rparr>) \<and> bit new 11"
proof -
  have 1: "reg_ok (dev (sim_state [])) IGB_MDIC" using window_regs(4) [OF sim_window_regs] by simp
  have "mdic_ready sim_debug (sim_window + ucast IGB_MDIC) (\<lambda>_. - 1)"
    by (simp add: mdic_ready_def sim_mmio_read_def sim_window_def IGB_MDIC_def IGB_CTRL_def)
  from init_link_keeps_power_down [OF 1 _ this refl] show ?thesis by auto
qed


section \<open>A whole batch\<close>

text \<open>
  C37. \<open>receive_packets\<close> in ordinary memory equals a recursive function on lists and memory,
  \<open>rx_batch\<close>, which knows neither rings nor the device: the packets of the completed descriptors
  in ring order, each buffer replaced by the next one of the free stack, until \<open>m\<close> packets are
  taken, a descriptor is not done, or the stack is empty. The tail register gets the last slot
  consumed. Only a frame that spans descriptors makes it panic.
\<close>

theorem receive_equals_reference:
  fixes s :: "('w, IgbNetBuf list, 'x) drv_scheme"
  assumes "drv_inv s" and "unat i < length (rx_queues (dev s))"
    and "q = rx_queues (dev s) ! unat i" and "1 < unat (rx_num_descriptors q)"
    and "reg_ok (dev s) (IGB_RDT (ucast i))" and "plain_memory E" "bit_field_crate E"
    and "bit (load_le E 8 (rx_descriptors q ! unat (rx_index q) + 8) (world s) :: u64) 0"
    and "res = rx_batch E (pools s ! rx_pool q) q (unat m) (rx_index q)
      (free_stack (pools s ! rx_pool q)) (rx_bufs_in_use q) (world s)"
  shows "case res of
      None \<Rightarrow> \<exists>s'. receive_packets E i m keep_packet s = Some (Panicked IncreaseBufferSize, s')
    | Some (pkts, fs, bufs, w) \<Rightarrow> receive_packets E i m keep_packet s =
        Some (Val (word_of_nat (length pkts)), rx_received E i q s (pkts, fs, bufs, w))"
  using receive_batch [OF assms(1-8), of m] unfolding assms(9) by (auto split: option.splits)

theorem receive_equals_reference_witness:
  "\<exists>s'. receive_packets sim_debug 0 2 keep_packet (sim_state [44, 45]) = Some (Val 2, s') \<and>
     map pool_entry (client s') = [44, 45, 0, 1] \<and>
     map packet_len (client s') = [100, 100, 0x7FFF, 0x7FFF]"
proof -
  have inv: "drv_inv (sim_state [44, 45])" using sim_inv by (simp add: nic_inv_def)
  have next_ones: "load_le sim_debug 8 0x200018 (store_le sim_debug 8 0x200008 (x :: u64)
      (store_le sim_debug 8 0x200000 (y :: u64) sim_world)) = (- 1 :: u64)" for x y
  proof -
    have d: "set (byte_addrs 0x200018 8) \<inter> set (byte_addrs 0x200008 8) = {}" "set (byte_addrs 0x200018 8) \<inter> set (byte_addrs 0x200000 8) = {}"
      by (simp_all add: byte_addrs_def upt_rec)
    show ?thesis
      by (simp only: load_store_other [OF sim_byte_memory d(1)] load_store_other [OF sim_byte_memory d(2)] sim_load_ones)
  qed
  have desc: "rx_descriptors sim_rxq ! 0 = 0x200000" "rx_descriptors sim_rxq ! Suc 0 = 0x200010"
    by (simp_all add: sim_rxq_def sim_descriptors_def)
  have ring: "unat (rx_index sim_rxq) = 0" "rx_num_descriptors sim_rxq = 4" "rx_index sim_rxq = 0" "rx_pool sim_rxq = 0"
    "ring_next 4 0 = 1" "rx_bufs_in_use sim_rxq = sim_bufs 0 4"
    by (simp_all add: sim_rxq_def ring_next_def)
  have stack: "free_stack (sim_pool (sim_bufs 46 18)) = sim_bufs 46 18" "sim_bufs 46 18 \<noteq> []" "butlast (sim_bufs 46 18) \<noteq> []"
    by (simp_all add: sim_pool_def sim_bufs_upt map_butlast [symmetric])
  have bufs: "sim_bufs 0 4 ! 0 = 0" "(sim_bufs 0 4)[0 := x] ! Suc 0 = 1" for x by (simp_all add: sim_bufs_nth)
  have len: "take_bit 15 (drop_bit 32 (- 1 :: u64)) = 0x7FFF" by (simp add: take_bit_eq_mask mask_eq_exp_minus_1)
  have two: "(2 :: nat) = Suc (Suc 0)" by simp
  obtain r where "rx_batch sim_debug (sim_pool (sim_bufs 46 18)) sim_rxq 2 0 (sim_bufs 46 18) (sim_bufs 0 4) sim_world =
      Some ([rx_packet (sim_pool (sim_bufs 46 18)) 0 0x7FFF 0, rx_packet (sim_pool (sim_bufs 46 18)) 0 0x7FFF 1], r)"
    unfolding two rx_batch.simps Let_def unat_0 desc ring(2,4,5) sim_load_ones bufs len
    by (simp add: desc next_ones stack bufs len [simplified])
  moreover have "reg_ok (dev (sim_state [44, 45])) (IGB_RDT (ucast (0 :: u16)))"
    using window_queue_regs(5) [OF sim_window_regs, of 0] by simp
  moreover have "pool_entry (sim_packet e) = e" "packet_len (sim_packet e) = 100" for e
    by (simp_all add: sim_packet_def new_packet_def Packet_new_def)
  ultimately show ?thesis
    using receive_equals_reference [OF inv _ refl _ _ sim_plain_memory [of True] sim_bit_field [of True] _ refl, where i = 0 and m = 2]
    by (cases r) (simp add: desc ring stack sim_load_ones rx_received_def rx_packet_def Packet_new_def)
qed

section \<open>The earlier driver\<close>

text \<open>
  C38. The earlier driver's \<open>power_up\<close> does what \<open>init_link\<close> means to do: through a management port
  that behaves as documented it clears the power-down bit of PHY register 0, and changes no
  other bit of it and no other register.
\<close>

theorem power_up_clears_power_down:
  fixes s :: "('w, 'x) base_scheme"
  assumes "bitflags_crate E" and "mdio_port E (reg_addr r + ucast MDIC_REG) phy"
  shows "\<exists>w. power_up E (Phy_new r) s = Some (Val (Inr ()), s\<lparr>world := w\<rparr>) \<and>
    (\<forall>i. bit (phy w 0) i = (bit (phy (world s) 0) i \<and> i \<noteq> 11)) \<and> (\<forall>reg. reg = 0 \<or> phy w reg = phy (world s) reg)"
proof -
  obtain w where w: "power_up E (Phy_new r) s = Some (Val (Inr ()), s\<lparr>world := w\<rparr>)"
    "phy w = (phy (world s))(0 := phy (world s) 0 AND NOT MII_CR_POWER_DOWN)"
    using power_up_port [OF assms(1) refl assms(2), of s] by blast
  have m: "MII_CR_POWER_DOWN = push_bit 11 1" by (simp add: MII_CR_POWER_DOWN_def)
  have "bit (phy w 0) i = (bit (phy (world s) 0) i \<and> i \<noteq> 11)" for i
    using bit_imp_le_length [of "phy (world s) 0" i]
    by (auto simp: w(2) m bit_simps bit_1_iff simp del: push_bit_of_1)
  moreover have "phy w reg = phy (world s) reg" if "reg \<noteq> 0" for reg using w(2) that by simp
  ultimately show ?thesis using w(1) by blast
qed

theorem power_up_clears_power_down_witness:
  "\<exists>w. power_up port_platform (Phy_new port_base) port_state = Some (Val (Inr ()), port_state\<lparr>world := w\<rparr>) \<and>
     \<not> bit (port_phy w 0) 11 \<and> bit (port_phy w 0) 12"
proof -
  have "mdio_port port_platform (reg_addr port_base + ucast MDIC_REG) port_phy"
    using port_mdio by (simp add: port_base_def Reg_new_def MDIC_REG_def)
  from power_up_clears_power_down [OF port_bitflags this, of port_state]
  show ?thesis by (auto simp: port_state_def port_world_def)
qed

text \<open>
  C39. \<open>wait_for\<close> makes at most as many reads as it is told, \<open>usize::MAX\<close> if not told: it returns
  after the first that satisfies the test, and with \<open>Timeout\<close> when none of them does. So it
  always returns.
\<close>

theorem wait_for_bounded:
  fixes s :: "('w, 'x) base_scheme"
  assumes "a = reg_addr r + ucast REG" and "hit = (\<lambda>k. f (try_value E a ms k (world s)))"
    and "n = (case tries of None \<Rightarrow> 2 ^ 64 - 1 | Some t \<Rightarrow> unat t)"
  shows "wait_for E r REG f ms tries s =
    (if \<exists>k < n. hit k
     then Some (Val (Inr ()), s\<lparr>world := snd (mmio_read E a (try_world E a ms (LEAST k. hit k) (world s)))\<rparr>)
     else Some (Val (Inl Timeout_Draft), s\<lparr>world := try_world E a ms n (world s)\<rparr>))"
proof -
  have "unat (case tries of None \<Rightarrow> - 1 | Some t \<Rightarrow> t) = n"
    by (cases tries) (simp_all add: assms(3) unsigned_minus_1_eq_mask mask_eq_exp_minus_1)
  then show ?thesis unfolding wait_for_def using wait_for_exact [OF assms(1,2)] by simp
qed

theorem wait_for_bounded_witness:
  "wait_for port_platform port_base CTRL_REG (\<lambda>v. \<not> fl_contains port_platform v CTRL_RST) 1 (Some 1000) port_state =
     Some (Val (Inr ()), port_state) \<and>
   wait_for port_platform port_base CTRL_REG (\<lambda>v. fl_contains port_platform v CTRL_RST) 1 (Some 3) port_state =
     Some (Val (Inl Timeout_Draft), port_state)"
proof -
  have v: "try_value port_platform a ms k port_world = 0" "try_world port_platform a ms k port_world = port_world"
    "snd (mmio_read port_platform a w) = w" for a ms k w
  proof -
    show w: "try_world port_platform a ms k port_world = port_world" by (induction k) (simp_all add: port_platform_def)
    show "try_value port_platform a ms k port_world = 0"
      unfolding try_value_def w by (simp add: port_platform_def port_world_def)
  qed (simp add: port_platform_def)
  have s: "world port_state = port_world" "port_state\<lparr>world := port_world\<rparr> = port_state" by (simp_all add: port_state_def)
  have c: "fl_contains port_platform 0 CTRL_RST = False" by (simp add: port_platform_def CTRL_RST_def)
  have "\<exists>k < 1000 :: nat. True" by (rule exI [of _ 0]) simp
  then show ?thesis
    using wait_for_bounded [OF refl refl refl, of port_platform port_base CTRL_REG "\<lambda>v. \<not> fl_contains port_platform v CTRL_RST" 1 "Some 1000" port_state]
      wait_for_bounded [OF refl refl refl, of port_platform port_base CTRL_REG "\<lambda>v. fl_contains port_platform v CTRL_RST" 1 "Some 3" port_state]
    by (simp add: v s c)
qed

text \<open>
  C40. The protocol of the semaphore that driver and firmware share, with both registers plain
  cells: \<open>Synced::new\<close> sets the software bits of the resource when neither they nor the
  firmware's are set, leaving the semaphore free again, and dropping the value restores the
  register. When one of the bits is set and stays set, \<open>Synced::new\<close> never returns.
\<close>

theorem semaphore_round_trip:
  fixes s :: "('w, 'x) base_scheme"
  assumes "bitflags_crate E"
    and "plain_register E cells (swsm_at r)" and "plain_register E cells (sync_at r)"
    and "old = cells (world s) (sync_at r)"
    and "c = (cells (world s))(swsm_at r := cells (world s) (swsm_at r) AND NOT 3)"
  shows "if old AND (ucast m OR push_bit 16 (ucast m)) = 0
    then \<exists>sy w1 w2. Synced_new E r m s = Some (Val (Inr sy), s\<lparr>world := w1\<rparr>) \<and>
      cells w1 = c(sync_at r := old OR ucast m) \<and>
      Synced_drop E sy (s\<lparr>world := w1\<rparr>) = Some (Val (), s\<lparr>world := w2\<rparr>) \<and> cells w2 = c
    else Synced_new E r m s = None"
  using sync_round_trip [OF assms(1-3) _ assms(5)] sync_taken [OF assms(1-3), of s m] unfolding assms(4) by simp

theorem semaphore_round_trip_witness:
  "\<exists>sy w1 w2. Synced_new port_platform port_base 2 port_state = Some (Val (Inr sy), port_state\<lparr>world := w1\<rparr>) \<and>
     port_cells w1 0x15B5C = 2 \<and>
     Synced_drop port_platform sy (port_state\<lparr>world := w1\<rparr>) = Some (Val (), port_state\<lparr>world := w2\<rparr>) \<and>
     port_cells w2 0x15B5C = 0"
proof -
  have a: "sync_at port_base = 0x15B5C" "swsm_at port_base = 0x15B50"
    by (simp_all add: sync_at_def swsm_at_def port_base_def Reg_new_def SwFwSync_REG_def SWSM_REG_def)
  have "port_cells (world port_state) x = 0" for x by (simp add: port_state_def port_world_def)
  then show ?thesis
    using semaphore_round_trip [OF port_bitflags port_plain refl refl, of port_state 2]
    by (fastforce simp: a)
qed

end
